(* ===== verification/Prelude.thy ===== *)
theory Prelude
  imports Main "HOL-Library.Word" "HOL-Library.AList"
begin

text \<open>
  Shared vocabulary of the development: Rust's machine integers and their saturating
  operations, \<open>Result\<close>, Rust strings as lists of Unicode scalar values with their UTF-8
  bytes, and the generic list facts the component theories rewrite with.
\<close>

section \<open>Automation collections\<close>

named_theorems sat_simps \<open>readings of the saturating operations through \<open>unat\<close>\<close>
named_theorems storage_simps \<open>what a host observation sees after a host operation\<close>
named_theorems cache_simps \<open>effects of the cache operations on the abstract map\<close>

section \<open>Machine integers\<close>

type_synonym u8 = "8 word"
type_synonym u16 = "16 word"
type_synonym u32 = "32 word"
type_synonym u64 = "64 word"

text \<open>Rust's \<open>saturating_add\<close>, \<open>saturating_sub\<close> and \<open>saturating_mul\<close>.\<close>

definition sat_add :: "'a::len word \<Rightarrow> 'a word \<Rightarrow> 'a word" where
  "sat_add x y = (if unat x + unat y < 2 ^ LENGTH('a) then x + y else - 1)"

definition sat_sub :: "'a::len word \<Rightarrow> 'a word \<Rightarrow> 'a word" where
  "sat_sub x y = (if x < y then 0 else x - y)"

definition sat_mul :: "'a::len word \<Rightarrow> 'a word \<Rightarrow> 'a word" where
  "sat_mul x y = (if unat x * unat y < 2 ^ LENGTH('a) then x * y else - 1)"

lemma unat_max_value [sat_simps]: "unat (- 1 :: 'a::len word) = 2 ^ LENGTH('a) - 1"
  by (simp add: unsigned_minus_1_eq_mask mask_eq_exp_minus_1)

lemma unat_sat_add [sat_simps]:
  "unat (sat_add x y) = min (unat x + unat y) (2 ^ LENGTH('a) - 1)" for x y :: "'a::len word"
  by (auto simp: sat_add_def sat_simps unat_word_ariths)

lemma unat_sat_sub [sat_simps]: "unat (sat_sub x y) = unat x - unat y"
  by (auto simp: sat_sub_def word_less_nat_alt unat_sub word_le_nat_alt)

lemma unat_sat_mul [sat_simps]:
  "unat (sat_mul x y) = min (unat x * unat y) (2 ^ LENGTH('a) - 1)" for x y :: "'a::len word"
  by (auto simp: sat_mul_def sat_simps unat_word_ariths)

lemma unat_min_word [sat_simps]: "unat (min x y) = min (unat x) (unat y)"
  by (simp add: min_def word_le_nat_alt)

lemma unat_max_word [sat_simps]: "unat (max x y) = max (unat x) (unat y)"
  by (simp add: max_def word_le_nat_alt)

section \<open>Results\<close>

text \<open>Rust's \<open>Result\<close>: an error path is a value.\<close>

datatype ('e, 'a) result = Err 'e | Ok 'a

fun is_ok :: "('e, 'a) result \<Rightarrow> bool" where
  "is_ok (Ok _) = True"
| "is_ok (Err _) = False"

section \<open>Narrowing casts\<close>

text \<open>Rust's \<open>as u32\<close> on a \<open>u64\<close> keeps the low 32 bits; \<open>as u64\<close> on a \<open>u32\<close> is exact.\<close>

lemma unat_u64_as_u32 [sat_simps]: "unat (ucast x :: u32) = unat x mod 2 ^ 32" for x :: u64
  by (simp add: unsigned_ucast_eq take_bit_eq_mod)

lemma unat_u32_less [simp]: "unat x < 4294967296" for x :: u32
  using unsigned_less [where ?'a = nat and w = x] by simp

lemma unat_u64_less [simp]: "unat x < 18446744073709551616" for x :: u64
  using unsigned_less [where ?'a = nat and w = x] by simp

lemma unat_u32_as_u64 [sat_simps]: "unat (ucast x :: u64) = unat x" for x :: u32
  by (simp add: unsigned_ucast_eq take_bit_nat_eq_self_iff less_trans [OF unat_u32_less])

section \<open>Counting in words\<close>

lemma word_of_nat_unat [simp]: "word_of_nat (unat w) = w" for w :: "'a::len word"
  by (simp add: word_unat_eq_iff unat_of_nat)

lemma unat_Suc_word: "Suc m \<le> unat w \<Longrightarrow> unat (1 + word_of_nat m :: 'a::len word) = Suc m" for w :: "'a::len word"
proof -
  assume "Suc m \<le> unat w"
  then have "unat (word_of_nat (Suc m) :: 'a word) = Suc m" by (rule le_unat_uoi)
  then show ?thesis by simp
qed

end
