(* ===== verification/Contract_Types.thy ===== *)
theory Contract_Types
  imports Prelude
begin

text \<open>
  The data of the ProofStell Soroban contract (\<open>src/src/lib.rs\<close>, lines 52 to 215): the document
  record, the storage keys, the rate-limit configuration and bucket, the error codes and
  the published events, with the source's variants and fields.
\<close>

type_synonym address = string
type_synonym symbol = string
type_synonym bytes32 = "u8 list"

datatype DocumentStatus = Active | Revoked

record DocumentRecord =
  dr_issuer :: address
  dr_owner :: address
  dr_timestamp :: u64
  dr_status :: DocumentStatus

datatype RateLimitScope = Address address | Issuer address

datatype DataKey =
    Document bytes32
  | Admin
  | Version
  | FeatureFlag symbol
  | RateLimitConfigKey
  | RateLimitState RateLimitScope
  | RateLimitRetryAfter RateLimitScope

definition CONTRACT_VERSION :: u32 where
  "CONTRACT_VERSION = 1"

record DocumentInfo =
  di_owner :: address
  di_document_hash :: bytes32

definition MAX_BATCH_SIZE :: nat where
  "MAX_BATCH_SIZE = 20"

record RateLimitConfig =
  per_address_per_second :: u32
  per_address_burst :: u32
  per_issuer_per_second :: u32
  per_issuer_burst :: u32

definition RateLimitConfig_default :: RateLimitConfig where
  "RateLimitConfig_default =
     \<lparr>per_address_per_second = 100, per_address_burst = 200,
      per_issuer_per_second = 100, per_issuer_burst = 200\<rparr>"

record RateLimitBucketState =
  tokens :: u32
  last_refill :: u64

datatype ContractError =
    DocumentNotFound
  | AlreadyRegistered
  | OnlyIssuerCanRevoke
  | AlreadyRevoked
  | InvalidOwner
  | InvalidIssuer
  | BatchTooLarge
  | BatchEmpty
  | AlreadyInitialized
  | NotInitialized
  | Unauthorized
  | MigrationNotNeeded
  | RateLimitExceeded

fun error_code :: "ContractError \<Rightarrow> u32" where
  "error_code DocumentNotFound = 1"
| "error_code AlreadyRegistered = 2"
| "error_code OnlyIssuerCanRevoke = 3"
| "error_code AlreadyRevoked = 4"
| "error_code InvalidOwner = 5"
| "error_code InvalidIssuer = 6"
| "error_code BatchTooLarge = 7"
| "error_code BatchEmpty = 8"
| "error_code AlreadyInitialized = 9"
| "error_code NotInitialized = 10"
| "error_code Unauthorized = 11"
| "error_code MigrationNotNeeded = 12"
| "error_code RateLimitExceeded = 13"

text \<open>\<open>DocumentRegistered\<close>, \<open>DocumentRevoked\<close>, \<open>ContractInitialized\<close>, \<open>ContractUpgraded\<close>.\<close>

datatype ContractEvent =
    DocumentRegistered address address bytes32
  | DocumentRevoked address bytes32
  | ContractInitialized address u32
  | ContractUpgraded address u32 u32

text \<open>
  A persistent-storage entry holds one value of the type its key is written with.
  Reading an entry at another type traps in the host.
\<close>

datatype StoredValue =
    VRecord DocumentRecord
  | VAddress address
  | VU32 u32
  | VBool bool
  | VConfig RateLimitConfig
  | VBucket RateLimitBucketState
  | VU64 u64

fun as_record :: "StoredValue \<Rightarrow> DocumentRecord option" where
  "as_record (VRecord r) = Some r"
| "as_record _ = None"

fun as_address :: "StoredValue \<Rightarrow> address option" where
  "as_address (VAddress a) = Some a"
| "as_address _ = None"

fun as_u32 :: "StoredValue \<Rightarrow> u32 option" where
  "as_u32 (VU32 n) = Some n"
| "as_u32 _ = None"

fun as_bool :: "StoredValue \<Rightarrow> bool option" where
  "as_bool (VBool b) = Some b"
| "as_bool _ = None"

fun as_config :: "StoredValue \<Rightarrow> RateLimitConfig option" where
  "as_config (VConfig c) = Some c"
| "as_config _ = None"

fun as_bucket :: "StoredValue \<Rightarrow> RateLimitBucketState option" where
  "as_bucket (VBucket b) = Some b"
| "as_bucket _ = None"

fun as_u64 :: "StoredValue \<Rightarrow> u64 option" where
  "as_u64 (VU64 n) = Some n"
| "as_u64 _ = None"

fun value_fits :: "DataKey \<Rightarrow> StoredValue \<Rightarrow> bool" where
  "value_fits (Document _) v = (as_record v \<noteq> None)"
| "value_fits Admin v = (as_address v \<noteq> None)"
| "value_fits Version v = (as_u32 v \<noteq> None)"
| "value_fits (FeatureFlag _) v = (as_bool v \<noteq> None)"
| "value_fits RateLimitConfigKey v = (as_config v \<noteq> None)"
| "value_fits (RateLimitState _) v = (as_bucket v \<noteq> None)"
| "value_fits (RateLimitRetryAfter _) v = (as_u64 v \<noteq> None)"

lemma as_record_eq [simp]: "as_record v = Some r \<longleftrightarrow> v = VRecord r"
  by (cases v) auto

lemma as_address_eq [simp]: "as_address v = Some r \<longleftrightarrow> v = VAddress r"
  by (cases v) auto

lemma as_u32_eq [simp]: "as_u32 v = Some r \<longleftrightarrow> v = VU32 r"
  by (cases v) auto

lemma as_bool_eq [simp]: "as_bool v = Some r \<longleftrightarrow> v = VBool r"
  by (cases v) auto

lemma as_config_eq [simp]: "as_config v = Some r \<longleftrightarrow> v = VConfig r"
  by (cases v) auto

lemma as_bucket_eq [simp]: "as_bucket v = Some r \<longleftrightarrow> v = VBucket r"
  by (cases v) auto

lemma as_u64_eq [simp]: "as_u64 v = Some r \<longleftrightarrow> v = VU64 r"
  by (cases v) auto

end
