(* ===== verification/Soroban_Host.thy ===== *)
theory Soroban_Host
  imports Contract_Types
begin

text \<open>
  The Soroban environment as the contract uses it. The SDK is not part of the repository:
  every contract function takes a record \<open>h\<close> of host operations over an opaque host
  state \<open>'s\<close>, and what the contract relies on is the locale \<open>soroban_host\<close>: documented laws
  of persistent storage, of the event log and of the rollback of a failed invocation. A
  map-backed ledger satisfies them (\<open>ledger_host\<close>).
\<close>

section \<open>Outcomes and actions\<close>

text \<open>
  A contract function returns \<open>Ok\<close>, returns a \<open>ContractError\<close>, or traps (a panic inside
  the host: a missing authorization, a value of the wrong type, an unknown WASM hash).
\<close>

datatype 'a outcome = Done 'a | Fail ContractError | Trap

type_synonym ('s, 'a) action = "'s \<Rightarrow> 'a outcome \<times> 's"

record 's host =
  require_auth :: "address \<Rightarrow> 's \<Rightarrow> bool"
  ledger_timestamp :: "'s \<Rightarrow> u64"
  storage_has :: "DataKey \<Rightarrow> 's \<Rightarrow> bool"
  storage_get :: "DataKey \<Rightarrow> 's \<Rightarrow> StoredValue option"
  storage_set :: "DataKey \<Rightarrow> StoredValue \<Rightarrow> 's \<Rightarrow> 's"
  storage_remove :: "DataKey \<Rightarrow> 's \<Rightarrow> 's"
  publish :: "ContractEvent \<Rightarrow> 's \<Rightarrow> 's"
  update_current_contract_wasm :: "bytes32 \<Rightarrow> 's \<Rightarrow> 's option"
  abort_invocation :: "'s \<Rightarrow> 's \<Rightarrow> 's"
  event_log :: "'s \<Rightarrow> ContractEvent list"

definition return_ok :: "'a \<Rightarrow> ('s, 'a) action" where
  "return_ok a s = (Done a, s)"

definition return_err :: "ContractError \<Rightarrow> ('s, 'a) action" where
  "return_err e s = (Fail e, s)"

text \<open>Sequencing with the early return of \<open>?\<close>.\<close>

definition and_then :: "('s, 'a) action \<Rightarrow> ('a \<Rightarrow> ('s, 'b) action) \<Rightarrow> ('s, 'b) action" where
  "and_then m f s =
     (case m s of
        (Done a, s') \<Rightarrow> f a s'
      | (Fail e, s') \<Rightarrow> (Fail e, s')
      | (Trap, s') \<Rightarrow> (Trap, s'))"

definition auth :: "'s host \<Rightarrow> address \<Rightarrow> ('s, unit) action" where
  "auth h a s = (if require_auth h a s then (Done (), s) else (Trap, s))"

definition has :: "'s host \<Rightarrow> DataKey \<Rightarrow> ('s, bool) action" where
  "has h k s = (Done (storage_has h k s), s)"

definition get_as :: "'s host \<Rightarrow> (StoredValue \<Rightarrow> 'v option) \<Rightarrow> DataKey \<Rightarrow> ('s, 'v option) action" where
  "get_as h conv k s =
     (case storage_get h k s of
        None \<Rightarrow> (Done None, s)
      | Some v \<Rightarrow> (case conv v of None \<Rightarrow> (Trap, s) | Some x \<Rightarrow> (Done (Some x), s)))"

definition put :: "'s host \<Rightarrow> DataKey \<Rightarrow> StoredValue \<Rightarrow> ('s, unit) action" where
  "put h k v s = (Done (), storage_set h k v s)"

definition remove :: "'s host \<Rightarrow> DataKey \<Rightarrow> ('s, unit) action" where
  "remove h k s = (Done (), storage_remove h k s)"

definition emit :: "'s host \<Rightarrow> ContractEvent \<Rightarrow> ('s, unit) action" where
  "emit h e s = (Done (), publish h e s)"

definition ledger_now :: "'s host \<Rightarrow> ('s, u64) action" where
  "ledger_now h s = (Done (ledger_timestamp h s), s)"

definition set_wasm :: "'s host \<Rightarrow> bytes32 \<Rightarrow> ('s, unit) action" where
  "set_wasm h w s =
     (case update_current_contract_wasm h w s of None \<Rightarrow> (Trap, s) | Some s' \<Rightarrow> (Done (), s'))"

text \<open>One invocation of a contract function: a failure is handed to the host to undo.\<close>

definition invoke :: "'s host \<Rightarrow> ('s, 'a) action \<Rightarrow> ('s, 'a) action" where
  "invoke h f s =
     (case f s of
        (Done a, s') \<Rightarrow> (Done a, s')
      | (Fail e, s') \<Rightarrow> (Fail e, abort_invocation h s s')
      | (Trap, s') \<Rightarrow> (Trap, abort_invocation h s s'))"

lemmas action_defs =
  return_ok_def return_err_def and_then_def auth_def has_def get_as_def put_def remove_def
  emit_def ledger_now_def set_wasm_def

lemma invoke_Done_iff: "fst (invoke h f s) = Done a \<longleftrightarrow> fst (f s) = Done a"
  by (auto simp: invoke_def split: prod.splits outcome.splits)

lemma invoke_fst [simp]: "fst (invoke h f s) = fst (f s)"
  by (auto simp: invoke_def split: prod.splits outcome.splits)

section \<open>The laws of the host\<close>

locale soroban_host =
  fixes h :: "'s host"
  assumes storage_has: "storage_has h k s \<longleftrightarrow> storage_get h k s \<noteq> None"
    and get_set: "storage_get h k (storage_set h k' v s) = (if k = k' then Some v else storage_get h k s)"
    and get_remove: "storage_get h k (storage_remove h k' s) = (if k = k' then None else storage_get h k s)"
    and get_publish: "storage_get h k (publish h e s) = storage_get h k s"
    and get_wasm: "update_current_contract_wasm h w s = Some s' \<Longrightarrow> storage_get h k s' = storage_get h k s"
    and get_abort: "storage_get h k (abort_invocation h s s') = storage_get h k s"
    and log_set: "event_log h (storage_set h k v s) = event_log h s"
    and log_remove: "event_log h (storage_remove h k s) = event_log h s"
    and log_publish: "event_log h (publish h e s) = event_log h s @ [e]"
    and log_wasm: "update_current_contract_wasm h w s = Some s' \<Longrightarrow> event_log h s' = event_log h s"
    and log_abort: "event_log h (abort_invocation h s s') = event_log h s"
    and time_set: "ledger_timestamp h (storage_set h k v s) = ledger_timestamp h s"
    and time_remove: "ledger_timestamp h (storage_remove h k s) = ledger_timestamp h s"
    and time_publish: "ledger_timestamp h (publish h e s) = ledger_timestamp h s"
    and time_wasm: "update_current_contract_wasm h w s = Some s' \<Longrightarrow> ledger_timestamp h s' = ledger_timestamp h s"
    and time_abort: "ledger_timestamp h (abort_invocation h s s') = ledger_timestamp h s"

text \<open>A host whose persistent storage is a map: the laws can be met.\<close>

record ledger =
  entries :: "DataKey \<Rightarrow> StoredValue option"
  published :: "ContractEvent list"
  close_time :: u64
  signers :: "address list"
  uploaded :: "bytes32 list"
  wasm :: bytes32

definition ledger_host :: "ledger host" where
  "ledger_host =
     \<lparr>require_auth = (\<lambda>a l. a \<in> set (signers l)),
      ledger_timestamp = close_time,
      storage_has = (\<lambda>k l. entries l k \<noteq> None),
      storage_get = (\<lambda>k l. entries l k),
      storage_set = (\<lambda>k v l. l\<lparr>entries := (entries l)(k := Some v)\<rparr>),
      storage_remove = (\<lambda>k l. l\<lparr>entries := (entries l)(k := None)\<rparr>),
      publish = (\<lambda>e l. l\<lparr>published := published l @ [e]\<rparr>),
      update_current_contract_wasm =
        (\<lambda>w l. if w \<in> set (uploaded l) then Some (l\<lparr>wasm := w\<rparr>) else None),
      abort_invocation = (\<lambda>l l'. l),
      event_log = published\<rparr>"

interpretation ledger: soroban_host ledger_host
  by unfold_locales (auto simp: ledger_host_def split: if_splits)

end
