(* ===== verification/Contract.thy ===== *)
theory Contract
  imports Soroban_Host
begin

text \<open>
  The entry points of \<open>ProofStellContract\<close> (\<open>src/src/lib.rs\<close>, lines 217 to 782) as actions over
  a host \<open>h\<close>, in the order of the source, in the WASM build (the metrics calls of
  \<open>check_rate_limit\<close> are compiled out there). \<open>check_rate_limit\<close> is private in the source and
  comes first here because the others call it.
\<close>

section \<open>Rate limiting\<close>

text \<open>The bucket after the time-based refill of one scope.\<close>

definition bucket_tokens :: "RateLimitBucketState \<Rightarrow> u32 \<Rightarrow> u32 \<Rightarrow> u64 \<Rightarrow> u32" where
  "bucket_tokens state capacity per_second now =
     (let elapsed = sat_sub now (last_refill state);
          refill = sat_mul elapsed (ucast per_second)
      in min (sat_add (tokens state) (ucast refill)) capacity)"

definition retry_after :: "u32 \<Rightarrow> u64" where
  "retry_after per_second =
     (if per_second > 0 then max (1 div ucast per_second) 1 else 1)"

definition scope_limits :: "RateLimitConfig \<Rightarrow> RateLimitScope \<Rightarrow> u32 \<times> u32" where
  "scope_limits config scope =
     (case scope of
        Address _ \<Rightarrow> (per_address_burst config, per_address_per_second config)
      | Issuer _ \<Rightarrow> (per_issuer_burst config, per_issuer_per_second config))"

text \<open>One round of the \<open>for scope in [...]\<close> loop.\<close>

definition check_scope :: "'s host \<Rightarrow> RateLimitConfig \<Rightarrow> u64 \<Rightarrow> RateLimitScope \<Rightarrow> ('s, unit) action" where
  "check_scope h config now scope =
     (let (capacity, per_second) = scope_limits config scope in
      and_then (get_as h as_bucket (RateLimitState scope)) (\<lambda>stored.
        let state = (case stored of None \<Rightarrow> \<lparr>tokens = capacity, last_refill = now\<rparr> | Some b \<Rightarrow> b);
            available = bucket_tokens state capacity per_second now
        in if available = 0 then
             and_then (put h (RateLimitRetryAfter scope) (VU64 (retry_after per_second))) (\<lambda>_.
               return_err RateLimitExceeded)
           else
             and_then (put h (RateLimitState scope)
                        (VBucket \<lparr>tokens = sat_sub available 1, last_refill = now\<rparr>)) (\<lambda>_.
               remove h (RateLimitRetryAfter scope))))"

fun check_scopes :: "'s host \<Rightarrow> RateLimitConfig \<Rightarrow> u64 \<Rightarrow> RateLimitScope list \<Rightarrow> ('s, unit) action" where
  "check_scopes h config now [] = return_ok ()"
| "check_scopes h config now (scope # scopes) =
     and_then (check_scope h config now scope) (\<lambda>_. check_scopes h config now scopes)"

definition check_rate_limit :: "'s host \<Rightarrow> address \<Rightarrow> address \<Rightarrow> ('s, unit) action" where
  "check_rate_limit h caller issuer =
     and_then (get_as h as_config RateLimitConfigKey) (\<lambda>stored.
       let config = (case stored of None \<Rightarrow> RateLimitConfig_default | Some c \<Rightarrow> c) in
       and_then (ledger_now h) (\<lambda>t.
         check_scopes h config t [Address caller, Issuer issuer]))"

section \<open>Documents\<close>

definition register_document ::
    "'s host \<Rightarrow> address \<Rightarrow> address \<Rightarrow> bytes32 \<Rightarrow> ('s, DocumentRecord) action" where
  "register_document h issuer owner document_hash =
     and_then (auth h issuer) (\<lambda>_.
     and_then (check_rate_limit h issuer issuer) (\<lambda>_.
     and_then (has h (Document document_hash)) (\<lambda>present.
       if present then return_err AlreadyRegistered
       else
         and_then (ledger_now h) (\<lambda>t.
           let record = \<lparr>dr_issuer = issuer, dr_owner = owner, dr_timestamp = t, dr_status = Active\<rparr> in
           and_then (put h (Document document_hash) (VRecord record)) (\<lambda>_.
           and_then (emit h (DocumentRegistered issuer owner document_hash)) (\<lambda>_.
             return_ok record))))))"

definition get_document :: "'s host \<Rightarrow> bytes32 \<Rightarrow> ('s, DocumentRecord option) action" where
  "get_document h document_hash = get_as h as_record (Document document_hash)"

definition verify_document :: "'s host \<Rightarrow> bytes32 \<Rightarrow> ('s, bool) action" where
  "verify_document h document_hash =
     and_then (get_as h as_record (Document document_hash)) (\<lambda>r.
       return_ok (case r of None \<Rightarrow> False | Some record \<Rightarrow> dr_status record = Active))"

definition get_document_status :: "'s host \<Rightarrow> bytes32 \<Rightarrow> ('s, DocumentStatus) action" where
  "get_document_status h document_hash =
     and_then (get_as h as_record (Document document_hash)) (\<lambda>r.
       case r of
         None \<Rightarrow> return_err DocumentNotFound
       | Some record \<Rightarrow> return_ok (dr_status record))"

definition document_exists :: "'s host \<Rightarrow> bytes32 \<Rightarrow> ('s, bool) action" where
  "document_exists h document_hash = has h (Document document_hash)"

text \<open>The part of \<open>revoke_document\<close> after the guards, shared with the batch loop.\<close>

definition revoke_one :: "'s host \<Rightarrow> address \<Rightarrow> bytes32 \<Rightarrow> ('s, DocumentRecord) action" where
  "revoke_one h issuer document_hash =
     and_then (get_as h as_record (Document document_hash)) (\<lambda>r.
       case r of
         None \<Rightarrow> return_err DocumentNotFound
       | Some record \<Rightarrow>
           if dr_issuer record \<noteq> issuer then return_err OnlyIssuerCanRevoke
           else if dr_status record = Revoked then return_err AlreadyRevoked
           else
             let record' = record\<lparr>dr_status := Revoked\<rparr> in
             and_then (put h (Document document_hash) (VRecord record')) (\<lambda>_.
             and_then (emit h (DocumentRevoked issuer document_hash)) (\<lambda>_.
               return_ok record')))"

definition revoke_document :: "'s host \<Rightarrow> address \<Rightarrow> bytes32 \<Rightarrow> ('s, DocumentRecord) action" where
  "revoke_document h issuer document_hash =
     and_then (auth h issuer) (\<lambda>_.
     and_then (check_rate_limit h issuer issuer) (\<lambda>_.
       revoke_one h issuer document_hash))"

fun register_loop :: "'s host \<Rightarrow> address \<Rightarrow> DocumentInfo list \<Rightarrow> ('s, DocumentRecord list) action" where
  "register_loop h issuer [] = return_ok []"
| "register_loop h issuer (doc # docs) =
     and_then (has h (Document (di_document_hash doc))) (\<lambda>present.
       if present then return_err AlreadyRegistered
       else
         and_then (ledger_now h) (\<lambda>t.
           let record = \<lparr>dr_issuer = issuer, dr_owner = di_owner doc, dr_timestamp = t,
                         dr_status = Active\<rparr> in
           and_then (put h (Document (di_document_hash doc)) (VRecord record)) (\<lambda>_.
           and_then (emit h (DocumentRegistered issuer (di_owner doc) (di_document_hash doc))) (\<lambda>_.
           and_then (register_loop h issuer docs) (\<lambda>records.
             return_ok (record # records))))))"

definition batch_register_documents ::
    "'s host \<Rightarrow> address \<Rightarrow> DocumentInfo list \<Rightarrow> ('s, DocumentRecord list) action" where
  "batch_register_documents h issuer documents =
     and_then (auth h issuer) (\<lambda>_.
     and_then (check_rate_limit h issuer issuer) (\<lambda>_.
       if documents = [] then return_err BatchEmpty
       else if length documents > MAX_BATCH_SIZE then return_err BatchTooLarge
       else register_loop h issuer documents))"

fun revoke_loop :: "'s host \<Rightarrow> address \<Rightarrow> bytes32 list \<Rightarrow> ('s, DocumentRecord list) action" where
  "revoke_loop h issuer [] = return_ok []"
| "revoke_loop h issuer (document_hash # hashes) =
     and_then (revoke_one h issuer document_hash) (\<lambda>record.
     and_then (revoke_loop h issuer hashes) (\<lambda>records.
       return_ok (record # records)))"

definition batch_revoke_documents ::
    "'s host \<Rightarrow> address \<Rightarrow> bytes32 list \<Rightarrow> ('s, DocumentRecord list) action" where
  "batch_revoke_documents h issuer document_hashes =
     and_then (auth h issuer) (\<lambda>_.
     and_then (check_rate_limit h issuer issuer) (\<lambda>_.
       if document_hashes = [] then return_err BatchEmpty
       else if length document_hashes > MAX_BATCH_SIZE then return_err BatchTooLarge
       else revoke_loop h issuer document_hashes))"

section \<open>Governance\<close>

definition initialize :: "'s host \<Rightarrow> address \<Rightarrow> ('s, unit) action" where
  "initialize h admin =
     and_then (auth h admin) (\<lambda>_.
     and_then (has h Version) (\<lambda>present.
       if present then return_err AlreadyInitialized
       else
         and_then (put h Admin (VAddress admin)) (\<lambda>_.
         and_then (put h Version (VU32 CONTRACT_VERSION)) (\<lambda>_.
           emit h (ContractInitialized admin CONTRACT_VERSION)))))"

definition get_version :: "'s host \<Rightarrow> ('s, u32) action" where
  "get_version h =
     and_then (get_as h as_u32 Version) (\<lambda>v.
       return_ok (case v of None \<Rightarrow> 0 | Some n \<Rightarrow> n))"

definition get_admin :: "'s host \<Rightarrow> ('s, address option) action" where
  "get_admin h = get_as h as_address Admin"

text \<open>The admin check that \<open>upgrade\<close>, \<open>set_feature_flag\<close> and \<open>set_rate_limit_config\<close> open with.\<close>

definition require_admin :: "'s host \<Rightarrow> address \<Rightarrow> ('s, unit) action" where
  "require_admin h admin =
     and_then (auth h admin) (\<lambda>_.
     and_then (get_as h as_address Admin) (\<lambda>stored.
       case stored of
         None \<Rightarrow> return_err NotInitialized
       | Some stored_admin \<Rightarrow>
           if stored_admin \<noteq> admin then return_err Unauthorized else return_ok ()))"

definition upgrade :: "'s host \<Rightarrow> address \<Rightarrow> bytes32 \<Rightarrow> ('s, unit) action" where
  "upgrade h admin new_wasm_hash =
     and_then (require_admin h admin) (\<lambda>_.
     and_then (get_version h) (\<lambda>old_version.
     and_then (set_wasm h new_wasm_hash) (\<lambda>_.
       emit h (ContractUpgraded admin old_version old_version))))"

definition migrate :: "'s host \<Rightarrow> address \<Rightarrow> ('s, u32) action" where
  "migrate h admin =
     and_then (auth h admin) (\<lambda>_.
     and_then (get_version h) (\<lambda>current_version.
       if current_version = 0 then
         and_then (put h Admin (VAddress admin)) (\<lambda>_.
         and_then (put h Version (VU32 CONTRACT_VERSION)) (\<lambda>_.
           return_ok CONTRACT_VERSION))
       else return_err MigrationNotNeeded))"

definition set_feature_flag :: "'s host \<Rightarrow> address \<Rightarrow> symbol \<Rightarrow> bool \<Rightarrow> ('s, unit) action" where
  "set_feature_flag h admin flag enabled =
     and_then (require_admin h admin) (\<lambda>_. put h (FeatureFlag flag) (VBool enabled))"

definition get_feature_flag :: "'s host \<Rightarrow> symbol \<Rightarrow> ('s, bool) action" where
  "get_feature_flag h flag =
     and_then (get_as h as_bool (FeatureFlag flag)) (\<lambda>v.
       return_ok (case v of None \<Rightarrow> False | Some b \<Rightarrow> b))"

definition set_rate_limit_config :: "'s host \<Rightarrow> address \<Rightarrow> RateLimitConfig \<Rightarrow> ('s, unit) action" where
  "set_rate_limit_config h admin config =
     and_then (require_admin h admin) (\<lambda>_. put h RateLimitConfigKey (VConfig config))"

definition get_rate_limit_retry_after :: "'s host \<Rightarrow> RateLimitScope \<Rightarrow> ('s, u64 option) action" where
  "get_rate_limit_retry_after h scope = get_as h as_u64 (RateLimitRetryAfter scope)"

end
