(* ===== verification/Contract_Correct.thy ===== *)
theory Contract_Correct
  imports Contract
begin

text \<open>
  Functional correctness of the contract's entry points over any lawful host. The abstract
  view of the ledger is the registry \<open>docs h s\<close>, a map from hashes to records; every document
  operation refines an operation on that map, and a rejected invocation leaves it unchanged.
\<close>

section \<open>Abstract views\<close>

definition docs :: "'s host \<Rightarrow> 's \<Rightarrow> bytes32 \<Rightarrow> DocumentRecord option" where
  "docs h s d = (case storage_get h (Document d) s of Some v \<Rightarrow> as_record v | None \<Rightarrow> None)"

definition admin_of :: "'s host \<Rightarrow> 's \<Rightarrow> address option" where
  "admin_of h s = (case storage_get h Admin s of Some v \<Rightarrow> as_address v | None \<Rightarrow> None)"

definition version_of :: "'s host \<Rightarrow> 's \<Rightarrow> u32" where
  "version_of h s =
     (case storage_get h Version s of
        Some v \<Rightarrow> (case as_u32 v of Some n \<Rightarrow> n | None \<Rightarrow> 0) | None \<Rightarrow> 0)"

definition config_of :: "'s host \<Rightarrow> 's \<Rightarrow> RateLimitConfig" where
  "config_of h s =
     (case storage_get h RateLimitConfigKey s of
        Some v \<Rightarrow> (case as_config v of Some c \<Rightarrow> c | None \<Rightarrow> RateLimitConfig_default)
      | None \<Rightarrow> RateLimitConfig_default)"

definition bucket_of :: "'s host \<Rightarrow> RateLimitScope \<Rightarrow> 's \<Rightarrow> RateLimitBucketState" where
  "bucket_of h scope s =
     (case storage_get h (RateLimitState scope) s of
        Some (VBucket b) \<Rightarrow> b
      | _ \<Rightarrow> \<lparr>tokens = fst (scope_limits (config_of h s) scope), last_refill = ledger_timestamp h s\<rparr>)"

text \<open>Tokens a call made now would find in the bucket of a scope.\<close>

definition available :: "'s host \<Rightarrow> RateLimitScope \<Rightarrow> 's \<Rightarrow> u32" where
  "available h scope s =
     (let (capacity, per_second) = scope_limits (config_of h s) scope
      in bucket_tokens (bucket_of h scope s) capacity per_second (ledger_timestamp h s))"

definition rate_ok :: "'s host \<Rightarrow> address \<Rightarrow> 's \<Rightarrow> bool" where
  "rate_ok h a s \<longleftrightarrow> available h (Address a) s \<noteq> 0 \<and> available h (Issuer a) s \<noteq> 0"

definition well_typed :: "'s host \<Rightarrow> 's \<Rightarrow> bool" where
  "well_typed h s \<longleftrightarrow> (\<forall>k v. storage_get h k s = Some v \<longrightarrow> value_fits k v)"

lemma well_typedD:
  assumes "well_typed h s" and "storage_get h k s = Some v"
  shows "value_fits k v"
  using assms by (auto simp: well_typed_def)

lemma well_typed_shapes:
  assumes "well_typed h s"
  shows "storage_get h (Document d) s = Some v \<Longrightarrow> \<exists>r. v = VRecord r"
    and "storage_get h Admin s = Some v \<Longrightarrow> \<exists>a. v = VAddress a"
    and "storage_get h Version s = Some v \<Longrightarrow> \<exists>n. v = VU32 n"
    and "storage_get h (FeatureFlag f) s = Some v \<Longrightarrow> \<exists>b. v = VBool b"
    and "storage_get h RateLimitConfigKey s = Some v \<Longrightarrow> \<exists>c. v = VConfig c"
    and "storage_get h (RateLimitState sc) s = Some v \<Longrightarrow> \<exists>b. v = VBucket b"
    and "storage_get h (RateLimitRetryAfter sc) s = Some v \<Longrightarrow> \<exists>n. v = VU64 n"
  using well_typedD [OF assms] by fastforce+

definition rate_key :: "DataKey \<Rightarrow> bool" where
  "rate_key k \<longleftrightarrow> (case k of RateLimitState _ \<Rightarrow> True | RateLimitRetryAfter _ \<Rightarrow> True | _ \<Rightarrow> False)"

section \<open>The registry the operations refine\<close>

type_synonym registry = "bytes32 \<Rightarrow> DocumentRecord option"

definition spec_register ::
    "u64 \<Rightarrow> address \<Rightarrow> DocumentInfo \<Rightarrow> registry \<Rightarrow> (ContractError, DocumentRecord \<times> registry) result" where
  "spec_register t a doc m =
     (if m (di_document_hash doc) \<noteq> None then Err AlreadyRegistered
      else
        let r = \<lparr>dr_issuer = a, dr_owner = di_owner doc, dr_timestamp = t, dr_status = Active\<rparr>
        in Ok (r, m(di_document_hash doc \<mapsto> r)))"

definition spec_revoke ::
    "address \<Rightarrow> bytes32 \<Rightarrow> registry \<Rightarrow> (ContractError, DocumentRecord \<times> registry) result" where
  "spec_revoke a d m =
     (case m d of
        None \<Rightarrow> Err DocumentNotFound
      | Some r \<Rightarrow>
          if dr_issuer r \<noteq> a then Err OnlyIssuerCanRevoke
          else if dr_status r = Revoked then Err AlreadyRevoked
          else Ok (r\<lparr>dr_status := Revoked\<rparr>, m(d \<mapsto> r\<lparr>dr_status := Revoked\<rparr>)))"

text \<open>All of a list or none of it: the first error is the error of the whole.\<close>

fun run_all ::
    "('x \<Rightarrow> 'm \<Rightarrow> ('e, 'r \<times> 'm) result) \<Rightarrow> 'x list \<Rightarrow> 'm \<Rightarrow> ('e, 'r list \<times> 'm) result" where
  "run_all f [] m = Ok ([], m)"
| "run_all f (x # xs) m =
     (case f x m of
        Err e \<Rightarrow> Err e
      | Ok (r, m') \<Rightarrow>
          (case run_all f xs m' of Err e \<Rightarrow> Err e | Ok (rs, m'') \<Rightarrow> Ok (r # rs, m'')))"

definition spec_batch ::
    "('x \<Rightarrow> registry \<Rightarrow> (ContractError, 'r \<times> registry) result) \<Rightarrow> 'x list \<Rightarrow> registry \<Rightarrow>
     (ContractError, 'r list \<times> registry) result" where
  "spec_batch f xs m =
     (if xs = [] then Err BatchEmpty
      else if length xs > MAX_BATCH_SIZE then Err BatchTooLarge
      else run_all f xs m)"

text \<open>
  The guards every document operation shares, in the order the code makes them, and the
  registry that remains: the specification's on success, the old one otherwise.
\<close>

definition guarded_outcome ::
    "'s host \<Rightarrow> address \<Rightarrow> 's \<Rightarrow> (ContractError, 'r \<times> registry) result \<Rightarrow> 'r outcome" where
  "guarded_outcome h a s spec =
     (if \<not> require_auth h a s then Trap
      else if \<not> rate_ok h a s then Fail RateLimitExceeded
      else case spec of Err e \<Rightarrow> Fail e | Ok (r, m) \<Rightarrow> Done r)"

definition guarded_docs ::
    "'s host \<Rightarrow> address \<Rightarrow> 's \<Rightarrow> (ContractError, 'r \<times> registry) result \<Rightarrow> registry" where
  "guarded_docs h a s spec =
     (if \<not> require_auth h a s \<or> \<not> rate_ok h a s then docs h s
      else case spec of Err e \<Rightarrow> docs h s | Ok (r, m) \<Rightarrow> m)"

lemma run_all_length: "run_all f xs m = Ok (rs, m') \<Longrightarrow> length rs = length xs"
  by (induction xs arbitrary: m rs) (auto split: result.splits)

text \<open>A registration batch succeeds exactly on fresh, pairwise distinct hashes.\<close>

lemma run_all_register_ok_iff:
  "is_ok (run_all (spec_register t a) xs m) \<longleftrightarrow>
     distinct (map di_document_hash xs) \<and> (\<forall>x \<in> set xs. m (di_document_hash x) = None)"
proof (induction xs arbitrary: m)
  case Nil
  show ?case by simp
next
  case (Cons x xs)
  show ?case
  proof (cases "m (di_document_hash x) = None")
    case True
    then obtain r where r: "spec_register t a x m = Ok (r, m(di_document_hash x \<mapsto> r))"
      by (simp add: spec_register_def Let_def)
    then have "is_ok (run_all (spec_register t a) (x # xs) m) =
        is_ok (run_all (spec_register t a) xs (m(di_document_hash x \<mapsto> r)))"
      by (auto split: result.split)
    also have "\<dots> \<longleftrightarrow> distinct (map di_document_hash xs) \<and>
        (\<forall>y \<in> set xs. m (di_document_hash y) = None \<and> di_document_hash y \<noteq> di_document_hash x)"
      using Cons.IH by auto
    finally show ?thesis using True by (auto simp: image_iff)
  next
    case False
    then show ?thesis by (simp add: spec_register_def)
  qed
qed

lemma rate_key_simps [simp]:
  "\<not> rate_key (Document d)" "\<not> rate_key Admin" "\<not> rate_key Version" "\<not> rate_key (FeatureFlag f)"
  "\<not> rate_key RateLimitConfigKey" "rate_key (RateLimitState sc)" "rate_key (RateLimitRetryAfter sc)"
  by (auto simp: rate_key_def)

section \<open>Rate limiting\<close>

text \<open>What an admitted call writes: both buckets debited, stale retry hints dropped.\<close>

definition debit :: "'s host \<Rightarrow> RateLimitConfig \<Rightarrow> RateLimitScope \<Rightarrow> u32 \<Rightarrow> 's \<Rightarrow> 's" where
  "debit h config scope n s =
     storage_remove h (RateLimitRetryAfter scope)
       (storage_set h (RateLimitState scope)
          (VBucket \<lparr>tokens = sat_sub n 1, last_refill = ledger_timestamp h s\<rparr>) s)"

definition charged :: "'s host \<Rightarrow> address \<Rightarrow> 's \<Rightarrow> 's" where
  "charged h a s =
     debit h (config_of h s) (Issuer a) (available h (Issuer a) s)
       (debit h (config_of h s) (Address a) (available h (Address a) s) s)"

context soroban_host
begin

lemmas host_laws =
  storage_has get_set get_remove get_publish get_abort log_set log_remove log_publish log_abort
  time_set time_remove time_publish time_abort

declare host_laws [simp]

lemma docs_set [simp]:
  "docs h (storage_set h (Document d) (VRecord r) s) = (docs h s)(d \<mapsto> r)"
  by (auto simp: docs_def fun_eq_iff)

lemma docs_other [simp]:
  "\<not> (\<exists>d. k = Document d) \<Longrightarrow> docs h (storage_set h k v s) = docs h s"
  "\<not> (\<exists>d. k = Document d) \<Longrightarrow> docs h (storage_remove h k s) = docs h s"
  "docs h (publish h e s) = docs h s"
  "docs h (abort_invocation h s s') = docs h s"
  by (auto simp: docs_def fun_eq_iff)

lemma well_typed_set [simp, intro]:
  "well_typed h s \<Longrightarrow> value_fits k v \<Longrightarrow> well_typed h (storage_set h k v s)"
  by (auto simp: well_typed_def)

lemma well_typed_other [simp]:
  "well_typed h s \<Longrightarrow> well_typed h (storage_remove h k s)"
  "well_typed h (publish h e s) = well_typed h s"
  "well_typed h (abort_invocation h s s') = well_typed h s"
  by (auto simp: well_typed_def)

lemma check_scope_eq:
  assumes "well_typed h s" and "t = ledger_timestamp h s" and "config = config_of h s"
  shows "check_scope h config t scope s =
     (if available h scope s = 0
      then (Fail RateLimitExceeded,
            storage_set h (RateLimitRetryAfter scope)
              (VU64 (retry_after (snd (scope_limits config scope)))) s)
      else (Done (), debit h config scope (available h scope s) s))"
  using well_typed_shapes(6) [OF assms(1), of scope] assms(2,3)
  by (auto simp: check_scope_def action_defs available_def bucket_of_def debit_def Let_def
      split: prod.splits option.splits)

lemma config_of_debit [simp]: "config_of h (debit h c sc n s) = config_of h s"
  by (simp add: config_of_def debit_def)

lemma time_debit [simp]: "ledger_timestamp h (debit h c sc n s) = ledger_timestamp h s"
  by (simp add: debit_def)

lemma log_debit [simp]: "event_log h (debit h c sc n s) = event_log h s"
  by (simp add: debit_def)

lemma well_typed_debit [simp, intro]: "well_typed h s \<Longrightarrow> well_typed h (debit h c sc n s)"
  by (auto simp: debit_def)

lemma get_debit [simp]: "\<not> rate_key k \<Longrightarrow> storage_get h k (debit h c sc n s) = storage_get h k s"
  by (auto simp: debit_def)

lemma bucket_of_debit [simp]:
  "sc \<noteq> sc' \<Longrightarrow> bucket_of h sc (debit h c sc' n s) = bucket_of h sc s"
  by (simp add: bucket_of_def split: option.split StoredValue.split) (simp add: debit_def)

lemma available_debit [simp]: "sc \<noteq> sc' \<Longrightarrow> available h sc (debit h c sc' n s) = available h sc s"
  by (simp add: available_def)

lemma check_rate_limit_result:
  assumes "well_typed h s"
  shows "fst (check_rate_limit h a a s) = (if rate_ok h a s then Done () else Fail RateLimitExceeded)"
    and "rate_ok h a s \<Longrightarrow> snd (check_rate_limit h a a s) = charged h a s"
proof -
  have cfg: "get_as h as_config RateLimitConfigKey s =
      (Done (case storage_get h RateLimitConfigKey s of None \<Rightarrow> None | Some v \<Rightarrow> as_config v), s)"
    using well_typed_shapes(5) [OF assms] by (auto simp: get_as_def split: option.splits)
  have "check_rate_limit h a a s =
      check_scopes h (config_of h s) (ledger_timestamp h s) [Address a, Issuer a] s"
    using well_typed_shapes(5) [OF assms]
    by (auto simp: check_rate_limit_def and_then_def cfg ledger_now_def config_of_def Let_def
        split: option.splits)
  then show "fst (check_rate_limit h a a s) = (if rate_ok h a s then Done () else Fail RateLimitExceeded)"
    and "rate_ok h a s \<Longrightarrow> snd (check_rate_limit h a a s) = charged h a s"
    using assms
    by (auto simp: and_then_def check_scope_eq rate_ok_def charged_def return_ok_def)
qed

lemma check_rate_limit_run:
  assumes "well_typed h s"
  shows "check_rate_limit h a a s =
    (if rate_ok h a s then (Done (), charged h a s)
     else (Fail RateLimitExceeded, snd (check_rate_limit h a a s)))"
  using check_rate_limit_result [OF assms, of a] by (cases "check_rate_limit h a a s") auto

lemma charged_simps [simp]:
  "\<not> rate_key k \<Longrightarrow> storage_get h k (charged h a s) = storage_get h k s"
  "ledger_timestamp h (charged h a s) = ledger_timestamp h s"
  "event_log h (charged h a s) = event_log h s"
  "well_typed h s \<Longrightarrow> well_typed h (charged h a s)"
  by (auto simp: charged_def)

lemma docs_charged [simp]: "docs h (charged h a s) = docs h s"
  by (simp add: docs_def fun_eq_iff)

section \<open>Document operations refine operations on the registry\<close>

lemma docs_None_iff: "well_typed h s \<Longrightarrow> docs h s d = None \<longleftrightarrow> storage_get h (Document d) s = None"
  using well_typed_shapes(1) [of h s d] by (auto simp: docs_def split: option.splits)

lemma get_record_run:
  "well_typed h s \<Longrightarrow> get_as h as_record (Document d) s = (Done (docs h s d), s)"
  using well_typed_shapes(1) [of h s d] by (auto simp: get_as_def docs_def split: option.splits)

lemma guarded_run:
  assumes "well_typed h s"
  shows "and_then (auth h a) (\<lambda>_. and_then (check_rate_limit h a a) (\<lambda>_. f)) s =
    (if \<not> require_auth h a s then (Trap, s)
     else if \<not> rate_ok h a s then (Fail RateLimitExceeded, snd (check_rate_limit h a a s))
     else f (charged h a s))"
  using check_rate_limit_result [OF assms, of a]
  by (cases "check_rate_limit h a a s") (auto simp: and_then_def auth_def split: if_splits)

lemma register_document_run:
  assumes "well_typed h s" and "require_auth h a s" and "rate_ok h a s"
  shows "register_document h a owner d s =
    (if docs h s d \<noteq> None then (Fail AlreadyRegistered, charged h a s)
     else
       let r = \<lparr>dr_issuer = a, dr_owner = owner, dr_timestamp = ledger_timestamp h s,
                dr_status = Active\<rparr>
       in (Done r, publish h (DocumentRegistered a owner d)
                     (storage_set h (Document d) (VRecord r) (charged h a s))))"
  using assms unfolding register_document_def
  by (simp add: guarded_run docs_None_iff) (simp add: action_defs Let_def)

lemma revoke_one_run:
  assumes "well_typed h s"
  shows "revoke_one h a d s =
    (case docs h s d of
       None \<Rightarrow> (Fail DocumentNotFound, s)
     | Some r \<Rightarrow>
         if dr_issuer r \<noteq> a then (Fail OnlyIssuerCanRevoke, s)
         else if dr_status r = Revoked then (Fail AlreadyRevoked, s)
         else (Done (r\<lparr>dr_status := Revoked\<rparr>),
               publish h (DocumentRevoked a d)
                 (storage_set h (Document d) (VRecord (r\<lparr>dr_status := Revoked\<rparr>)) s)))"
  by (simp add: revoke_one_def and_then_def get_record_run [OF assms] return_err_def return_ok_def
      put_def emit_def Let_def split: option.split)

text \<open>How a run answers a specification: the same error, or the same result and registry.\<close>

definition answers ::
    "('r outcome \<times> 's) \<Rightarrow> 's \<Rightarrow> ContractEvent list \<Rightarrow> (ContractError, 'r \<times> registry) result \<Rightarrow> bool" where
  "answers run s evs spec =
     (case spec of
        Err e \<Rightarrow> fst run = Fail e
      | Ok (r, m) \<Rightarrow>
          fst run = Done r \<and> docs h (snd run) = m \<and> well_typed h (snd run) \<and>
          event_log h (snd run) = event_log h s @ evs)"

lemma answers_Cons:
  assumes "answers (f s1) s1 evs spec" and "event_log h s1 = event_log h s @ [e]"
  shows "answers (and_then f (\<lambda>rs. return_ok (r # rs)) s1) s (e # evs)
    (case spec of Err x \<Rightarrow> Err x | Ok (rs, m) \<Rightarrow> Ok (r # rs, m))"
  using assms by (cases "f s1") (auto simp: answers_def and_then_def return_ok_def split: result.splits)

lemma register_loop_answers:
  assumes "well_typed h s"
  shows "answers (register_loop h a xs s) s
    (map (\<lambda>x. DocumentRegistered a (di_owner x) (di_document_hash x)) xs)
    (run_all (spec_register (ledger_timestamp h s) a) xs (docs h s))"
  using assms
proof (induction xs arbitrary: s)
  case Nil
  then show ?case by (simp add: answers_def return_ok_def)
next
  case (Cons x xs)
  show ?case
  proof (cases "docs h s (di_document_hash x)")
    case None
    define r where "r = \<lparr>dr_issuer = a, dr_owner = di_owner x,
      dr_timestamp = ledger_timestamp h s, dr_status = Active\<rparr>"
    define s1 where "s1 = publish h (DocumentRegistered a (di_owner x) (di_document_hash x))
      (storage_set h (Document (di_document_hash x)) (VRecord r) s)"
    have s1: "well_typed h s1" "docs h s1 = (docs h s)(di_document_hash x \<mapsto> r)"
      "ledger_timestamp h s1 = ledger_timestamp h s"
      "event_log h s1 = event_log h s @ [DocumentRegistered a (di_owner x) (di_document_hash x)]"
      using Cons.prems by (auto simp: s1_def)
    have sp: "spec_register (ledger_timestamp h s) a x (docs h s) = Ok (r, docs h s1)"
      using None by (simp add: spec_register_def r_def s1(2) Let_def)
    have run: "register_loop h a (x # xs) s =
        and_then (register_loop h a xs) (\<lambda>records. return_ok (r # records)) s1"
      using None Cons.prems by (simp add: docs_None_iff action_defs r_def s1_def Let_def)
    show ?thesis
      using answers_Cons [where f = "register_loop h a xs" and r = r, OF Cons.IH [OF s1(1)] s1(4)]
      unfolding run by (simp add: sp s1(3))
  next
    case (Some r)
    with Cons.prems show ?thesis
      by (auto simp: answers_def spec_register_def action_defs docs_def split: option.splits)
  qed
qed

lemma revoke_loop_answers:
  assumes "well_typed h s"
  shows "answers (revoke_loop h a ds s) s (map (DocumentRevoked a) ds)
    (run_all (spec_revoke a) ds (docs h s))"
  using assms
proof (induction ds arbitrary: s)
  case Nil
  then show ?case by (simp add: answers_def return_ok_def)
next
  case (Cons d ds)
  show ?case
  proof (cases "spec_revoke a d (docs h s)")
    case (Err e)
    with Cons.prems show ?thesis
      by (auto simp: answers_def and_then_def revoke_one_run spec_revoke_def
          split: option.splits if_splits)
  next
    case (Ok p)
    then obtain r s1 where run: "revoke_one h a d s = (Done r, s1)" "p = (r, docs h s1)"
      "well_typed h s1" "event_log h s1 = event_log h s @ [DocumentRevoked a d]"
      using Cons.prems by (auto simp: revoke_one_run spec_revoke_def split: option.splits if_splits)
    with answers_Cons [where f = "revoke_loop h a ds" and r = r, OF Cons.IH [OF run(3)] run(4)] Ok show ?thesis
      by (simp add: and_then_def)
  qed
qed

lemma guarded_refines:
  assumes "well_typed h s"
    and "\<And>s'. s' = charged h a s \<Longrightarrow> answers (f s') s' evs (spec (docs h s))"
  shows "fst (invoke h (and_then (auth h a) (\<lambda>_. and_then (check_rate_limit h a a) (\<lambda>_. f))) s) =
           guarded_outcome h a s (spec (docs h s))"
    and "docs h (snd (invoke h (and_then (auth h a) (\<lambda>_. and_then (check_rate_limit h a a) (\<lambda>_. f))) s)) =
           guarded_docs h a s (spec (docs h s))"
  using assms(2) [OF refl] guarded_run [OF assms(1), of a f]
  by (auto simp: guarded_outcome_def guarded_docs_def answers_def invoke_def
      split: result.splits outcome.splits prod.splits if_splits)

lemma register_answers:
  assumes "well_typed h s"
  shows "answers
    (and_then (has h (Document d)) (\<lambda>present.
       if present then return_err AlreadyRegistered
       else
         and_then (ledger_now h) (\<lambda>t.
           let record = \<lparr>dr_issuer = a, dr_owner = owner, dr_timestamp = t, dr_status = Active\<rparr> in
           and_then (put h (Document d) (VRecord record)) (\<lambda>_.
           and_then (emit h (DocumentRegistered a owner d)) (\<lambda>_. return_ok record)))) s)
    s [DocumentRegistered a owner d]
    (spec_register (ledger_timestamp h s) a \<lparr>di_owner = owner, di_document_hash = d\<rparr> (docs h s))"
  using assms by (auto simp: answers_def spec_register_def docs_None_iff action_defs Let_def)

lemma revoke_answers:
  "well_typed h s \<Longrightarrow> answers (revoke_one h a d s) s [DocumentRevoked a d] (spec_revoke a d (docs h s))"
  by (auto simp: answers_def spec_revoke_def revoke_one_run split: option.splits)

lemma batch_answers:
  assumes "answers (f s) s evs (run_all g xs (docs h s))"
  shows "answers ((if xs = [] then return_err BatchEmpty
                   else if length xs > MAX_BATCH_SIZE then return_err BatchTooLarge else f) s)
           s evs (spec_batch g xs (docs h s))"
  using assms by (auto simp: spec_batch_def answers_def return_err_def split: result.splits)

lemma register_document_ok:
  fixes a owner d
  assumes "well_typed h s"
  defines "spec \<equiv> spec_register (ledger_timestamp h s) a \<lparr>di_owner = owner, di_document_hash = d\<rparr> (docs h s)"
  shows "fst (invoke h (register_document h a owner d) s) = guarded_outcome h a s spec"
    and "docs h (snd (invoke h (register_document h a owner d) s)) = guarded_docs h a s spec"
  unfolding register_document_def spec_def
  using guarded_refines [OF assms(1), where spec = "spec_register (ledger_timestamp h s) a
      \<lparr>di_owner = owner, di_document_hash = d\<rparr>"] register_answers [of "charged h a s" d a owner] assms(1)
  by auto

lemma revoke_document_ok:
  assumes "well_typed h s"
  shows "fst (invoke h (revoke_document h a d) s) = guarded_outcome h a s (spec_revoke a d (docs h s))"
    and "docs h (snd (invoke h (revoke_document h a d) s)) = guarded_docs h a s (spec_revoke a d (docs h s))"
  unfolding revoke_document_def
  using guarded_refines [OF assms, where spec = "spec_revoke a d"]
    revoke_answers [of "charged h a s" a d] assms
  by auto

lemma batch_register_ok:
  fixes a xs
  assumes "well_typed h s"
  defines "spec \<equiv> spec_batch (spec_register (ledger_timestamp h s) a) xs (docs h s)"
  shows "fst (invoke h (batch_register_documents h a xs) s) = guarded_outcome h a s spec"
    and "docs h (snd (invoke h (batch_register_documents h a xs) s)) = guarded_docs h a s spec"
  unfolding batch_register_documents_def spec_def
  using guarded_refines [OF assms(1), where spec = "spec_batch (spec_register (ledger_timestamp h s) a) xs"]
    batch_answers [where f = "register_loop h a xs", OF register_loop_answers [of "charged h a s" a xs]] assms(1)
  by auto

lemma batch_revoke_ok:
  assumes "well_typed h s"
  shows "fst (invoke h (batch_revoke_documents h a ds) s) =
           guarded_outcome h a s (spec_batch (spec_revoke a) ds (docs h s))"
    and "docs h (snd (invoke h (batch_revoke_documents h a ds) s)) =
           guarded_docs h a s (spec_batch (spec_revoke a) ds (docs h s))"
  unfolding batch_revoke_documents_def
  using guarded_refines [OF assms, where spec = "spec_batch (spec_revoke a) ds"]
    batch_answers [where f = "revoke_loop h a ds", OF revoke_loop_answers [of "charged h a s" a ds]] assms
  by auto

end

end
