(* ===== verification/Contract_Safety.thy ===== *)
theory Contract_Safety
  imports Contract_Correct
begin

text \<open>
  The contract as a state machine: every entry point is a \<open>Call\<close>, an invocation or a move of
  the environment (time, signatures) is a \<open>contract_step\<close>, and the states a fresh deployment
  reaches satisfy \<open>contract_inv\<close>. Document immutability, the revocation rule, admin stability,
  and the agreement of the event log with storage follow from it.
\<close>

section \<open>Calls and steps\<close>

datatype Call =
    CRegister address address bytes32
  | CGetDocument bytes32
  | CVerify bytes32
  | CStatus bytes32
  | CExists bytes32
  | CRevoke address bytes32
  | CBatchRegister address "DocumentInfo list"
  | CBatchRevoke address "bytes32 list"
  | CInitialize address
  | CVersion
  | CAdmin
  | CUpgrade address bytes32
  | CMigrate address
  | CSetFlag address symbol bool
  | CGetFlag symbol
  | CSetRateLimit address RateLimitConfig
  | CRetryAfter RateLimitScope

definition drop_value :: "('s, 'a) action \<Rightarrow> ('s, unit) action" where
  "drop_value f = and_then f (\<lambda>_. return_ok ())"

fun entry_point :: "'s host \<Rightarrow> Call \<Rightarrow> ('s, unit) action" where
  "entry_point h (CRegister a owner d) = drop_value (register_document h a owner d)"
| "entry_point h (CGetDocument d) = drop_value (get_document h d)"
| "entry_point h (CVerify d) = drop_value (verify_document h d)"
| "entry_point h (CStatus d) = drop_value (get_document_status h d)"
| "entry_point h (CExists d) = drop_value (document_exists h d)"
| "entry_point h (CRevoke a d) = drop_value (revoke_document h a d)"
| "entry_point h (CBatchRegister a xs) = drop_value (batch_register_documents h a xs)"
| "entry_point h (CBatchRevoke a ds) = drop_value (batch_revoke_documents h a ds)"
| "entry_point h (CInitialize a) = initialize h a"
| "entry_point h CVersion = drop_value (get_version h)"
| "entry_point h CAdmin = drop_value (get_admin h)"
| "entry_point h (CUpgrade a w) = upgrade h a w"
| "entry_point h (CMigrate a) = drop_value (migrate h a)"
| "entry_point h (CSetFlag a f b) = set_feature_flag h a f b"
| "entry_point h (CGetFlag f) = drop_value (get_feature_flag h f)"
| "entry_point h (CSetRateLimit a c) = set_rate_limit_config h a c"
| "entry_point h (CRetryAfter sc) = drop_value (get_rate_limit_retry_after h sc)"

definition call_state :: "'s host \<Rightarrow> Call \<Rightarrow> 's \<Rightarrow> 's" where
  "call_state h c s = snd (invoke h (entry_point h c) s)"

definition same_contract :: "'s host \<Rightarrow> 's \<Rightarrow> 's \<Rightarrow> bool" where
  "same_contract h s s' \<longleftrightarrow>
     (\<forall>k. storage_get h k s' = storage_get h k s) \<and> event_log h s' = event_log h s"

text \<open>
  An invocation runs an entry point of this contract. On the ledger that holds until an
  \<open>upgrade\<close> succeeds: later invocations execute the new code, about which nothing can be said here
  (\<open>docs/UPGRADE_GOVERNANCE.md\<close> lets it do more). A run past a successful upgrade is therefore a
  statement about this code only, as it holds when the upgrade installs the same code again.
\<close>

inductive contract_step :: "'s host \<Rightarrow> 's \<Rightarrow> 's \<Rightarrow> bool" for h where
  invocation: "contract_step h s (call_state h c s)"
| environment: "same_contract h s s' \<Longrightarrow> contract_step h s s'"

inductive contract_steps :: "'s host \<Rightarrow> 's \<Rightarrow> 's \<Rightarrow> bool" for h where
  refl: "contract_steps h s s"
| step: "contract_steps h s s' \<Longrightarrow> contract_step h s' s'' \<Longrightarrow> contract_steps h s s''"

definition fresh :: "'s host \<Rightarrow> 's \<Rightarrow> bool" where
  "fresh h s \<longleftrightarrow> (\<forall>k. storage_get h k s = None) \<and> event_log h s = []"

definition deployed :: "'s host \<Rightarrow> 's \<Rightarrow> bool" where
  "deployed h s \<longleftrightarrow> (\<exists>s0. fresh h s0 \<and> contract_steps h s0 s)"

section \<open>What the event log says\<close>

type_synonym summary = "address \<times> address \<times> DocumentStatus"

fun apply_event :: "ContractEvent \<Rightarrow> (bytes32 \<Rightarrow> summary option) \<Rightarrow> (bytes32 \<Rightarrow> summary option)" where
  "apply_event (DocumentRegistered a owner d) m = m(d \<mapsto> (a, owner, Active))"
| "apply_event (DocumentRevoked a d) m =
     (case m d of None \<Rightarrow> m | Some (a', owner, _) \<Rightarrow> m(d \<mapsto> (a', owner, Revoked)))"
| "apply_event _ m = m"

definition replay :: "ContractEvent list \<Rightarrow> bytes32 \<Rightarrow> summary option" where
  "replay evs = fold apply_event evs Map.empty"

definition summarize :: "registry \<Rightarrow> bytes32 \<Rightarrow> summary option" where
  "summarize m d = map_option (\<lambda>r. (dr_issuer r, dr_owner r, dr_status r)) (m d)"

lemma replay_append: "replay (es @ fs) = fold apply_event fs (replay es)"
  by (simp add: replay_def)

lemma summarize_upd [simp]:
  "summarize (m(d \<mapsto> r)) = (summarize m)(d \<mapsto> (dr_issuer r, dr_owner r, dr_status r))"
  by (auto simp: summarize_def)

lemma spec_register_event:
  "spec_register t a x m = Ok (r, m') \<Longrightarrow>
     apply_event (DocumentRegistered a (di_owner x) (di_document_hash x)) (summarize m) = summarize m'"
  by (auto simp: spec_register_def Let_def split: if_splits)

lemma spec_revoke_event:
  "spec_revoke a d m = Ok (r, m') \<Longrightarrow> apply_event (DocumentRevoked a d) (summarize m) = summarize m'"
  by (auto simp: spec_revoke_def summarize_def split: option.splits if_splits)

lemma run_all_events:
  assumes "\<And>x m r m'. f x m = Ok (r, m') \<Longrightarrow> apply_event (ev x) (summarize m) = summarize m'"
    and "run_all f xs m = Ok (rs, m')"
  shows "fold apply_event (map ev xs) (summarize m) = summarize m'"
  using assms(2)
  by (induction xs arbitrary: m rs) (auto simp: assms(1) split: result.splits)

section \<open>Records only age\<close>

text \<open>A later registry keeps every record, its issuer, owner and timestamp, and every revocation.\<close>

definition aged :: "DocumentRecord \<Rightarrow> DocumentRecord \<Rightarrow> bool" where
  "aged r r' \<longleftrightarrow>
     dr_issuer r' = dr_issuer r \<and> dr_owner r' = dr_owner r \<and> dr_timestamp r' = dr_timestamp r \<and>
     (dr_status r = Revoked \<longrightarrow> r' = r)"

definition ages :: "registry \<Rightarrow> registry \<Rightarrow> bool" where
  "ages m m' \<longleftrightarrow> (\<forall>d r. m d = Some r \<longrightarrow> (\<exists>r'. m' d = Some r' \<and> aged r r'))"

lemma aged_refl [simp]: "aged r r"
  by (simp add: aged_def)

lemma aged_trans: "aged r r' \<Longrightarrow> aged r' r'' \<Longrightarrow> aged r r''"
  by (auto simp: aged_def)

lemma ages_refl [simp]: "ages m m"
  by (auto simp: ages_def)

lemma ages_trans: "ages m m' \<Longrightarrow> ages m' m'' \<Longrightarrow> ages m m''"
  unfolding ages_def by (meson aged_trans)

lemma spec_register_ages: "spec_register t a x m = Ok (r, m') \<Longrightarrow> ages m m'"
  by (auto simp: spec_register_def Let_def ages_def split: if_splits)

lemma spec_revoke_ages: "spec_revoke a d m = Ok (r, m') \<Longrightarrow> ages m m'"
  by (auto simp: spec_revoke_def ages_def aged_def split: option.splits if_splits)

lemma run_all_ages:
  assumes "\<And>x m r m'. f x m = Ok (r, m') \<Longrightarrow> ages m m'" and "run_all f xs m = Ok (rs, m')"
  shows "ages m m'"
  using assms(2)
proof (induction xs arbitrary: m rs)
  case Nil
  then show ?case by simp
next
  case (Cons x xs)
  then obtain r m1 rs' where "f x m = Ok (r, m1)" and "run_all f xs m1 = Ok (rs', m')"
    by (auto split: result.splits)
  with Cons.IH assms(1) show ?case by (blast intro: ages_trans)
qed

section \<open>What a batch adds and changes\<close>

lemma spec_register_old: "spec_register t a x m = Ok (r1, m1) \<Longrightarrow> m d = Some r \<Longrightarrow> m1 d = Some r"
  by (auto simp: spec_register_def Let_def split: if_splits)

lemma spec_revoke_None: "spec_revoke a x m = Ok (r1, m1) \<Longrightarrow> m d = None \<Longrightarrow> m1 d = None"
  by (auto simp: spec_revoke_def split: option.splits if_splits)

lemma run_all_register_old:
  "run_all (spec_register t a) xs m = Ok (rs, m') \<Longrightarrow> m d = Some r \<Longrightarrow> m' d = Some r"
proof (induction xs arbitrary: m rs)
  case (Cons x xs)
  then obtain r1 m1 rs1 where "spec_register t a x m = Ok (r1, m1)"
    and "run_all (spec_register t a) xs m1 = Ok (rs1, m')"
    by (auto split: result.splits)
  with Cons show ?case by (blast dest: spec_register_old)
qed simp

lemma run_all_register_new:
  "run_all (spec_register t a) xs m = Ok (rs, m') \<Longrightarrow> m d = None \<Longrightarrow> m' d = Some r \<Longrightarrow>
     r = \<lparr>dr_issuer = a, dr_owner = dr_owner r, dr_timestamp = t, dr_status = Active\<rparr> \<and>
     \<lparr>di_owner = dr_owner r, di_document_hash = d\<rparr> \<in> set xs"
proof (induction xs arbitrary: m rs)
  case (Cons x xs)
  then obtain r1 m1 rs1 where s1: "spec_register t a x m = Ok (r1, m1)"
    and r1: "run_all (spec_register t a) xs m1 = Ok (rs1, m')"
    by (auto split: result.splits)
  show ?case
  proof (cases "d = di_document_hash x")
    case True
    with s1 have "m1 d = Some \<lparr>dr_issuer = a, dr_owner = di_owner x, dr_timestamp = t, dr_status = Active\<rparr>"
      by (auto simp: spec_register_def Let_def split: if_splits)
    with run_all_register_old [OF r1] Cons.prems True show ?thesis by (cases x) auto
  next
    case False
    with s1 Cons.prems have "m1 d = None"
      by (auto simp: spec_register_def Let_def split: if_splits)
    with Cons.IH [OF r1] Cons.prems show ?thesis by auto
  qed
qed simp

lemma run_all_revoke_frame:
  "run_all (spec_revoke a) ds m = Ok (rs, m') \<Longrightarrow> m d = None \<Longrightarrow> m' d = None"
proof (induction ds arbitrary: m rs)
  case (Cons x xs)
  then obtain r1 m1 rs1 where "spec_revoke a x m = Ok (r1, m1)"
    and "run_all (spec_revoke a) xs m1 = Ok (rs1, m')"
    by (auto split: result.splits)
  with Cons show ?case by (blast dest: spec_revoke_None)
qed simp

lemma run_all_revoke_changed:
  "run_all (spec_revoke a) ds m = Ok (rs, m') \<Longrightarrow> m d = Some r \<Longrightarrow> m' d \<noteq> Some r \<Longrightarrow>
     m' d = Some (r\<lparr>dr_status := Revoked\<rparr>) \<and> dr_issuer r = a \<and> d \<in> set ds"
proof (induction ds arbitrary: m rs)
  case (Cons x xs)
  then obtain r1 m1 rs1 where s1: "spec_revoke a x m = Ok (r1, m1)"
    and r1: "run_all (spec_revoke a) xs m1 = Ok (rs1, m')"
    by (auto split: result.splits)
  show ?case
  proof (cases "d = x")
    case True
    with s1 Cons.prems have m1: "m1 d = Some (r\<lparr>dr_status := Revoked\<rparr>)" "dr_issuer r = a"
      by (auto simp: spec_revoke_def split: if_splits)
    moreover have "ages m1 m'" by (rule run_all_ages [OF spec_revoke_ages r1])
    ultimately obtain r' where "m' d = Some r'" "aged (r\<lparr>dr_status := Revoked\<rparr>) r'"
      by (auto simp: ages_def)
    then have "m' d = Some (r\<lparr>dr_status := Revoked\<rparr>)" by (simp add: aged_def)
    with m1 True show ?thesis by simp
  next
    case False
    with s1 Cons.prems have "m1 d = Some r"
      by (auto simp: spec_revoke_def split: option.splits if_splits)
    with Cons.IH [OF r1] Cons.prems show ?thesis by auto
  qed
qed simp

section \<open>The invariant\<close>

definition governed :: "'s host \<Rightarrow> 's \<Rightarrow> bool" where
  "governed h s \<longleftrightarrow>
     (storage_get h Version s = None \<and> storage_get h Admin s = None) \<or>
     (storage_get h Version s = Some (VU32 CONTRACT_VERSION) \<and> storage_get h Admin s \<noteq> None)"

definition no_retry_hint :: "'s host \<Rightarrow> 's \<Rightarrow> bool" where
  "no_retry_hint h s \<longleftrightarrow> (\<forall>sc. storage_get h (RateLimitRetryAfter sc) s = None)"

definition contract_inv :: "'s host \<Rightarrow> 's \<Rightarrow> bool" where
  "contract_inv h s \<longleftrightarrow>
     well_typed h s \<and> governed h s \<and> no_retry_hint h s \<and>
     replay (event_log h s) = summarize (docs h s)"

lemma same_contract_views:
  assumes "same_contract h s s'"
  shows "docs h s' = docs h s" "well_typed h s' = well_typed h s" "governed h s' = governed h s"
    "no_retry_hint h s' = no_retry_hint h s" "admin_of h s' = admin_of h s"
  using assms
  by (auto simp: same_contract_def docs_def well_typed_def governed_def no_retry_hint_def
      admin_of_def fun_eq_iff)

lemma same_contract_inv: "same_contract h s s' \<Longrightarrow> contract_inv h s' = contract_inv h s"
  by (simp add: contract_inv_def same_contract_views) (simp add: same_contract_def)

lemma fresh_inv: "fresh h s \<Longrightarrow> contract_inv h s"
  by (auto simp: fresh_def contract_inv_def well_typed_def governed_def no_retry_hint_def replay_def
      summarize_def docs_def)

section \<open>Effects of the calls\<close>

context soroban_host
begin

lemma invoke_cases:
  obtains (committed) v where "f s = (Done v, snd (invoke h f s))"
  | (aborted) "same_contract h s (snd (invoke h f s))"
  by (cases "f s"; cases "fst (f s)") (auto simp: invoke_def same_contract_def)

lemma call_cases:
  obtains (committed) "entry_point h c s = (Done (), call_state h c s)"
  | (aborted) "same_contract h s (call_state h c s)"
  using invoke_cases [of "entry_point h c" s] unfolding call_state_def by (metis old.unit.exhaust)

lemma drop_value_Done:
  "drop_value f s = (Done u, s') \<longleftrightarrow> (\<exists>v. f s = (Done v, s'))"
  by (auto simp: drop_value_def and_then_def return_ok_def split: prod.splits outcome.splits)

lemma register_loop_frame:
  "\<not> (\<exists>d. k = Document d) \<Longrightarrow> storage_get h k (snd (register_loop h a xs s)) = storage_get h k s"
  by (induction xs arbitrary: s)
     (auto simp: action_defs Let_def split: prod.splits outcome.splits, (metis snd_conv get_set get_publish)+)

lemma revoke_one_frame:
  "\<not> (\<exists>d. k = Document d) \<Longrightarrow> storage_get h k (snd (revoke_one h a d s)) = storage_get h k s"
  by (auto simp: revoke_one_def action_defs Let_def split: prod.splits outcome.splits option.splits)

lemma revoke_loop_frame:
  "\<not> (\<exists>d. k = Document d) \<Longrightarrow> storage_get h k (snd (revoke_loop h a ds s)) = storage_get h k s"
proof (induction ds arbitrary: s)
  case Nil
  then show ?case by (simp add: return_ok_def)
next
  case (Cons d ds)
  then show ?case
    using revoke_one_frame [of k a d s]
    by (auto simp: and_then_def return_ok_def split: prod.splits outcome.splits)
       (metis snd_conv)+
qed

text \<open>
  What one committed call may do: only the registry, the log and the buckets move, records
  only age, the published events account for the new registry, no retry hint appears.
\<close>

definition effect :: "'s \<Rightarrow> 's \<Rightarrow> bool" where
  "effect s s' \<longleftrightarrow>
     well_typed h s' \<and> ages (docs h s) (docs h s') \<and>
     (\<exists>evs. event_log h s' = event_log h s @ evs \<and>
            fold apply_event evs (summarize (docs h s)) = summarize (docs h s')) \<and>
     (no_retry_hint h s \<longrightarrow> no_retry_hint h s') \<and>
     (governed h s \<longrightarrow> governed h s') \<and>
     (storage_get h Admin s \<noteq> None \<longrightarrow> governed h s \<longrightarrow> storage_get h Admin s' = storage_get h Admin s)"

lemma retry_charged:
  "no_retry_hint h s \<Longrightarrow> no_retry_hint h (charged h a s)"
  by (simp add: no_retry_hint_def charged_def debit_def)

lemma guarded_committed:
  assumes "well_typed h s"
    and "and_then (auth h a) (\<lambda>_. and_then (check_rate_limit h a a) (\<lambda>_. f)) s = (Done v, s')"
  shows "require_auth h a s" "rate_ok h a s" "f (charged h a s) = (Done v, s')"
  using assms guarded_run [OF assms(1), of a f] by (auto split: if_splits)

lemma document_effect:
  assumes wt: "well_typed h s"
    and run: "out = (Done v, s')"
    and ans: "answers out (charged h a s) evs spec"
    and frame: "\<And>k. \<not> (\<exists>d. k = Document d) \<Longrightarrow> storage_get h k s' = storage_get h k (charged h a s)"
    and ages: "\<And>m'. spec = Ok (v, m') \<Longrightarrow> ages (docs h s) m'"
    and evs: "\<And>m'. spec = Ok (v, m') \<Longrightarrow> fold apply_event evs (summarize (docs h s)) = summarize m'"
  shows "effect s s'"
proof -
  from run ans have ok: "spec = Ok (v, docs h s')" "well_typed h s'"
    "event_log h s' = event_log h s @ evs"
    by (auto simp: answers_def split: result.splits)
  have "no_retry_hint h s \<Longrightarrow> no_retry_hint h s'"
    using retry_charged [of s a] frame by (simp add: no_retry_hint_def)
  moreover have "storage_get h Version s' = storage_get h Version s"
    "storage_get h Admin s' = storage_get h Admin s"
    using frame by simp_all
  ultimately show ?thesis
    using ok ages [OF ok(1)] evs [OF ok(1)] by (auto simp: effect_def governed_def)
qed

lemma effect_refl: "well_typed h s \<Longrightarrow> effect s s"
  by (auto simp: effect_def intro: exI [of _ "[]"])

lemma register_effect:
  assumes "well_typed h s" and "register_document h a owner d s = (Done v, s')"
  shows "effect s s'"
proof -
  note run = guarded_committed [OF assms(1) assms(2) [unfolded register_document_def]]
  show ?thesis
  proof (rule document_effect [OF assms(1) run(3) register_answers])
    show "well_typed h (charged h a s)" using assms(1) by simp
  next
    fix k assume "\<not> (\<exists>d. k = Document d)"
    then show "storage_get h k s' = storage_get h k (charged h a s)"
      using run(3) by (auto simp: action_defs Let_def split: if_splits)
  qed (auto dest: spec_register_ages simp: spec_register_event [symmetric])
qed

lemma revoke_effect:
  assumes "well_typed h s" and "revoke_document h a d s = (Done v, s')"
  shows "effect s s'"
proof -
  note run = guarded_committed [OF assms(1) assms(2) [unfolded revoke_document_def]]
  show ?thesis
  proof (rule document_effect [OF assms(1) run(3) revoke_answers])
    show "well_typed h (charged h a s)" using assms(1) by simp
  next
    fix k assume "\<not> (\<exists>d. k = Document d)"
    then show "storage_get h k s' = storage_get h k (charged h a s)"
      using run(3) revoke_one_frame [of k a d "charged h a s"] by simp
  qed (auto dest: spec_revoke_ages simp: spec_revoke_event [symmetric])
qed

lemma batch_committed:
  "(if xs = [] then return_err BatchEmpty
    else if length xs > MAX_BATCH_SIZE then return_err BatchTooLarge else f) s = (Done v, s') \<Longrightarrow>
   f s = (Done v, s')"
  by (auto simp: return_err_def split: if_splits)

lemma batch_register_effect:
  assumes "well_typed h s" and "batch_register_documents h a xs s = (Done v, s')"
  shows "effect s s'"
proof -
  note run = batch_committed [OF guarded_committed(3)
      [OF assms(1) assms(2) [unfolded batch_register_documents_def]]]
  show ?thesis
  proof (rule document_effect [OF assms(1) run register_loop_answers])
    show "well_typed h (charged h a s)" using assms(1) by simp
  next
    fix k assume "\<not> (\<exists>d. k = Document d)"
    then show "storage_get h k s' = storage_get h k (charged h a s)"
      using run register_loop_frame [of k a xs "charged h a s"] by simp
  next
    fix m' assume "run_all (spec_register (ledger_timestamp h (charged h a s)) a) xs
      (docs h (charged h a s)) = Ok (v, m')"
    then have ok: "run_all (spec_register (ledger_timestamp h s) a) xs (docs h s) = Ok (v, m')" by simp
    show "ages (docs h s) m'" by (rule run_all_ages [OF spec_register_ages ok])
    show "fold apply_event (map (\<lambda>x. DocumentRegistered a (di_owner x) (di_document_hash x)) xs)
        (summarize (docs h s)) = summarize m'"
      by (rule run_all_events [OF spec_register_event ok])
  qed
qed

lemma batch_revoke_effect:
  assumes "well_typed h s" and "batch_revoke_documents h a ds s = (Done v, s')"
  shows "effect s s'"
proof -
  note run = batch_committed [OF guarded_committed(3)
      [OF assms(1) assms(2) [unfolded batch_revoke_documents_def]]]
  show ?thesis
  proof (rule document_effect [OF assms(1) run revoke_loop_answers])
    show "well_typed h (charged h a s)" using assms(1) by simp
  next
    fix k assume "\<not> (\<exists>d. k = Document d)"
    then show "storage_get h k s' = storage_get h k (charged h a s)"
      using run revoke_loop_frame [of k a ds "charged h a s"] by simp
  next
    fix m' assume "run_all (spec_revoke a) ds (docs h (charged h a s)) = Ok (v, m')"
    then have ok: "run_all (spec_revoke a) ds (docs h s) = Ok (v, m')" by simp
    show "ages (docs h s) m'" by (rule run_all_ages [OF spec_revoke_ages ok])
    show "fold apply_event (map (DocumentRevoked a) ds) (summarize (docs h s)) = summarize m'"
      by (rule run_all_events [OF spec_revoke_event ok])
  qed
qed

lemma require_admin_committed:
  "require_admin h a s = (Done u, s') \<longleftrightarrow>
     require_auth h a s \<and> storage_get h Admin s = Some (VAddress a) \<and> s' = s"
  by (auto simp: require_admin_def action_defs split: option.splits if_splits)

lemma admin_then:
  assumes "and_then (require_admin h a) (\<lambda>_. f) s = (Done v, s')"
  shows "require_auth h a s" "storage_get h Admin s = Some (VAddress a)" "f s = (Done v, s')"
  using assms require_admin_committed [of a s "()" "snd (require_admin h a s)"]
  by (cases "require_admin h a s"; cases "fst (require_admin h a s)"; simp add: and_then_def)+

lemma get_version_committed:
  assumes "well_typed h s"
  shows "get_version h s = (Done (version_of h s), s)"
  using well_typed_shapes(3) [OF assms]
  by (auto simp: get_version_def action_defs version_of_def split: option.splits)

lemma quiet_set_effect:
  assumes "well_typed h s" and "value_fits k v" and "\<not> (\<exists>d. k = Document d)"
    and "k \<noteq> Version" and "k \<noteq> Admin" and "\<not> rate_key k"
  shows "effect s (storage_set h k v s)"
  using assms
  by (auto simp: effect_def governed_def no_retry_hint_def rate_key_def intro!: exI [of _ "[]"])

lemma governance_effect:
  assumes wt: "well_typed h s"
  shows "initialize h a s = (Done (), s') \<Longrightarrow> effect s s'"
    and "upgrade h a w s = (Done (), s') \<Longrightarrow> effect s s'"
    and "migrate h a s = (Done v, s') \<Longrightarrow> effect s s'"
    and "set_feature_flag h a f b s = (Done (), s') \<Longrightarrow> effect s s'"
    and "set_rate_limit_config h a c s = (Done (), s') \<Longrightarrow> effect s s'"
proof -
  assume "initialize h a s = (Done (), s')"
  then show "effect s s'"
    using wt by (auto simp: initialize_def action_defs effect_def governed_def no_retry_hint_def
        split: if_splits intro!: exI [of _ "[ContractInitialized a CONTRACT_VERSION]"])
next
  assume "upgrade h a w s = (Done (), s')"
  note run = admin_then(3) [OF this [unfolded upgrade_def]]
  then obtain s1 where u: "update_current_contract_wasm h w s = Some s1"
    and s': "s' = publish h (ContractUpgraded a (version_of h s) (version_of h s)) s1"
    by (auto simp: and_then_def get_version_committed wt set_wasm_def emit_def split: option.splits)
  have "storage_get h k s1 = storage_get h k s" for k by (rule get_wasm [OF u])
  then have views: "docs h s1 = docs h s" "well_typed h s1" "governed h s1 = governed h s"
    "no_retry_hint h s1 = no_retry_hint h s" "storage_get h Admin s1 = storage_get h Admin s"
    using wt by (auto simp: docs_def well_typed_def governed_def no_retry_hint_def fun_eq_iff)
  then show "effect s s'"
    by (auto simp: s' effect_def log_wasm [OF u] governed_def no_retry_hint_def)
next
  assume "migrate h a s = (Done v, s')"
  then show "effect s s'"
    using wt get_version_committed [OF wt]
    by (auto simp: migrate_def and_then_def auth_def put_def return_ok_def return_err_def
        effect_def governed_def no_retry_hint_def version_of_def CONTRACT_VERSION_def
        split: if_splits intro!: exI [of _ "[]"])
next
  assume "set_feature_flag h a f b s = (Done (), s')"
  then show "effect s s'"
    using quiet_set_effect [OF wt, of "FeatureFlag f" "VBool b"] unfolding set_feature_flag_def
    by (auto dest!: admin_then(3) simp: put_def)
next
  assume "set_rate_limit_config h a c s = (Done (), s')"
  then show "effect s s'"
    using quiet_set_effect [OF wt, of RateLimitConfigKey "VConfig c"] unfolding set_rate_limit_config_def
    by (auto dest!: admin_then(3) simp: put_def)
qed

lemma query_effect:
  assumes "well_typed h s"
    and "drop_value q s = (Done (), s')"
    and "\<And>v s'. q s = (Done v, s') \<Longrightarrow> s' = s"
  shows "effect s s'"
  using assms effect_refl by (auto simp: drop_value_Done)

lemma get_as_committed: "get_as h conv k s = (Done v, s') \<Longrightarrow> s' = s"
  by (auto simp: get_as_def split: option.splits)

lemma committed_effect:
  assumes wt: "well_typed h s" and run: "entry_point h c s = (Done (), s')"
  shows "effect s s'"
proof (cases c)
  case (CGetDocument d)
  with run show ?thesis by (auto intro!: query_effect [OF wt] simp: get_document_def dest: get_as_committed)
next
  case (CVerify d)
  with run show ?thesis
    by (auto intro!: query_effect [OF wt] simp: verify_document_def action_defs split: option.splits)
next
  case (CStatus d)
  with run show ?thesis
    by (auto intro!: query_effect [OF wt] simp: get_document_status_def action_defs split: option.splits)
next
  case (CExists d)
  with run show ?thesis by (auto intro!: query_effect [OF wt] simp: document_exists_def has_def)
next
  case CVersion
  with run show ?thesis
    by (auto intro!: query_effect [OF wt] simp: get_version_committed [OF wt])
next
  case CAdmin
  with run show ?thesis by (auto intro!: query_effect [OF wt] simp: get_admin_def dest: get_as_committed)
next
  case (CGetFlag f)
  with run show ?thesis
    by (auto intro!: query_effect [OF wt] simp: get_feature_flag_def action_defs split: option.splits)
next
  case (CRetryAfter sc)
  with run show ?thesis
    by (auto intro!: query_effect [OF wt] simp: get_rate_limit_retry_after_def dest: get_as_committed)
qed (use run wt in \<open>auto simp: drop_value_Done dest: register_effect revoke_effect batch_register_effect
      batch_revoke_effect governance_effect\<close>)

lemma effect_inv: "effect s s' \<Longrightarrow> contract_inv h s \<Longrightarrow> contract_inv h s'"
  by (auto simp: effect_def contract_inv_def replay_append)

lemma step_inv: "contract_step h s s' \<Longrightarrow> contract_inv h s \<Longrightarrow> contract_inv h s'"
proof (induction rule: contract_step.induct)
  case (invocation s c)
  show ?case
  proof (cases rule: call_cases [of c s])
    case committed
    moreover from invocation have "well_typed h s" by (simp add: contract_inv_def)
    ultimately show ?thesis using invocation by (blast intro: effect_inv committed_effect)
  next
    case aborted
    with invocation show ?thesis by (simp add: same_contract_inv)
  qed
next
  case (environment s s')
  then show ?case by (simp add: same_contract_inv)
qed

lemma steps_inv: "contract_steps h s s' \<Longrightarrow> contract_inv h s \<Longrightarrow> contract_inv h s'"
  by (induction rule: contract_steps.induct) (auto intro: step_inv)

lemma deployed_inv: "deployed h s \<Longrightarrow> contract_inv h s"
  by (auto simp: deployed_def intro: steps_inv fresh_inv)

lemma step_ages:
  assumes "contract_step h s s'" and "contract_inv h s"
  shows "ages (docs h s) (docs h s')"
    and "storage_get h Admin s = Some v \<Longrightarrow> storage_get h Admin s' = Some v"
  using assms
proof (induction rule: contract_step.induct)
  case (invocation s c)
  {
    case 1
    then show ?case
      by (cases rule: call_cases [of c s])
         (auto dest!: committed_effect simp: same_contract_views contract_inv_def effect_def)
  next
    case 2
    then show ?case
      by (cases rule: call_cases [of c s])
         (auto dest!: committed_effect simp: same_contract_def contract_inv_def effect_def)
  }
next
  case (environment s s')
  {
    case 1
    then show ?case using environment by (simp add: same_contract_views)
  next
    case 2
    then show ?case using environment by (simp add: same_contract_def)
  }
qed

lemma steps_ages:
  "contract_steps h s s' \<Longrightarrow> contract_inv h s \<Longrightarrow> ages (docs h s) (docs h s')"
  by (induction rule: contract_steps.induct) (auto intro: step_ages ages_trans steps_inv)

lemma steps_admin:
  "contract_steps h s s' \<Longrightarrow> contract_inv h s \<Longrightarrow> storage_get h Admin s = Some v \<Longrightarrow>
     storage_get h Admin s' = Some v"
  by (induction rule: contract_steps.induct) (auto intro: step_ages steps_inv)

section \<open>Who can change a record\<close>

lemma invoke_drop [simp]: "snd (invoke h (drop_value f) s) = snd (invoke h f s)"
  by (simp add: invoke_def drop_value_def and_then_def return_ok_def split: prod.split outcome.split)

definition document_call :: "Call \<Rightarrow> bool" where
  "document_call c \<longleftrightarrow>
     (case c of CRegister _ _ _ \<Rightarrow> True | CRevoke _ _ \<Rightarrow> True | CBatchRegister _ _ \<Rightarrow> True
      | CBatchRevoke _ _ \<Rightarrow> True | _ \<Rightarrow> False)"

lemma governance_docs:
  assumes wt: "well_typed h s"
  shows "initialize h a s = (Done (), s') \<Longrightarrow> docs h s' = docs h s"
    and "upgrade h a w s = (Done (), s') \<Longrightarrow> docs h s' = docs h s"
    and "migrate h a s = (Done v, s') \<Longrightarrow> docs h s' = docs h s"
    and "set_feature_flag h a f b s = (Done (), s') \<Longrightarrow> docs h s' = docs h s"
    and "set_rate_limit_config h a c s = (Done (), s') \<Longrightarrow> docs h s' = docs h s"
proof -
  assume "upgrade h a w s = (Done (), s')"
  from admin_then(3) [OF this [unfolded upgrade_def]] show "docs h s' = docs h s"
    by (auto simp: and_then_def get_version_committed wt set_wasm_def emit_def docs_def get_wasm fun_eq_iff
        split: option.splits)
qed (use get_version_committed [OF wt] in
      \<open>auto simp: initialize_def migrate_def set_feature_flag_def set_rate_limit_config_def put_def
         auth_def has_def emit_def return_ok_def return_err_def
         dest!: admin_then(3) split: if_splits simp: and_then_def [of "auth h a"] and_then_def [of "has h k" for k]
         and_then_def [of "get_version h"] and_then_def [of "put h k v" for k v]\<close>)

lemma other_calls_docs:
  assumes wt: "well_typed h s" and "\<not> document_call c"
  shows "docs h (call_state h c s) = docs h s"
proof (cases rule: call_cases [of c s])
  case aborted
  then show ?thesis by (rule same_contract_views)
next
  case committed
  with assms show ?thesis
    by (cases c)
       (auto simp: document_call_def drop_value_Done get_document_def verify_document_def
          get_document_status_def document_exists_def has_def get_version_committed get_admin_def
          get_feature_flag_def get_rate_limit_retry_after_def get_as_def and_then_def return_ok_def
          return_err_def dest: governance_docs split: option.splits)
qed

lemma registered_by:
  assumes wt: "well_typed h s" and none: "docs h s d = None" and some: "docs h (call_state h c s) d = Some r"
  shows "require_auth h (dr_issuer r) s \<and>
    r = \<lparr>dr_issuer = dr_issuer r, dr_owner = dr_owner r, dr_timestamp = ledger_timestamp h s, dr_status = Active\<rparr> \<and>
    (c = CRegister (dr_issuer r) (dr_owner r) d \<or>
     (\<exists>xs. c = CBatchRegister (dr_issuer r) xs \<and> \<lparr>di_owner = dr_owner r, di_document_hash = d\<rparr> \<in> set xs))"
proof (cases c)
  case (CRegister a owner d')
  with assms register_document_ok(2) [OF wt, of a owner d'] show ?thesis
    by (auto simp: call_state_def guarded_docs_def spec_register_def Let_def split: if_splits)
next
  case (CBatchRegister a xs)
  with assms batch_register_ok(2) [OF wt, of a xs]
  obtain rs where "require_auth h a s" and
    ok: "run_all (spec_register (ledger_timestamp h s) a) xs (docs h s) = Ok (rs, docs h (call_state h c s))"
    by (auto simp: call_state_def guarded_docs_def spec_batch_def split: if_splits result.splits)
  with run_all_register_new [OF ok none some] CBatchRegister show ?thesis
    by (metis DocumentRecord.select_convs(1))
next
  case (CRevoke a d')
  with assms revoke_document_ok(2) [OF wt, of a d'] show ?thesis
    by (auto simp: call_state_def guarded_docs_def spec_revoke_def split: if_splits option.splits)
next
  case (CBatchRevoke a ds)
  with assms batch_revoke_ok(2) [OF wt, of a ds] show ?thesis
    by (auto simp: call_state_def guarded_docs_def spec_batch_def dest: run_all_revoke_frame
        split: if_splits result.splits)
qed (use assms other_calls_docs [OF wt, of c] in \<open>auto simp: document_call_def\<close>)

lemma revoked_by:
  assumes wt: "well_typed h s" and old: "docs h s d = Some r" and new: "docs h (call_state h c s) d \<noteq> Some r"
  shows "docs h (call_state h c s) d = Some (r\<lparr>dr_status := Revoked\<rparr>) \<and> require_auth h (dr_issuer r) s \<and>
    (c = CRevoke (dr_issuer r) d \<or> (\<exists>ds. c = CBatchRevoke (dr_issuer r) ds \<and> d \<in> set ds))"
proof (cases c)
  case (CRegister a owner d')
  with assms register_document_ok(2) [OF wt, of a owner d'] show ?thesis
    by (auto simp: call_state_def guarded_docs_def spec_register_def Let_def split: if_splits)
next
  case (CBatchRegister a xs)
  with assms batch_register_ok(2) [OF wt, of a xs] show ?thesis
    by (auto simp: call_state_def guarded_docs_def spec_batch_def dest: run_all_register_old
        split: if_splits result.splits)
next
  case (CRevoke a d')
  with assms revoke_document_ok(2) [OF wt, of a d'] show ?thesis
    by (auto simp: call_state_def guarded_docs_def spec_revoke_def split: if_splits option.splits)
next
  case (CBatchRevoke a ds)
  with assms batch_revoke_ok(2) [OF wt, of a ds]
  obtain rs where "require_auth h a s" and
    ok: "run_all (spec_revoke a) ds (docs h s) = Ok (rs, docs h (call_state h c s))"
    by (auto simp: call_state_def guarded_docs_def spec_batch_def split: if_splits result.splits)
  with run_all_revoke_changed [OF ok old new] CBatchRevoke show ?thesis by auto
qed (use assms other_calls_docs [OF wt, of c] in \<open>auto simp: document_call_def\<close>)

end

end
