(* ===== verification/Contract_Limits.thy ===== *)
theory Contract_Limits
  imports Contract_Safety
begin

text \<open>
  The contract's token buckets: what a refill adds, how many calls a scope can be admitted in
  a window of ledger time, and when the 32-bit cast of the refill loses tokens.
\<close>

lemma bucket_tokens_le:
  "unat (bucket_tokens b cap rate t) \<le> unat (tokens b) + unat rate * (unat t - unat (last_refill b))"
  "unat (bucket_tokens b cap rate t) \<le> unat cap"
proof -
  let ?r = "sat_mul (sat_sub t (last_refill b)) (ucast rate)"
  have "unat (ucast ?r :: u32) \<le> unat ?r"
    by (simp only: unat_u64_as_u32 mod_less_eq_dividend)
  also have "\<dots> \<le> unat rate * (unat t - unat (last_refill b))"
    by (simp add: sat_simps mult.commute)
  finally have "unat (sat_add (tokens b) (ucast ?r)) \<le>
      unat (tokens b) + unat rate * (unat t - unat (last_refill b))"
    by (simp add: unat_sat_add)
  then show "unat (bucket_tokens b cap rate t) \<le> unat (tokens b) + unat rate * (unat t - unat (last_refill b))"
    by (simp add: bucket_tokens_def Let_def unat_min_word)
  show "unat (bucket_tokens b cap rate t) \<le> unat cap"
    by (simp add: bucket_tokens_def Let_def unat_min_word)
qed

lemma bucket_tokens_exact:
  assumes "(unat t - unat (last_refill b)) * unat rate < 2 ^ 32"
  shows "unat (bucket_tokens b cap rate t) =
    min (min (unat (tokens b) + (unat t - unat (last_refill b)) * unat rate) (2 ^ 32 - 1)) (unat cap)"
proof -
  let ?r = "sat_mul (sat_sub t (last_refill b)) (ucast rate)"
  have "unat ?r = (unat t - unat (last_refill b)) * unat rate"
    using assms by (simp add: sat_simps)
  with assms have "unat (ucast ?r :: u32) = (unat t - unat (last_refill b)) * unat rate"
    by (simp add: unat_u64_as_u32)
  then show ?thesis
    by (simp add: bucket_tokens_def Let_def unat_min_word unat_sat_add)
qed

text \<open>Repeated admission checks of one scope, at the given ledger times.\<close>

fun admit_all ::
    "'s host \<Rightarrow> RateLimitConfig \<Rightarrow> RateLimitScope \<Rightarrow> u64 list \<Rightarrow> 's \<Rightarrow> 's option" where
  "admit_all h config scope [] s = Some s"
| "admit_all h config scope (t # ts) s =
     (case check_scope h config t scope s of
        (Done u, s') \<Rightarrow> admit_all h config scope ts s'
      | _ \<Rightarrow> None)"

context soroban_host
begin

lemma check_scope_admitted:
  assumes "storage_get h (RateLimitState scope) s = Some (VBucket b)"
    and "check_scope h config t scope s = (Done u, s')"
    and "scope_limits config scope = (cap, rate)"
  shows "storage_get h (RateLimitState scope) s' =
      Some (VBucket \<lparr>tokens = sat_sub (bucket_tokens b cap rate t) 1, last_refill = t\<rparr>)"
    and "0 < unat (bucket_tokens b cap rate t)"
  using assms
  by (auto simp: check_scope_def action_defs Let_def unat_gt_0 split: if_splits)

lemma admit_all_bound:
  assumes "storage_get h (RateLimitState scope) s = Some (VBucket b)"
    and "scope_limits config scope = (cap, rate)"
    and "admit_all h config scope ts s = Some s'"
    and "sorted (map unat (last_refill b # ts))"
  shows "length ts \<le> unat (tokens b) + unat rate * (unat (last (last_refill b # ts)) - unat (last_refill b))"
  using assms
proof (induction ts arbitrary: s b)
  case Nil
  then show ?case by simp
next
  case (Cons t ts)
  obtain s1 where s1: "check_scope h config t scope s = (Done (), s1)"
      "admit_all h config scope ts s1 = Some s'"
    using Cons.prems(3) by (auto split: prod.splits outcome.splits)
  let ?n = "bucket_tokens b cap rate t"
  note adm = check_scope_admitted [OF Cons.prems(1) s1(1) Cons.prems(2)]
  have "length ts \<le> unat (sat_sub ?n 1) + unat rate * (unat (last (t # ts)) - unat t)"
    using Cons.IH [OF adm(1) Cons.prems(2) s1(2)] Cons.prems(4) by simp
  then have "length (t # ts) \<le> unat ?n + unat rate * (unat (last (t # ts)) - unat t)"
    using adm(2) by (simp add: unat_sat_sub)
  also have "\<dots> \<le> unat (tokens b) + unat rate * (unat t - unat (last_refill b)) +
      unat rate * (unat (last (t # ts)) - unat t)"
    using bucket_tokens_le(1) [of b cap rate t] by simp
  also have "\<dots> = unat (tokens b) + unat rate * (unat (last (t # ts)) - unat (last_refill b))"
  proof -
    have "unat t \<le> unat (last (t # ts))" "unat (last_refill b) \<le> unat t"
      using Cons.prems(4) by (simp_all add: last_map)
    then have "(unat t - unat (last_refill b)) + (unat (last (t # ts)) - unat t) =
        unat (last (t # ts)) - unat (last_refill b)"
      by linarith
    then show ?thesis by (simp only: add.assoc flip: add_mult_distrib2)
  qed
  finally show ?case by (simp only: last.simps list.simps if_False if_True)
qed

end

end
