(* ===== verification/Contract_Governance.thy ===== *)
theory Contract_Governance
  imports Contract_Limits
begin

text \<open>
  Who may govern the contract, when a call can trap, and how the read-only queries agree:
  the administrator gate, the authorization a call needs, and the query functions over the
  abstract registry.
\<close>

section \<open>Gate and caller\<close>

text \<open>The answer of an administrator-only call before its own work.\<close>

definition admin_gate :: "'s host \<Rightarrow> address \<Rightarrow> 's \<Rightarrow> unit outcome" where
  "admin_gate h a s =
     (if \<not> require_auth h a s then Trap
      else case admin_of h s of
        None \<Rightarrow> Fail NotInitialized
      | Some stored_admin \<Rightarrow> if stored_admin \<noteq> a then Fail Unauthorized else Done ())"

definition flag_of :: "'s host \<Rightarrow> symbol \<Rightarrow> 's \<Rightarrow> bool" where
  "flag_of h f s =
     (case storage_get h (FeatureFlag f) s of Some v \<Rightarrow> as_bool v = Some True | None \<Rightarrow> False)"

text \<open>The address a call needs a signature of, if any.\<close>

fun caller :: "Call \<Rightarrow> address option" where
  "caller (CRegister a _ _) = Some a"
| "caller (CRevoke a _) = Some a"
| "caller (CBatchRegister a _) = Some a"
| "caller (CBatchRevoke a _) = Some a"
| "caller (CInitialize a) = Some a"
| "caller (CUpgrade a _) = Some a"
| "caller (CMigrate a) = Some a"
| "caller (CSetFlag a _ _) = Some a"
| "caller (CSetRateLimit a _) = Some a"
| "caller _ = None"

definition unauthorized :: "'s host \<Rightarrow> Call \<Rightarrow> 's \<Rightarrow> bool" where
  "unauthorized h c s \<longleftrightarrow> (case caller c of None \<Rightarrow> False | Some a \<Rightarrow> \<not> require_auth h a s)"

definition unknown_code :: "'s host \<Rightarrow> Call \<Rightarrow> 's \<Rightarrow> bool" where
  "unknown_code h c s \<longleftrightarrow>
     (case c of CUpgrade a w \<Rightarrow> admin_gate h a s = Done () \<and> update_current_contract_wasm h w s = None
      | _ \<Rightarrow> False)"

lemma fst_drop_value [simp]: "fst (drop_value f s) = Trap \<longleftrightarrow> fst (f s) = Trap"
  by (auto simp: drop_value_def and_then_def return_ok_def split: prod.splits outcome.splits)

context soroban_host
begin

section \<open>The administrator gate\<close>

lemma require_admin_run:
  assumes "well_typed h s"
  shows "require_admin h a s = (admin_gate h a s, s)"
  using well_typed_shapes(2) [OF assms]
  by (auto simp: require_admin_def admin_gate_def action_defs admin_of_def split: option.splits)

lemma gated_run:
  assumes "well_typed h s"
  shows "and_then (require_admin h a) (\<lambda>_. f) s =
    (case admin_gate h a s of Done _ \<Rightarrow> f s | Fail e \<Rightarrow> (Fail e, s) | Trap \<Rightarrow> (Trap, s))"
  by (simp add: and_then_def require_admin_run [OF assms])

lemma gated_put:
  assumes "well_typed h s"
  shows "fst (and_then (require_admin h a) (\<lambda>_. put h k v) s) = admin_gate h a s"
    and "storage_get h k' (snd (invoke h (and_then (require_admin h a) (\<lambda>_. put h k v)) s)) =
      (if admin_gate h a s = Done () \<and> k' = k then Some v else storage_get h k' s)"
  by (auto simp: gated_run [OF assms] invoke_def put_def split: outcome.split)

lemma flag_run: "well_typed h s \<Longrightarrow> get_feature_flag h f s = (Done (flag_of h f s), s)"
  using well_typed_shapes(4) [of h s f]
  by (auto simp: get_feature_flag_def action_defs flag_of_def split: option.splits)

lemma set_flag_ok:
  assumes "well_typed h s"
  shows "fst (invoke h (set_feature_flag h a f b) s) = admin_gate h a s"
    and "flag_of h g (snd (invoke h (set_feature_flag h a f b) s)) =
      (if admin_gate h a s = Done () \<and> g = f then b else flag_of h g s)"
  using gated_put [OF assms] by (auto simp: set_feature_flag_def flag_of_def)

lemma set_limits_ok:
  assumes "well_typed h s"
  shows "fst (invoke h (set_rate_limit_config h a c) s) = admin_gate h a s"
    and "config_of h (snd (invoke h (set_rate_limit_config h a c) s)) =
      (if admin_gate h a s = Done () then c else config_of h s)"
  using gated_put [OF assms] by (auto simp: set_rate_limit_config_def config_of_def)

lemma upgrade_ok:
  assumes "well_typed h s"
  shows "fst (invoke h (upgrade h a w) s) =
      (if admin_gate h a s = Done () \<and> update_current_contract_wasm h w s = None then Trap
       else admin_gate h a s)"
  unfolding invoke_fst upgrade_def gated_run [OF assms]
  by (auto simp: and_then_def get_version_committed [OF assms] set_wasm_def emit_def
      split: outcome.split option.split)

section \<open>Queries\<close>

lemma queries_run:
  assumes "well_typed h s"
  shows "get_document h d s = (Done (docs h s d), s)"
    and "verify_document h d s = (Done (\<exists>r. docs h s d = Some r \<and> dr_status r = Active), s)"
    and "get_document_status h d s =
      ((case docs h s d of None \<Rightarrow> Fail DocumentNotFound | Some r \<Rightarrow> Done (dr_status r)), s)"
    and "document_exists h d s = (Done (docs h s d \<noteq> None), s)"
  using docs_None_iff [OF assms, of d]
  by (auto simp: get_document_def verify_document_def get_document_status_def document_exists_def has_def
      and_then_def get_record_run [OF assms] return_ok_def return_err_def split: option.split)

section \<open>When a call traps\<close>

lemma register_document_trap:
  "well_typed h s \<Longrightarrow> fst (register_document h a owner d s) = Trap \<longleftrightarrow> \<not> require_auth h a s"
  using register_document_ok(1) [of s a owner d]
  by (auto simp: guarded_outcome_def split: result.splits)

lemma revoke_document_trap:
  "well_typed h s \<Longrightarrow> fst (revoke_document h a d s) = Trap \<longleftrightarrow> \<not> require_auth h a s"
  using revoke_document_ok(1) [of s a d]
  by (auto simp: guarded_outcome_def split: result.splits)

lemma batch_register_trap:
  "well_typed h s \<Longrightarrow> fst (batch_register_documents h a xs s) = Trap \<longleftrightarrow> \<not> require_auth h a s"
  using batch_register_ok(1) [of s a xs]
  by (auto simp: guarded_outcome_def split: result.splits)

lemma batch_revoke_trap:
  "well_typed h s \<Longrightarrow> fst (batch_revoke_documents h a ds s) = Trap \<longleftrightarrow> \<not> require_auth h a s"
  using batch_revoke_ok(1) [of s a ds]
  by (auto simp: guarded_outcome_def split: result.splits)

lemma initialize_trap: "fst (initialize h a s) = Trap \<longleftrightarrow> \<not> require_auth h a s"
  by (auto simp: initialize_def action_defs)

lemma migrate_trap:
  "well_typed h s \<Longrightarrow> fst (migrate h a s) = Trap \<longleftrightarrow> \<not> require_auth h a s"
  by (auto simp: migrate_def and_then_def auth_def get_version_committed put_def return_ok_def return_err_def)

lemma admin_gate_trap: "admin_gate h a s = Trap \<longleftrightarrow> \<not> require_auth h a s"
  by (auto simp: admin_gate_def split: option.split)

lemma query_no_trap:
  assumes "well_typed h s"
  shows "fst (get_document h d s) \<noteq> Trap" "fst (verify_document h d s) \<noteq> Trap"
    "fst (get_document_status h d s) \<noteq> Trap" "fst (document_exists h d s) \<noteq> Trap"
    "fst (get_version h s) \<noteq> Trap" "fst (get_admin h s) \<noteq> Trap" "fst (get_feature_flag h f s) \<noteq> Trap"
    "fst (get_rate_limit_retry_after h sc s) \<noteq> Trap"
  using well_typed_shapes(2) [OF assms] well_typed_shapes(7) [OF assms, of sc]
  by (auto simp: queries_run [OF assms] get_version_committed [OF assms] flag_run [OF assms]
      get_admin_def get_rate_limit_retry_after_def get_as_def split: option.splits)

lemma trap_iff:
  assumes wt: "well_typed h s"
  shows "fst (entry_point h c s) = Trap \<longleftrightarrow> unauthorized h c s \<or> unknown_code h c s"
  using upgrade_ok [OF wt] set_flag_ok(1) [OF wt] set_limits_ok(1) [OF wt]
  by (cases c)
     (auto simp: unauthorized_def unknown_code_def register_document_trap [OF wt] revoke_document_trap [OF wt]
        batch_register_trap [OF wt] batch_revoke_trap [OF wt] initialize_trap migrate_trap [OF wt]
        admin_gate_trap query_no_trap [OF wt] split: if_splits)

end

end
