(* ===== verification/Contract_Claims.thy ===== *)
theory Contract_Claims
  imports Contract_Governance
begin

text \<open>
  The contract's properties over any lawful host, each with a run of the map-backed ledger
  as its witness.
\<close>

section \<open>A ledger to run on\<close>

definition demo_ledger :: ledger where
  "demo_ledger =
     \<lparr>entries = (\<lambda>_. None), published = [], close_time = 1000, signers = [''GISSUER'', ''GADMIN''],
      uploaded = [[7]], wasm = [1]\<rparr>"

definition demo_registered :: ledger where
  "demo_registered = call_state ledger_host (CRegister ''GISSUER'' ''GOWNER'' [1]) demo_ledger"

definition demo_initialized :: ledger where
  "demo_initialized = call_state ledger_host (CInitialize ''GADMIN'') demo_ledger"

lemma demo_well_typed: "well_typed ledger_host demo_ledger"
  by (simp add: well_typed_def ledger_host_def demo_ledger_def)

lemma demo_auth: "require_auth ledger_host ''GISSUER'' demo_ledger"
  by (simp add: ledger_host_def demo_ledger_def)

lemma demo_docs: "docs ledger_host demo_ledger = Map.empty"
  by (simp add: docs_def ledger_host_def demo_ledger_def fun_eq_iff)

lemma demo_time: "ledger_timestamp ledger_host demo_ledger = 1000"
  by (simp add: ledger_host_def demo_ledger_def)

lemma demo_rate_ok: "rate_ok ledger_host a demo_ledger"
  by (simp add: rate_ok_def available_def bucket_of_def config_of_def scope_limits_def
      bucket_tokens_def RateLimitConfig_default_def ledger_host_def demo_ledger_def
      sat_add_def sat_sub_def sat_mul_def)

lemma demo_fresh: "fresh ledger_host demo_ledger"
  by (simp add: fresh_def ledger_host_def demo_ledger_def)

lemma demo_steps: "contract_steps ledger_host demo_ledger demo_registered"
  unfolding demo_registered_def
  by (rule contract_steps.step [OF contract_steps.refl contract_step.invocation])

lemma demo_deployed: "deployed ledger_host demo_ledger" "deployed ledger_host demo_registered"
  unfolding deployed_def
  by (rule exI [of _ demo_ledger], rule conjI [OF demo_fresh contract_steps.refl])
     (rule exI [of _ demo_ledger], rule conjI [OF demo_fresh demo_steps])

lemma demo_registered_docs:
  "docs ledger_host demo_registered =
     [[1] \<mapsto> \<lparr>dr_issuer = ''GISSUER'', dr_owner = ''GOWNER'', dr_timestamp = 1000, dr_status = Active\<rparr>]"
  using ledger.register_document_ok(2) [OF demo_well_typed, of "''GISSUER''" "''GOWNER''" "[1]"]
  by (simp add: demo_registered_def call_state_def guarded_docs_def demo_auth demo_rate_ok demo_docs
      spec_register_def demo_time Let_def)

lemmas contract_defs =
  invoke_def drop_value_def register_document_def check_rate_limit_def check_scope_def
  scope_limits_def RateLimitConfig_default_def bucket_tokens_def action_defs
  sat_add_def sat_sub_def sat_mul_def Let_def

lemma demo_registered_entries:
  "entries demo_registered =
     [RateLimitState (Address ''GISSUER'') \<mapsto> VBucket \<lparr>tokens = 199, last_refill = 1000\<rparr>,
      RateLimitState (Issuer ''GISSUER'') \<mapsto> VBucket \<lparr>tokens = 199, last_refill = 1000\<rparr>,
      Document [1] \<mapsto> VRecord \<lparr>dr_issuer = ''GISSUER'', dr_owner = ''GOWNER'', dr_timestamp = 1000, dr_status = Active\<rparr>]"
  "signers demo_registered = [''GISSUER'', ''GADMIN'']" "close_time demo_registered = 1000"
  by (simp_all add: demo_registered_def call_state_def contract_defs ledger_host_def demo_ledger_def fun_eq_iff)

section \<open>Refinement of the registry\<close>

text \<open>C1: \<open>register_document\<close> refines registration in the abstract registry. Without the
  issuer's signature it traps; with an exhausted bucket it fails with \<open>RateLimitExceeded\<close>; on a
  known hash it fails with \<open>AlreadyRegistered\<close>; otherwise it returns, and stores, the active
  record with the ledger's time. A failed call leaves the registry as it was.\<close>

theorem register_document_refines:
  assumes "soroban_host h" and "well_typed h s"
  shows "fst (invoke h (register_document h a owner d) s) =
           guarded_outcome h a s (spec_register (ledger_timestamp h s) a
             \<lparr>di_owner = owner, di_document_hash = d\<rparr> (docs h s)) \<and>
         docs h (snd (invoke h (register_document h a owner d) s)) =
           guarded_docs h a s (spec_register (ledger_timestamp h s) a
             \<lparr>di_owner = owner, di_document_hash = d\<rparr> (docs h s))"
  using soroban_host.register_document_ok [OF assms] by simp

theorem register_document_refines_witness:
  "docs ledger_host (snd (invoke ledger_host
     (register_document ledger_host ''GISSUER'' ''GOWNER'' [1]) demo_ledger)) [1] =
   Some \<lparr>dr_issuer = ''GISSUER'', dr_owner = ''GOWNER'', dr_timestamp = 1000, dr_status = Active\<rparr>"
  using register_document_refines [OF ledger.soroban_host_axioms demo_well_typed,
      of "''GISSUER''" "''GOWNER''" "[1]"]
  by (simp add: guarded_docs_def demo_auth demo_rate_ok demo_docs spec_register_def demo_time Let_def)

text \<open>C2: \<open>revoke_document\<close> refines revocation in the abstract registry: \<open>DocumentNotFound\<close>,
  \<open>OnlyIssuerCanRevoke\<close> and \<open>AlreadyRevoked\<close> in that order, and otherwise exactly the status of
  that record changes.\<close>

theorem revoke_document_refines:
  assumes "soroban_host h" and "well_typed h s"
  shows "fst (invoke h (revoke_document h a d) s) = guarded_outcome h a s (spec_revoke a d (docs h s)) \<and>
         docs h (snd (invoke h (revoke_document h a d) s)) = guarded_docs h a s (spec_revoke a d (docs h s))"
  using soroban_host.revoke_document_ok [OF assms] by simp

theorem revoke_document_refines_witness:
  "fst (invoke ledger_host (revoke_document ledger_host ''GISSUER'' [9]) demo_ledger) = Fail DocumentNotFound"
  using revoke_document_refines [OF ledger.soroban_host_axioms demo_well_typed, of "''GISSUER''" "[9]"]
  by (simp add: guarded_outcome_def demo_auth demo_rate_ok demo_docs spec_revoke_def)

text \<open>C3: \<open>batch_register_documents\<close> is atomic: it behaves as registering the documents one
  after the other in the abstract registry, all or none, and it succeeds exactly when the
  guards pass, the batch has between 1 and 20 documents, and their hashes are unregistered and
  pairwise distinct.\<close>

theorem batch_register_atomic:
  assumes "soroban_host h" and "well_typed h s"
  shows "fst (invoke h (batch_register_documents h a xs) s) =
           guarded_outcome h a s (spec_batch (spec_register (ledger_timestamp h s) a) xs (docs h s)) \<and>
         docs h (snd (invoke h (batch_register_documents h a xs) s)) =
           guarded_docs h a s (spec_batch (spec_register (ledger_timestamp h s) a) xs (docs h s)) \<and>
         ((\<exists>rs. fst (invoke h (batch_register_documents h a xs) s) = Done rs) \<longleftrightarrow>
            require_auth h a s \<and> rate_ok h a s \<and> 1 \<le> length xs \<and> length xs \<le> 20 \<and>
            distinct (map di_document_hash xs) \<and>
            (\<forall>x \<in> set xs. docs h s (di_document_hash x) = None))"
proof (intro conjI)
  note ok = soroban_host.batch_register_ok [OF assms, of a xs]
  from ok show "fst (invoke h (batch_register_documents h a xs) s) =
      guarded_outcome h a s (spec_batch (spec_register (ledger_timestamp h s) a) xs (docs h s))"
    and "docs h (snd (invoke h (batch_register_documents h a xs) s)) =
      guarded_docs h a s (spec_batch (spec_register (ledger_timestamp h s) a) xs (docs h s))"
    by simp_all
  have "is_ok r \<longleftrightarrow> (\<exists>p. r = Ok p)" for r :: "(ContractError, DocumentRecord list \<times> registry) result"
    by (cases r) auto
  with run_all_register_ok_iff [of "ledger_timestamp h s" a xs "docs h s"] ok(1)
  show "(\<exists>rs. fst (invoke h (batch_register_documents h a xs) s) = Done rs) \<longleftrightarrow>
      require_auth h a s \<and> rate_ok h a s \<and> 1 \<le> length xs \<and> length xs \<le> 20 \<and>
      distinct (map di_document_hash xs) \<and> (\<forall>x \<in> set xs. docs h s (di_document_hash x) = None)"
    by (auto simp: guarded_outcome_def spec_batch_def MAX_BATCH_SIZE_def Suc_le_eq
        split: result.splits)
qed

theorem batch_register_atomic_witness:
  "\<exists>rs. fst (invoke ledger_host (batch_register_documents ledger_host ''GISSUER''
       [\<lparr>di_owner = ''A'', di_document_hash = [1]\<rparr>, \<lparr>di_owner = ''B'', di_document_hash = [2]\<rparr>])
       demo_ledger) = Done rs"
proof -
  let ?xs = "[\<lparr>di_owner = ''A'', di_document_hash = [1]\<rparr>, \<lparr>di_owner = ''B'', di_document_hash = [2 :: u8]\<rparr>]"
  have "require_auth ledger_host ''GISSUER'' demo_ledger \<and> rate_ok ledger_host ''GISSUER'' demo_ledger \<and>
      1 \<le> length ?xs \<and> length ?xs \<le> 20 \<and> distinct (map di_document_hash ?xs) \<and>
      (\<forall>x \<in> set ?xs. docs ledger_host demo_ledger (di_document_hash x) = None)"
    by (simp add: demo_auth demo_rate_ok demo_docs)
  then show ?thesis
    using batch_register_atomic [OF ledger.soroban_host_axioms demo_well_typed, of "''GISSUER''" ?xs] by blast
qed

text \<open>C4: \<open>batch_revoke_documents\<close> is atomic: it behaves as revoking the hashes one after the
  other in the abstract registry, and the first error undoes the whole batch.\<close>

theorem batch_revoke_atomic:
  assumes "soroban_host h" and "well_typed h s"
  shows "fst (invoke h (batch_revoke_documents h a ds) s) =
           guarded_outcome h a s (spec_batch (spec_revoke a) ds (docs h s)) \<and>
         docs h (snd (invoke h (batch_revoke_documents h a ds) s)) =
           guarded_docs h a s (spec_batch (spec_revoke a) ds (docs h s))"
  using soroban_host.batch_revoke_ok [OF assms] by simp

theorem batch_revoke_atomic_witness:
  "fst (invoke ledger_host (batch_revoke_documents ledger_host ''GISSUER'' []) demo_ledger) = Fail BatchEmpty"
  using batch_revoke_atomic [OF ledger.soroban_host_axioms demo_well_typed, of "''GISSUER''" "[]"]
  by (simp add: guarded_outcome_def demo_auth demo_rate_ok spec_batch_def)

section \<open>Safety of every run\<close>

text \<open>C5: no sequence of calls and environment moves deletes a registered document or changes
  its issuer, owner or timestamp, and a revoked document stays exactly as it is. The calls run
  this code: what other code does after an upgrade is outside the statement.\<close>

theorem documents_are_immutable:
  assumes "soroban_host h" and "deployed h s" and "contract_steps h s s'" and "docs h s d = Some r"
  shows "\<exists>r'. docs h s' d = Some r' \<and> dr_issuer r' = dr_issuer r \<and> dr_owner r' = dr_owner r \<and>
    dr_timestamp r' = dr_timestamp r \<and> (dr_status r = Revoked \<longrightarrow> r' = r)"
  using soroban_host.steps_ages [OF assms(1,3) soroban_host.deployed_inv [OF assms(1,2)]] assms(4)
  by (auto simp: ages_def aged_def)

theorem documents_are_immutable_witness:
  "\<exists>r'. docs ledger_host demo_registered [1] = Some r' \<and> dr_owner r' = ''GOWNER''"
  using documents_are_immutable [OF ledger.soroban_host_axioms demo_deployed(2) contract_steps.refl,
      of "[1]" "\<lparr>dr_issuer = ''GISSUER'', dr_owner = ''GOWNER'', dr_timestamp = 1000, dr_status = Active\<rparr>"]
  by (auto simp: demo_registered_docs)

text \<open>C6: the record under a hash changes only in two ways. It appears, active and with the time of
  that ledger, through a registration call that names it and that its issuer signed; or it
  becomes revoked through a revocation call that names it and that its own issuer signed.\<close>

theorem record_provenance:
  assumes "soroban_host h" and "deployed h s" and "docs h (call_state h c s) d \<noteq> docs h s d"
  shows "\<exists>r. docs h (call_state h c s) d = Some r \<and> require_auth h (dr_issuer r) s \<and>
    (case docs h s d of
       None \<Rightarrow>
         dr_status r = Active \<and> dr_timestamp r = ledger_timestamp h s \<and>
         (c = CRegister (dr_issuer r) (dr_owner r) d \<or>
          (\<exists>xs. c = CBatchRegister (dr_issuer r) xs \<and> \<lparr>di_owner = dr_owner r, di_document_hash = d\<rparr> \<in> set xs))
     | Some r0 \<Rightarrow>
         r = r0\<lparr>dr_status := Revoked\<rparr> \<and>
         (c = CRevoke (dr_issuer r) d \<or> (\<exists>ds. c = CBatchRevoke (dr_issuer r) ds \<and> d \<in> set ds)))"
proof -
  have typed: "well_typed h s"
    using soroban_host.deployed_inv [OF assms(1,2)] by (simp add: contract_inv_def)
  show ?thesis
  proof (cases "docs h s d")
    case None
    with assms(3) obtain r where r: "docs h (call_state h c s) d = Some r" by auto
    note reg = soroban_host.registered_by [OF assms(1) typed None r]
    then have "dr_status r = Active" "dr_timestamp r = ledger_timestamp h s"
      by (metis DocumentRecord.select_convs(3,4))+
    with reg r None show ?thesis by (intro exI [of _ r]) simp
  next
    case (Some r0)
    with assms(3) have "docs h (call_state h c s) d \<noteq> Some r0" by simp
    from soroban_host.revoked_by [OF assms(1) typed Some this] Some show ?thesis by simp
  qed
qed

theorem record_provenance_witness:
  "require_auth ledger_host ''GISSUER'' demo_ledger \<and> ledger_timestamp ledger_host demo_ledger = 1000 \<and>
   docs ledger_host (call_state ledger_host (CRevoke ''GISSUER'' [1]) demo_registered) [1] =
     Some \<lparr>dr_issuer = ''GISSUER'', dr_owner = ''GOWNER'', dr_timestamp = 1000, dr_status = Revoked\<rparr>"
proof -
  let ?r = "\<lparr>dr_issuer = ''GISSUER'', dr_owner = ''GOWNER'', dr_timestamp = 1000, dr_status = Active\<rparr>"
  have one: "docs ledger_host (call_state ledger_host (CRegister ''GISSUER'' ''GOWNER'' [1]) demo_ledger) [1] = Some ?r"
    by (simp add: demo_registered_docs flip: demo_registered_def)
  have two: "docs ledger_host demo_registered [1] = Some ?r"
    by (simp add: demo_registered_docs)
  have "docs ledger_host (call_state ledger_host (CRevoke ''GISSUER'' [1]) demo_registered) [1] \<noteq>
      docs ledger_host demo_registered [1]"
    by (simp add: docs_def call_state_def revoke_document_def revoke_one_def contract_defs ledger_host_def
        demo_registered_entries)
  from record_provenance [OF ledger.soroban_host_axioms demo_deployed(2) this] two
  have "docs ledger_host (call_state ledger_host (CRevoke ''GISSUER'' [1]) demo_registered) [1] =
      Some (?r\<lparr>dr_status := Revoked\<rparr>)" by auto
  moreover from record_provenance [OF ledger.soroban_host_axioms demo_deployed(1), of "CRegister ''GISSUER'' ''GOWNER'' [1]" "[1]"]
    one have "require_auth ledger_host ''GISSUER'' demo_ledger" "ledger_timestamp ledger_host demo_ledger = 1000"
    by (simp_all add: demo_docs)
  ultimately show ?thesis by simp
qed

text \<open>C7: an indexer that folds the published events, starting from nothing, reconstructs issuer,
  owner and status of every stored document, in every state a deployment of this code reaches.\<close>

theorem event_log_replays_registry:
  assumes "soroban_host h" and "deployed h s"
  shows "replay (event_log h s) = summarize (docs h s)"
  using soroban_host.deployed_inv [OF assms] by (simp add: contract_inv_def)

theorem event_log_replays_registry_witness:
  "replay (event_log ledger_host demo_registered) = [[1] \<mapsto> (''GISSUER'', ''GOWNER'', Active)]"
  using event_log_replays_registry [OF ledger.soroban_host_axioms demo_deployed(2)]
  by (simp add: demo_registered_docs summarize_def fun_eq_iff)

section \<open>Governance\<close>

text \<open>C8: the contract is initialized at most once: after an administrator is stored (the version
  is then \<open>CONTRACT_VERSION\<close>), no call sequence replaces the administrator or the version. The
  calls run this code; the upgrade procedure documents that other code may change both.\<close>

theorem admin_is_permanent:
  assumes "soroban_host h" and "deployed h s" and "contract_steps h s s'" and "admin_of h s = Some a"
  shows "admin_of h s' = Some a \<and> version_of h s' = CONTRACT_VERSION"
proof -
  have inv: "contract_inv h s" "contract_inv h s'"
    using soroban_host.deployed_inv [OF assms(1,2)] soroban_host.steps_inv [OF assms(1,3)] by auto
  from assms(4) obtain v where v: "storage_get h Admin s = Some v" "as_address v = Some a"
    by (auto simp: admin_of_def split: option.splits)
  have "storage_get h Admin s' = Some v"
    by (rule soroban_host.steps_admin [OF assms(1,3) inv(1) v(1)])
  with v(2) inv(2) show ?thesis
    by (auto simp: admin_of_def version_of_def contract_inv_def governed_def)
qed

lemma demo_initialized_admin: "admin_of ledger_host demo_initialized = Some ''GADMIN''"
  by (simp add: demo_initialized_def call_state_def initialize_def contract_defs ledger_host_def
      demo_ledger_def admin_of_def)

lemma demo_initialized_auth: "require_auth ledger_host ''GISSUER'' demo_initialized"
  by (simp add: demo_initialized_def call_state_def initialize_def contract_defs ledger_host_def
      demo_ledger_def)

lemma demo_initialized_deployed: "deployed ledger_host demo_initialized"
proof -
  have "contract_steps ledger_host demo_ledger demo_initialized"
    unfolding demo_initialized_def
    by (rule contract_steps.step [OF contract_steps.refl contract_step.invocation])
  then show ?thesis unfolding deployed_def by (intro exI [of _ demo_ledger] conjI demo_fresh)
qed

theorem admin_is_permanent_witness:
  "admin_of ledger_host (call_state ledger_host (CMigrate ''GISSUER'') demo_initialized) = Some ''GADMIN''"
  using admin_is_permanent [OF ledger.soroban_host_axioms demo_initialized_deployed
      contract_steps.step [OF contract_steps.refl contract_step.invocation] demo_initialized_admin]
  by blast

text \<open>C9: the administrator-only calls answer by the gate: a missing signature traps, an
  uninitialized contract gives \<open>NotInitialized\<close>, another address \<open>Unauthorized\<close>; past it
  \<open>set_feature_flag\<close> and \<open>set_rate_limit_config\<close> succeed and take effect, and \<open>upgrade\<close> succeeds
  exactly when the host knows the new code. A rejected call changes neither flags nor limits.\<close>

theorem governance_gate:
  assumes "soroban_host h" and "deployed h s"
  shows "fst (invoke h (set_feature_flag h a f b) s) = admin_gate h a s \<and>
    fst (invoke h (set_rate_limit_config h a c) s) = admin_gate h a s \<and>
    fst (invoke h (upgrade h a w) s) =
      (if admin_gate h a s = Done () \<and> update_current_contract_wasm h w s = None then Trap else admin_gate h a s) \<and>
    flag_of h g (snd (invoke h (set_feature_flag h a f b) s)) =
      (if admin_gate h a s = Done () \<and> g = f then b else flag_of h g s) \<and>
    config_of h (snd (invoke h (set_rate_limit_config h a c) s)) =
      (if admin_gate h a s = Done () then c else config_of h s)"
proof -
  have "well_typed h s"
    using soroban_host.deployed_inv [OF assms] by (simp add: contract_inv_def)
  note wt = assms(1) this
  show ?thesis
    using soroban_host.set_flag_ok [OF wt] soroban_host.set_limits_ok [OF wt] soroban_host.upgrade_ok [OF wt]
    by blast
qed

theorem governance_gate_witness:
  "fst (invoke ledger_host (set_rate_limit_config ledger_host ''GISSUER'' RateLimitConfig_default)
     demo_initialized) = Fail Unauthorized"
  using governance_gate [OF ledger.soroban_host_axioms demo_initialized_deployed,
      of "''GISSUER''" _ _ RateLimitConfig_default]
  by (simp add: admin_gate_def demo_initialized_admin demo_initialized_auth)

section \<open>Rate limits\<close>

lemma refill_tokens:
  "unat (bucket_tokens b capacity per_second t) =
     min (min (unat (tokens b) +
               min ((unat t - unat (last_refill b)) * unat per_second) (2 ^ 64 - 1) mod 2 ^ 32) (2 ^ 32 - 1))
       (unat capacity)"
  by (simp add: bucket_tokens_def Let_def unat_min_word unat_sat_add unat_u64_as_u32 unat_sat_mul
      unat_sat_sub unat_u32_as_u64)

text \<open>C10: between two ledger times a scope is admitted at most as often as the tokens its bucket
  held at the start plus the refill of the elapsed seconds, however the calls are spread and
  in spite of the narrowing casts. A refill adds the elapsed seconds times the rate, saturated at
  64 bits and then cut to its low 32 bits, to the stored tokens, up to the capacity. The cut is
  exact below \<open>2 ^ 32\<close>; beyond it loses tokens: an empty bucket at \<open>2 ^ 31\<close> tokens per second
  is still empty after two seconds, though one second fills it.\<close>

theorem admissions_are_bounded:
  assumes "soroban_host h"
    and "storage_get h (RateLimitState scope) s = Some (VBucket b)"
    and "scope_limits config scope = (capacity, per_second)"
    and "admit_all h config scope ts s = Some s'"
    and "sorted (map unat (last_refill b # ts))"
  shows "length ts \<le> unat (tokens b) +
      unat per_second * (unat (last (last_refill b # ts)) - unat (last_refill b)) \<and>
    unat (bucket_tokens b capacity per_second t) =
      min (min (unat (tokens b) +
                min ((unat t - unat (last_refill b)) * unat per_second) (2 ^ 64 - 1) mod 2 ^ 32) (2 ^ 32 - 1))
        (unat capacity) \<and>
    bucket_tokens \<lparr>tokens = 0, last_refill = 10\<rparr> 200 2147483648 11 = 200 \<and>
    bucket_tokens \<lparr>tokens = 0, last_refill = 10\<rparr> 200 2147483648 12 = 0"
proof (intro conjI)
  show "length ts \<le> unat (tokens b) +
      unat per_second * (unat (last (last_refill b # ts)) - unat (last_refill b))"
    by (rule soroban_host.admit_all_bound [OF assms])
qed (rule refill_tokens, simp_all add: bucket_tokens_def sat_sub_def sat_mul_def sat_add_def Let_def)

theorem admissions_are_bounded_witness:
  "admit_all ledger_host RateLimitConfig_default (Address ''GISSUER'') [1000, 1000] demo_registered \<noteq> None \<and>
   length [1000, 1000 :: u64] \<le> unat (199 :: u32) + unat (100 :: u32) * (unat (1000 :: u64) - unat (1000 :: u64))"
proof -
  let ?b = "\<lparr>tokens = 199, last_refill = 1000\<rparr>"
  have "storage_get ledger_host (RateLimitState (Address ''GISSUER'')) demo_registered = Some (VBucket ?b)"
    by (simp add: ledger_host_def demo_registered_entries)
  moreover have "admit_all ledger_host RateLimitConfig_default (Address ''GISSUER'') [1000, 1000] demo_registered
      = Some (snd (check_scope ledger_host RateLimitConfig_default 1000 (Address ''GISSUER'')
          (snd (check_scope ledger_host RateLimitConfig_default 1000 (Address ''GISSUER'') demo_registered))))"
    by (simp add: contract_defs ledger_host_def demo_registered_entries)
  ultimately show ?thesis
    using admissions_are_bounded [OF ledger.soroban_host_axioms, of "Address ''GISSUER''" demo_registered ?b
        RateLimitConfig_default 200 100 "[1000, 1000]"]
    by (simp add: scope_limits_def RateLimitConfig_default_def)
qed

text \<open>C11: no reachable state holds a retry hint. A call refused by the rate limit writes one,
  but its failure makes the host undo the write, so \<open>get_rate_limit_retry_after\<close> never answers
  anything but \<open>None\<close>.\<close>

theorem retry_hint_is_never_visible:
  assumes "soroban_host h" and "deployed h s"
  shows "fst (get_rate_limit_retry_after h scope s) = Done None"
  using soroban_host.deployed_inv [OF assms]
  by (simp add: contract_inv_def no_retry_hint_def get_rate_limit_retry_after_def get_as_def)

theorem retry_hint_is_never_visible_witness:
  "fst (get_rate_limit_retry_after ledger_host (Address ''GISSUER'') demo_registered) = Done None"
  by (rule retry_hint_is_never_visible [OF ledger.soroban_host_axioms demo_deployed(2)])

section \<open>Type safety and queries\<close>

text \<open>C12: stored values always have the type they are read at: in a reachable state a call traps
  exactly when the signature it needs is missing, or when the administrator upgrades to code
  the host does not know.\<close>

theorem traps_exactly_when:
  assumes "soroban_host h" and "deployed h s"
  shows "fst (entry_point h c s) = Trap \<longleftrightarrow> unauthorized h c s \<or> unknown_code h c s"
  using soroban_host.trap_iff [OF assms(1)] soroban_host.deployed_inv [OF assms]
  by (simp add: contract_inv_def)

theorem traps_exactly_when_witness:
  "fst (entry_point ledger_host (CRevoke ''GOTHER'' [1]) demo_registered) = Trap"
  using traps_exactly_when [OF ledger.soroban_host_axioms demo_deployed(2), of "CRevoke ''GOTHER'' [1]"]
  by (simp add: unauthorized_def ledger_host_def demo_registered_entries)

text \<open>The four queries are readings of the same registry and change nothing.\<close>

lemma queries_agree:
  assumes "soroban_host h" and "deployed h s"
  shows "get_document h d s = (Done (docs h s d), s) \<and>
    document_exists h d s = (Done (docs h s d \<noteq> None), s) \<and>
    verify_document h d s = (Done (\<exists>r. docs h s d = Some r \<and> dr_status r = Active), s) \<and>
    get_document_status h d s =
      ((case docs h s d of None \<Rightarrow> Fail DocumentNotFound | Some r \<Rightarrow> Done (dr_status r)), s)"
  using soroban_host.queries_run [OF assms(1)] soroban_host.deployed_inv [OF assms]
  by (simp add: contract_inv_def)

end
