(* ===== verification/Rust_Text.thy ===== *)
theory Rust_Text
  imports Prelude
begin

text \<open>
  Rust's \<open>str\<close> as the service uses it. A \<open>str\<close> is the HOL string of its UTF-8 bytes, so
  \<open>len\<close>, \<open>as_bytes\<close>, equality and concatenation are those of lists; \<open>chars\<close>, \<open>trim\<close> and
  \<open>to_lowercase\<close> go through the code points. \<open>dec\<close> is the decimal \<open>Display\<close> of an unsigned
  integer and \<open>parse_uint\<close> the \<open>FromStr\<close> of one.
\<close>

section \<open>UTF-8\<close>

text \<open>A byte of a string as a \<open>u8\<close>.\<close>

definition byte_of :: "char \<Rightarrow> u8" where
  "byte_of c = word_of_nat (of_char c)"

lemma unat_byte_of [simp]: "unat (byte_of c) = of_char c"
  using nat_of_char_less_256 [of c] by (simp add: byte_of_def unsigned_of_nat take_bit_nat_eq_self)

lemma byte_of_inject [simp]: "byte_of a = byte_of b \<longleftrightarrow> a = b"
  by (metis of_char_eq_iff unat_byte_of)

definition scalar :: "nat \<Rightarrow> bool" where
  "scalar c \<longleftrightarrow> c < 55296 \<or> 57344 \<le> c \<and> c < 1114112"

definition utf8_bytes :: "nat \<Rightarrow> nat list" where
  "utf8_bytes c =
     (if c < 128 then [c]
      else if c < 2048 then [192 + c div 64, 128 + c mod 64]
      else if c < 65536 then [224 + c div 4096, 128 + c div 64 mod 64, 128 + c mod 64]
      else [240 + c div 262144, 128 + c div 4096 mod 64, 128 + c div 64 mod 64, 128 + c mod 64])"

definition utf8 :: "nat list \<Rightarrow> string" where
  "utf8 cs = map char_of (concat (map utf8_bytes cs))"

fun decode_bytes :: "nat list \<Rightarrow> nat list" where
  "decode_bytes [] = []"
| "decode_bytes (a # bs) =
     (if a < 128 then a # decode_bytes bs
      else if a < 224 then
        (case bs of b # bs' \<Rightarrow> ((a - 192) * 64 + (b - 128)) # decode_bytes bs' | _ \<Rightarrow> [])
      else if a < 240 then
        (case bs of b # c # bs' \<Rightarrow> ((a - 224) * 4096 + (b - 128) * 64 + (c - 128)) # decode_bytes bs' | _ \<Rightarrow> [])
      else
        (case bs of b # c # d # bs' \<Rightarrow>
           ((a - 240) * 262144 + (b - 128) * 4096 + (c - 128) * 64 + (d - 128)) # decode_bytes bs' | _ \<Rightarrow> []))"

text \<open>The code points of a string, \<open>str::chars\<close>.\<close>

definition code_points :: "string \<Rightarrow> nat list" where
  "code_points s = decode_bytes (map of_char s)"

lemma scalar_ascii [simp]: "c < 128 \<Longrightarrow> scalar c"
  by (simp add: scalar_def)

lemma utf8_bytes_less: "scalar c \<Longrightarrow> b \<in> set (utf8_bytes c) \<Longrightarrow> b < 256"
  by (auto simp: scalar_def utf8_bytes_def split: if_splits)

lemma split_64: "c div 64 * 64 + c mod 64 = (c :: nat)"
  by (rule div_mult_mod_eq)

lemma decode_utf8_bytes:
  assumes "scalar c"
  shows "decode_bytes (utf8_bytes c @ bs) = c # decode_bytes bs"
proof -
  have q: "c div 4096 = c div 64 div 64" "c div 262144 = c div 4096 div 64"
    by (simp_all add: div_mult2_eq [symmetric])
  have c3: "c div 4096 * 4096 + c div 64 mod 64 * 64 + c mod 64 = c"
    using split_64 [of c] split_64 [of "c div 64"] unfolding q by linarith
  have c4: "c div 262144 * 262144 + c div 4096 mod 64 * 4096 + c div 64 mod 64 * 64 + c mod 64 = c"
    using c3 split_64 [of "c div 4096"] unfolding q(2) by linarith
  show ?thesis
    using assms split_64 [of c] c3 c4
    by (auto simp: utf8_bytes_def scalar_def div_less_iff_less_mult less_mult_imp_div_less)
qed

lemma decode_utf8_concat:
  "list_all scalar cs \<Longrightarrow> decode_bytes (concat (map utf8_bytes cs)) = cs"
  by (induction cs) (auto simp: decode_utf8_bytes)

lemma code_points_utf8 [simp]:
  assumes "list_all scalar cs"
  shows "code_points (utf8 cs) = cs"
proof -
  have "map of_char (utf8 cs) = concat (map utf8_bytes cs)"
    unfolding utf8_def map_map
    by (rule map_idI) (use assms utf8_bytes_less in \<open>fastforce simp: list_all_iff\<close>)
  with assms show ?thesis by (simp add: code_points_def decode_utf8_concat)
qed

lemma utf8_Nil [simp]: "utf8 [] = []"
  by (simp add: utf8_def)

lemma utf8_append [simp]: "utf8 (xs @ ys) = utf8 xs @ utf8 ys"
  by (simp add: utf8_def)

lemma utf8_Cons: "utf8 (c # cs) = map char_of (utf8_bytes c) @ utf8 cs"
  by (simp add: utf8_def)

lemma utf8_eq_Nil [simp]: "utf8 cs = [] \<longleftrightarrow> cs = []"
  by (cases cs) (auto simp: utf8_Cons utf8_bytes_def)

lemma utf8_ascii: "list_all (\<lambda>c. c < 128) cs \<Longrightarrow> utf8 cs = map char_of cs"
  by (induction cs) (auto simp: utf8_Cons utf8_bytes_def)

section \<open>Whitespace and case\<close>

text \<open>\<open>char::is_whitespace\<close>: the Unicode property White_Space.\<close>

definition is_whitespace :: "nat \<Rightarrow> bool" where
  "is_whitespace c \<longleftrightarrow>
     9 \<le> c \<and> c \<le> 13 \<or> c = 32 \<or> c = 133 \<or> c = 160 \<or> c = 5760 \<or> 8192 \<le> c \<and> c \<le> 8202 \<or>
     c = 8232 \<or> c = 8233 \<or> c = 8239 \<or> c = 8287 \<or> c = 12288"

definition trim_points :: "nat list \<Rightarrow> nat list" where
  "trim_points cs = rev (dropWhile is_whitespace (rev (dropWhile is_whitespace cs)))"

definition trim :: "string \<Rightarrow> string" where
  "trim s = utf8 (trim_points (code_points s))"

text \<open>
  \<open>str::to_lowercase\<close>: exact on ASCII. The Unicode tables for the rest are the parameter
  \<open>tbl\<close>, which sees the text before and after a character (the final sigma rule looks at it).
\<close>

type_synonym case_table = "nat list \<Rightarrow> nat \<Rightarrow> nat list \<Rightarrow> nat list"

fun lower_points :: "case_table \<Rightarrow> nat list \<Rightarrow> nat list \<Rightarrow> nat list" where
  "lower_points tbl prev [] = []"
| "lower_points tbl prev (c # cs) =
     (if c < 128 then [if 65 \<le> c \<and> c \<le> 90 then c + 32 else c] else tbl prev c cs) @
     lower_points tbl (prev @ [c]) cs"

definition to_lowercase :: "case_table \<Rightarrow> string \<Rightarrow> string" where
  "to_lowercase tbl s = utf8 (lower_points tbl [] (code_points s))"

definition hex_point :: "nat \<Rightarrow> bool" where
  "hex_point c \<longleftrightarrow> 48 \<le> c \<and> c \<le> 57 \<or> 97 \<le> c \<and> c \<le> 102"

text \<open>
  What the code relies on of the Unicode tables: a non-ASCII character has a lowercase form,
  made of Unicode scalars none of which is an ASCII hexadecimal digit.
\<close>

definition case_table_ok :: "case_table \<Rightarrow> bool" where
  "case_table_ok tbl \<longleftrightarrow>
     (\<forall>prev c after. 128 \<le> c \<longrightarrow> scalar c \<longrightarrow>
        tbl prev c after \<noteq> [] \<and> list_all (\<lambda>x. scalar x \<and> \<not> hex_point x) (tbl prev c after))"

lemma case_table_okD:
  assumes "case_table_ok tbl" and "\<not> c < 128" and "scalar c"
  shows "tbl prev c after \<noteq> []" "list_all scalar (tbl prev c after)"
    "list_all (\<lambda>x. \<not> hex_point x) (tbl prev c after)"
proof -
  have "128 \<le> c" using assms(2) by simp
  with assms(1,3) have "tbl prev c after \<noteq> [] \<and> list_all (\<lambda>x. scalar x \<and> \<not> hex_point x) (tbl prev c after)"
    unfolding case_table_ok_def by blast
  then show "tbl prev c after \<noteq> []" "list_all scalar (tbl prev c after)"
    "list_all (\<lambda>x. \<not> hex_point x) (tbl prev c after)"
    by (simp_all add: list_all_iff)
qed

lemma lower_points_scalar:
  "case_table_ok tbl \<Longrightarrow> list_all scalar cs \<Longrightarrow> list_all scalar (lower_points tbl prev cs)"
proof (induction cs arbitrary: prev)
  case (Cons c cs)
  then show ?case
    using case_table_okD(2) [OF Cons.prems(1), of c prev cs] by simp
qed simp

lemma lower_points_eq_Nil:
  "case_table_ok tbl \<Longrightarrow> list_all scalar cs \<Longrightarrow> lower_points tbl prev cs = [] \<longleftrightarrow> cs = []"
  using case_table_okD(1) by (cases cs) auto

text \<open>Only ASCII letters and digits lowercase to hexadecimal digits.\<close>

lemma lower_points_hex:
  assumes "case_table_ok tbl" and "list_all scalar cs" and "list_all hex_point (lower_points tbl prev cs)"
  shows "list_all (\<lambda>c. c < 128 \<and> (hex_point c \<or> 65 \<le> c \<and> c \<le> 70)) cs"
  using assms(2,3)
proof (induction cs arbitrary: prev)
  case (Cons c cs)
  have "c < 128"
  proof (rule ccontr)
    assume "\<not> c < 128"
    with Cons.prems have "list_all hex_point (tbl prev c cs)" and "scalar c" by simp_all
    with case_table_okD [OF assms(1) \<open>\<not> c < 128\<close>, of prev cs] show False
      by (cases "tbl prev c cs") auto
  qed
  with Cons show ?case by (auto simp: hex_point_def split: if_splits)
qed simp

lemma lower_points_ascii:
  "list_all (\<lambda>c. c < 128 \<and> \<not> (65 \<le> c \<and> c \<le> 90)) cs \<Longrightarrow> lower_points tbl prev cs = cs"
  by (induction cs arbitrary: prev) auto

lemma decode_ascii: "list_all (\<lambda>c. c < 128) bs \<Longrightarrow> decode_bytes bs = bs"
  by (induction bs rule: decode_bytes.induct) auto

text \<open>ASCII text without capitals is its own lowercase.\<close>

lemma to_lowercase_plain:
  assumes "list_all (\<lambda>c. of_char c < (128 :: nat) \<and> \<not> (65 \<le> (of_char c :: nat) \<and> of_char c \<le> (90 :: nat))) s"
  shows "to_lowercase tbl s = s"
proof -
  let ?n = "map of_char s :: nat list"
  have ok: "list_all (\<lambda>c. c < 128 \<and> \<not> (65 \<le> c \<and> c \<le> 90)) ?n" using assms by (simp add: list_all_iff)
  then have "list_all (\<lambda>c. c < 128) ?n" by (simp add: list_all_iff)
  then have "to_lowercase tbl s = map char_of (map of_char s :: nat list)"
    using lower_points_ascii [OF ok] by (simp add: to_lowercase_def code_points_def decode_ascii utf8_ascii)
  then show ?thesis by (simp add: comp_def)
qed

lemma lower_points_length:
  "list_all (\<lambda>c. c < 128) cs \<Longrightarrow> length (lower_points tbl prev cs) = length cs"
  by (induction cs arbitrary: prev) auto

lemma trim_points_split:
  obtains xs ys where "cs = xs @ trim_points cs @ ys" "list_all is_whitespace xs" "list_all is_whitespace ys"
proof -
  let ?d = "dropWhile is_whitespace cs"
  have "?d = trim_points cs @ rev (takeWhile is_whitespace (rev ?d))"
    unfolding trim_points_def by (metis rev_append rev_rev_ident takeWhile_dropWhile_id)
  then have "cs = takeWhile is_whitespace cs @ trim_points cs @ rev (takeWhile is_whitespace (rev ?d))"
    by (metis takeWhile_dropWhile_id)
  moreover have "list_all is_whitespace (takeWhile is_whitespace cs)"
    "list_all is_whitespace (rev (takeWhile is_whitespace (rev ?d)))"
    by (auto simp: list_all_iff dest: set_takeWhileD)
  ultimately show ?thesis using that by blast
qed

lemma trim_points_id: "list_all (\<lambda>c. \<not> is_whitespace c) cs \<Longrightarrow> trim_points cs = cs"
proof -
  have "dropWhile P xs = xs" if "list_all (\<lambda>c. \<not> P c) xs" for P and xs :: "nat list"
    using that by (cases xs) auto
  then show "list_all (\<lambda>c. \<not> is_whitespace c) cs \<Longrightarrow> trim_points cs = cs"
    by (simp add: trim_points_def)
qed

lemma trim_plain:
  assumes "list_all (\<lambda>c. 32 < (of_char c :: nat) \<and> of_char c < (128 :: nat)) s"
  shows "trim s = s"
proof -
  let ?n = "map of_char s :: nat list"
  have ok: "list_all (\<lambda>c. c < 128) ?n" "list_all (\<lambda>c. \<not> is_whitespace c) ?n"
    using assms by (auto simp: list_all_iff is_whitespace_def)
  then have "trim s = map char_of (map of_char s :: nat list)"
    by (simp add: trim_def code_points_def decode_ascii trim_points_id utf8_ascii)
  then show ?thesis by (simp add: comp_def)
qed

section \<open>Decimal numbers\<close>

definition digit_char :: "nat \<Rightarrow> char" where
  "digit_char d = char_of (48 + d)"

definition digit_value :: "char \<Rightarrow> nat option" where
  "digit_value c = (let n = of_char c in if 48 \<le> n \<and> n \<le> 57 then Some (n - 48) else None)"

fun dec :: "nat \<Rightarrow> string" where
  "dec n = (if n < 10 then [digit_char n] else dec (n div 10) @ [digit_char (n mod 10)])"

declare dec.simps [simp del]

fun parse_digits :: "nat \<Rightarrow> string \<Rightarrow> nat option" where
  "parse_digits acc [] = Some acc"
| "parse_digits acc (c # cs) =
     (case digit_value c of None \<Rightarrow> None | Some d \<Rightarrow> parse_digits (acc * 10 + d) cs)"

text \<open>\<open>FromStr\<close> of an unsigned type with the given maximum: an optional plus sign, then digits.\<close>

definition parse_uint :: "nat \<Rightarrow> string \<Rightarrow> nat option" where
  "parse_uint limit s =
     (let ds = (case s of c # cs \<Rightarrow> if c = CHR ''+'' then cs else s | [] \<Rightarrow> [])
      in if ds = [] then None
         else case parse_digits 0 ds of
           None \<Rightarrow> None
         | Some n \<Rightarrow> if n \<le> limit then Some n else None)"

lemma digit_value_char [simp]: "d < 10 \<Longrightarrow> digit_value (digit_char d) = Some d"
  by (simp add: digit_value_def digit_char_def)

lemma parse_digits_append:
  "parse_digits acc (xs @ ys) = (case parse_digits acc xs of None \<Rightarrow> None | Some n \<Rightarrow> parse_digits n ys)"
  by (induction xs arbitrary: acc) (auto split: option.split)

lemma parse_digits_dec [simp]: "parse_digits 0 (dec n) = Some n"
proof (induction n rule: dec.induct)
  case (1 n)
  then show ?case by (subst dec.simps) (simp add: parse_digits_append)
qed

lemma dec_nonempty [simp]: "dec n \<noteq> []"
  by (subst dec.simps) simp

lemma digit_chars: "c \<in> set (dec n) \<Longrightarrow> \<exists>d < 10. c = digit_char d"
proof (induction n rule: dec.induct)
  case (1 n)
  show ?case
  proof (cases "n < 10")
    case True
    with 1(2) have "c = digit_char n" by (subst (asm) dec.simps) simp
    with True show ?thesis by blast
  next
    case False
    with 1(2) have "c \<in> set (dec (n div 10)) \<or> c = digit_char (n mod 10)"
      by (subst (asm) dec.simps) auto
    with 1(1) [OF False] show ?thesis by (auto intro: exI [of _ "n mod 10"])
  qed
qed

lemma digit_char_range: "d < 10 \<Longrightarrow> 48 \<le> (of_char (digit_char d) :: nat) \<and> (of_char (digit_char d) :: nat) \<le> 57"
  by (simp add: digit_char_def)

lemma dec_not_mem:
  assumes "(of_char c :: nat) < 48 \<or> 57 < (of_char c :: nat)"
  shows "c \<notin> set (dec n)"
  using assms digit_char_range by (fastforce dest: digit_chars)

lemma parse_uint_dec [simp]: "n \<le> limit \<Longrightarrow> parse_uint limit (dec n) = Some n"
proof -
  assume le: "n \<le> limit"
  have "CHR ''+'' \<notin> set (dec n)" by (rule dec_not_mem) simp
  then have "(case dec n of c # cs \<Rightarrow> if c = CHR ''+'' then cs else dec n | [] \<Rightarrow> []) = dec n"
    by (cases "dec n") auto
  with le show ?thesis by (simp add: parse_uint_def)
qed

lemma dec_inject [simp]: "dec m = dec n \<longleftrightarrow> m = n"
  by (metis option.inject parse_digits_dec)

lemma parse_uint_le: "parse_uint limit s = Some n \<Longrightarrow> n \<le> limit"
  by (auto simp: parse_uint_def Let_def split: if_splits option.splits)

end
