(* ===== verification/Dash_Map.thy ===== *)
theory Dash_Map
  imports Prelude
begin

text \<open>
  The concurrent map of the \<open>dashmap\<close> crate as the service uses it. The crate is not part of
  the repository, so the clients take a record of its operations; the locale states what its
  documentation promises of each single operation. An association list satisfies it.
\<close>

record ('m, 'k, 'v) dash_map_ops =
  dm_new :: 'm
  dm_iter :: "'m \<Rightarrow> ('k \<times> 'v) list"
  dm_get :: "'m \<Rightarrow> 'k \<Rightarrow> 'v option"
  dm_insert :: "'k \<Rightarrow> 'v \<Rightarrow> 'm \<Rightarrow> 'm"
  dm_remove :: "'k \<Rightarrow> 'm \<Rightarrow> 'm"
  dm_retain :: "('k \<Rightarrow> 'v \<Rightarrow> bool) \<Rightarrow> 'm \<Rightarrow> 'm"
  dm_len :: "'m \<Rightarrow> nat"
  dm_clear :: "'m \<Rightarrow> 'm"

locale dash_map =
  fixes D :: "('m, 'k, 'v) dash_map_ops"
  assumes iter_new: "dm_iter D (dm_new D) = []"
    and iter_distinct: "distinct (map fst (dm_iter D m))"
    and get_iter: "dm_get D m k = map_of (dm_iter D m) k"
    and iter_insert: "map_of (dm_iter D (dm_insert D k v m)) = (map_of (dm_iter D m))(k \<mapsto> v)"
    and iter_remove: "map_of (dm_iter D (dm_remove D k m)) = (map_of (dm_iter D m))(k := None)"
    and iter_retain: "map_of (dm_iter D (dm_retain D P m)) k =
      (case map_of (dm_iter D m) k of None \<Rightarrow> None | Some v \<Rightarrow> if P k v then Some v else None)"
    and len_iter: "dm_len D m = length (dm_iter D m)"
    and iter_clear: "dm_iter D (dm_clear D m) = []"
begin

lemma get_new [simp]: "dm_get D (dm_new D) k = None"
  by (simp add: get_iter iter_new)

lemma get_insert [simp]: "dm_get D (dm_insert D k v m) k' = (if k' = k then Some v else dm_get D m k')"
  by (simp add: get_iter iter_insert)

lemma get_remove [simp]: "dm_get D (dm_remove D k m) k' = (if k' = k then None else dm_get D m k')"
  by (simp add: get_iter iter_remove)

lemma get_clear [simp]: "dm_get D (dm_clear D m) k = None"
  by (simp add: get_iter iter_clear)

lemma get_retain [simp]:
  "dm_get D (dm_retain D P m) k =
     (case dm_get D m k of None \<Rightarrow> None | Some v \<Rightarrow> if P k v then Some v else None)"
  by (simp add: get_iter iter_retain)

lemma mem_iter: "k \<in> set (map fst (dm_iter D m)) \<longleftrightarrow> dm_get D m k \<noteq> None"
  by (metis get_iter map_of_eq_None_iff set_map)

lemma len_card: "dm_len D m = card (dom (dm_get D m))"
proof -
  have "dom (dm_get D m) = set (map fst (dm_iter D m))"
    by (auto simp: get_iter [abs_def] dom_map_of_conv_image_fst)
  then show ?thesis
    using distinct_card [OF iter_distinct [of m]] by (simp add: len_iter)
qed

lemma len_insert:
  "dm_len D (dm_insert D k v m) = (if dm_get D m k = None then dm_len D m + 1 else dm_len D m)"
proof -
  have fin: "finite (dom (dm_get D m))"
    by (simp add: get_iter [abs_def] finite_dom_map_of)
  have "dom (dm_get D (dm_insert D k v m)) = insert k (dom (dm_get D m))"
    by (auto split: if_splits)
  with fin show ?thesis by (auto simp: len_card insert_absorb domIff)
qed

end

text \<open>The association list with distinct keys: the interface can be met.\<close>

typedef ('k, 'v) dlist_map = "{xs :: ('k \<times> 'v) list. distinct (map fst xs)}"
  by (rule exI [of _ "[]"]) simp

setup_lifting type_definition_dlist_map

lift_definition dlm_entries :: "('k, 'v) dlist_map \<Rightarrow> ('k \<times> 'v) list" is "\<lambda>xs. xs" .

lift_definition dlm_new :: "('k, 'v) dlist_map" is "[]" by simp

lift_definition dlm_insert :: "'k \<Rightarrow> 'v \<Rightarrow> ('k, 'v) dlist_map \<Rightarrow> ('k, 'v) dlist_map" is AList.update
  by (rule distinct_update)

lift_definition dlm_remove :: "'k \<Rightarrow> ('k, 'v) dlist_map \<Rightarrow> ('k, 'v) dlist_map" is AList.delete
  by (simp add: distinct_delete)

lift_definition dlm_retain :: "('k \<Rightarrow> 'v \<Rightarrow> bool) \<Rightarrow> ('k, 'v) dlist_map \<Rightarrow> ('k, 'v) dlist_map"
  is "\<lambda>P. filter (\<lambda>(k, v). P k v)"
  by (simp add: distinct_map_filter)

definition alist_dash_map :: "(('k, 'v) dlist_map, 'k, 'v) dash_map_ops" where
  "alist_dash_map =
     \<lparr>dm_new = dlm_new, dm_iter = dlm_entries, dm_get = (\<lambda>m. map_of (dlm_entries m)),
      dm_insert = dlm_insert, dm_remove = dlm_remove, dm_retain = dlm_retain, dm_len = (\<lambda>m. length (dlm_entries m)),
      dm_clear = (\<lambda>m. dlm_new)\<rparr>"

lemma dlm_entries_simps [simp]:
  "dlm_entries dlm_new = []"
  "distinct (map fst (dlm_entries m))"
  "dlm_entries (dlm_insert k v m) = AList.update k v (dlm_entries m)"
  "dlm_entries (dlm_remove k m) = AList.delete k (dlm_entries m)"
  "dlm_entries (dlm_retain P m) = filter (\<lambda>(k, v). P k v) (dlm_entries m)"
  by (transfer, simp)+

lemma map_of_retain:
  "distinct (map fst xs) \<Longrightarrow> map_of (filter (\<lambda>(k, v). P k v) xs) k =
     (case map_of xs k of None \<Rightarrow> None | Some v \<Rightarrow> if P k v then Some v else None)"
  by (induction xs) (auto simp: map_of_eq_None_iff split: option.split)

interpretation alist_dash: dash_map alist_dash_map
  by unfold_locales (simp_all add: alist_dash_map_def update_conv' delete_conv' map_of_retain)

end
