(* ===== verification/Hash_Validator.thy ===== *)
theory Hash_Validator
  imports Rust_Text Dash_Map
begin

unbundle bit_operations_syntax

text \<open>
  Hash validation and canonicalization (\<open>src/src/hash_validator.rs\<close>): the constant-time and
  the legacy validator, \<open>CanonicalHash\<close>, the conversion to 32 bytes and the duplicate
  registry. The crates \<open>subtle\<close>, \<open>hex\<close>, \<open>base64\<close> and \<open>dashmap\<close> are parameters; a panic is the
  value \<open>None\<close>.
\<close>

section \<open>Data\<close>

definition STELLAR_MEMO_TEXT_MAX_BYTES :: nat where
  "STELLAR_MEMO_TEXT_MAX_BYTES = 28"

definition STELLAR_MEMO_HASH_BYTES :: nat where
  "STELLAR_MEMO_HASH_BYTES = 32"

text \<open>\<open>WrongLength expected actual\<close>; \<open>InvalidCharacter position character\<close>, characters as code points.\<close>

datatype ValidationError =
    WrongLength nat nat
  | InvalidCharacter nat nat
  | EmptyHash
  | UnsupportedAlgorithm
  | NotCanonical
  | InvalidStellarMemoFormat
  | HashAlreadyRegistered

fun validation_message :: "ValidationError \<Rightarrow> string" where
  "validation_message (WrongLength e a) =
     ''hash length '' @ dec a @ '' does not match expected '' @ dec e"
| "validation_message (InvalidCharacter p c) =
     ''invalid character '' @ [char_of (39 :: nat)] @ utf8 [c] @ [char_of (39 :: nat)] @ '' at position '' @ dec p"
| "validation_message EmptyHash = ''hash cannot be empty''"
| "validation_message UnsupportedAlgorithm = ''hash algorithm not supported for contract submission''"
| "validation_message NotCanonical =
     ''hash is not in canonical form (must be lowercase hex without whitespace)''"
| "validation_message InvalidStellarMemoFormat = ''hash does not match Stellar memo format requirements''"
| "validation_message HashAlreadyRegistered = ''hash has already been registered''"

datatype HashAlgorithm = SHA256 | SHA512

fun hex_length :: "HashAlgorithm \<Rightarrow> nat" where
  "hex_length SHA256 = 64"
| "hex_length SHA512 = 128"

fun byte_length :: "HashAlgorithm \<Rightarrow> nat" where
  "byte_length SHA256 = 32"
| "byte_length SHA512 = 64"

record CanonicalHash =
  inner :: string

record HashEntry =
  he_timestamp :: int
  he_algorithm :: HashAlgorithm

section \<open>The crates\<close>

text \<open>\<open>subtle\<close>: constant-time equality and \<open>Choice::from\<close>, whose argument must be 0 or 1.\<close>

record subtle_ops =
  ct_eq_usize :: "nat \<Rightarrow> nat \<Rightarrow> bool"
  ct_eq_bytes :: "string \<Rightarrow> string \<Rightarrow> bool"
  choice_from :: "u8 \<Rightarrow> bool"

locale subtle_crate =
  fixes S :: subtle_ops
  assumes ct_eq_usize: "ct_eq_usize S m n \<longleftrightarrow> m = n"
    and ct_eq_bytes: "ct_eq_bytes S s t \<longleftrightarrow> s = t"
    and choice_zero: "\<not> choice_from S 0"
    and choice_one: "choice_from S 1"

text \<open>Equality by accumulated difference, as the crate computes it.\<close>

definition diff_bytes :: "string \<Rightarrow> string \<Rightarrow> u8" where
  "diff_bytes s t = fold (\<lambda>(a, b) acc. acc OR (byte_of a XOR byte_of b)) (zip s t) 0"

definition subtle_ref :: subtle_ops where
  "subtle_ref =
     \<lparr>ct_eq_usize = (\<lambda>m n. m = n),
      ct_eq_bytes = (\<lambda>s t. length s = length t \<and> diff_bytes s t = 0),
      choice_from = (\<lambda>b. b \<noteq> 0)\<rparr>"

section \<open>Canonical shape\<close>

definition hex_byte :: "char \<Rightarrow> bool" where
  "hex_byte b \<longleftrightarrow> hex_point (of_char b)"

definition is_canonical_shape_with_len :: "string \<Rightarrow> nat \<Rightarrow> bool" where
  "is_canonical_shape_with_len hash len \<longleftrightarrow>
     (if length hash \<noteq> len then False else list_all hex_byte hash)"

definition is_canonical_shape :: "string \<Rightarrow> bool" where
  "is_canonical_shape hash = is_canonical_shape_with_len hash (hex_length SHA256)"

definition is_canonical :: "string \<Rightarrow> HashAlgorithm \<Rightarrow> bool" where
  "is_canonical hash algorithm = is_canonical_shape_with_len hash (hex_length algorithm)"

definition detect_algorithm :: "string \<Rightarrow> HashAlgorithm option" where
  "detect_algorithm hash =
     (if length hash = 64 then Some SHA256 else if length hash = 128 then Some SHA512 else None)"

section \<open>Validators\<close>

definition normalize :: "case_table \<Rightarrow> string \<Rightarrow> string" where
  "normalize tbl hash = to_lowercase tbl (trim hash)"

text \<open>The accumulation loop: every byte is visited and and-ed into the mask.\<close>

fun valid_mask :: "u8 \<Rightarrow> string \<Rightarrow> u8" where
  "valid_mask all_valid [] = all_valid"
| "valid_mask all_valid (b # bs) =
     valid_mask (all_valid AND ((if hex_byte b then 1 else 0) AND 1)) bs"

definition first_bad :: "string \<Rightarrow> nat" where
  "first_bad bs = (let p = length (takeWhile hex_byte bs) in if p < length bs then p else 0)"

definition validate_with_length_constant_time ::
    "subtle_ops \<Rightarrow> string \<Rightarrow> nat \<Rightarrow> (ValidationError, unit) result" where
  "validate_with_length_constant_time S hash expected_len =
     (let is_empty = ct_eq_usize S 0 (length hash);
          wrong_len = (\<not> ct_eq_usize S expected_len (length hash));
          bad_chars = (\<not> choice_from S (valid_mask 255 hash))
      in if is_empty then Err EmptyHash
         else if wrong_len then Err (WrongLength expected_len (length hash))
         else if bad_chars then
           Err (InvalidCharacter (first_bad hash) (of_char (hash ! first_bad hash)))
         else Ok ())"

definition validate_sha256_constant_time :: "subtle_ops \<Rightarrow> string \<Rightarrow> (ValidationError, unit) result" where
  "validate_sha256_constant_time S hash = validate_with_length_constant_time S hash 64"

definition validate_sha512_constant_time :: "subtle_ops \<Rightarrow> string \<Rightarrow> (ValidationError, unit) result" where
  "validate_sha512_constant_time S hash = validate_with_length_constant_time S hash 128"

fun check_chars :: "nat \<Rightarrow> nat list \<Rightarrow> (ValidationError, unit) result" where
  "check_chars idx [] = Ok ()"
| "check_chars idx (ch # chs) =
     (if \<not> hex_point ch then Err (InvalidCharacter idx ch) else check_chars (idx + 1) chs)"

definition validate_with_length :: "case_table \<Rightarrow> string \<Rightarrow> nat \<Rightarrow> (ValidationError, unit) result" where
  "validate_with_length tbl hash expected_len =
     (let normalized = normalize tbl hash in
      if normalized = [] then Err EmptyHash
      else if length normalized \<noteq> expected_len then Err (WrongLength expected_len (length normalized))
      else check_chars 0 (code_points normalized))"

definition validate_sha256 :: "case_table \<Rightarrow> string \<Rightarrow> (ValidationError, unit) result" where
  "validate_sha256 tbl hash = validate_with_length tbl hash 64"

definition validate_sha512 :: "case_table \<Rightarrow> string \<Rightarrow> (ValidationError, unit) result" where
  "validate_sha512 tbl hash = validate_with_length tbl hash 128"

definition validate_for_contract :: "subtle_ops \<Rightarrow> string \<Rightarrow> (ValidationError, string) result" where
  "validate_for_contract S hash =
     (if hash = [] then Err EmptyHash
      else if \<not> is_canonical_shape hash then
        (if length hash = hex_length SHA512 then Err UnsupportedAlgorithm
         else if length hash = hex_length SHA256 then Err NotCanonical
         else Err (WrongLength (hex_length SHA256) (length hash)))
      else case validate_sha256_constant_time S hash of
        Err e \<Rightarrow> Err e
      | Ok _ \<Rightarrow> Ok hash)"

section \<open>Bytes\<close>

definition hex_nibble :: "u8 \<Rightarrow> u8 option" where
  "hex_nibble b =
     (if 48 \<le> b \<and> b \<le> 57 then Some (b - 48)
      else if 97 \<le> b \<and> b \<le> 102 then Some (b - 97 + 10)
      else None)"

fun chunks2 :: "'a list \<Rightarrow> 'a list list" where
  "chunks2 [] = []"
| "chunks2 [a] = [[a]]"
| "chunks2 (a # b # xs) = [a, b] # chunks2 xs"

text \<open>
  The loop of \<open>hex_to_bytes32\<close>. \<open>None\<close> is a panic: \<open>chunk[1]\<close> of a one-byte chunk or
  \<open>bytes[i]\<close> past the array.
\<close>

fun hex_loop :: "nat \<Rightarrow> u8 list list \<Rightarrow> u8 list \<Rightarrow> (ValidationError, u8 list) result option" where
  "hex_loop i [] bytes = Some (Ok bytes)"
| "hex_loop i (chunk # chunks) bytes =
     (case chunk of
        [] \<Rightarrow> None
      | b0 # rest \<Rightarrow>
          (case hex_nibble b0 of
             None \<Rightarrow> Some (Err (InvalidCharacter (i * 2) (unat b0)))
           | Some hi \<Rightarrow>
               (case rest of
                  [] \<Rightarrow> None
                | b1 # _ \<Rightarrow>
                    (case hex_nibble b1 of
                       None \<Rightarrow> Some (Err (InvalidCharacter (i * 2 + 1) (unat b1)))
                     | Some lo \<Rightarrow>
                         if i < length bytes
                         then hex_loop (i + 1) chunks (bytes[i := push_bit 4 hi OR lo])
                         else None))))"

definition hex_to_bytes32 :: "case_table \<Rightarrow> string \<Rightarrow> (ValidationError, u8 list) result option" where
  "hex_to_bytes32 tbl hex =
     (case validate_with_length tbl hex 64 of
        Err e \<Rightarrow> Some (Err e)
      | Ok _ \<Rightarrow> hex_loop 0 (chunks2 (map byte_of hex)) (replicate 32 0))"

section \<open>CanonicalHash\<close>

definition CanonicalHash_new :: "subtle_ops \<Rightarrow> string \<Rightarrow> (ValidationError, CanonicalHash) result" where
  "CanonicalHash_new S hash =
     (if hash = [] then Err EmptyHash
      else if \<not> is_canonical_shape hash then
        (let all_hex = list_all hex_byte hash in
         if all_hex then Err (WrongLength (hex_length SHA256) (length hash)) else Err NotCanonical)
      else case validate_sha256_constant_time S hash of
        Err e \<Rightarrow> Err e
      | Ok _ \<Rightarrow> Ok \<lparr>inner = hash\<rparr>)"

definition enforce_canonical :: "subtle_ops \<Rightarrow> string \<Rightarrow> (ValidationError, CanonicalHash) result" where
  "enforce_canonical S hash = CanonicalHash_new S hash"

definition from_bytes :: "(u8 list \<Rightarrow> string) \<Rightarrow> u8 list \<Rightarrow> CanonicalHash" where
  "from_bytes hex_encode bytes = \<lparr>inner = hex_encode bytes\<rparr>"

definition as_str :: "CanonicalHash \<Rightarrow> string" where
  "as_str h = inner h"

definition CanonicalHash_display :: "CanonicalHash \<Rightarrow> string" where
  "CanonicalHash_display h = inner h"

text \<open>The \<open>Debug\<close> output as its list of fields.\<close>

definition CanonicalHash_debug :: "CanonicalHash \<Rightarrow> (string \<times> string) list" where
  "CanonicalHash_debug h = [(''hash'', ''***REDACTED***'')]"

definition to_bytes :: "case_table \<Rightarrow> CanonicalHash \<Rightarrow> (ValidationError, u8 list) result option" where
  "to_bytes tbl h = hex_to_bytes32 tbl (inner h)"

definition validate_stellar_memo :: "CanonicalHash \<Rightarrow> (ValidationError, unit) result" where
  "validate_stellar_memo h =
     (case detect_algorithm (inner h) of
        Some SHA256 \<Rightarrow> Ok ()
      | Some SHA512 \<Rightarrow> Err InvalidStellarMemoFormat
      | None \<Rightarrow> Err InvalidStellarMemoFormat)"

definition to_stellar_memo_hash :: "case_table \<Rightarrow> CanonicalHash \<Rightarrow> (ValidationError, u8 list) result option" where
  "to_stellar_memo_hash tbl h =
     (case validate_stellar_memo h of Err e \<Rightarrow> Some (Err e) | Ok _ \<Rightarrow> to_bytes tbl h)"

definition to_stellar_memo_base64 ::
    "(u8 list \<Rightarrow> string) \<Rightarrow> case_table \<Rightarrow> CanonicalHash \<Rightarrow> (ValidationError, string) result option" where
  "to_stellar_memo_base64 base64_encode tbl h =
     (case to_stellar_memo_hash tbl h of
        None \<Rightarrow> None
      | Some (Err e) \<Rightarrow> Some (Err e)
      | Some (Ok bytes) \<Rightarrow> Some (Ok (base64_encode bytes)))"

section \<open>HashRegistry\<close>

type_synonym 'm registry_ops = "('m, string, HashEntry) dash_map_ops"

definition HashRegistry_new :: "'m registry_ops \<Rightarrow> 'm" where
  "HashRegistry_new D = dm_new D"

text \<open>The scan shared by \<open>register\<close> and \<open>contains\<close>: no early exit.\<close>

fun scan :: "subtle_ops \<Rightarrow> string \<Rightarrow> bool \<Rightarrow> (string \<times> HashEntry) list \<Rightarrow> bool" where
  "scan S key seen [] = seen"
| "scan S key seen (existing # rest) =
     scan S key (if ct_eq_bytes S (fst existing) key then True else seen) rest"

definition registry_contains :: "subtle_ops \<Rightarrow> 'm registry_ops \<Rightarrow> CanonicalHash \<Rightarrow> 'm \<Rightarrow> bool" where
  "registry_contains S D hash m = scan S (as_str hash) False (dm_iter D m)"

text \<open>\<open>register\<close> is two operations on the shared map: the scan, then the insertion.\<close>

definition register_insert :: "'m registry_ops \<Rightarrow> int \<Rightarrow> CanonicalHash \<Rightarrow> 'm \<Rightarrow> 'm" where
  "register_insert D timestamp hash m =
     dm_insert D (inner hash) \<lparr>he_timestamp = timestamp, he_algorithm = SHA256\<rparr> m"

definition register ::
    "subtle_ops \<Rightarrow> 'm registry_ops \<Rightarrow> int \<Rightarrow> CanonicalHash \<Rightarrow> 'm \<Rightarrow> (ValidationError, unit) result \<times> 'm" where
  "register S D timestamp hash m =
     (let seen = scan S (as_str hash) False (dm_iter D m) in
      if seen then (Err HashAlreadyRegistered, m)
      else (Ok (), register_insert D timestamp hash m))"

text \<open>
  One thread inside \<open>register\<close>, at the granularity of its two operations on the shared map, and
  two threads registering under a schedule (\<open>True\<close> lets the first one move).
\<close>

datatype register_pc = Scanning | Inserting | Returned "(ValidationError, unit) result"

fun register_step ::
    "subtle_ops \<Rightarrow> 'm registry_ops \<Rightarrow> int \<Rightarrow> CanonicalHash \<Rightarrow> register_pc \<times> 'm \<Rightarrow> register_pc \<times> 'm" where
  "register_step S D timestamp hash (Scanning, m) =
     (if scan S (as_str hash) False (dm_iter D m) then (Returned (Err HashAlreadyRegistered), m)
      else (Inserting, m))"
| "register_step S D timestamp hash (Inserting, m) =
     (Returned (Ok ()), register_insert D timestamp hash m)"
| "register_step S D timestamp hash (Returned r, m) = (Returned r, m)"

fun two_registers ::
    "subtle_ops \<Rightarrow> 'm registry_ops \<Rightarrow> int \<Rightarrow> CanonicalHash \<Rightarrow> bool list \<Rightarrow>
     register_pc \<times> register_pc \<times> 'm \<Rightarrow> register_pc \<times> register_pc \<times> 'm" where
  "two_registers S D ts h [] st = st"
| "two_registers S D ts h (first # sched) (p, q, m) =
     (if first then case register_step S D ts h (p, m) of (p', m') \<Rightarrow> two_registers S D ts h sched (p', q, m')
      else case register_step S D ts h (q, m) of (q', m') \<Rightarrow> two_registers S D ts h sched (p, q', m'))"

definition registry_len :: "'m registry_ops \<Rightarrow> 'm \<Rightarrow> nat" where
  "registry_len D m = dm_len D m"

definition registry_is_empty :: "'m registry_ops \<Rightarrow> 'm \<Rightarrow> bool" where
  "registry_is_empty D m \<longleftrightarrow> dm_len D m = 0"

definition registry_clear :: "'m registry_ops \<Rightarrow> 'm \<Rightarrow> 'm" where
  "registry_clear D m = dm_clear D m"

end
