(* ===== verification/Hash_Correct.thy ===== *)
theory Hash_Correct
  imports Hash_Validator
begin

text \<open>
  Correctness of the hash validator: the branch-free mask decides canonical shape, the decoder
  never indexes out of range and inverts the hexadecimal encoding, and the registry accepts a
  hash once when calls do not interleave.
\<close>

section \<open>Specifications\<close>

definition canonical_hex :: "nat \<Rightarrow> string \<Rightarrow> bool" where
  "canonical_hex n s \<longleftrightarrow> length s = n \<and> list_all hex_byte s"

definition hex_digit :: "u8 \<Rightarrow> char" where
  "hex_digit d = (if d < 10 then char_of (48 + unat d) else char_of (87 + unat d))"

text \<open>Lowercase hexadecimal, two digits per byte: what the \<open>hex\<close> crate documents of \<open>encode\<close>.\<close>

definition hex_string :: "u8 list \<Rightarrow> string" where
  "hex_string bs = concat (map (\<lambda>b. [hex_digit (drop_bit 4 b), hex_digit (b AND 15)]) bs)"

section \<open>Bytes and nibbles\<close>

lemma hex_nibble_iff: "hex_nibble (byte_of c) = None \<longleftrightarrow> \<not> hex_byte c"
  by (auto simp: hex_nibble_def hex_byte_def hex_point_def word_le_nat_alt)

lemma byte_of_char_of: "n < 256 \<Longrightarrow> byte_of (char_of n) = word_of_nat n"
  by (simp add: byte_of_def)

lemma hex_digit_nibble:
  assumes "d < 16"
  shows "hex_nibble (byte_of (hex_digit d)) = Some d"
proof (cases "d < 10")
  case True
  then have "byte_of (hex_digit d) = 48 + d"
    by (simp add: hex_digit_def byte_of_char_of word_less_nat_alt)
  moreover have "unat (48 + d) = 48 + unat d"
    using True by (simp add: unat_word_ariths word_less_nat_alt)
  ultimately show ?thesis using True by (simp add: hex_nibble_def word_le_nat_alt word_less_nat_alt)
next
  case False
  then have "byte_of (hex_digit d) = 87 + d"
    using assms by (simp add: hex_digit_def byte_of_char_of word_less_nat_alt)
  moreover have "unat (87 + d) = 87 + unat d"
    using assms by (simp add: unat_word_ariths word_less_nat_alt)
  ultimately show ?thesis using False assms by (simp add: hex_nibble_def word_le_nat_alt word_less_nat_alt)
qed

lemma low_nibble: "b AND 15 = take_bit 4 b" for b :: u8
  by (simp add: take_bit_eq_mask mask_eq_exp_minus_1)

lemma nibble_join: "push_bit 4 (drop_bit 4 b) OR (b AND 15) = b" for b :: u8
  unfolding low_nibble by (rule bit_eqI) (auto simp: bit_simps)

lemma nibble_less: "drop_bit 4 b < 16" "b AND 15 < 16" for b :: u8
proof -
  show "drop_bit 4 b < 16"
    using unsigned_less [where ?'a = nat and w = b]
    by (simp add: drop_bit_eq_div word_less_nat_alt unat_div less_mult_imp_div_less)
  show "b AND 15 < 16"
    unfolding low_nibble by (simp add: take_bit_eq_mod word_less_nat_alt unat_mod)
qed

lemma hex_byte_digit: "d < 16 \<Longrightarrow> hex_byte (hex_digit d)"
  using hex_digit_nibble [of d] hex_nibble_iff [of "hex_digit d"] by simp

text \<open>Every hexadecimal byte is the digit of its nibble.\<close>

lemma hex_nibble_digit:
  assumes "hex_nibble (byte_of c) = Some d"
  shows "d < 16" "hex_digit d = c"
proof -
  let ?n = "of_char c :: nat"
  have n: "48 \<le> ?n \<and> ?n \<le> 57 \<and> unat d = ?n - 48 \<or> 97 \<le> ?n \<and> ?n \<le> 102 \<and> unat d = ?n - 87"
    using assms by (auto simp: hex_nibble_def word_le_nat_alt unat_word_ariths unat_sub split: if_splits)
  then show "d < 16" by (auto simp: word_less_nat_alt)
  from n show "hex_digit d = c" by (auto simp: hex_digit_def word_less_nat_alt)
qed

section \<open>The decoding loop\<close>

lemma hex_string_simps [simp]:
  "hex_string [] = []"
  "hex_string (b # bs) = hex_digit (drop_bit 4 b) # hex_digit (b AND 15) # hex_string bs"
  by (simp_all add: hex_string_def)

lemma length_hex_string [simp]: "length (hex_string bs) = 2 * length bs"
  by (induction bs) auto

lemma canonical_hex_string: "list_all hex_byte (hex_string bs)"
  by (induction bs) (auto simp: hex_byte_digit nibble_less)

lemma hex_loop_string:
  "length bytes = i + length bs \<Longrightarrow>
     hex_loop i (chunks2 (map byte_of (hex_string bs))) bytes = Some (Ok (take i bytes @ bs))"
proof (induction bs arbitrary: i bytes)
  case (Cons b bs)
  then have "take (i + 1) (bytes[i := b]) @ bs = take i bytes @ b # bs"
    by (simp add: take_Suc_conv_app_nth)
  with Cons.IH [of "bytes[i := b]" "i + 1"] Cons.prems show ?case
    by (simp add: hex_digit_nibble nibble_less nibble_join)
qed simp

lemma nibble_bits:
  assumes "(d :: u8) < 16" and "bit d m"
  shows "m < 4"
proof -
  have "take_bit 4 d = d"
    using assms(1) by (simp add: take_bit_eq_mod word_less_nat_alt word_unat_eq_iff unat_mod)
  with assms(2) show ?thesis by (metis bit_take_bit_iff)
qed

lemma canonical_is_hex_string:
  "list_all hex_byte s \<Longrightarrow> length s = 2 * n \<Longrightarrow> \<exists>bs. length bs = n \<and> s = hex_string bs"
proof (induction n arbitrary: s)
  case (Suc n)
  then obtain a b t where s: "s = a # b # t" by (auto simp: length_Suc_conv)
  with Suc obtain bs where bs: "length bs = n" "t = hex_string bs" by force
  from s Suc.prems obtain hi lo where nib: "hex_nibble (byte_of a) = Some hi" "hex_nibble (byte_of b) = Some lo"
    using hex_nibble_iff [of a] hex_nibble_iff [of b] by auto
  let ?x = "push_bit 4 hi OR lo"
  have hl: "hi < 16" "lo < 16" using nib hex_nibble_digit by blast+
  have "drop_bit 4 ?x = hi" "?x AND 15 = lo"
    unfolding low_nibble
    by (rule bit_eqI; auto simp: bit_simps dest: nibble_bits [OF hl(1)] nibble_bits [OF hl(2)])+
  with nib have "s = hex_string (?x # bs)"
    by (simp add: s bs hex_nibble_digit)
  with bs show ?case by (metis length_Cons)
qed simp

text \<open>
  The loop on any text: at least as many bytes as fill the array, and behind them a byte that
  is not a hexadecimal digit (or nothing) keep every index in range.
\<close>

lemma hex_loop_total:
  assumes "length t = 2 * k" and "length bytes = i + k" and "w = [] \<or> \<not> hex_byte (hd w)"
  shows "\<exists>r. hex_loop i (chunks2 (map byte_of (t @ w))) bytes = Some r \<and>
    (is_ok r \<longrightarrow> w = [] \<and> list_all hex_byte t)"
  using assms
proof (induction k arbitrary: t i bytes)
  case 0
  then show ?case
    by (cases w; cases "tl w") (auto simp: hex_nibble_iff split: option.split)
next
  case (Suc k)
  then obtain a b t' where t: "t = a # b # t'" by (auto simp: length_Suc_conv)
  show ?case
    using Suc.IH [of t' "bytes[i := x]" "i + 1" for x] Suc.prems
    by (auto simp: t hex_nibble_iff split: option.split)
       (metis hex_nibble_iff option.distinct(1))+
qed

lemma hex_loop_bad_start:
  "\<not> hex_byte (hd s) \<Longrightarrow> s \<noteq> [] \<Longrightarrow>
     \<exists>e. hex_loop i (chunks2 (map byte_of s)) bytes = Some (Err e)"
  using hex_nibble_iff [of "hd s"] by (cases s; cases "tl s") auto

section \<open>Text\<close>

lemma ws_not_hex: "is_whitespace c \<Longrightarrow> \<not> hex_byte (hd (utf8 (c # cs)))"
  by (auto simp: is_whitespace_def utf8_Cons utf8_bytes_def hex_byte_def hex_point_def)

lemma code_points_hex: "list_all hex_byte s \<Longrightarrow> code_points s = map of_char s"
  unfolding code_points_def
  by (rule decode_ascii) (auto simp: list_all_iff hex_byte_def hex_point_def)

lemma hex_points_ascii: "list_all hex_point cs \<Longrightarrow> list_all (\<lambda>c. c < 128) cs"
  by (induction cs) (auto simp: hex_point_def)

lemma normalize_hex:
  assumes "list_all hex_byte s"
  shows "normalize tbl s = s"
proof -
  let ?cs = "map of_char s :: nat list"
  have cs: "list_all hex_point ?cs"
    using assms by (auto simp: list_all_iff hex_byte_def)
  then have ascii: "list_all (\<lambda>c. c < 128) ?cs"
    by (rule hex_points_ascii)
  from cs have "trim_points ?cs = ?cs"
    by (intro trim_points_id) (auto simp: list_all_iff hex_point_def is_whitespace_def)
  moreover have "utf8 ?cs = s"
    by (simp add: utf8_ascii [OF ascii] comp_def)
  ultimately have "trim s = s"
    by (simp add: trim_def code_points_hex assms)
  moreover have "lower_points tbl [] ?cs = ?cs"
    using cs by (intro lower_points_ascii) (auto simp: list_all_iff hex_point_def)
  ultimately show ?thesis
    using \<open>utf8 ?cs = s\<close> by (simp add: normalize_def to_lowercase_def code_points_hex assms)
qed

lemma check_chars_ok: "check_chars i chs = Ok () \<longleftrightarrow> list_all hex_point chs"
  by (induction chs arbitrary: i) auto

lemma validate_canonical: "canonical_hex n s \<Longrightarrow> 0 < n \<Longrightarrow> validate_with_length tbl s n = Ok ()"
  by (auto simp: canonical_hex_def validate_with_length_def normalize_hex Let_def code_points_hex
      check_chars_ok list_all_iff hex_byte_def)

text \<open>What an accepted text looks like: whitespace around hexadecimal digits of either case.\<close>

lemma validate_shape:
  assumes "case_table_ok tbl" and "list_all scalar cs" and "validate_with_length tbl (utf8 cs) n = Ok ()"
  obtains xs t ys where "cs = xs @ t @ ys" "list_all is_whitespace xs" "list_all is_whitespace ys"
    "length t = n" "list_all (\<lambda>c. c < 128) t"
proof -
  obtain xs ys where split: "cs = xs @ trim_points cs @ ys" "list_all is_whitespace xs" "list_all is_whitespace ys"
    by (rule trim_points_split)
  let ?t = "trim_points cs" and ?l = "lower_points tbl [] (trim_points cs)"
  have "list_all scalar (xs @ ?t @ ys)" using assms(2) split(1) by metis
  then have st: "list_all scalar ?t" by simp
  then have sl: "list_all scalar ?l" by (rule lower_points_scalar [OF assms(1)])
  have norm: "normalize tbl (utf8 cs) = utf8 ?l"
    using assms(2) st by (simp add: normalize_def trim_def to_lowercase_def)
  with assms(3) sl have hex: "list_all hex_point ?l" and len: "length (utf8 ?l) = n"
    by (auto simp: validate_with_length_def Let_def check_chars_ok split: if_splits)
  have t: "list_all (\<lambda>c. c < 128) ?t"
    using lower_points_hex [OF assms(1) st hex] by (auto simp: list_all_iff)
  have "length ?l = length ?t"
    by (rule lower_points_length [OF t])
  moreover have "length (utf8 ?l) = length ?l"
    by (simp add: utf8_ascii [OF hex_points_ascii [OF hex]])
  ultimately show ?thesis using that [OF split] t len by simp
qed

section \<open>Decoding\<close>

lemma hex_to_bytes32_canonical:
  assumes "length bs = 32"
  shows "hex_to_bytes32 tbl (hex_string bs) = Some (Ok bs)"
  using hex_loop_string [of "replicate 32 0" 0 bs] validate_canonical [of 64 "hex_string bs" tbl] assms
  by (simp add: hex_to_bytes32_def canonical_hex_def canonical_hex_string)

lemma hex_to_bytes32_total:
  assumes "case_table_ok tbl" and "list_all scalar cs"
  obtains r where "hex_to_bytes32 tbl (utf8 cs) = Some r" "is_ok r \<longrightarrow> canonical_hex 64 (utf8 cs)"
proof (cases "validate_with_length tbl (utf8 cs) 64")
  case (Err e)
  then have "hex_to_bytes32 tbl (utf8 cs) = Some (Err e)" by (simp add: hex_to_bytes32_def)
  then show ?thesis using that by simp
next
  case (Ok u)
  then have ok: "validate_with_length tbl (utf8 cs) 64 = Ok ()" by simp
  obtain xs t ys where cs: "cs = xs @ t @ ys" "list_all is_whitespace xs" "list_all is_whitespace ys"
      "length t = 64" "list_all (\<lambda>c. c < 128) t"
    by (rule validate_shape [OF assms ok])
  have run: "hex_to_bytes32 tbl (utf8 cs) = hex_loop 0 (chunks2 (map byte_of (utf8 cs))) (replicate 32 0)"
    using ok by (simp add: hex_to_bytes32_def)
  have len: "length (utf8 t) = 2 * 32" by (simp add: utf8_ascii [OF cs(5)] cs(4))
  show ?thesis
  proof (cases xs)
    case Nil
    have "utf8 ys = [] \<or> \<not> hex_byte (hd (utf8 ys))"
      using cs(3) ws_not_hex by (cases ys) auto
    from hex_loop_total [OF len _ this, of "replicate 32 0" 0] obtain r
      where "hex_loop 0 (chunks2 (map byte_of (utf8 t @ utf8 ys))) (replicate 32 0) = Some r"
        "is_ok r \<longrightarrow> utf8 ys = [] \<and> list_all hex_byte (utf8 t)"
      by auto
    with run len show ?thesis
      by (intro that [of r]) (auto simp: cs(1) Nil canonical_hex_def)
  next
    case (Cons x xs')
    then have "\<not> hex_byte (hd (utf8 cs))"
      using cs(2) ws_not_hex by (simp add: cs(1))
    with hex_loop_bad_start [of "utf8 cs" 0 "replicate 32 0"] run cs(1) Cons show ?thesis
      by (metis append_Cons is_ok.simps(2) list.distinct(1) that utf8_eq_Nil)
  qed
qed

section \<open>The constant-time validator\<close>

lemma valid_mask_eq:
  "valid_mask m s = (if s = [] then m else if list_all hex_byte s then m AND 1 else 0)"
  by (induction s arbitrary: m) (auto simp: and.assoc)

lemma first_bad_props:
  assumes "\<not> list_all hex_byte s"
  shows "first_bad s < length s" "\<not> hex_byte (s ! first_bad s)" "list_all hex_byte (take (first_bad s) s)"
proof -
  let ?p = "length (takeWhile hex_byte s)"
  have lt: "?p < length s"
    using assms by (metis length_takeWhile_le linorder_neqE_nat list_all_iff set_takeWhileD takeWhile_eq_take take_all verit_comp_simplify1(3))
  then have p: "first_bad s = ?p" by (simp add: first_bad_def)
  show "first_bad s < length s" using lt p by simp
  show "\<not> hex_byte (s ! first_bad s)" using lt by (simp add: p nth_length_takeWhile)
  show "list_all hex_byte (take (first_bad s) s)"
    by (auto simp: p list_all_iff takeWhile_eq_take [symmetric] dest: set_takeWhileD)
qed

context subtle_crate
begin

lemma ct_validate_eq:
  "validate_with_length_constant_time S s n =
     (if s = [] then Err EmptyHash
      else if length s \<noteq> n then Err (WrongLength n (length s))
      else if \<not> list_all hex_byte s then Err (InvalidCharacter (first_bad s) (of_char (s ! first_bad s)))
      else Ok ())"
  by (simp add: validate_with_length_constant_time_def ct_eq_usize valid_mask_eq choice_zero choice_one)

lemma new_eq:
  "CanonicalHash_new S s =
     (if s = [] then Err EmptyHash
      else if canonical_hex 64 s then Ok \<lparr>inner = s\<rparr>
      else if list_all hex_byte s then Err (WrongLength 64 (length s))
      else Err NotCanonical)"
  by (simp add: CanonicalHash_new_def is_canonical_shape_def is_canonical_shape_with_len_def canonical_hex_def
      validate_sha256_constant_time_def ct_validate_eq)

lemma contract_eq:
  "validate_for_contract S s =
     (if s = [] then Err EmptyHash
      else if canonical_hex 64 s then Ok s
      else if length s = 128 then Err UnsupportedAlgorithm
      else if length s = 64 then Err NotCanonical
      else Err (WrongLength 64 (length s)))"
  by (simp add: validate_for_contract_def is_canonical_shape_def is_canonical_shape_with_len_def canonical_hex_def
      validate_sha256_constant_time_def ct_validate_eq)

lemma scan_eq: "scan S key seen es \<longleftrightarrow> seen \<or> key \<in> set (map fst es)"
  by (induction es arbitrary: seen) (auto simp: ct_eq_bytes)

end

lemma diff_fold: "fold (\<lambda>(a, b) acc. acc OR (byte_of a XOR byte_of b)) ps x = 0 \<longleftrightarrow>
    x = 0 \<and> (\<forall>(a, b) \<in> set ps. a = b)"
proof (induction ps arbitrary: x)
  case (Cons p ps)
  have "x OR (byte_of a XOR byte_of b) = 0 \<longleftrightarrow> x = 0 \<and> a = b" for a b
    by (metis byte_of_inject or_eq_0_iff xor_self_eq xor.assoc xor.left_neutral)
  with Cons show ?case by (cases p) auto
qed simp

interpretation subtle: subtle_crate subtle_ref
proof
  fix s t :: string
  have "length s = length t \<Longrightarrow> (\<forall>(a, b) \<in> set (zip s t). a = b) \<longleftrightarrow> s = t"
    by (induction s t rule: list_induct2) auto
  then show "ct_eq_bytes subtle_ref s t \<longleftrightarrow> s = t"
    by (auto simp: subtle_ref_def diff_bytes_def diff_fold)
qed (auto simp: subtle_ref_def)

section \<open>The registry\<close>

text \<open>The client of both crates: constant-time comparison and the concurrent map.\<close>

locale hash_registry = subtle_crate S + dash_map D
  for S :: subtle_ops and D :: "('m, string, HashEntry) dash_map_ops"
begin

lemma contains_iff: "registry_contains S D h m \<longleftrightarrow> dm_get D m (inner h) \<noteq> None"
  unfolding registry_contains_def as_str_def scan_eq by (simp only: mem_iter simp_thms)

lemma register_eq:
  "register S D ts h m =
     (if registry_contains S D h m then (Err HashAlreadyRegistered, m)
      else (Ok (), register_insert D ts h m))"
  by (simp add: register_def registry_contains_def)

lemma contains_cong: "inner h = inner h' \<Longrightarrow> registry_contains S D h m = registry_contains S D h' m"
  by (simp add: contains_iff)

lemma contains_new: "\<not> registry_contains S D h (HashRegistry_new D)"
  by (simp add: contains_iff HashRegistry_new_def)

lemma len_new: "registry_len D (HashRegistry_new D) = 0"
  by (simp add: registry_len_def HashRegistry_new_def len_iter iter_new)

lemma register_steps:
  "register S D ts h m = (r, m') \<Longrightarrow>
     register_step S D ts h (register_step S D ts h (Scanning, m)) = (Returned r, m')"
  by (auto simp: register_def split: if_splits)

lemma contains_insert:
  "registry_contains S D h (register_insert D ts h' m) \<longleftrightarrow> inner h = inner h' \<or> registry_contains S D h m"
  by (simp add: contains_iff register_insert_def)

lemma len_register_insert:
  "registry_len D (register_insert D ts h m) =
     (if registry_contains S D h m then registry_len D m else registry_len D m + 1)"
  by (simp add: registry_len_def register_insert_def len_insert contains_iff)

end

interpretation registry: hash_registry subtle_ref alist_dash_map
  by unfold_locales

end
