(* ===== verification/Hash_Claims.thy ===== *)
theory Hash_Claims
  imports Hash_Correct
begin

text \<open>The properties of the hash validator and of the duplicate registry, with witnesses.\<close>

section \<open>Data for the witnesses\<close>

definition demo_hex :: string where
  "demo_hex = replicate 64 (CHR ''a'')"

definition ascii_table :: case_table where
  "ascii_table before c after = [c]"

lemma ascii_table_ok: "case_table_ok ascii_table"
  by (auto simp: case_table_ok_def ascii_table_def hex_point_def)

lemma demo_hex_canonical: "canonical_hex 64 demo_hex"
  by (auto simp: canonical_hex_def demo_hex_def list_all_iff hex_byte_def hex_point_def)

lemma demo_hex_utf8: "demo_hex = utf8 (replicate 64 97)" "list_all scalar (replicate 64 97)"
  by (simp_all add: demo_hex_def utf8_ascii list_all_iff) code_simp

section \<open>Validation\<close>

text \<open>C13: the constant-time validator, which folds every byte into a mask and branches only
  afterwards, gives the verdict of the specification: emptiness, then length, then the first
  byte that is not a lowercase hexadecimal digit.\<close>

theorem constant_time_validator_correct:
  assumes "subtle_crate S"
  shows "validate_with_length_constant_time S s n =
     (if s = [] then Err EmptyHash
      else if length s \<noteq> n then Err (WrongLength n (length s))
      else if list_all hex_byte s then Ok ()
      else Err (InvalidCharacter (first_bad s) (of_char (s ! first_bad s)))) \<and>
    (\<not> list_all hex_byte s \<longrightarrow>
       first_bad s < length s \<and> \<not> hex_byte (s ! first_bad s) \<and> list_all hex_byte (take (first_bad s) s))"
  using subtle_crate.ct_validate_eq [OF assms] first_bad_props [of s] by simp

theorem constant_time_validator_correct_witness:
  "validate_with_length_constant_time subtle_ref ''0g'' 2 = Err (InvalidCharacter 1 103)"
  using constant_time_validator_correct [OF subtle.subtle_crate_axioms, of "''0g''" 2]
  by (simp add: hex_byte_def hex_point_def first_bad_def)

text \<open>C14: the two boundary checks accept the same strings, exactly the 64 lowercase hexadecimal
  digits, and never change what they accept. Every rejection has one error, and each error has
  exactly one cause: \<open>validate_for_contract\<close> judges the length first (128 is an unsupported
  algorithm, any other length but 64 is wrong) and the digits only at length 64, \<open>CanonicalHash::new\<close>
  judges the digits first and the length of hexadecimal text only.\<close>

theorem canonical_policy:
  assumes "subtle_crate S"
  shows "(validate_for_contract S s = Ok r \<longleftrightarrow> canonical_hex 64 s \<and> r = s) \<and>
    (CanonicalHash_new S s = Ok h \<longleftrightarrow> canonical_hex 64 s \<and> inner h = s) \<and>
    (validate_for_contract S s = Err e \<longleftrightarrow>
       e = EmptyHash \<and> s = [] \<or>
       e = UnsupportedAlgorithm \<and> length s = 128 \<or>
       e = NotCanonical \<and> length s = 64 \<and> \<not> list_all hex_byte s \<or>
       e = WrongLength 64 (length s) \<and> length s \<notin> {0, 64, 128}) \<and>
    (CanonicalHash_new S s = Err e \<longleftrightarrow>
       e = EmptyHash \<and> s = [] \<or>
       e = NotCanonical \<and> \<not> list_all hex_byte s \<or>
       e = WrongLength 64 (length s) \<and> length s \<notin> {0, 64} \<and> list_all hex_byte s)"
proof (intro conjI)
  note eqs = subtle_crate.new_eq [OF assms, of s] subtle_crate.contract_eq [OF assms, of s] canonical_hex_def
  show "validate_for_contract S s = Ok r \<longleftrightarrow> canonical_hex 64 s \<and> r = s"
    by (auto simp: eqs)
  show "CanonicalHash_new S s = Ok h \<longleftrightarrow> canonical_hex 64 s \<and> inner h = s"
    by (cases h) (auto simp: eqs)
  show "validate_for_contract S s = Err e \<longleftrightarrow>
       e = EmptyHash \<and> s = [] \<or>
       e = UnsupportedAlgorithm \<and> length s = 128 \<or>
       e = NotCanonical \<and> length s = 64 \<and> \<not> list_all hex_byte s \<or>
       e = WrongLength 64 (length s) \<and> length s \<notin> {0, 64, 128}"
    by (auto simp: eqs)
  show "CanonicalHash_new S s = Err e \<longleftrightarrow>
       e = EmptyHash \<and> s = [] \<or>
       e = NotCanonical \<and> \<not> list_all hex_byte s \<or>
       e = WrongLength 64 (length s) \<and> length s \<notin> {0, 64} \<and> list_all hex_byte s"
    unfolding eqs by auto
qed

theorem canonical_policy_witness:
  "validate_for_contract subtle_ref demo_hex = Ok demo_hex \<and>
   validate_for_contract subtle_ref (replicate 65 (CHR ''g'')) = Err (WrongLength 64 65) \<and>
   CanonicalHash_new subtle_ref (replicate 65 (CHR ''g'')) = Err NotCanonical"
proof (intro conjI)
  have g: "\<not> list_all hex_byte (replicate 65 (CHR ''g''))"
    by (simp add: list_all_iff hex_byte_def hex_point_def)
  show "validate_for_contract subtle_ref demo_hex = Ok demo_hex"
    using canonical_policy [OF subtle.subtle_crate_axioms] demo_hex_canonical by blast
  show "validate_for_contract subtle_ref (replicate 65 (CHR ''g'')) = Err (WrongLength 64 65)"
    using canonical_policy [OF subtle.subtle_crate_axioms, of "replicate 65 (CHR ''g'')"] by simp
  show "CanonicalHash_new subtle_ref (replicate 65 (CHR ''g'')) = Err NotCanonical"
    using canonical_policy [OF subtle.subtle_crate_axioms] g by blast
qed

section \<open>Bytes\<close>

text \<open>C15: \<open>hex_to_bytes32\<close> never panics, on any Rust string: although it validates the trimmed,
  lowercased text and then indexes the raw bytes in pairs, no index leaves the array. It
  succeeds exactly on the canonical strings.\<close>

theorem hex_to_bytes32_never_panics:
  assumes "case_table_ok tbl" and "list_all scalar cs"
  shows "\<exists>r. hex_to_bytes32 tbl (utf8 cs) = Some r \<and> (is_ok r \<longleftrightarrow> canonical_hex 64 (utf8 cs))"
proof -
  obtain r where r: "hex_to_bytes32 tbl (utf8 cs) = Some r" "is_ok r \<longrightarrow> canonical_hex 64 (utf8 cs)"
    by (rule hex_to_bytes32_total [OF assms])
  moreover have "is_ok r" if canon: "canonical_hex 64 (utf8 cs)"
  proof -
    obtain bs where "length bs = 32" "utf8 cs = hex_string bs"
      using canonical_is_hex_string [of "utf8 cs" 32] canon by (force simp: canonical_hex_def)
    with r(1) show ?thesis by (auto simp: hex_to_bytes32_canonical)
  qed
  ultimately show ?thesis by blast
qed

theorem hex_to_bytes32_never_panics_witness:
  "\<exists>r. hex_to_bytes32 ascii_table demo_hex = Some r \<and> is_ok r"
  using hex_to_bytes32_never_panics [OF ascii_table_ok demo_hex_utf8(2)] demo_hex_canonical
  by (auto simp flip: demo_hex_utf8(1))

text \<open>C16: hexadecimal text and 32 bytes are in bijection: decoding the canonical hash of an array
  gives the array back, and every canonical hash is the encoding of the bytes it decodes to,
  which are also its Stellar memo.\<close>

theorem canonical_hash_roundtrip:
  assumes "hex_encode = hex_string"
  shows "(length bs = 32 \<longrightarrow>
            canonical_hex 64 (inner (from_bytes hex_encode bs)) \<and>
            to_bytes tbl (from_bytes hex_encode bs) = Some (Ok bs)) \<and>
         (canonical_hex 64 (inner h) \<longrightarrow>
            (\<exists>bytes. length bytes = 32 \<and> to_bytes tbl h = Some (Ok bytes) \<and>
               to_stellar_memo_hash tbl h = Some (Ok bytes) \<and> from_bytes hex_encode bytes = h))"
proof (rule conjI; rule impI)
  assume "length bs = 32"
  then show "canonical_hex 64 (inner (from_bytes hex_encode bs)) \<and>
      to_bytes tbl (from_bytes hex_encode bs) = Some (Ok bs)"
    by (simp add: assms from_bytes_def to_bytes_def hex_to_bytes32_canonical canonical_hex_def canonical_hex_string)
next
  assume canon: "canonical_hex 64 (inner h)"
  then obtain bytes where "length bytes = 32" "inner h = hex_string bytes"
    using canonical_is_hex_string [of "inner h" 32] by (force simp: canonical_hex_def)
  then show "\<exists>bytes. length bytes = 32 \<and> to_bytes tbl h = Some (Ok bytes) \<and>
      to_stellar_memo_hash tbl h = Some (Ok bytes) \<and> from_bytes hex_encode bytes = h"
    using canon
    by (intro exI [of _ bytes], cases h)
       (simp add: assms from_bytes_def to_bytes_def to_stellar_memo_hash_def validate_stellar_memo_def
          detect_algorithm_def hex_to_bytes32_canonical canonical_hex_def)
qed

theorem canonical_hash_roundtrip_witness:
  "to_bytes ascii_table (from_bytes hex_string (replicate 32 171)) = Some (Ok (replicate 32 171))"
  using canonical_hash_roundtrip [OF refl, of "replicate 32 171" ascii_table] by simp

section \<open>Duplicates\<close>

text \<open>Run one after the other, \<open>register\<close> succeeds exactly on a hash not yet contained, makes it
  contained, grows the registry by one and leaves the answers for other hashes alone.\<close>

lemma register_once:
  assumes "hash_registry S D" and "register S D ts h m = (r, m')"
  shows "(r = Ok () \<longleftrightarrow> \<not> registry_contains S D h m) \<and> (r \<noteq> Ok () \<longrightarrow> r = Err HashAlreadyRegistered \<and> m' = m) \<and>
    (registry_contains S D h' m' \<longleftrightarrow> registry_contains S D h' m \<or> inner h' = inner h) \<and>
    registry_len D m' = registry_len D m + (if r = Ok () then 1 else 0)"
proof (cases "registry_contains S D h m")
  case True
  with assms(2) have "r = Err HashAlreadyRegistered" "m' = m"
    by (simp_all add: hash_registry.register_eq [OF assms(1)])
  with True show ?thesis by (auto simp: hash_registry.contains_iff [OF assms(1)])
next
  case False
  with assms(2) have "r = Ok ()" "m' = register_insert D ts h m"
    by (simp_all add: hash_registry.register_eq [OF assms(1)])
  with False show ?thesis
    by (simp add: hash_registry.contains_insert [OF assms(1)] hash_registry.len_register_insert [OF assms(1)] disj_commute)
qed

text \<open>C17: calls of \<open>register\<close> that do not interleave succeed exactly on a hash not yet contained, make
  it contained, grow the registry by one and leave the answers for other hashes alone. But
  \<open>register\<close> is a scan and an insertion, two operations on the shared map: when two threads
  register one hash and both scan before either inserts, both report success and the registry
  holds one entry.\<close>

theorem register_race:
  assumes "hash_registry S D" and "register S D ts h m = (r, m')"
  shows "(r = Ok () \<longleftrightarrow> \<not> registry_contains S D h m) \<and> (r \<noteq> Ok () \<longrightarrow> r = Err HashAlreadyRegistered \<and> m' = m) \<and>
    (registry_contains S D h' m' \<longleftrightarrow> registry_contains S D h' m \<or> inner h' = inner h) \<and>
    registry_len D m' = registry_len D m + (if r = Ok () then 1 else 0) \<and>
    register_step S D ts h (register_step S D ts h (Scanning, m)) = (Returned r, m') \<and>
    (\<exists>m. two_registers S D ts h [True, False, True, False] (Scanning, Scanning, HashRegistry_new D) =
           (Returned (Ok ()), Returned (Ok ()), m) \<and> registry_len D m = 1)"
proof -
  have "\<not> scan S (as_str h) False (dm_iter D (HashRegistry_new D))"
    using hash_registry.contains_new [OF assms(1), of h] by (simp add: registry_contains_def)
  then have "\<exists>m. two_registers S D ts h [True, False, True, False] (Scanning, Scanning, HashRegistry_new D) =
      (Returned (Ok ()), Returned (Ok ()), m) \<and> registry_len D m = 1"
    by (simp add: hash_registry.len_register_insert [OF assms(1)] hash_registry.contains_insert [OF assms(1)]
        hash_registry.contains_new [OF assms(1)] hash_registry.len_new [OF assms(1)])
  then show ?thesis
    using hash_registry.register_steps [OF assms(1)] register_once [OF assms, of h'] assms(2) by simp
qed

theorem register_race_witness:
  "fst (register subtle_ref alist_dash_map 0 \<lparr>inner = demo_hex\<rparr>
      (snd (register subtle_ref alist_dash_map 0 \<lparr>inner = demo_hex\<rparr> (HashRegistry_new alist_dash_map)))) =
   Err HashAlreadyRegistered"
proof -
  let ?h = "\<lparr>inner = demo_hex\<rparr>" and ?m = "HashRegistry_new alist_dash_map"
  let ?m1 = "snd (register subtle_ref alist_dash_map 0 ?h ?m)"
  note R = register_race [OF registry.hash_registry_axioms]
  from R [OF surjective_pairing, of 0 ?h ?m ?h]
  have "registry_contains subtle_ref alist_dash_map ?h ?m1" by simp
  with R [OF surjective_pairing, of 0 ?h ?m1 ?h] show ?thesis by blast
qed

end
