(* ===== verification/Metrics.thy ===== *)
theory Metrics
  imports Complex_Main Rust_Text
begin

text \<open>
  The metrics registry (\<open>src/src/metrics.rs\<close>). The Prometheus client is not part of the
  repository: which constructors, registrations and calls it accepts is the parameter
  \<open>prometheus\<close>, with its documented rules as the laws of the locale \<open>prometheus_client\<close>. The state of
  the metrics is the sequence of instrument calls the service makes, in order;
  \<open>counter_value\<close> and \<open>gauge_value\<close> read it the way Prometheus documents its instruments.
  Gauge and histogram values are rationals where the source has \<open>f64\<close>.
\<close>

section \<open>Instruments\<close>

datatype instrument_kind = Counter | IntCounter | IntCounterVec | Gauge | HistogramVec

record opts =
  o_kind :: instrument_kind
  o_name :: string
  o_help :: string
  o_labels :: "string list"

datatype instrument =
    RequestCount
  | ErrorCount
  | CacheHits
  | CacheMisses
  | CacheExpired
  | CacheSerializationFailures
  | CacheSize
  | CacheEvictions
  | CacheHitRate
  | DocumentRegistrationTotal
  | DocumentRevocationTotal
  | VerificationTotal
  | VerificationLatencySeconds
  | HorizonLatencySeconds
  | RetryTotal
  | RateLimitTokensConsumed
  | RateLimitTokensRefilled
  | RateLimitViolations
  | RateLimitResets
  | RateLimitHits
  | RateLimitRejections
  | EventDuplicates
  | EventOrderingFailures
  | EventBacklogSize
  | ConfigValidationFailures
  | ConfigReloadTotal
  | CircuitState
  | CircuitTransitionsTotal
  | CircuitStateChangesTotal
  | CacheCircuitState
  | CacheCircuitTransitionsTotal
  | CacheCircuitRejectionsTotal
  | CacheCircuitRecoveriesTotal
  | CacheFallbackUsesTotal
  | CacheBulkheadActive
  | CacheBulkheadRejectionsTotal
  | WebhookDeliveriesTotal
  | WebhookDeliveryLatencySeconds
  | WebhookDlqDepth
  | WebhookRetriesTotal

definition request_opts :: "(instrument \<times> opts) list" where
  "request_opts =
     [
      (RequestCount, \<lparr>o_kind = Counter, o_name = ''requests_total'',
        o_help = ''Total number of API requests'', o_labels = []\<rparr>),
      (ErrorCount, \<lparr>o_kind = Counter, o_name = ''errors_total'',
        o_help = ''Total number of errors encountered'', o_labels = []\<rparr>)]"

definition cache_opts :: "(instrument \<times> opts) list" where
  "cache_opts =
     [
      (CacheHits, \<lparr>o_kind = IntCounter, o_name = ''cache_hits_total'',
        o_help = ''Total cache hits'', o_labels = []\<rparr>),
      (CacheMisses, \<lparr>o_kind = IntCounter, o_name = ''cache_misses_total'',
        o_help = ''Total cache misses'', o_labels = []\<rparr>),
      (CacheExpired, \<lparr>o_kind = IntCounter, o_name = ''cache_expired_total'',
        o_help = ''Total cache entries returned as miss due to TTL expiry'', o_labels = []\<rparr>),
      (CacheSerializationFailures, \<lparr>o_kind = IntCounter, o_name = ''cache_serialization_failures_total'',
        o_help = ''Total cache serialization/deserialization failures'', o_labels = []\<rparr>),
      (CacheSize, \<lparr>o_kind = Gauge, o_name = ''cache_size'',
        o_help = ''Current number of entries in cache'', o_labels = []\<rparr>),
      (CacheEvictions, \<lparr>o_kind = IntCounter, o_name = ''cache_evictions_total'',
        o_help = ''Total cache evictions'', o_labels = []\<rparr>),
      (CacheHitRate, \<lparr>o_kind = Gauge, o_name = ''cache_hit_rate'',
        o_help = ''Current cache hit rate (0-1)'', o_labels = []\<rparr>)]"

definition document_opts :: "(instrument \<times> opts) list" where
  "document_opts =
     [
      (DocumentRegistrationTotal, \<lparr>o_kind = IntCounterVec, o_name = ''document_registration_total'',
        o_help = ''Total document registrations by outcome'', o_labels = [''status'']\<rparr>),
      (DocumentRevocationTotal, \<lparr>o_kind = IntCounterVec, o_name = ''document_revocation_total'',
        o_help = ''Total document revocations by outcome'', o_labels = [''status'']\<rparr>)]"

definition verification_opts :: "(instrument \<times> opts) list" where
  "verification_opts =
     [
      (VerificationTotal, \<lparr>o_kind = IntCounterVec, o_name = ''verification_total'',
        o_help = ''Total verifications by outcome'', o_labels = [''status'']\<rparr>),
      (VerificationLatencySeconds, \<lparr>o_kind = HistogramVec, o_name = ''verification_latency_seconds'',
        o_help = ''End-to-end verification latency in seconds'', o_labels = [''status'']\<rparr>),
      (HorizonLatencySeconds, \<lparr>o_kind = HistogramVec, o_name = ''horizon_latency_seconds'',
        o_help = ''Stellar Horizon API call latency in seconds'', o_labels = [''status'']\<rparr>),
      (RetryTotal, \<lparr>o_kind = IntCounter, o_name = ''retry_total'',
        o_help = ''Total number of retry attempts across all operations'', o_labels = []\<rparr>)]"

definition rate_limit_opts :: "(instrument \<times> opts) list" where
  "rate_limit_opts =
     [
      (RateLimitTokensConsumed, \<lparr>o_kind = IntCounter, o_name = ''rate_limit_tokens_consumed_total'',
        o_help = ''Total rate limiter tokens consumed (legacy global limiter)'', o_labels = []\<rparr>),
      (RateLimitTokensRefilled, \<lparr>o_kind = IntCounter, o_name = ''rate_limit_tokens_refilled_total'',
        o_help = ''Total rate limiter tokens replenished by time-based bucket refill'', o_labels = []\<rparr>),
      (RateLimitViolations, \<lparr>o_kind = IntCounter, o_name = ''rate_limit_violations_total'',
        o_help = ''Total rate limit violations '' @ utf8 [8211] @ '' legacy global limiter (requests rejected)'', o_labels = []\<rparr>),
      (RateLimitResets, \<lparr>o_kind = IntCounter, o_name = ''rate_limit_resets_total'',
        o_help = ''Total rate limiter bucket resets or refills after exhaustion'', o_labels = []\<rparr>),
      (RateLimitHits, \<lparr>o_kind = IntCounterVec, o_name = ''rate_limit_hits_total'',
        o_help = ''Total requests that passed rate limiting, labelled by issuer'', o_labels = [''issuer'']\<rparr>),
      (RateLimitRejections, \<lparr>o_kind = IntCounterVec, o_name = ''rate_limit_rejections_total'',
        o_help = ''Total requests rejected by rate limiting, labelled by issuer and tier'', o_labels = [''issuer'', ''tier'']\<rparr>)]"

definition event_opts :: "(instrument \<times> opts) list" where
  "event_opts =
     [
      (EventDuplicates, \<lparr>o_kind = IntCounter, o_name = ''event_duplicates_total'',
        o_help = ''Total duplicate events detected and discarded'', o_labels = []\<rparr>),
      (EventOrderingFailures, \<lparr>o_kind = IntCounter, o_name = ''event_ordering_failures_total'',
        o_help = ''Total events rejected due to ordering/sequence failures'', o_labels = []\<rparr>),
      (EventBacklogSize, \<lparr>o_kind = Gauge, o_name = ''event_backlog_size'',
        o_help = ''Current number of unprocessed events in the backlog queue'', o_labels = []\<rparr>)]"

definition config_opts :: "(instrument \<times> opts) list" where
  "config_opts =
     [
      (ConfigValidationFailures, \<lparr>o_kind = IntCounter, o_name = ''config_validation_failures_total'',
        o_help = ''Total configuration validation failures'', o_labels = []\<rparr>),
      (ConfigReloadTotal, \<lparr>o_kind = IntCounter, o_name = ''config_reload_total'',
        o_help = ''Total configuration reloads attempted'', o_labels = []\<rparr>)]"

definition circuit_opts :: "(instrument \<times> opts) list" where
  "circuit_opts =
     [
      (CircuitState, \<lparr>o_kind = Gauge, o_name = ''circuit_breaker_state'',
        o_help = ''Current circuit breaker state (0=closed, 1=open, 2=half_open)'', o_labels = []\<rparr>),
      (CircuitTransitionsTotal, \<lparr>o_kind = IntCounterVec, o_name = ''circuit_breaker_transitions_total'',
        o_help = ''Total circuit breaker state transitions by target state'', o_labels = [''to_state'']\<rparr>),
      (CircuitStateChangesTotal, \<lparr>o_kind = IntCounterVec, o_name = ''circuit_breaker_state_changes_total'',
        o_help = ''Total circuit breaker state changes by from_state and to_state'', o_labels = [''from_state'', ''to_state'']\<rparr>)]"

definition cache_circuit_opts :: "(instrument \<times> opts) list" where
  "cache_circuit_opts =
     [
      (CacheCircuitState, \<lparr>o_kind = Gauge, o_name = ''cache_circuit_breaker_state'',
        o_help = ''Current cache circuit breaker state (0=closed, 1=open, 2=half_open)'', o_labels = []\<rparr>),
      (CacheCircuitTransitionsTotal, \<lparr>o_kind = IntCounterVec, o_name = ''cache_circuit_breaker_transitions_total'',
        o_help = ''Total cache circuit breaker state transitions'', o_labels = [''from_state'', ''to_state'']\<rparr>),
      (CacheCircuitRejectionsTotal, \<lparr>o_kind = IntCounter, o_name = ''cache_circuit_breaker_rejections_total'',
        o_help = ''Total cache operations rejected by circuit breaker'', o_labels = []\<rparr>),
      (CacheCircuitRecoveriesTotal, \<lparr>o_kind = IntCounter, o_name = ''cache_circuit_breaker_recoveries_total'',
        o_help = ''Total cache circuit breaker recovery successes'', o_labels = []\<rparr>),
      (CacheFallbackUsesTotal, \<lparr>o_kind = IntCounter, o_name = ''cache_fallback_uses_total'',
        o_help = ''Total cache operations falling back to InMemory'', o_labels = []\<rparr>),
      (CacheBulkheadActive, \<lparr>o_kind = Gauge, o_name = ''cache_bulkhead_active_operations'',
        o_help = ''Current number of active cache bulkhead operations'', o_labels = []\<rparr>),
      (CacheBulkheadRejectionsTotal, \<lparr>o_kind = IntCounter, o_name = ''cache_bulkhead_rejections_total'',
        o_help = ''Total cache operations rejected by bulkhead'', o_labels = []\<rparr>)]"

definition webhook_opts :: "(instrument \<times> opts) list" where
  "webhook_opts =
     [
      (WebhookDeliveriesTotal, \<lparr>o_kind = IntCounterVec, o_name = ''webhook_deliveries_total'',
        o_help = ''Total webhook delivery attempts by outcome'', o_labels = [''status'']\<rparr>),
      (WebhookDeliveryLatencySeconds, \<lparr>o_kind = HistogramVec, o_name = ''webhook_delivery_latency_seconds'',
        o_help = ''End-to-end webhook delivery latency in seconds'', o_labels = [''status'']\<rparr>),
      (WebhookDlqDepth, \<lparr>o_kind = Gauge, o_name = ''webhook_dlq_depth'',
        o_help = ''Current number of entries in the webhook dead-letter queue'', o_labels = []\<rparr>),
      (WebhookRetriesTotal, \<lparr>o_kind = IntCounter, o_name = ''webhook_retries_total'',
        o_help = ''Total webhook delivery retry attempts'', o_labels = []\<rparr>)]"

text \<open>The instruments \<open>new\<close> constructs, one after the other.\<close>

definition instrument_decls :: "(instrument \<times> opts) list" where
  "instrument_decls =
     request_opts @ cache_opts @ document_opts @ verification_opts @ rate_limit_opts @ event_opts @
     config_opts @ circuit_opts @ cache_circuit_opts @ webhook_opts"

text \<open>The array over which \<open>new\<close> loops to register them.\<close>

definition registration_order :: "instrument list" where
  "registration_order =
     [RequestCount,
      ErrorCount,
      CacheHits,
      CacheMisses,
      CacheExpired,
      CacheSerializationFailures,
      CacheSize,
      CacheEvictions,
      CacheHitRate,
      DocumentRegistrationTotal,
      DocumentRevocationTotal,
      VerificationTotal,
      VerificationLatencySeconds,
      HorizonLatencySeconds,
      RetryTotal,
      RateLimitTokensConsumed,
      RateLimitTokensRefilled,
      RateLimitViolations,
      RateLimitResets,
      RateLimitHits,
      RateLimitRejections,
      EventDuplicates,
      EventOrderingFailures,
      EventBacklogSize,
      ConfigValidationFailures,
      ConfigReloadTotal,
      CircuitState,
      CircuitTransitionsTotal,
      CircuitStateChangesTotal,
      CacheCircuitState,
      CacheCircuitTransitionsTotal,
      CacheCircuitRejectionsTotal,
      CacheCircuitRecoveriesTotal,
      CacheFallbackUsesTotal,
      CacheBulkheadActive,
      CacheBulkheadRejectionsTotal,
      WebhookDeliveriesTotal,
      WebhookDeliveryLatencySeconds,
      WebhookDlqDepth,
      WebhookRetriesTotal]"

section \<open>Calls\<close>

datatype metric_call =
    Inc instrument "string list"
  | IncBy instrument "string list" nat
  | SetGauge instrument rat
  | IncGauge instrument
  | DecGauge instrument
  | Observe instrument "string list" rat

type_synonym metrics = "metric_call list"

definition increment_request_count :: "metrics \<Rightarrow> metrics" where
  "increment_request_count m = m @ [Inc RequestCount []]"

definition increment_error_count :: "metrics \<Rightarrow> metrics" where
  "increment_error_count m = m @ [Inc ErrorCount []]"

definition increment_cache_hits :: "metrics \<Rightarrow> metrics" where
  "increment_cache_hits m = m @ [Inc CacheHits []]"

definition increment_cache_misses :: "metrics \<Rightarrow> metrics" where
  "increment_cache_misses m = m @ [Inc CacheMisses []]"

definition increment_cache_expired :: "metrics \<Rightarrow> metrics" where
  "increment_cache_expired m = m @ [Inc CacheExpired []]"

definition increment_cache_serialization_failures :: "metrics \<Rightarrow> metrics" where
  "increment_cache_serialization_failures m = m @ [Inc CacheSerializationFailures []]"

definition set_cache_size :: "nat \<Rightarrow> metrics \<Rightarrow> metrics" where
  "set_cache_size sz m = m @ [SetGauge CacheSize (of_nat sz)]"

definition increment_cache_evictions :: "metrics \<Rightarrow> metrics" where
  "increment_cache_evictions m = m @ [Inc CacheEvictions []]"

definition increment_cache_evictions_by :: "nat \<Rightarrow> metrics \<Rightarrow> metrics" where
  "increment_cache_evictions_by count m = m @ [IncBy CacheEvictions [] count]"

definition set_cache_hit_rate :: "rat \<Rightarrow> metrics \<Rightarrow> metrics" where
  "set_cache_hit_rate rate m = m @ [SetGauge CacheHitRate rate]"

definition record_document_registration :: "string \<Rightarrow> metrics \<Rightarrow> metrics" where
  "record_document_registration status m = m @ [Inc DocumentRegistrationTotal [status]]"

definition record_document_revocation :: "string \<Rightarrow> metrics \<Rightarrow> metrics" where
  "record_document_revocation status m = m @ [Inc DocumentRevocationTotal [status]]"

definition record_verification :: "string \<Rightarrow> rat \<Rightarrow> metrics \<Rightarrow> metrics" where
  "record_verification status latency_secs m = m @ [Inc VerificationTotal [status], Observe VerificationLatencySeconds [status] latency_secs]"

definition record_horizon_latency :: "string \<Rightarrow> rat \<Rightarrow> metrics \<Rightarrow> metrics" where
  "record_horizon_latency status latency_secs m = m @ [Observe HorizonLatencySeconds [status] latency_secs]"

definition increment_retry :: "metrics \<Rightarrow> metrics" where
  "increment_retry m = m @ [Inc RetryTotal []]"

definition record_token_consumed :: "metrics \<Rightarrow> metrics" where
  "record_token_consumed m = m @ [Inc RateLimitTokensConsumed []]"

definition record_tokens_refilled :: "nat \<Rightarrow> metrics \<Rightarrow> metrics" where
  "record_tokens_refilled count m = (if count > 0 then m @ [IncBy RateLimitTokensRefilled [] count] else m)"

definition increment_rate_limit_violation :: "metrics \<Rightarrow> metrics" where
  "increment_rate_limit_violation m = m @ [Inc RateLimitViolations []]"

definition increment_rate_limit_reset :: "metrics \<Rightarrow> metrics" where
  "increment_rate_limit_reset m = m @ [Inc RateLimitResets []]"

definition increment_rate_limit_hit :: "string \<Rightarrow> metrics \<Rightarrow> metrics" where
  "increment_rate_limit_hit issuer m = m @ [Inc RateLimitHits [issuer]]"

definition increment_rate_limit_global_rejection :: "string \<Rightarrow> metrics \<Rightarrow> metrics" where
  "increment_rate_limit_global_rejection issuer m = m @ [Inc RateLimitRejections [issuer, ''global'']]"

definition increment_rate_limit_issuer_rejection :: "string \<Rightarrow> metrics \<Rightarrow> metrics" where
  "increment_rate_limit_issuer_rejection issuer m = m @ [Inc RateLimitRejections [issuer, ''issuer'']]"

definition increment_event_duplicate :: "metrics \<Rightarrow> metrics" where
  "increment_event_duplicate m = m @ [Inc EventDuplicates []]"

definition increment_event_ordering_failure :: "metrics \<Rightarrow> metrics" where
  "increment_event_ordering_failure m = m @ [Inc EventOrderingFailures []]"

definition set_event_backlog :: "int \<Rightarrow> metrics \<Rightarrow> metrics" where
  "set_event_backlog sz m = m @ [SetGauge EventBacklogSize (of_int sz)]"

definition increment_event_backlog :: "metrics \<Rightarrow> metrics" where
  "increment_event_backlog m = m @ [IncGauge EventBacklogSize]"

definition decrement_event_backlog :: "metrics \<Rightarrow> metrics" where
  "decrement_event_backlog m = m @ [DecGauge EventBacklogSize]"

definition increment_config_validation_failure :: "metrics \<Rightarrow> metrics" where
  "increment_config_validation_failure m = m @ [Inc ConfigValidationFailures []]"

definition increment_config_reload :: "metrics \<Rightarrow> metrics" where
  "increment_config_reload m = m @ [Inc ConfigReloadTotal []]"

definition set_circuit_state :: "int \<Rightarrow> metrics \<Rightarrow> metrics" where
  "set_circuit_state state m = m @ [SetGauge CircuitState (of_int state)]"

definition record_circuit_transition :: "string \<Rightarrow> metrics \<Rightarrow> metrics" where
  "record_circuit_transition to_state m = m @ [Inc CircuitTransitionsTotal [to_state]]"

definition record_circuit_state_change :: "string \<Rightarrow> string \<Rightarrow> metrics \<Rightarrow> metrics" where
  "record_circuit_state_change from_state to_state m = m @ [Inc CircuitStateChangesTotal [from_state, to_state]]"

definition set_cache_circuit_state :: "int \<Rightarrow> metrics \<Rightarrow> metrics" where
  "set_cache_circuit_state state m = m @ [SetGauge CacheCircuitState (of_int state)]"

definition record_cache_circuit_transition :: "string \<Rightarrow> string \<Rightarrow> metrics \<Rightarrow> metrics" where
  "record_cache_circuit_transition from_state to_state m = m @ [Inc CacheCircuitTransitionsTotal [from_state, to_state]]"

definition increment_cache_circuit_rejection :: "metrics \<Rightarrow> metrics" where
  "increment_cache_circuit_rejection m = m @ [Inc CacheCircuitRejectionsTotal []]"

definition increment_cache_circuit_recovery :: "metrics \<Rightarrow> metrics" where
  "increment_cache_circuit_recovery m = m @ [Inc CacheCircuitRecoveriesTotal []]"

definition increment_cache_fallback_use :: "metrics \<Rightarrow> metrics" where
  "increment_cache_fallback_use m = m @ [Inc CacheFallbackUsesTotal []]"

definition set_cache_bulkhead_active :: "int \<Rightarrow> metrics \<Rightarrow> metrics" where
  "set_cache_bulkhead_active active m = m @ [SetGauge CacheBulkheadActive (of_int active)]"

definition increment_cache_bulkhead_rejection :: "metrics \<Rightarrow> metrics" where
  "increment_cache_bulkhead_rejection m = m @ [Inc CacheBulkheadRejectionsTotal []]"

definition record_webhook_delivery :: "string \<Rightarrow> rat \<Rightarrow> metrics \<Rightarrow> metrics" where
  "record_webhook_delivery status latency_secs m = m @ [Inc WebhookDeliveriesTotal [status], Observe WebhookDeliveryLatencySeconds [status] latency_secs]"

definition increment_webhook_retry :: "metrics \<Rightarrow> metrics" where
  "increment_webhook_retry m = m @ [Inc WebhookRetriesTotal []]"

definition set_webhook_dlq_depth :: "int \<Rightarrow> metrics \<Rightarrow> metrics" where
  "set_webhook_dlq_depth depth m = m @ [SetGauge WebhookDlqDepth (of_int depth)]"

text \<open>Times are nanoseconds.\<close>

definition elapsed_secs :: "nat \<Rightarrow> nat \<Rightarrow> rat" where
  "elapsed_secs start current = of_nat (current - start) / 1000000000"

section \<open>Readings\<close>

definition counter_value :: "metrics \<Rightarrow> instrument \<Rightarrow> string list \<Rightarrow> nat" where
  "counter_value m i labels =
     sum_list (map (\<lambda>c. case c of
        Inc j ls \<Rightarrow> if j = i \<and> ls = labels then 1 else 0
      | IncBy j ls n \<Rightarrow> if j = i \<and> ls = labels then n else 0
      | _ \<Rightarrow> 0) m)"

definition gauge_value :: "metrics \<Rightarrow> instrument \<Rightarrow> rat" where
  "gauge_value m i =
     fold (\<lambda>c v. case c of
        SetGauge j x \<Rightarrow> if j = i then x else v
      | IncGauge j \<Rightarrow> if j = i then v + 1 else v
      | DecGauge j \<Rightarrow> if j = i then v - 1 else v
      | _ \<Rightarrow> v) m 0"

section \<open>The Prometheus client\<close>

text \<open>
  Which declarations the constructors accept, which declarations \<open>Registry::register\<close> accepts
  after the given ones, and which calls an instrument with a declaration accepts. The source
  unwraps the constructors and registrations and uses the panicking calls, so what is not
  accepted is a panic.
\<close>

record prometheus =
  constructs :: "opts \<Rightarrow> bool"
  registers :: "opts list \<Rightarrow> opts \<Rightarrow> bool"
  accepts :: "opts \<Rightarrow> metric_call \<Rightarrow> bool"

record MetricsRegistry =
  mr_registry :: "opts list"
  mr_fields :: "instrument \<Rightarrow> opts option"

fun construct_all :: "prometheus \<Rightarrow> (instrument \<times> opts) list \<Rightarrow> (instrument \<times> opts) list option" where
  "construct_all P [] = Some []"
| "construct_all P ((i, d) # ds) =
     (if constructs P d then map_option (Cons (i, d)) (construct_all P ds) else None)"

fun register_all ::
  "prometheus \<Rightarrow> (instrument \<Rightarrow> opts option) \<Rightarrow> instrument list \<Rightarrow> opts list \<Rightarrow> opts list option" where
  "register_all P built [] reg = Some reg"
| "register_all P built (i # is) reg =
     (case built i of
        None \<Rightarrow> None
      | Some d \<Rightarrow> if registers P reg d then register_all P built is (reg @ [d]) else None)"

definition MetricsRegistry_new :: "prometheus \<Rightarrow> MetricsRegistry option" where
  "MetricsRegistry_new P =
     (case construct_all P instrument_decls of
        None \<Rightarrow> None
      | Some ds \<Rightarrow>
          map_option (\<lambda>reg. \<lparr>mr_registry = reg, mr_fields = map_of ds\<rparr>)
            (register_all P (map_of ds) registration_order []))"

fun instrument_of :: "metric_call \<Rightarrow> instrument" where
  "instrument_of (Inc i _) = i"
| "instrument_of (IncBy i _ _) = i"
| "instrument_of (SetGauge i _) = i"
| "instrument_of (IncGauge i) = i"
| "instrument_of (DecGauge i) = i"
| "instrument_of (Observe i _ _) = i"

definition call_accepted :: "prometheus \<Rightarrow> MetricsRegistry \<Rightarrow> metric_call \<Rightarrow> bool" where
  "call_accepted P r c =
     (case mr_fields r (instrument_of c) of None \<Rightarrow> False | Some d \<Rightarrow> accepts P d c)"

text \<open>
  The documented rules. A declaration needs a valid metric name, a help text and valid,
  distinct label names, none of them reserved (a leading double underscore, \<open>le\<close> in a
  histogram); a call needs an instrument of its kind and one value per label.
\<close>

definition label_start :: "char \<Rightarrow> bool" where
  "label_start c = (let n = of_char c :: nat in 65 \<le> n \<and> n \<le> 90 \<or> 97 \<le> n \<and> n \<le> 122 \<or> n = 95)"

definition name_start :: "char \<Rightarrow> bool" where
  "name_start c = (label_start c \<or> c = CHR '':'')"

definition metric_name_ok :: "string \<Rightarrow> bool" where
  "metric_name_ok s =
     (case s of [] \<Rightarrow> False
      | c # cs \<Rightarrow> name_start c \<and> list_all (\<lambda>c. name_start c \<or> digit_value c \<noteq> None) cs)"

definition label_name_ok :: "string \<Rightarrow> bool" where
  "label_name_ok s =
     (take 2 s \<noteq> ''__'' \<and>
      (case s of [] \<Rightarrow> False
       | c # cs \<Rightarrow> label_start c \<and> list_all (\<lambda>c. label_start c \<or> digit_value c \<noteq> None) cs))"

definition opts_ok :: "opts \<Rightarrow> bool" where
  "opts_ok d =
     (metric_name_ok (o_name d) \<and> o_help d \<noteq> [] \<and> list_all label_name_ok (o_labels d) \<and>
      distinct (o_labels d) \<and> (o_kind d = HistogramVec \<longrightarrow> ''le'' \<notin> set (o_labels d)))"

definition counter_kind :: "instrument_kind \<Rightarrow> bool" where
  "counter_kind k \<longleftrightarrow> k = Counter \<or> k = IntCounter \<or> k = IntCounterVec"

fun call_ok :: "opts \<Rightarrow> metric_call \<Rightarrow> bool" where
  "call_ok d (Inc _ ls) = (counter_kind (o_kind d) \<and> length ls = length (o_labels d))"
| "call_ok d (IncBy _ ls _) = (counter_kind (o_kind d) \<and> length ls = length (o_labels d))"
| "call_ok d (SetGauge _ _) = (o_kind d = Gauge \<and> o_labels d = [])"
| "call_ok d (IncGauge _) = (o_kind d = Gauge \<and> o_labels d = [])"
| "call_ok d (DecGauge _) = (o_kind d = Gauge \<and> o_labels d = [])"
| "call_ok d (Observe _ ls _) = (o_kind d = HistogramVec \<and> length ls = length (o_labels d))"

text \<open>Every recording method, at the given arguments.\<close>

definition metric_methods :: "string \<Rightarrow> string \<Rightarrow> nat \<Rightarrow> int \<Rightarrow> rat \<Rightarrow> (metrics \<Rightarrow> metrics) list" where
  "metric_methods s t n i x =
     [increment_request_count,
      increment_error_count,
      increment_cache_hits,
      increment_cache_misses,
      increment_cache_expired,
      increment_cache_serialization_failures,
      set_cache_size n,
      increment_cache_evictions,
      increment_cache_evictions_by n,
      set_cache_hit_rate x,
      record_document_registration s,
      record_document_revocation s,
      record_verification s x,
      record_horizon_latency s x,
      increment_retry,
      record_token_consumed,
      record_tokens_refilled n,
      increment_rate_limit_violation,
      increment_rate_limit_reset,
      increment_rate_limit_hit s,
      increment_rate_limit_global_rejection s,
      increment_rate_limit_issuer_rejection s,
      increment_event_duplicate,
      increment_event_ordering_failure,
      set_event_backlog i,
      increment_event_backlog,
      decrement_event_backlog,
      increment_config_validation_failure,
      increment_config_reload,
      set_circuit_state i,
      record_circuit_transition s,
      record_circuit_state_change s t,
      set_cache_circuit_state i,
      record_cache_circuit_transition s t,
      increment_cache_circuit_rejection,
      increment_cache_circuit_recovery,
      increment_cache_fallback_use,
      set_cache_bulkhead_active i,
      increment_cache_bulkhead_rejection,
      record_webhook_delivery s x,
      increment_webhook_retry,
      set_webhook_dlq_depth i]"

definition recording_method :: "(metrics \<Rightarrow> metrics) \<Rightarrow> bool" where
  "recording_method f \<longleftrightarrow> (\<exists>s t n i x. f \<in> set (metric_methods s t n i x))"

lemmas metric_method_defs =
  increment_request_count_def
  increment_error_count_def
  increment_cache_hits_def
  increment_cache_misses_def
  increment_cache_expired_def
  increment_cache_serialization_failures_def
  set_cache_size_def
  increment_cache_evictions_def
  increment_cache_evictions_by_def
  set_cache_hit_rate_def
  record_document_registration_def
  record_document_revocation_def
  record_verification_def
  record_horizon_latency_def
  increment_retry_def
  record_token_consumed_def
  record_tokens_refilled_def
  increment_rate_limit_violation_def
  increment_rate_limit_reset_def
  increment_rate_limit_hit_def
  increment_rate_limit_global_rejection_def
  increment_rate_limit_issuer_rejection_def
  increment_event_duplicate_def
  increment_event_ordering_failure_def
  set_event_backlog_def
  increment_event_backlog_def
  decrement_event_backlog_def
  increment_config_validation_failure_def
  increment_config_reload_def
  set_circuit_state_def
  record_circuit_transition_def
  record_circuit_state_change_def
  set_cache_circuit_state_def
  record_cache_circuit_transition_def
  increment_cache_circuit_rejection_def
  increment_cache_circuit_recovery_def
  increment_cache_fallback_use_def
  set_cache_bulkhead_active_def
  increment_cache_bulkhead_rejection_def
  record_webhook_delivery_def
  increment_webhook_retry_def
  set_webhook_dlq_depth_def

lemmas opts_defs =
  instrument_decls_def request_opts_def cache_opts_def document_opts_def verification_opts_def rate_limit_opts_def event_opts_def config_opts_def circuit_opts_def cache_circuit_opts_def webhook_opts_def

lemma counter_value_simps [simp]:
  "counter_value [] i ls = 0"
  "counter_value (m @ m') i ls = counter_value m i ls + counter_value m' i ls"
  "counter_value (Inc j ls' # m) i ls = (if j = i \<and> ls' = ls then 1 else 0) + counter_value m i ls"
  "counter_value (IncBy j ls' n # m) i ls = (if j = i \<and> ls' = ls then n else 0) + counter_value m i ls"
  "counter_value (SetGauge j x # m) i ls = counter_value m i ls"
  "counter_value (IncGauge j # m) i ls = counter_value m i ls"
  "counter_value (DecGauge j # m) i ls = counter_value m i ls"
  "counter_value (Observe j ls' x # m) i ls = counter_value m i ls"
  by (simp_all add: counter_value_def)

section \<open>The contract of the client\<close>

locale prometheus_client =
  fixes P :: prometheus
  assumes construct: "opts_ok d \<Longrightarrow> constructs P d"
    and register: "constructs P d \<Longrightarrow> o_name d \<notin> o_name ` set ds \<Longrightarrow> registers P ds d"
    and call: "opts_ok d \<Longrightarrow> call_ok d c \<Longrightarrow> accepts P d c"
begin

lemma construct_all_ok: "list_all (opts_ok \<circ> snd) ds \<Longrightarrow> construct_all P ds = Some ds"
  by (induction ds) (auto intro: construct)

lemma register_all_ok:
  assumes "\<forall>i\<in>set is. \<exists>d. built i = Some d \<and> opts_ok d"
    and "distinct (map o_name (reg @ map (the \<circ> built) is))"
  shows "register_all P built is reg = Some (reg @ map (the \<circ> built) is)"
  using assms
proof (induction "is" arbitrary: reg)
  case (Cons i "is")
  then obtain d where d: "built i = Some d" "opts_ok d" by auto
  have "registers P reg d"
    using Cons.prems(2) d by (intro register construct) auto
  moreover have "register_all P built is (reg @ [d]) = Some ((reg @ [d]) @ map (the \<circ> built) is)"
    using Cons.prems d(1) by (intro Cons.IH) auto
  ultimately show ?case using d(1) by simp
qed simp

lemma new_ok:
  assumes "list_all (opts_ok \<circ> snd) instrument_decls" and "map fst instrument_decls = registration_order"
    and "distinct registration_order" and "distinct (map (o_name \<circ> snd) instrument_decls)"
  shows "MetricsRegistry_new P = Some \<lparr>mr_registry = map snd instrument_decls, mr_fields = map_of instrument_decls\<rparr>"
proof -
  have get: "map_of instrument_decls (fst p) = Some (snd p)" if "p \<in> set instrument_decls" for p
    using that assms(2,3) by (metis map_of_is_SomeI prod.collapse)
  then have regs: "map (the \<circ> map_of instrument_decls) registration_order = map snd instrument_decls"
    unfolding assms(2) [symmetric] by simp
  have "\<forall>i\<in>set registration_order. \<exists>d. map_of instrument_decls i = Some d \<and> opts_ok d"
    unfolding assms(2) [symmetric] using assms(1) get by (auto simp: list_all_iff)
  from register_all_ok [OF this, of "[]"] assms(4)
  show ?thesis by (simp add: MetricsRegistry_new_def construct_all_ok [OF assms(1)] regs)
qed

lemma accepted_ok:
  assumes "mr_fields r (instrument_of c) = Some d" and "opts_ok d" and "call_ok d c"
  shows "call_accepted P r c"
  using assms call by (simp add: call_accepted_def)

end

text \<open>A client with exactly these rules.\<close>

definition prometheus_ref :: prometheus where
  "prometheus_ref =
     \<lparr>constructs = opts_ok, registers = (\<lambda>ds d. o_name d \<notin> o_name ` set ds),
      accepts = (\<lambda>d c. opts_ok d \<and> call_ok d c)\<rparr>"

interpretation prom: prometheus_client prometheus_ref
  by unfold_locales (simp_all add: prometheus_ref_def)

end
