(* ===== verification/Metrics_Claims.thy ===== *)
theory Metrics_Claims
  imports Metrics
begin

text \<open>
  Neither the construction of the registry nor any recording method can panic the Prometheus
  client: the declarations satisfy its rules, and every call fits its instrument.
\<close>

section \<open>The declarations\<close>

lemma registered_shapes:
  "map (\<lambda>(i, d). (i, o_kind d, length (o_labels d))) instrument_decls =
     [(RequestCount, Counter, 0),
      (ErrorCount, Counter, 0),
      (CacheHits, IntCounter, 0),
      (CacheMisses, IntCounter, 0),
      (CacheExpired, IntCounter, 0),
      (CacheSerializationFailures, IntCounter, 0),
      (CacheSize, Gauge, 0),
      (CacheEvictions, IntCounter, 0),
      (CacheHitRate, Gauge, 0),
      (DocumentRegistrationTotal, IntCounterVec, 1),
      (DocumentRevocationTotal, IntCounterVec, 1),
      (VerificationTotal, IntCounterVec, 1),
      (VerificationLatencySeconds, HistogramVec, 1),
      (HorizonLatencySeconds, HistogramVec, 1),
      (RetryTotal, IntCounter, 0),
      (RateLimitTokensConsumed, IntCounter, 0),
      (RateLimitTokensRefilled, IntCounter, 0),
      (RateLimitViolations, IntCounter, 0),
      (RateLimitResets, IntCounter, 0),
      (RateLimitHits, IntCounterVec, 1),
      (RateLimitRejections, IntCounterVec, 2),
      (EventDuplicates, IntCounter, 0),
      (EventOrderingFailures, IntCounter, 0),
      (EventBacklogSize, Gauge, 0),
      (ConfigValidationFailures, IntCounter, 0),
      (ConfigReloadTotal, IntCounter, 0),
      (CircuitState, Gauge, 0),
      (CircuitTransitionsTotal, IntCounterVec, 1),
      (CircuitStateChangesTotal, IntCounterVec, 2),
      (CacheCircuitState, Gauge, 0),
      (CacheCircuitTransitionsTotal, IntCounterVec, 2),
      (CacheCircuitRejectionsTotal, IntCounter, 0),
      (CacheCircuitRecoveriesTotal, IntCounter, 0),
      (CacheFallbackUsesTotal, IntCounter, 0),
      (CacheBulkheadActive, Gauge, 0),
      (CacheBulkheadRejectionsTotal, IntCounter, 0),
      (WebhookDeliveriesTotal, IntCounterVec, 1),
      (WebhookDeliveryLatencySeconds, HistogramVec, 1),
      (WebhookDlqDepth, Gauge, 0),
      (WebhookRetriesTotal, IntCounter, 0)]"
  by (simp add: opts_defs)

lemma registered_names:
  "map (o_name \<circ> snd) instrument_decls =
     [''requests_total'',
      ''errors_total'',
      ''cache_hits_total'',
      ''cache_misses_total'',
      ''cache_expired_total'',
      ''cache_serialization_failures_total'',
      ''cache_size'',
      ''cache_evictions_total'',
      ''cache_hit_rate'',
      ''document_registration_total'',
      ''document_revocation_total'',
      ''verification_total'',
      ''verification_latency_seconds'',
      ''horizon_latency_seconds'',
      ''retry_total'',
      ''rate_limit_tokens_consumed_total'',
      ''rate_limit_tokens_refilled_total'',
      ''rate_limit_violations_total'',
      ''rate_limit_resets_total'',
      ''rate_limit_hits_total'',
      ''rate_limit_rejections_total'',
      ''event_duplicates_total'',
      ''event_ordering_failures_total'',
      ''event_backlog_size'',
      ''config_validation_failures_total'',
      ''config_reload_total'',
      ''circuit_breaker_state'',
      ''circuit_breaker_transitions_total'',
      ''circuit_breaker_state_changes_total'',
      ''cache_circuit_breaker_state'',
      ''cache_circuit_breaker_transitions_total'',
      ''cache_circuit_breaker_rejections_total'',
      ''cache_circuit_breaker_recoveries_total'',
      ''cache_fallback_uses_total'',
      ''cache_bulkhead_active_operations'',
      ''cache_bulkhead_rejections_total'',
      ''webhook_deliveries_total'',
      ''webhook_delivery_latency_seconds'',
      ''webhook_dlq_depth'',
      ''webhook_retries_total'']"
  by (simp add: opts_defs)

lemma distinct_names: "distinct (map (o_name \<circ> snd) instrument_decls)"
  unfolding registered_names by simp

lemma valid_names: "list_all metric_name_ok (map (o_name \<circ> snd) instrument_decls)"
  unfolding registered_names
  by (simp add: metric_name_ok_def name_start_def label_start_def digit_value_def Let_def)

lemma valid_helps: "list_all (\<lambda>p. o_help (snd p) \<noteq> []) instrument_decls"
  by (simp add: opts_defs)

lemma valid_labels:
  "list_all (\<lambda>p. list_all label_name_ok (o_labels (snd p)) \<and> distinct (o_labels (snd p)) \<and>
     ''le'' \<notin> set (o_labels (snd p))) instrument_decls"
  by (simp add: opts_defs label_name_ok_def label_start_def digit_value_def Let_def)

lemma valid_decls: "list_all (opts_ok \<circ> snd) instrument_decls"
  using valid_names valid_helps valid_labels by (auto simp: list_all_iff opts_ok_def)

lemma all_registered: "map fst instrument_decls = registration_order"
proof -
  have "map fst instrument_decls =
      map fst (map (\<lambda>(i, d). (i, o_kind d, length (o_labels d))) instrument_decls)"
    by (simp add: case_prod_beta comp_def)
  then show ?thesis unfolding registered_shapes by (simp add: registration_order_def)
qed

lemma distinct_registration: "distinct registration_order"
  by (simp add: registration_order_def)

lemma every_instrument: "i \<in> set registration_order"
  by (cases i) (simp_all add: registration_order_def)

lemma decl_of: "\<exists>d. map_of instrument_decls i = Some d \<and> d \<in> set (map snd instrument_decls)"
proof -
  have "i \<in> fst ` set instrument_decls"
    using every_instrument [of i] unfolding all_registered [symmetric] by simp
  then obtain d where "map_of instrument_decls i = Some d"
    by (metis map_of_eq_None_iff not_None_eq)
  then show ?thesis by (force dest: map_of_SomeD)
qed

section \<open>The calls\<close>

text \<open>A call fits its instrument by kind and number of labels alone.\<close>

definition declared_shape :: "instrument \<Rightarrow> (instrument_kind \<times> nat) option" where
  "declared_shape = map_of (map (\<lambda>(i, d). (i, o_kind d, length (o_labels d))) instrument_decls)"

fun shape_ok :: "instrument_kind \<times> nat \<Rightarrow> metric_call \<Rightarrow> bool" where
  "shape_ok (k, n) (Inc _ ls) = (counter_kind k \<and> length ls = n)"
| "shape_ok (k, n) (IncBy _ ls _) = (counter_kind k \<and> length ls = n)"
| "shape_ok (k, n) (SetGauge _ _) = (k = Gauge \<and> n = 0)"
| "shape_ok (k, n) (IncGauge _) = (k = Gauge \<and> n = 0)"
| "shape_ok (k, n) (DecGauge _) = (k = Gauge \<and> n = 0)"
| "shape_ok (k, n) (Observe _ ls _) = (k = HistogramVec \<and> length ls = n)"

lemma call_ok_shape: "call_ok d c = shape_ok (o_kind d, length (o_labels d)) c"
  by (cases c) auto

lemma declared_shape_eq:
  "declared_shape i = map_option (\<lambda>d. (o_kind d, length (o_labels d))) (map_of instrument_decls i)"
  by (simp add: declared_shape_def map_of_map)

lemma method_calls:
  assumes "recording_method f"
  shows "f m = m @ f []" "list_all (\<lambda>c. \<exists>sh. declared_shape (instrument_of c) = Some sh \<and> shape_ok sh c) (f [])"
proof -
  from assms obtain s t n i x where f: "f \<in> set (metric_methods s t n i x)"
    by (auto simp: recording_method_def)
  have "list_all (\<lambda>f. f m = m @ f [] \<and>
      list_all (\<lambda>c. \<exists>sh. declared_shape (instrument_of c) = Some sh \<and> shape_ok sh c) (f [])) (metric_methods s t n i x)"
    unfolding metric_methods_def metric_method_defs
    by (simp add: declared_shape_def registered_shapes counter_kind_def)
  with f show "f m = m @ f []" "list_all (\<lambda>c. \<exists>sh. declared_shape (instrument_of c) = Some sh \<and> shape_ok sh c) (f [])"
    by (simp_all add: list_all_iff)
qed

lemma run_calls:
  assumes "\<forall>f\<in>set fs. recording_method f"
    and "list_all Q m"
    and "\<And>c. \<exists>sh. declared_shape (instrument_of c) = Some sh \<and> shape_ok sh c \<Longrightarrow> Q c"
  shows "list_all Q (fold (\<lambda>f. f) fs m)"
  using assms(1,2)
proof (induction fs arbitrary: m)
  case (Cons f fs)
  have f: "recording_method f" using Cons.prems(1) by simp
  have "list_all Q (m @ f [])"
    using Cons.prems(2) method_calls(2) [OF f] assms(3) by (auto simp: list_all_iff)
  with Cons show ?case using method_calls(1) [OF f, of m] by simp
qed simp

section \<open>Nothing panics\<close>

text \<open>C19: no metric can panic the service, with any Prometheus client that follows its documented
  rules: it accepts a declaration with a valid name, a help text and valid, distinct,
  unreserved label names, a registration under a name not yet registered, and a call on an
  instrument of the right kind with one value per label. Then \<open>MetricsRegistry::new\<close> passes all
  its constructors and registrations, every field of the registry is registered, once, so that
  it is exported, and whatever recording methods are called in whatever order and with
  whatever arguments, the client accepts every call.\<close>

theorem metrics_never_panic:
  assumes "prometheus_client P"
  shows "\<exists>r. MetricsRegistry_new P = Some r \<and> distinct (mr_registry r) \<and>
    (\<forall>i. \<exists>d. mr_fields r i = Some d \<and> d \<in> set (mr_registry r)) \<and>
    (\<forall>fs. (\<forall>f\<in>set fs. recording_method f) \<longrightarrow> list_all (call_accepted P r) (fold (\<lambda>f. f) fs []))"
proof -
  let ?r = "\<lparr>mr_registry = map snd instrument_decls, mr_fields = map_of instrument_decls\<rparr>"
  have "MetricsRegistry_new P = Some ?r"
    by (rule prometheus_client.new_ok [OF assms valid_decls all_registered distinct_registration distinct_names])
  moreover have "distinct (mr_registry ?r)"
    using distinct_names by (metis MetricsRegistry.select_convs(1) distinct_map list.map_comp)
  moreover have "\<forall>i. \<exists>d. mr_fields ?r i = Some d \<and> d \<in> set (mr_registry ?r)"
    using decl_of by simp
  moreover have "call_accepted P ?r c" if "\<exists>sh. declared_shape (instrument_of c) = Some sh \<and> shape_ok sh c" for c
  proof -
    obtain d where d: "map_of instrument_decls (instrument_of c) = Some d" "d \<in> set (map snd instrument_decls)"
      using decl_of by blast
    then have "opts_ok d" "call_ok d c"
      using valid_decls that by (auto simp: list_all_iff call_ok_shape declared_shape_eq)
    with d(1) show ?thesis by (intro prometheus_client.accepted_ok [OF assms]) simp_all
  qed
  then have "list_all (call_accepted P ?r) (fold (\<lambda>f. f) fs [])" if "\<forall>f\<in>set fs. recording_method f" for fs
    using that by (intro run_calls) simp_all
  ultimately show ?thesis by blast
qed

text \<open>With the reference client, a run that records a rejection and a delivery.\<close>

theorem metrics_never_panic_witness:
  "\<exists>r. MetricsRegistry_new prometheus_ref = Some r \<and>
     list_all (call_accepted prometheus_ref r)
       (record_webhook_delivery ''success'' 1 (increment_rate_limit_global_rejection ''G1'' []))"
proof -
  obtain r where r: "MetricsRegistry_new prometheus_ref = Some r"
    "\<forall>fs. (\<forall>f\<in>set fs. recording_method f) \<longrightarrow> list_all (call_accepted prometheus_ref r) (fold (\<lambda>f. f) fs [])"
    using metrics_never_panic [OF prom.prometheus_client_axioms] by blast
  have "increment_rate_limit_global_rejection ''G1'' \<in> set (metric_methods ''G1'' [] 0 0 0)"
    "record_webhook_delivery ''success'' 1 \<in> set (metric_methods ''success'' [] 0 0 1)"
    by (simp_all add: metric_methods_def)
  then have "recording_method (increment_rate_limit_global_rejection ''G1'')"
    "recording_method (record_webhook_delivery ''success'' 1)"
    unfolding recording_method_def by blast+
  with r(2) [THEN spec, of "[increment_rate_limit_global_rejection ''G1'', record_webhook_delivery ''success'' 1]"]
  show ?thesis using r(1) by simp
qed

end
