(* ===== verification/Audit_Error.thy ===== *)
theory Audit_Error
  imports Rust_Text
begin

text \<open>The service's error type and its messages (\<open>src/src/error.rs\<close>).\<close>

datatype AuditError =
    SerializationError string
  | InvalidContractEventContext string
  | CircuitBreakerOpen string
  | BulkheadFull string
  | CacheUnhealthy string

fun audit_error_message :: "AuditError \<Rightarrow> string" where
  "audit_error_message (SerializationError message) = ''serialization error: '' @ message"
| "audit_error_message (InvalidContractEventContext message) = ''invalid contract event context: '' @ message"
| "audit_error_message (CircuitBreakerOpen message) = ''circuit breaker open: '' @ message"
| "audit_error_message (BulkheadFull message) = ''bulkhead full: '' @ message"
| "audit_error_message (CacheUnhealthy message) = ''cache unhealthy: '' @ message"

end
