(* ===== verification/Event_Log.thy ===== *)
theory Event_Log
  imports Metrics Audit_Error
begin

text \<open>
  The audit events (\<open>src/src/event.rs\<close>): the event record and its builders, the ingestor that
  drops duplicates and out-of-order events, and the append-only store. \<open>HashSet\<close> and \<open>HashMap\<close>
  are a set and a map; the broadcast channel is the list of notifications sent. Fresh UUIDs
  and the clock are arguments, and the JSON codec is a parameter.
\<close>

section \<open>Data\<close>

definition EVENT_DOCUMENT_REGISTERED :: string where
  "EVENT_DOCUMENT_REGISTERED = ''DocumentRegistered''"

definition EVENT_DOCUMENT_REVOKED :: string where
  "EVENT_DOCUMENT_REVOKED = ''DocumentRevoked''"

definition EVENT_DOCUMENT_VERIFIED :: string where
  "EVENT_DOCUMENT_VERIFIED = ''DocumentVerified''"

definition EVENT_DOCUMENT_AUTHORIZATION_FAILED :: string where
  "EVENT_DOCUMENT_AUTHORIZATION_FAILED = ''DocumentAuthorizationFailed''"

definition EVENT_DOCUMENT_OWNER_CHANGED :: string where
  "EVENT_DOCUMENT_OWNER_CHANGED = ''DocumentOwnerChanged''"

datatype EventSource = FromContract | FromService

text \<open>JSON as the \<open>json!\<close> literals of the source build it; a float is a rational.\<close>

datatype json = JString string | JNumber int | JFloat rat | JBool bool | JNull | JArray "json list" | JObject "(string \<times> json) list"

record ContractEventContext =
  transaction_hash :: string
  ledger_sequence :: u64
  event_index :: u32
  cx_document_hash :: string

record Event =
  ev_id :: string
  ev_aggregate_id :: string
  ev_event_type :: string
  ev_data :: json
  ev_timestamp :: int
  ev_sequence :: u64
  ev_actor :: string
  ev_idempotency_key :: string
  ev_source :: EventSource
  ev_metadata :: "json option"

section \<open>Contract contexts\<close>

definition context_validate :: "ContractEventContext \<Rightarrow> (AuditError, unit) result" where
  "context_validate c =
     (if trim (transaction_hash c) = [] then
        Err (InvalidContractEventContext ''transaction hash cannot be empty'')
      else if trim (cx_document_hash c) = [] then
        Err (InvalidContractEventContext ''document hash cannot be empty'')
      else if ledger_sequence c = 0 then
        Err (InvalidContractEventContext ''ledger sequence must be greater than 0'')
      else Ok ())"

definition context_idempotency_key :: "ContractEventContext \<Rightarrow> string \<Rightarrow> string \<Rightarrow> string" where
  "context_idempotency_key c aggregate_id event_type =
     ''contract:'' @ transaction_hash c @ '':'' @ dec (unat (ledger_sequence c)) @ '':'' @
     dec (unat (event_index c)) @ '':'' @ aggregate_id @ '':'' @ event_type"

definition context_sequence :: "ContractEventContext \<Rightarrow> u64" where
  "context_sequence c = sat_add (sat_mul (ledger_sequence c) 1000) (ucast (event_index c))"

section \<open>Events\<close>

definition Event_new :: "string \<Rightarrow> int \<Rightarrow> string \<Rightarrow> string \<Rightarrow> json \<Rightarrow> string \<Rightarrow> Event" where
  "Event_new uuid time aggregate_id event_type data actor =
     \<lparr>ev_id = uuid, ev_aggregate_id = aggregate_id, ev_event_type = event_type, ev_data = data,
      ev_timestamp = time, ev_sequence = 1, ev_actor = actor, ev_idempotency_key = uuid,
      ev_source = FromService, ev_metadata = None\<rparr>"

definition with_sequence :: "u64 \<Rightarrow> Event \<Rightarrow> Event" where
  "with_sequence n e = e\<lparr>ev_sequence := n\<rparr>"

definition with_idempotency_key :: "string \<Rightarrow> Event \<Rightarrow> Event" where
  "with_idempotency_key k e = e\<lparr>ev_idempotency_key := k\<rparr>"

definition with_source :: "EventSource \<Rightarrow> Event \<Rightarrow> Event" where
  "with_source s e = e\<lparr>ev_source := s\<rparr>"

definition with_metadata :: "json \<Rightarrow> Event \<Rightarrow> Event" where
  "with_metadata j e = e\<lparr>ev_metadata := Some j\<rparr>"

definition from_contract_event ::
    "string \<Rightarrow> int \<Rightarrow> string \<Rightarrow> string \<Rightarrow> json \<Rightarrow> string \<Rightarrow> ContractEventContext \<Rightarrow> (AuditError, Event) result" where
  "from_contract_event uuid time aggregate_id event_type data actor c =
     (case context_validate c of
        Err e \<Rightarrow> Err e
      | Ok _ \<Rightarrow>
          Ok \<lparr>ev_id = uuid, ev_aggregate_id = aggregate_id, ev_event_type = event_type, ev_data = data,
              ev_timestamp = time, ev_sequence = context_sequence c, ev_actor = actor,
              ev_idempotency_key = context_idempotency_key c aggregate_id event_type,
              ev_source = FromContract,
              ev_metadata = Some (JObject
                [(''transaction_hash'', JString (transaction_hash c)),
                 (''ledger_sequence'', JNumber (uint (ledger_sequence c))),
                 (''event_index'', JNumber (uint (event_index c))),
                 (''document_hash'', JString (cx_document_hash c)),
                 (''source'', JString ''contract'')])\<rparr>)"

text \<open>The codec is \<open>serde_json\<close>: \<open>Inl\<close> is its error message.\<close>

definition Event_to_json :: "(Event \<Rightarrow> string + string) \<Rightarrow> Event \<Rightarrow> (AuditError, string) result" where
  "Event_to_json to_string e =
     (case to_string e of Inl msg \<Rightarrow> Err (SerializationError msg) | Inr s \<Rightarrow> Ok s)"

definition Event_from_json :: "(string \<Rightarrow> string + Event) \<Rightarrow> string \<Rightarrow> (AuditError, Event) result" where
  "Event_from_json from_str s =
     (case from_str s of Inl msg \<Rightarrow> Err (SerializationError msg) | Inr e \<Rightarrow> Ok e)"

section \<open>Ingestion\<close>

datatype EventInvalidation =
    InvalidateRegistered string
  | InvalidateRevoked string
  | InvalidateVerified string

record EventIngestor =
  seen_keys :: "string set"
  last_sequence :: "string \<Rightarrow> u64 option"
  ei_metrics :: "metrics option"
  event_tx :: "EventInvalidation list"

definition EventIngestor_new :: EventIngestor where
  "EventIngestor_new = \<lparr>seen_keys = {}, last_sequence = (\<lambda>_. None), ei_metrics = None, event_tx = []\<rparr>"

definition ingestor_with_metrics :: "metrics \<Rightarrow> EventIngestor \<Rightarrow> EventIngestor" where
  "ingestor_with_metrics m g = g\<lparr>ei_metrics := Some m\<rparr>"

definition invalidation_of :: "Event \<Rightarrow> EventInvalidation option" where
  "invalidation_of e =
     (if ev_event_type e = EVENT_DOCUMENT_REGISTERED then Some (InvalidateRegistered (ev_aggregate_id e))
      else if ev_event_type e = EVENT_DOCUMENT_REVOKED then Some (InvalidateRevoked (ev_aggregate_id e))
      else if ev_event_type e = EVENT_DOCUMENT_VERIFIED then Some (InvalidateVerified (ev_aggregate_id e))
      else None)"

definition accept_event :: "Event \<Rightarrow> EventIngestor \<Rightarrow> EventIngestor" where
  "accept_event e g =
     (let g = g\<lparr>last_sequence := (last_sequence g)(ev_aggregate_id e \<mapsto> ev_sequence e)\<rparr>;
          g = (case invalidation_of e of None \<Rightarrow> g | Some i \<Rightarrow> g\<lparr>event_tx := event_tx g @ [i]\<rparr>)
      in g\<lparr>ei_metrics := map_option increment_event_backlog (ei_metrics g)\<rparr>)"

definition ingest :: "Event \<Rightarrow> EventIngestor \<Rightarrow> (AuditError, unit) result \<times> EventIngestor" where
  "ingest e g =
     (if ev_idempotency_key e \<in> seen_keys g then
        (Err (InvalidContractEventContext (''duplicate event: idempotency_key='' @ ev_idempotency_key e)),
         g\<lparr>ei_metrics := map_option increment_event_duplicate (ei_metrics g)\<rparr>)
      else
        let g = g\<lparr>seen_keys := insert (ev_idempotency_key e) (seen_keys g)\<rparr> in
        case last_sequence g (ev_aggregate_id e) of
          Some l \<Rightarrow>
            if ev_sequence e \<le> l then
              (Err (InvalidContractEventContext
                 (''ordering failure: aggregate='' @ ev_aggregate_id e @ '' current_seq='' @
                  dec (unat (ev_sequence e)) @ '' last_seq='' @ dec (unat l))),
               g\<lparr>ei_metrics := map_option increment_event_ordering_failure (ei_metrics g)\<rparr>)
            else (Ok (), accept_event e g)
        | None \<Rightarrow> (Ok (), accept_event e g))"

definition mark_processed :: "nat \<Rightarrow> EventIngestor \<Rightarrow> EventIngestor" where
  "mark_processed count g =
     g\<lparr>ei_metrics := map_option (\<lambda>m. (decrement_event_backlog ^^ count) m) (ei_metrics g)\<rparr>"

definition set_backlog_size :: "int \<Rightarrow> EventIngestor \<Rightarrow> EventIngestor" where
  "set_backlog_size n g = g\<lparr>ei_metrics := map_option (set_event_backlog n) (ei_metrics g)\<rparr>"

section \<open>The store\<close>

type_synonym EventStore = "string \<Rightarrow> Event list option"

definition EventStore_new :: EventStore where
  "EventStore_new = (\<lambda>_. None)"

definition store_append :: "string \<Rightarrow> Event \<Rightarrow> EventStore \<Rightarrow> Event \<times> EventStore" where
  "store_append aggregate_id e st =
     (let events = (case st aggregate_id of None \<Rightarrow> [] | Some es \<Rightarrow> es);
          sequence = word_of_nat (length events) + 1;
          finalized = (with_sequence sequence e)\<lparr>ev_aggregate_id := aggregate_id\<rparr>
      in (finalized, st(aggregate_id \<mapsto> events @ [finalized])))"

definition get_history :: "string \<Rightarrow> EventStore \<Rightarrow> Event list option" where
  "get_history aggregate_id st = st aggregate_id"

definition get_latest_sequence :: "string \<Rightarrow> EventStore \<Rightarrow> u64 option" where
  "get_latest_sequence aggregate_id st =
     (case st aggregate_id of
        None \<Rightarrow> None
      | Some es \<Rightarrow> if es = [] then None else Some (ev_sequence (last es)))"

definition event_count :: "string \<Rightarrow> EventStore \<Rightarrow> nat" where
  "event_count aggregate_id st = (case st aggregate_id of None \<Rightarrow> 0 | Some es \<Rightarrow> length es)"

end
