(* ===== verification/Event_Claims.thy ===== *)
theory Event_Claims
  imports Event_Log
begin

text \<open>
  Properties of the audit events: what a run of the ingestor accepts, what a rejected event
  leaves behind, how contract contexts order events, and how the store numbers them.
\<close>

section \<open>Runs\<close>

fun ingest_all :: "Event list \<Rightarrow> EventIngestor \<Rightarrow> Event list \<times> EventIngestor" where
  "ingest_all [] g = ([], g)"
| "ingest_all (e # es) g =
     (case ingest e g of
        (r, g1) \<Rightarrow> (case ingest_all es g1 of
          (acc, g2) \<Rightarrow> (if is_ok r then e # acc else acc, g2)))"

fun store_all :: "(string \<times> Event) list \<Rightarrow> EventStore \<Rightarrow> EventStore" where
  "store_all [] st = st"
| "store_all ((a, e) # aes) st = store_all aes (snd (store_append a e st))"

definition demo_event :: Event where
  "demo_event = Event_new ''id1'' 0 ''doc'' EVENT_DOCUMENT_REGISTERED JNull ''alice''"

section \<open>Ingestion\<close>

lemma accept_event_simps [simp]:
  "seen_keys (accept_event e g) = seen_keys g"
  "last_sequence (accept_event e g) = (last_sequence g)(ev_aggregate_id e \<mapsto> ev_sequence e)"
  "event_tx (accept_event e g) = event_tx g @ (case invalidation_of e of None \<Rightarrow> [] | Some i \<Rightarrow> [i])"
  by (auto simp: accept_event_def Let_def split: option.split)

lemma ingest_ok:
  assumes "ingest e g = (Ok u, g')"
  shows "ev_idempotency_key e \<notin> seen_keys g"
    "last_sequence g (ev_aggregate_id e) = Some l \<Longrightarrow> l < ev_sequence e"
    "g' = accept_event e (g\<lparr>seen_keys := insert (ev_idempotency_key e) (seen_keys g)\<rparr>)"
  using assms by (auto simp: ingest_def Let_def not_le split: if_splits option.splits)

lemma ingest_err:
  assumes "ingest e g = (Err x, g')"
  shows "seen_keys g' = insert (ev_idempotency_key e) (seen_keys g)" "last_sequence g' = last_sequence g"
    "event_tx g' = event_tx g"
  using assms by (auto simp: ingest_def Let_def split: if_splits option.splits)

text \<open>What a run accepts, relative to the state it starts in.\<close>

definition accepted_from :: "EventIngestor \<Rightarrow> Event list \<Rightarrow> bool" where
  "accepted_from g acc \<longleftrightarrow>
     distinct (map ev_idempotency_key acc) \<and> (\<forall>e \<in> set acc. ev_idempotency_key e \<notin> seen_keys g) \<and>
     (\<forall>a. sorted_wrt (<) (map ev_sequence (filter (\<lambda>e. ev_aggregate_id e = a) acc))) \<and>
     (\<forall>e \<in> set acc. \<forall>l. last_sequence g (ev_aggregate_id e) = Some l \<longrightarrow> l < ev_sequence e)"

lemma accepted_from_err:
  assumes "ingest e g = (Err x, g1)" and "accepted_from g1 acc"
  shows "accepted_from g acc"
  using assms(2) ingest_err [OF assms(1)] by (auto simp: accepted_from_def)

lemma accepted_from_ok:
  assumes "ingest e g = (Ok u, g1)" and acc: "accepted_from g1 acc"
  shows "accepted_from g (e # acc)"
proof -
  note ok = ingest_ok [OF assms(1)]
  have later: "ev_sequence e < ev_sequence x" if "x \<in> set acc" "ev_aggregate_id x = ev_aggregate_id e" for x
    using acc that by (auto simp: accepted_from_def ok(3))
  have last: "l < ev_sequence x" if "x \<in> set acc" "last_sequence g (ev_aggregate_id x) = Some l" for x l
  proof (cases "ev_aggregate_id x = ev_aggregate_id e")
    case True
    with that ok(2) [of l] later [of x] show ?thesis by (auto intro: less_trans)
  next
    case False
    with acc that show ?thesis by (auto simp: accepted_from_def ok(3))
  qed
  show ?thesis
    using acc ok(1,2) later last by (auto simp: accepted_from_def ok(3))
qed

lemma ingest_all_accepted: "ingest_all es g = (acc, g') \<Longrightarrow> accepted_from g acc"
proof (induction es arbitrary: g acc)
  case Nil
  then show ?case by (simp add: accepted_from_def)
next
  case (Cons e es)
  obtain r g1 where step: "ingest e g = (r, g1)" by force
  obtain acc1 where rest: "ingest_all es g1 = (acc1, g')" and acc: "acc = (if is_ok r then e # acc1 else acc1)"
    using Cons.prems step by (auto split: prod.splits)
  from Cons.IH [OF rest] step acc show ?case
    by (cases r) (auto intro: accepted_from_ok accepted_from_err)
qed

lemma ingest_all_sent:
  "ingest_all es g = (acc, g') \<Longrightarrow> event_tx g' = event_tx g @ List.map_filter invalidation_of acc"
proof (induction es arbitrary: g acc)
  case Nil
  then show ?case by simp
next
  case (Cons e es)
  obtain r g1 where step: "ingest e g = (r, g1)" by force
  obtain acc1 where rest: "ingest_all es g1 = (acc1, g')" and acc: "acc = (if is_ok r then e # acc1 else acc1)"
    using Cons.prems step by (auto split: prod.splits)
  from Cons.IH [OF rest] step acc show ?case
    by (cases r) (auto simp: ingest_err map_filter_simps dest!: ingest_ok(3) split: option.split)
qed

lemma ingest_all_seen:
  "ingest_all es g = (acc, g') \<Longrightarrow> seen_keys g' = seen_keys g \<union> ev_idempotency_key ` set es"
proof (induction es arbitrary: g acc)
  case Nil
  then show ?case by simp
next
  case (Cons e es)
  obtain r g1 where step: "ingest e g = (r, g1)" by force
  have "seen_keys g1 = insert (ev_idempotency_key e) (seen_keys g)"
    using step by (cases r) (auto simp: ingest_err dest: ingest_ok(3))
  moreover obtain acc1 where "ingest_all es g1 = (acc1, g')"
    using Cons.prems step by (auto split: prod.splits)
  ultimately show ?case using Cons.IH by simp
qed

text \<open>C20: whatever events arrive in whatever order, those a fresh ingestor accepts have pairwise
  distinct idempotency keys and, per aggregate, strictly increasing sequence numbers, and the
  invalidations sent are exactly those of the accepted events, in order. Every attempt spends
  its key, also that of an event refused for its order: from then on an event with that key,
  corrected or not, is refused as a duplicate.\<close>

theorem accepted_stream_is_ordered:
  assumes "ingest_all es EventIngestor_new = (acc, g)"
  shows "distinct (map ev_idempotency_key acc) \<and>
    (\<forall>a. sorted_wrt (<) (map ev_sequence (filter (\<lambda>e. ev_aggregate_id e = a) acc))) \<and>
    event_tx g = List.map_filter invalidation_of acc \<and>
    (\<forall>e. ev_idempotency_key e \<in> ev_idempotency_key ` set es \<longrightarrow>
       fst (ingest e g) =
         Err (InvalidContractEventContext (''duplicate event: idempotency_key='' @ ev_idempotency_key e)))"
  using ingest_all_accepted [OF assms] ingest_all_sent [OF assms] ingest_all_seen [OF assms]
  by (simp add: accepted_from_def EventIngestor_new_def ingest_def)

theorem accepted_stream_is_ordered_witness:
  "event_tx (snd (ingest_all [demo_event, demo_event] EventIngestor_new)) = [InvalidateRegistered ''doc'']"
proof -
  have acc: "fst (ingest_all [demo_event, demo_event] EventIngestor_new) = [demo_event]"
    by (simp add: ingest_def EventIngestor_new_def demo_event_def Event_new_def accept_event_def
        invalidation_of_def EVENT_DOCUMENT_REGISTERED_def Let_def)
  have "event_tx (snd (ingest_all [demo_event, demo_event] EventIngestor_new)) =
      List.map_filter invalidation_of (fst (ingest_all [demo_event, demo_event] EventIngestor_new))"
    using accepted_stream_is_ordered [OF surjective_pairing, of "[demo_event, demo_event]"] by blast
  then show ?thesis
    unfolding acc by (simp add: map_filter_simps invalidation_of_def demo_event_def Event_new_def)
qed

section \<open>Ordering of contract events\<close>

lemma unat_context_sequence:
  assumes "unat (ledger_sequence c) < 18446744073709551" and "unat (event_index c) < 1000"
  shows "unat (context_sequence c) = unat (ledger_sequence c) * 1000 + unat (event_index c)"
  using assms by (simp add: context_sequence_def unat_sat_add unat_sat_mul unat_u32_as_u64)

section \<open>The store\<close>

definition numbered :: "EventStore \<Rightarrow> bool" where
  "numbered st \<longleftrightarrow>
     (\<forall>a es. st a = Some es \<longrightarrow>
        es \<noteq> [] \<and> map ev_sequence es = map (\<lambda>i. word_of_nat i + 1) [0..<length es] \<and>
        list_all (\<lambda>e. ev_aggregate_id e = a) es)"

lemma numbered_append: "numbered st \<Longrightarrow> numbered (snd (store_append a e st))"
  by (auto simp: numbered_def store_append_def with_sequence_def Let_def split: option.splits)

lemma numbered_all: "numbered st \<Longrightarrow> numbered (store_all aes st)"
  by (induction aes st rule: store_all.induct) (auto simp: numbered_append)

lemma event_count_append:
  "event_count a (snd (store_append b e st)) = event_count a st + (if a = b then 1 else 0)"
  by (auto simp: event_count_def store_append_def Let_def split: option.splits)

lemma event_count_all: "event_count a (store_all aes st) = event_count a st + length (filter (\<lambda>p. fst p = a) aes)"
  by (induction aes st rule: store_all.induct) (auto simp: event_count_append)

lemma store_numbers_history:
  "let st = store_all aes EventStore_new; n = length (filter (\<lambda>p. fst p = a) aes) in
   (case get_history a st of
      None \<Rightarrow> n = 0
    | Some es \<Rightarrow> n > 0 \<and> map ev_sequence es = map (\<lambda>i. word_of_nat i + 1) [0..<n] \<and>
        list_all (\<lambda>e. ev_aggregate_id e = a) es) \<and>
   event_count a st = n \<and>
   get_latest_sequence a st = (if n = 0 then None else Some (word_of_nat n))"
proof -
  let ?st = "store_all aes EventStore_new"
  have num: "numbered ?st"
    by (rule numbered_all) (simp add: numbered_def EventStore_new_def)
  have cnt: "event_count a ?st = length (filter (\<lambda>p. fst p = a) aes)"
    by (simp add: event_count_all) (simp add: event_count_def EventStore_new_def)
  show ?thesis
  proof (cases "?st a")
    case None
    with cnt show ?thesis
      by (simp add: Let_def get_history_def get_latest_sequence_def event_count_def)
  next
    case (Some es)
    then have es: "es \<noteq> []" "map ev_sequence es = map (\<lambda>i. word_of_nat i + 1) [0..<length es]"
      "list_all (\<lambda>e. ev_aggregate_id e = a) es"
      using num by (auto simp: numbered_def)
    have "ev_sequence (last es) = last (map ev_sequence es)" using es(1) by (simp add: last_map)
    also have "\<dots> = word_of_nat (length es)"
      unfolding es(2) using es(1) by (cases es rule: rev_cases) auto
    finally have last: "ev_sequence (last es) = word_of_nat (length es)" .
    have "filter (\<lambda>p. fst p = a) aes \<noteq> []"
      using Some cnt es(1) by (auto simp: event_count_def)
    then show ?thesis
      using Some cnt es last by (simp add: Let_def get_history_def get_latest_sequence_def event_count_def)
  qed
qed

section \<open>Sequence numbers\<close>

text \<open>C21: the two sources of sequence numbers. Below 1000 events per ledger and below ledger \<open>18446744073709551\<close>, where the saturating
  arithmetic is exact, the derived sequence numbers order events by ledger and then by index;
  at index 1000 an event takes the number of the first event of the next ledger. After any
  sequence of appends to a new store, the history of an aggregate holds one event per append
  to it, numbered 1, 2, 3 and so on in order, each under its own aggregate, and the latest
  sequence number is their count.\<close>

theorem event_numbering:
  assumes "unat (ledger_sequence c) < 18446744073709551" and "unat (event_index c) < 1000"
    and "unat (ledger_sequence c') < 18446744073709551" and "unat (event_index c') < 1000"
  shows "(context_sequence c < context_sequence c' \<longleftrightarrow>
      ledger_sequence c < ledger_sequence c' \<or>
      ledger_sequence c = ledger_sequence c' \<and> event_index c < event_index c') \<and>
    context_sequence (c\<lparr>ledger_sequence := 7, event_index := 1000\<rparr>) =
      context_sequence (c\<lparr>ledger_sequence := 8, event_index := 0\<rparr>) \<and>
    (let st = store_all aes EventStore_new; n = length (filter (\<lambda>p. fst p = a) aes) in
     (case get_history a st of
        None \<Rightarrow> n = 0
      | Some es \<Rightarrow> n > 0 \<and> map ev_sequence es = map (\<lambda>i. word_of_nat i + 1) [0..<n] \<and>
          list_all (\<lambda>e. ev_aggregate_id e = a) es) \<and>
     event_count a st = n \<and>
     get_latest_sequence a st = (if n = 0 then None else Some (word_of_nat n)))"
proof (intro conjI)
  show "context_sequence c < context_sequence c' \<longleftrightarrow>
      ledger_sequence c < ledger_sequence c' \<or>
      ledger_sequence c = ledger_sequence c' \<and> event_index c < event_index c'"
    using assms by (auto simp: word_less_nat_alt word_unat_eq_iff unat_context_sequence)
qed (simp add: context_sequence_def sat_add_def sat_mul_def, rule store_numbers_history)

theorem event_numbering_witness:
  "context_sequence \<lparr>transaction_hash = ''t'', ledger_sequence = 7, event_index = 999, cx_document_hash = ''d''\<rparr> <
   context_sequence \<lparr>transaction_hash = ''t'', ledger_sequence = 8, event_index = 0, cx_document_hash = ''d''\<rparr>"
  using event_numbering
      [of "\<lparr>transaction_hash = ''t'', ledger_sequence = 7, event_index = 999, cx_document_hash = ''d''\<rparr>"
          "\<lparr>transaction_hash = ''t'', ledger_sequence = 8, event_index = 0, cx_document_hash = ''d''\<rparr>"]
  by simp

end
