(* ===== verification/Token_Bucket.thy ===== *)
theory Token_Bucket
  imports Metrics
begin

unbundle bit_operations_syntax

text \<open>
  The lock-free token bucket (\<open>src/src/rate_limit.rs\<close>, \<open>AtomicTokenBucket\<close>): tokens and the time
  of the last refill packed into one 64-bit word, refilled and spent by a compare-and-swap
  loop. Arithmetic is that of the release build. \<open>try_consume\<close> is the loop run without
  interference; \<open>cas_reach\<close> is the loop under any interleaving of threads.
\<close>

section \<open>Packing\<close>

definition MILLI :: nat where
  "MILLI = 1000"

definition pack :: "u32 \<Rightarrow> u32 \<Rightarrow> u64" where
  "pack secs milli = push_bit 32 (ucast secs) OR ucast milli"

definition unpack :: "u64 \<Rightarrow> u32 \<times> u32" where
  "unpack v = (ucast (drop_bit 32 v), ucast (v AND 4294967295))"

fun fnv :: "u64 \<Rightarrow> string \<Rightarrow> u64" where
  "fnv hash [] = hash"
| "fnv hash (b # bs) = fnv ((hash XOR ucast (byte_of b)) * 1099511628211) bs"

definition deterministic_jitter :: "string \<Rightarrow> u64 \<Rightarrow> u64" where
  "deterministic_jitter issuer window =
     (if window = 0 then 0 else fnv 14695981039346656037 issuer mod window)"

section \<open>The bucket\<close>

record ConsumeOutcome =
  granted :: bool
  refilled_milli :: u64
  reset :: bool

record AtomicTokenBucket =
  tb_state :: u64
  capacity_milli :: u32
  refill_milli_per_sec :: u32
  jitter_offset :: u64

definition clamp :: "u32 \<Rightarrow> u32 \<Rightarrow> u32 \<Rightarrow> u32" where
  "clamp x lo hi = (if x < lo then lo else if x > hi then hi else x)"

definition AtomicTokenBucket_new :: "u32 \<Rightarrow> u32 \<Rightarrow> u64 \<Rightarrow> string \<Rightarrow> u64 \<Rightarrow> AtomicTokenBucket" where
  "AtomicTokenBucket_new burst per_second jitter_seconds issuer t =
     (let max_units = max ((- 1) div 1000) 1;
          burst = clamp burst 1 max_units;
          per_second = clamp per_second 1 max_units;
          capacity = burst * 1000
      in \<lparr>tb_state = pack (ucast t) capacity, capacity_milli = capacity,
          refill_milli_per_sec = per_second * 1000,
          jitter_offset = deterministic_jitter issuer jitter_seconds\<rparr>)"

definition refilled :: "AtomicTokenBucket \<Rightarrow> u32 \<Rightarrow> u32 \<Rightarrow> u64 \<Rightarrow> u32" where
  "refilled b tokens_milli since t =
     (let elapsed = sat_sub t (ucast since);
          add = sat_mul elapsed (ucast (refill_milli_per_sec b))
      in ucast (min (ucast tokens_milli + add) (ucast (capacity_milli b))))"

text \<open>
  One round of the loop on the loaded word: the word to swap in and the outcome to return, and
  whether the round returns without a swap.
\<close>

definition attempt :: "AtomicTokenBucket \<Rightarrow> u64 \<Rightarrow> u64 \<Rightarrow> u64 \<times> ConsumeOutcome \<times> bool" where
  "attempt b t cur =
     (let (since, tokens_milli) = unpack cur;
          r = refilled b tokens_milli since t;
          refill_added = ucast (sat_sub r tokens_milli);
          reset' = (tokens_milli = 0 \<and> r > 0)
      in if r \<ge> 1000 then
           (pack (ucast t) (r - 1000),
            \<lparr>granted = True, refilled_milli = refill_added, reset = reset'\<rparr>, False)
         else
           let next = pack (ucast t) r in
           if cur = next then (next, \<lparr>granted = False, refilled_milli = 0, reset = False\<rparr>, True)
           else (next, \<lparr>granted = False, refilled_milli = refill_added, reset = reset'\<rparr>, False))"

definition try_consume :: "AtomicTokenBucket \<Rightarrow> u64 \<Rightarrow> ConsumeOutcome \<times> AtomicTokenBucket" where
  "try_consume b t = (case attempt b t (tb_state b) of (next, out, _) \<Rightarrow> (out, b\<lparr>tb_state := next\<rparr>))"

definition div_ceil :: "u64 \<Rightarrow> u64 \<Rightarrow> u64" where
  "div_ceil x y = (if x mod y = 0 then x div y else x div y + 1)"

definition reset_at :: "AtomicTokenBucket \<Rightarrow> u32 \<Rightarrow> u64 \<Rightarrow> u64" where
  "reset_at b tokens_milli t =
     (let deficit = ucast (sat_sub (capacity_milli b) tokens_milli);
          secs_to_full =
            (if refill_milli_per_sec b = 0 then 0 else div_ceil deficit (ucast (refill_milli_per_sec b)))
      in t + secs_to_full + jitter_offset b)"

definition snapshot :: "AtomicTokenBucket \<Rightarrow> u64 \<Rightarrow> u32 \<times> u64" where
  "snapshot b t =
     (let (since, tokens_milli) = unpack (tb_state b);
          r = refilled b tokens_milli since t
      in (r div 1000, reset_at b r t))"

definition time_to_next_token :: "AtomicTokenBucket \<Rightarrow> u64 \<Rightarrow> u64" where
  "time_to_next_token b t =
     (let (since, tokens_milli) = unpack (tb_state b);
          r = refilled b tokens_milli since t
      in if r \<ge> 1000 then 0
         else if refill_milli_per_sec b = 0 then 1
         else max (div_ceil (1000 - ucast r) (ucast (refill_milli_per_sec b))) 1)"

definition last_seen :: "AtomicTokenBucket \<Rightarrow> u64" where
  "last_seen b = ucast (fst (unpack (tb_state b)))"

section \<open>Threads\<close>

text \<open>
  A thread inside \<open>try_consume\<close> is about to load, holds a loaded word it will try to swap, or
  has returned. The history lists the outcomes in the order they took effect.
\<close>

datatype consume_pc = AtLoad | AtSwap u64 | Returned ConsumeOutcome

type_synonym cas_state = "u64 \<times> (nat \<Rightarrow> consume_pc) \<times> (nat \<times> ConsumeOutcome) list"

text \<open>Each thread \<open>i\<close> runs with its own reading \<open>clk i\<close> of the clock. A weak swap may fail for no reason.\<close>

inductive cas_step :: "AtomicTokenBucket \<Rightarrow> (nat \<Rightarrow> u64) \<Rightarrow> cas_state \<Rightarrow> cas_state \<Rightarrow> bool" for b clk where
  load:
    "pcs i = AtLoad \<Longrightarrow> attempt b (clk i) word = (next, out, False) \<Longrightarrow>
     cas_step b clk (word, pcs, hist) (word, pcs(i := AtSwap word), hist)"
| load_return:
    "pcs i = AtLoad \<Longrightarrow> attempt b (clk i) word = (next, out, True) \<Longrightarrow>
     cas_step b clk (word, pcs, hist) (word, pcs(i := Returned out), hist @ [(i, out)])"
| swap:
    "pcs i = AtSwap word \<Longrightarrow> attempt b (clk i) word = (next, out, nocas) \<Longrightarrow>
     cas_step b clk (word, pcs, hist) (next, pcs(i := Returned out), hist @ [(i, out)])"
| retry:
    "pcs i = AtSwap cur \<Longrightarrow>
     cas_step b clk (word, pcs, hist) (word, pcs(i := AtLoad), hist)"

inductive cas_reach :: "AtomicTokenBucket \<Rightarrow> (nat \<Rightarrow> u64) \<Rightarrow> cas_state \<Rightarrow> bool" for b clk where
  start: "cas_reach b clk (tb_state b, \<lambda>_. AtLoad, [])"
| step: "cas_reach b clk st \<Longrightarrow> cas_step b clk st st' \<Longrightarrow> cas_reach b clk st'"

text \<open>The same calls one after the other.\<close>

fun consume_all :: "AtomicTokenBucket \<Rightarrow> u64 list \<Rightarrow> ConsumeOutcome list \<times> AtomicTokenBucket" where
  "consume_all b [] = ([], b)"
| "consume_all b (t # ts) =
     (case try_consume b t of
        (out, b1) \<Rightarrow> (case consume_all b1 ts of (outs, b2) \<Rightarrow> (out # outs, b2)))"

definition grants :: "ConsumeOutcome list \<Rightarrow> nat" where
  "grants outs = length (filter granted outs)"

section \<open>Packing round trip\<close>

lemma no_high_bit [simp]: "\<not> bit m (32 + n)" for m :: u32
  using bit_imp_le_length [of m "32 + n"] by auto

lemma unpack_pack [simp]: "unpack (pack s m) = (s, m)"
proof -
  have mask: "(4294967295 :: u64) = mask 32" by (simp add: mask_eq_exp_minus_1)
  show ?thesis
    unfolding unpack_def pack_def mask
    by (auto intro!: bit_eqI simp: bit_simps)
qed

lemma pack_inject [simp]: "pack s m = pack s' m' \<longleftrightarrow> s = s' \<and> m = m'"
  by (metis Pair_inject unpack_pack)

lemma pack_unpack: "pack (fst (unpack v)) (snd (unpack v)) = v"
proof -
  have mask: "(4294967295 :: u64) = mask 32" by (simp add: mask_eq_exp_minus_1)
  show ?thesis
    unfolding unpack_def pack_def mask by (rule bit_eqI) (auto simp: bit_simps)
qed

end
