(* ===== verification/Token_Bucket_Correct.thy ===== *)
theory Token_Bucket_Correct
  imports Token_Bucket
begin

text \<open>
  The token bucket under concurrency and over time: every interleaving of the compare-and-swap
  loop has the effect of the same calls one after the other, and with a clock that does not
  run backwards a bucket grants at most its burst plus its rate times the elapsed seconds.
\<close>

section \<open>Sequential runs\<close>

lemma attempt_state [simp]: "attempt (b\<lparr>tb_state := w\<rparr>) t = attempt b t"
  by (simp add: fun_eq_iff attempt_def refilled_def)

lemma attempt_return: "attempt b t cur = (next, out, True) \<Longrightarrow> next = cur"
  by (auto simp: attempt_def Let_def split: prod.splits if_splits)

lemma consume_all_snoc:
  "consume_all b ts = (outs, b1) \<Longrightarrow> try_consume b1 t = (out, b2) \<Longrightarrow>
     consume_all b (ts @ [t]) = (outs @ [out], b2)"
  by (induction b ts arbitrary: outs rule: consume_all.induct) (auto split: prod.splits)

section \<open>Interleavings\<close>

definition linearized :: "AtomicTokenBucket \<Rightarrow> (nat \<Rightarrow> u64) \<Rightarrow> cas_state \<Rightarrow> bool" where
  "linearized b clk st =
     (case st of (word, pcs, hist) \<Rightarrow>
        consume_all b (map (clk \<circ> fst) hist) = (map snd hist, b\<lparr>tb_state := word\<rparr>) \<and>
        distinct (map fst hist) \<and> (\<forall>i out. pcs i = Returned out \<longleftrightarrow> (i, out) \<in> set hist))"

lemma linearized_effect:
  assumes "linearized b clk (word, pcs, hist)" and "attempt b (clk i) word = (next, out, f)"
    and "\<nexists>out. pcs i = Returned out"
  shows "linearized b clk (next, pcs(i := Returned out), hist @ [(i, out)])"
proof -
  from assms(1) have lin: "consume_all b (map (clk \<circ> fst) hist) = (map snd hist, b\<lparr>tb_state := word\<rparr>)"
    and dist: "distinct (map fst hist)" and ret: "\<And>i out. pcs i = Returned out \<longleftrightarrow> (i, out) \<in> set hist"
    by (auto simp: linearized_def)
  have step: "try_consume (b\<lparr>tb_state := word\<rparr>) (clk i) = (out, b\<lparr>tb_state := next\<rparr>)"
    using assms(2) by (simp add: try_consume_def)
  have new: "i \<notin> set (map fst hist)"
    using ret assms(3) by force
  have "(pcs(i := Returned out)) j = Returned out' \<longleftrightarrow> (j, out') \<in> set (hist @ [(i, out)])" for j out'
    using ret new by force
  with consume_all_snoc [OF lin step] dist new show ?thesis
    by (simp add: linearized_def)
qed

lemma cas_step_linearized:
  assumes "cas_step b clk st st'" and "linearized b clk st"
  shows "linearized b clk st'"
  using assms
proof (cases rule: cas_step.cases)
  case (load pcs i word "next" out hist)
  then show ?thesis using assms(2) by (force simp: linearized_def)
next
  case (load_return pcs i word "next" out hist)
  with attempt_return [OF load_return(4)] assms(2) linearized_effect [of b clk word pcs hist i "next" out True]
  show ?thesis by auto
next
  case (swap pcs i word "next" out nocas hist)
  with assms(2) linearized_effect [of b clk word pcs hist i "next" out nocas] show ?thesis by auto
next
  case (retry pcs i cur word hist)
  then show ?thesis using assms(2) by (force simp: linearized_def)
qed

lemma cas_reach_linearized: "cas_reach b clk st \<Longrightarrow> linearized b clk st"
proof (induction rule: cas_reach.induct)
  case start
  show ?case by (simp add: linearized_def)
next
  case (step st st')
  then show ?case by (blast intro: cas_step_linearized)
qed

section \<open>Tokens over time\<close>

definition bucket_milli :: "AtomicTokenBucket \<Rightarrow> nat" where
  "bucket_milli b = unat (snd (unpack (tb_state b)))"

definition bucket_time :: "AtomicTokenBucket \<Rightarrow> nat" where
  "bucket_time b = unat (fst (unpack (tb_state b)))"

lemma unat_refilled:
  assumes "unat t < 2 ^ 32"
  shows "unat (refilled b tok since t) =
    min (unat tok + (unat t - unat since) * unat (refill_milli_per_sec b)) (unat (capacity_milli b))"
proof -
  let ?e = "unat t - unat since" and ?r = "unat (refill_milli_per_sec b)"
  let ?add = "sat_mul (sat_sub t (ucast since)) (ucast (refill_milli_per_sec b)) :: u64"
  have "?e \<le> 4294967295" using assms by simp
  moreover have "?r \<le> 4294967295" using unat_u32_less [of "refill_milli_per_sec b"] by linarith
  ultimately have prod: "?e * ?r \<le> 4294967295 * 4294967295" by (rule mult_le_mono)
  then have add: "unat ?add = ?e * ?r"
    by (simp add: unat_sat_mul unat_sat_sub unat_u32_as_u64)
  have "unat tok + ?e * ?r < 18446744073709551616"
    using prod unat_u32_less [of tok] by linarith
  then have "unat (ucast tok + ?add) = unat tok + ?e * ?r"
    using add by (simp add: unat_word_ariths unat_u32_as_u64)
  then have min: "unat (min (ucast tok + ?add) (ucast (capacity_milli b))) =
      min (unat tok + ?e * ?r) (unat (capacity_milli b))"
    by (simp add: unat_min_word unat_u32_as_u64)
  have "min (unat tok + ?e * ?r) (unat (capacity_milli b)) < 2 ^ 32"
    by (simp add: min_less_iff_disj)
  then show ?thesis
    unfolding refilled_def Let_def unat_u64_as_u32 min by simp
qed

lemma attempt_eq:
  assumes "unat t < 2 ^ 32"
  obtains since tok r where "unpack cur = (since, tok)" "r = refilled b tok since t"
    "fst (attempt b t cur) = pack (ucast t) (if r \<ge> 1000 then r - 1000 else r)"
    "granted (fst (snd (attempt b t cur))) \<longleftrightarrow> r \<ge> 1000"
proof -
  obtain since tok where "unpack cur = (since, tok)" by force
  then show ?thesis
    by (intro that [of since tok "refilled b tok since t"]) (auto simp: attempt_def Let_def)
qed

lemma try_consume_accounts:
  assumes "unat t < 2 ^ 32" and "try_consume b t = (out, b')"
  shows "bucket_time b' = unat t"
    and "1000 * of_bool (granted out) + bucket_milli b' \<le>
           bucket_milli b + (unat t - bucket_time b) * unat (refill_milli_per_sec b)"
    and "bucket_milli b' \<le> unat (capacity_milli b)"
    and "refill_milli_per_sec b' = refill_milli_per_sec b" "capacity_milli b' = capacity_milli b"
proof -
  obtain since tok r where u: "unpack (tb_state b) = (since, tok)" and r: "r = refilled b tok since t"
    and nx: "fst (attempt b t (tb_state b)) = pack (ucast t) (if r \<ge> 1000 then r - 1000 else r)"
    and grant: "granted (fst (snd (attempt b t (tb_state b)))) \<longleftrightarrow> r \<ge> 1000"
    by (rule attempt_eq [OF assms(1)])
  from assms(2) have b': "b' = b\<lparr>tb_state := pack (ucast t) (if r \<ge> 1000 then r - 1000 else r)\<rparr>"
    and out: "granted out \<longleftrightarrow> r \<ge> 1000"
    using nx grant by (auto simp: try_consume_def split: prod.splits)
  have exact: "unat r = min (bucket_milli b + (unat t - bucket_time b) * unat (refill_milli_per_sec b))
      (unat (capacity_milli b))"
    using unat_refilled [OF assms(1)] u r by (simp add: bucket_milli_def bucket_time_def)
  have milli: "bucket_milli b' = unat r - 1000 * of_bool (granted out)" "granted out \<Longrightarrow> 1000 \<le> unat r"
    by (simp_all add: b' bucket_milli_def out word_le_nat_alt unat_sub)
  show "bucket_time b' = unat t"
    using assms(1) by (simp add: b' bucket_time_def unat_u64_as_u32)
  show "1000 * of_bool (granted out) + bucket_milli b' \<le>
      bucket_milli b + (unat t - bucket_time b) * unat (refill_milli_per_sec b)"
    using milli exact by (cases "granted out") auto
  show "bucket_milli b' \<le> unat (capacity_milli b)"
    using milli exact by simp
qed (use assms(2) in \<open>auto simp: try_consume_def split: prod.splits\<close>)

lemma grants_bound:
  assumes "consume_all b ts = (outs, b')" and "sorted (bucket_time b # map unat ts)"
    and "list_all (\<lambda>t. unat t < 2 ^ 32) ts"
  shows "1000 * grants outs + bucket_milli b' \<le>
    bucket_milli b + (last (bucket_time b # map unat ts) - bucket_time b) * unat (refill_milli_per_sec b)"
  using assms
proof (induction ts arbitrary: b outs)
  case Nil
  then show ?case by (simp add: grants_def)
next
  case (Cons t ts)
  obtain out b1 where one: "try_consume b t = (out, b1)" by force
  obtain outs' where rest: "consume_all b1 ts = (outs', b')" and outs: "outs = out # outs'"
    using Cons.prems(1) one by (auto split: prod.splits)
  have t: "unat t < 2 ^ 32" using Cons.prems(3) by simp
  note acc = try_consume_accounts [OF t one]
  let ?r = "unat (refill_milli_per_sec b)" and ?l = "last (unat t # map unat ts)"
  have ih: "1000 * grants outs' + bucket_milli b' \<le> bucket_milli b1 + (?l - unat t) * ?r"
    using Cons.IH [OF rest] Cons.prems(2,3) acc by simp
  have "bucket_time b \<le> unat t" "unat t \<le> ?l"
    using Cons.prems(2) by (auto simp: last_map)
  then have "(unat t - bucket_time b) * ?r + (?l - unat t) * ?r = (?l - bucket_time b) * ?r"
    by (simp flip: add_mult_distrib)
  moreover have "1000 * grants outs = 1000 * of_bool (granted out) + 1000 * grants outs'"
    by (simp add: outs grants_def)
  ultimately show ?case using ih acc(2) by simp
qed

lemma max_units: "max ((- 1) div 1000) 1 = (4294967 :: u32)"
  by (simp add: max_def word_le_nat_alt)

lemma new_bucket:
  assumes "1 \<le> unat burst" "unat burst \<le> 4294967" "1 \<le> unat per_second" "unat per_second \<le> 4294967" "unat t < 2 ^ 32"
  shows "bucket_milli (AtomicTokenBucket_new burst per_second jit issuer t) = 1000 * unat burst"
    and "unat (refill_milli_per_sec (AtomicTokenBucket_new burst per_second jit issuer t)) = 1000 * unat per_second"
    and "bucket_time (AtomicTokenBucket_new burst per_second jit issuer t) = unat t"
proof -
  have clamp: "clamp burst 1 4294967 = burst" "clamp per_second 1 4294967 = per_second"
    using assms by (auto simp: clamp_def word_less_nat_alt)
  show "bucket_milli (AtomicTokenBucket_new burst per_second jit issuer t) = 1000 * unat burst"
    "unat (refill_milli_per_sec (AtomicTokenBucket_new burst per_second jit issuer t)) = 1000 * unat per_second"
    "bucket_time (AtomicTokenBucket_new burst per_second jit issuer t) = unat t"
    using assms
    by (simp_all add: AtomicTokenBucket_new_def Let_def max_units clamp bucket_milli_def bucket_time_def
        unat_word_ariths unat_u64_as_u32)
qed

end
