(* ===== verification/Rate_Limiter.thy ===== *)
theory Rate_Limiter
  imports Token_Bucket Dash_Map
begin

text \<open>
  The two-tier rate limiter (\<open>src/src/rate_limit.rs\<close>, \<open>PerIssuerRateLimiter\<close>): a global
  \<open>governor\<close> bucket in front of one token bucket per issuer in a concurrent map. Both crates
  are parameters. Clock readings are arguments; durations are nanoseconds. The snapshot that
  \<open>record_success\<close> hands to the cache is an unpolled future, which does nothing.
\<close>

section \<open>Data\<close>

text \<open>
  A \<open>governor\<close> limiter with its clock: a check answers the wait until the next cell when it
  refuses; \<open>gov_elapse\<close> is the passage of time.
\<close>

record 'g governor_ops =
  gov_direct :: "u32 \<Rightarrow> u32 \<Rightarrow> 'g"
  gov_check :: "'g \<Rightarrow> nat option \<times> 'g"
  gov_until_ready :: "'g \<Rightarrow> 'g"
  gov_elapse :: "nat \<Rightarrow> 'g \<Rightarrow> 'g"

record RateLimitStatus =
  rs_issuer :: string
  remaining :: u32
  rs_reset_at :: u64
  global_throttled :: bool

record RateLimiterConfig =
  global_per_second :: u32
  global_burst :: u32
  cfg_per_issuer_per_second :: u32
  cfg_per_issuer_burst :: u32
  issuer_ttl_seconds :: u64
  jitter_seconds :: u64

definition RateLimiterConfig_default :: RateLimiterConfig where
  "RateLimiterConfig_default =
     \<lparr>global_per_second = 100, global_burst = 200, cfg_per_issuer_per_second = 10,
      cfg_per_issuer_burst = 20, issuer_ttl_seconds = 3600, jitter_seconds = 0\<rparr>"

type_synonym 'm bucket_map = "('m, string, AtomicTokenBucket) dash_map_ops"

record ('g, 'm, 'c) PerIssuerRateLimiter =
  global :: 'g
  buckets :: 'm
  rl_config :: RateLimiterConfig
  rl_metrics :: "metrics option"
  rl_cache :: "'c option"

datatype RateLimitError =
    GlobalExhausted nat
  | IssuerExhausted string nat

definition as_secs :: "nat \<Rightarrow> nat" where
  "as_secs d = d div 1000000000"

definition from_secs :: "u64 \<Rightarrow> nat" where
  "from_secs s = unat s * 1000000000"

fun retry_after_secs :: "RateLimitError \<Rightarrow> nat" where
  "retry_after_secs (GlobalExhausted retry) = max (as_secs retry) 1"
| "retry_after_secs (IssuerExhausted _ retry) = max (as_secs retry) 1"

fun reason :: "RateLimitError \<Rightarrow> string" where
  "reason (GlobalExhausted _) = ''global rate limit exceeded''"
| "reason (IssuerExhausted _ _) = ''per-issuer rate limit exceeded''"

fun rate_limit_message :: "RateLimitError \<Rightarrow> string" where
  "rate_limit_message (GlobalExhausted retry) =
     ''global rate limit exceeded; retry after '' @ dec (as_secs retry) @ ''s''"
| "rate_limit_message (IssuerExhausted issuer retry) =
     ''per-issuer rate limit exceeded for '' @ [char_of (39 :: nat)] @ issuer @ [char_of (39 :: nat)] @
     ''; retry after '' @ dec (as_secs retry) @ ''s''"

section \<open>Operations\<close>

definition build_rate_limiter :: "'g governor_ops \<Rightarrow> u32 \<Rightarrow> u32 \<Rightarrow> 'g" where
  "build_rate_limiter G per_second burst = gov_direct G (max per_second 1) (max burst 1)"

definition PerIssuerRateLimiter_new ::
    "'g governor_ops \<Rightarrow> 'm bucket_map \<Rightarrow> RateLimiterConfig \<Rightarrow> metrics option \<Rightarrow> ('g, 'm, 'c) PerIssuerRateLimiter" where
  "PerIssuerRateLimiter_new G D config metrics =
     \<lparr>global = gov_direct G (max (global_per_second config) 1) (max (global_burst config) 1),
      buckets = dm_new D, rl_config = config, rl_metrics = metrics, rl_cache = None\<rparr>"

definition with_cache :: "'c \<Rightarrow> ('g, 'm, 'c) PerIssuerRateLimiter \<Rightarrow> ('g, 'm, 'c) PerIssuerRateLimiter" where
  "with_cache c l = l\<lparr>rl_cache := Some c\<rparr>"

definition consume_issuer ::
    "'m bucket_map \<Rightarrow> string \<Rightarrow> u64 \<Rightarrow> ('g, 'm, 'c) PerIssuerRateLimiter \<Rightarrow>
     ConsumeOutcome \<times> ('g, 'm, 'c) PerIssuerRateLimiter" where
  "consume_issuer D issuer t l =
     (let bucket =
        (case dm_get D (buckets l) issuer of
           Some b \<Rightarrow> b
         | None \<Rightarrow>
             AtomicTokenBucket_new (cfg_per_issuer_burst (rl_config l)) (cfg_per_issuer_per_second (rl_config l))
               (jitter_seconds (rl_config l)) issuer t)
      in case try_consume bucket t of
           (out, bucket') \<Rightarrow> (out, l\<lparr>buckets := dm_insert D issuer bucket' (buckets l)\<rparr>))"

definition next_token_wait :: "'m bucket_map \<Rightarrow> string \<Rightarrow> u64 \<Rightarrow> ('g, 'm, 'c) PerIssuerRateLimiter \<Rightarrow> u64" where
  "next_token_wait D issuer t l =
     max (case dm_get D (buckets l) issuer of Some b \<Rightarrow> time_to_next_token b t | None \<Rightarrow> 0) 1"

definition record_success ::
    "string \<Rightarrow> ConsumeOutcome \<Rightarrow> ('g, 'm, 'c) PerIssuerRateLimiter \<Rightarrow> ('g, 'm, 'c) PerIssuerRateLimiter" where
  "record_success issuer out l =
     l\<lparr>rl_metrics := map_option (\<lambda>m.
        let m = increment_rate_limit_hit issuer m;
            m = record_token_consumed m;
            m = record_tokens_refilled (unat (refilled_milli out) div MILLI) m
        in if reset out then increment_rate_limit_reset m else m) (rl_metrics l)\<rparr>"

definition check ::
    "'g governor_ops \<Rightarrow> 'm bucket_map \<Rightarrow> string \<Rightarrow> u64 \<Rightarrow> ('g, 'm, 'c) PerIssuerRateLimiter \<Rightarrow>
     (RateLimitError, unit) result \<times> ('g, 'm, 'c) PerIssuerRateLimiter" where
  "check G D issuer t l =
     (case gov_check G (global l) of
        (Some wait, g) \<Rightarrow>
          (Err (GlobalExhausted wait),
           l\<lparr>global := g,
             rl_metrics := map_option
               (increment_rate_limit_violation \<circ> increment_rate_limit_global_rejection issuer) (rl_metrics l)\<rparr>)
      | (None, g) \<Rightarrow>
          (case consume_issuer D issuer t (l\<lparr>global := g\<rparr>) of
             (out, l1) \<Rightarrow>
               if \<not> granted out then
                 (Err (IssuerExhausted issuer (from_secs (next_token_wait D issuer t l1))),
                  l1\<lparr>rl_metrics := map_option
                    (increment_rate_limit_violation \<circ> increment_rate_limit_issuer_rejection issuer) (rl_metrics l1)\<rparr>)
               else (Ok (), record_success issuer out l1)))"

text \<open>
  The loop of \<open>until_ready\<close>: one clock reading per round, until a round is granted. The list
  is the readings the loop would see; the result is \<open>None\<close> while it is still waiting.
\<close>

fun until_ready_loop ::
    "'m bucket_map \<Rightarrow> string \<Rightarrow> u64 list \<Rightarrow> ('g, 'm, 'c) PerIssuerRateLimiter \<Rightarrow>
     ('g, 'm, 'c) PerIssuerRateLimiter option" where
  "until_ready_loop D issuer [] l = None"
| "until_ready_loop D issuer (t # ts) l =
     (case consume_issuer D issuer t l of
        (out, l1) \<Rightarrow>
          if granted out then Some (record_success issuer out l1) else until_ready_loop D issuer ts l1)"

definition until_ready ::
    "'g governor_ops \<Rightarrow> 'm bucket_map \<Rightarrow> string \<Rightarrow> u64 list \<Rightarrow> ('g, 'm, 'c) PerIssuerRateLimiter \<Rightarrow>
     ('g, 'm, 'c) PerIssuerRateLimiter option" where
  "until_ready G D issuer ts l = until_ready_loop D issuer ts (l\<lparr>global := gov_until_ready G (global l)\<rparr>)"

definition status ::
    "'g governor_ops \<Rightarrow> 'm bucket_map \<Rightarrow> string \<Rightarrow> u64 \<Rightarrow> ('g, 'm, 'c) PerIssuerRateLimiter \<Rightarrow>
     RateLimitStatus \<times> ('g, 'm, 'c) PerIssuerRateLimiter" where
  "status G D issuer t l =
     (let (rem, reset) =
        (case dm_get D (buckets l) issuer of
           Some b \<Rightarrow> snapshot b t
         | None \<Rightarrow>
             (cfg_per_issuer_burst (rl_config l),
              t + deterministic_jitter issuer (jitter_seconds (rl_config l))));
          (refused, g) = gov_check G (global l)
      in (\<lparr>rs_issuer = issuer, remaining = rem, rs_reset_at = reset, global_throttled = (refused \<noteq> None)\<rparr>,
          l\<lparr>global := g\<rparr>))"

definition evict_stale ::
    "'m bucket_map \<Rightarrow> u64 \<Rightarrow> ('g, 'm, 'c) PerIssuerRateLimiter \<Rightarrow> ('g, 'm, 'c) PerIssuerRateLimiter" where
  "evict_stale D t l =
     (let cutoff = sat_sub t (issuer_ttl_seconds (rl_config l))
      in l\<lparr>buckets := dm_retain D (\<lambda>_ b. last_seen b \<ge> cutoff) (buckets l)\<rparr>)"

definition tracked_issuers :: "'m bucket_map \<Rightarrow> ('g, 'm, 'c) PerIssuerRateLimiter \<Rightarrow> nat" where
  "tracked_issuers D l = dm_len D (buckets l)"

section \<open>The Stellar limiter\<close>

record 'g StellarRateLimiter =
  srl_inner :: 'g

definition StellarRateLimiter_new :: "'g governor_ops \<Rightarrow> u32 \<Rightarrow> u32 \<Rightarrow> 'g StellarRateLimiter" where
  "StellarRateLimiter_new G per_second burst = \<lparr>srl_inner = build_rate_limiter G per_second burst\<rparr>"

definition try_acquire :: "'g governor_ops \<Rightarrow> 'g StellarRateLimiter \<Rightarrow> bool \<times> 'g StellarRateLimiter" where
  "try_acquire G l = (case gov_check G (srl_inner l) of (w, g) \<Rightarrow> (w = None, \<lparr>srl_inner = g\<rparr>))"

text \<open>The loop of \<open>acquire\<close> with a bound on its rounds.\<close>

fun acquire :: "'g governor_ops \<Rightarrow> nat \<Rightarrow> 'g StellarRateLimiter \<Rightarrow> 'g StellarRateLimiter option" where
  "acquire G 0 l = None"
| "acquire G (Suc fuel) l =
     (case gov_check G (srl_inner l) of
        (None, g) \<Rightarrow> Some \<lparr>srl_inner = g\<rparr>
      | (Some delay, g) \<Rightarrow> acquire G fuel \<lparr>srl_inner = gov_elapse G delay g\<rparr>)"

definition wait_time :: "'g governor_ops \<Rightarrow> 'g StellarRateLimiter \<Rightarrow> nat option \<times> 'g StellarRateLimiter" where
  "wait_time G l = (case gov_check G (srl_inner l) of (w, g) \<Rightarrow> (w, \<lparr>srl_inner = g\<rparr>))"

end
