(* ===== verification/Rate_Claims.thy ===== *)
theory Rate_Claims
  imports Token_Bucket_Correct Rate_Limiter
begin

text \<open>
  Properties of the service's rate limiter: interleavings of the lock-free bucket, its burst
  bound, the retry advice, and the two tiers of \<open>check\<close>.
\<close>

section \<open>Well-formed limiters\<close>

definition bucket_ok :: "AtomicTokenBucket \<Rightarrow> bool" where
  "bucket_ok b \<longleftrightarrow> 1000 \<le> unat (capacity_milli b) \<and> 1000 \<le> unat (refill_milli_per_sec b)"

definition limiter_ok :: "'m bucket_map \<Rightarrow> ('g, 'm, 'c) PerIssuerRateLimiter \<Rightarrow> bool" where
  "limiter_ok D l \<longleftrightarrow> (\<forall>i b. dm_get D (buckets l) i = Some b \<longrightarrow> bucket_ok b)"

definition issuer_bucket ::
    "'m bucket_map \<Rightarrow> string \<Rightarrow> u64 \<Rightarrow> ('g, 'm, 'c) PerIssuerRateLimiter \<Rightarrow> AtomicTokenBucket" where
  "issuer_bucket D issuer t l =
     (case dm_get D (buckets l) issuer of
        Some b \<Rightarrow> b
      | None \<Rightarrow>
          AtomicTokenBucket_new (cfg_per_issuer_burst (rl_config l)) (cfg_per_issuer_per_second (rl_config l))
            (jitter_seconds (rl_config l)) issuer t)"

text \<open>A cell-rate limiter with its clock, for the witnesses: theoretical arrival time, period and tolerance.\<close>

record gcra =
  g_clock :: nat
  g_tat :: nat
  g_period :: nat
  g_tolerance :: nat

definition gcra_ops :: "gcra governor_ops" where
  "gcra_ops =
     \<lparr>gov_direct = (\<lambda>per_second burst.
        let period = 1000000000 div unat per_second
        in \<lparr>g_clock = 0, g_tat = 0, g_period = period, g_tolerance = period * (unat burst - 1)\<rparr>),
      gov_check = (\<lambda>g.
        if g_tat g \<le> g_clock g + g_tolerance g
        then (None, g\<lparr>g_tat := max (g_tat g) (g_clock g) + g_period g\<rparr>)
        else (Some (g_tat g - (g_clock g + g_tolerance g)), g)),
      gov_until_ready = (\<lambda>g.
        let g = g\<lparr>g_clock := max (g_clock g) (g_tat g - g_tolerance g)\<rparr>
        in g\<lparr>g_tat := max (g_tat g) (g_clock g) + g_period g\<rparr>),
      gov_elapse = (\<lambda>d g. g\<lparr>g_clock := g_clock g + d\<rparr>)\<rparr>"

definition demo_bucket :: AtomicTokenBucket where
  "demo_bucket = AtomicTokenBucket_new 1 1 0 ''GISSUER'' 10"

definition demo_limiter ::
    "(gcra, (string, AtomicTokenBucket) dlist_map, unit) PerIssuerRateLimiter" where
  "demo_limiter =
     PerIssuerRateLimiter_new gcra_ops alist_dash_map
       (RateLimiterConfig_default\<lparr>cfg_per_issuer_burst := 1, cfg_per_issuer_per_second := 1\<rparr>) (Some [])"

text \<open>The demo limiter with the bucket of one issuer empty.\<close>

definition empty_bucket :: AtomicTokenBucket where
  "empty_bucket =
     \<lparr>tb_state = pack 10 0, capacity_milli = 1000, refill_milli_per_sec = 1000, jitter_offset = 0\<rparr>"

definition demo_limiter_used ::
    "(gcra, (string, AtomicTokenBucket) dlist_map, unit) PerIssuerRateLimiter" where
  "demo_limiter_used =
     demo_limiter\<lparr>buckets := dm_insert alist_dash_map ''GA'' empty_bucket (buckets demo_limiter)\<rparr>"

section \<open>The governor\<close>

text \<open>What \<open>governor\<close> documents of a refusal: after the reported wait the next check passes.\<close>

locale governor_crate =
  fixes G :: "'g governor_ops"
  assumes wait_suffices: "gov_check G g = (Some d, g') \<Longrightarrow> fst (gov_check G (gov_elapse G d g')) = None"
begin

lemma acquire_returns: "\<exists>l'. acquire G (Suc (Suc n)) l = Some l'"
proof (cases "gov_check G (srl_inner l)")
  case (Pair w g)
  show ?thesis
  proof (cases w)
    case None
    with Pair show ?thesis by simp
  next
    case (Some d)
    with Pair wait_suffices have "fst (gov_check G (gov_elapse G d g)) = None" by blast
    with Pair Some show ?thesis by (cases "gov_check G (gov_elapse G d g)") auto
  qed
qed

end

interpretation gcra: governor_crate gcra_ops
  by unfold_locales (auto simp: gcra_ops_def split: if_splits)

section \<open>Lemmas\<close>

lemma consume_issuer_eq:
  "consume_issuer D issuer t l =
     (fst (try_consume (issuer_bucket D issuer t l) t),
      l\<lparr>buckets := dm_insert D issuer (snd (try_consume (issuer_bucket D issuer t l) t)) (buckets l)\<rparr>)"
  by (simp add: consume_issuer_def issuer_bucket_def Let_def case_prod_beta)

lemma new_bucket_ok: "bucket_ok (AtomicTokenBucket_new burst rate jit issuer t)"
proof -
  have "1000 \<le> unat (clamp x 1 4294967 * 1000)" for x :: u32
  proof -
    have "1 \<le> unat (clamp x 1 4294967)" "unat (clamp x 1 4294967) \<le> 4294967"
      by (auto simp: clamp_def word_less_nat_alt)
    then show ?thesis by (simp add: unat_word_ariths)
  qed
  then show ?thesis
    unfolding bucket_ok_def AtomicTokenBucket_new_def Let_def max_units by simp
qed

lemma try_consume_ok: "try_consume b t = (out, b') \<Longrightarrow> bucket_ok b \<Longrightarrow> bucket_ok b'"
  by (auto simp: try_consume_def bucket_ok_def split: prod.splits)

lemma issuer_bucket_ok: "limiter_ok D l \<Longrightarrow> bucket_ok (issuer_bucket D issuer t l)"
  by (auto simp: limiter_ok_def issuer_bucket_def new_bucket_ok split: option.split)

lemma div_ceil_le_1:
  assumes "x \<le> y"
  shows "div_ceil x y \<le> 1"
proof (cases "x = y")
  case True
  then show ?thesis by (cases "y = 0") (auto simp: div_ceil_def word_le_nat_alt unat_div unat_eq_0)
next
  case False
  with assms have "unat (x div y) = 0"
    by (simp add: unat_div word_le_nat_alt word_unat_eq_iff)
  then have "x div y = 0" by (simp add: unat_eq_0)
  then show ?thesis by (simp add: div_ceil_def)
qed

text \<open>A refused bucket is full of time: its clock is the time of the refusal.\<close>

lemma refused_then_granted:
  assumes "bucket_ok b" and "unat t + 1 < 2 ^ 32" and "try_consume b t = (out, b1)" and "\<not> granted out"
  shows "time_to_next_token b1 t \<le> 1" and "granted (fst (try_consume b1 (t + 1)))"
proof -
  have t: "unat t < 2 ^ 32" "unat (t + 1) < 2 ^ 32" "unat (t + 1) = unat t + 1"
    using assms(2) by (auto simp: unat_word_ariths)
  note acc = try_consume_accounts [OF t(1) assms(3)]
  obtain since tok r where r: "unpack (tb_state b1) = (since, tok)" "r = refilled b1 tok since (t + 1)"
    "granted (fst (snd (attempt b1 (t + 1) (tb_state b1)))) \<longleftrightarrow> r \<ge> 1000"
    by (rule attempt_eq [OF t(2)])
  have "unat since = unat t" using acc(1) r(1) by (simp add: bucket_time_def)
  then have "1000 \<le> unat r"
    using assms(1) acc(4,5) unat_refilled [OF t(2), of b1 tok since] r(2) t(3)
    by (simp add: bucket_ok_def)
  then show "granted (fst (try_consume b1 (t + 1)))"
    using r(3) by (simp add: try_consume_def word_le_nat_alt case_prod_beta)
  let ?r = "refilled b1 tok since t" and ?m = "refill_milli_per_sec b1"
  have m: "1000 \<le> unat (ucast ?m :: u64)" using assms(1) acc(4) by (simp add: bucket_ok_def unat_u32_as_u64)
  have "div_ceil (1000 - ucast x) (ucast ?m) \<le> 1" if "\<not> 1000 \<le> x" for x :: u32
  proof -
    have "unat (1000 - ucast x :: u64) \<le> 1000"
      using that by (simp add: word_le_nat_alt unat_sub unat_u32_as_u64)
    with m show ?thesis by (intro div_ceil_le_1) (auto simp: word_le_nat_alt)
  qed
  then show "time_to_next_token b1 t \<le> 1"
    using r(1) by (auto simp: time_to_next_token_def Let_def max_def)
qed

text \<open>Every sequential run is one of the interleavings.\<close>

lemma uncontended_call:
  assumes "cas_reach b clk (w, pcs, hist)" and "pcs i = AtLoad" and "attempt b (clk i) w = (w', out, f)"
  obtains pcs' where "cas_reach b clk (w', pcs', hist @ [(i, out)])" "\<And>j. j \<noteq> i \<Longrightarrow> pcs' j = pcs j"
proof (cases f)
  case True
  with assms attempt_return have "cas_reach b clk (w', pcs(i := Returned out), hist @ [(i, out)])"
    by (metis cas_reach.step cas_step.load_return)
  then show ?thesis using that [of "pcs(i := Returned out)"] by simp
next
  case False
  with assms have "cas_reach b clk (w, pcs(i := AtSwap w), hist)"
    by (metis cas_reach.step cas_step.load)
  moreover have "cas_step b clk (w, pcs(i := AtSwap w), hist)
      (w', (pcs(i := AtSwap w))(i := Returned out), hist @ [(i, out)])"
    by (rule cas_step.swap) (use assms(3) in auto)
  ultimately have "cas_reach b clk (w', (pcs(i := AtSwap w))(i := Returned out), hist @ [(i, out)])"
    by (rule cas_reach.step)
  then show ?thesis using that [of "(pcs(i := AtSwap w))(i := Returned out)"] by simp
qed

lemma consume_all_length: "consume_all b ts = (outs, b') \<Longrightarrow> length outs = length ts"
  by (induction b ts arbitrary: outs rule: consume_all.induct) (auto split: prod.splits)

lemma consume_all_bucket: "consume_all b ts = (outs, b') \<Longrightarrow> b' = b\<lparr>tb_state := tb_state b'\<rparr>"
  by (induction b ts arbitrary: outs rule: consume_all.induct)
     (force simp: try_consume_def split: prod.splits)+

lemma sequential_reachable:
  assumes "consume_all b (map clk [0..<n]) = (outs, b')"
  shows "\<exists>pcs. cas_reach b clk (tb_state b', pcs, zip [0..<n] outs) \<and> (\<forall>j \<ge> n. pcs j = AtLoad)"
  using assms
proof (induction n arbitrary: outs b')
  case 0
  then show ?case using cas_reach.start [of b clk] by auto
next
  case (Suc n)
  obtain outs0 b0 where run: "consume_all b (map clk [0..<n]) = (outs0, b0)" by force
  then obtain pcs where reach: "cas_reach b clk (tb_state b0, pcs, zip [0..<n] outs0)"
    and load: "\<forall>j \<ge> n. pcs j = AtLoad"
    using Suc.IH by blast
  obtain w out f where att: "attempt b (clk n) (tb_state b0) = (w, out, f)"
    by (metis prod_cases3)
  obtain pcs' where "cas_reach b clk (w, pcs', zip [0..<n] outs0 @ [(n, out)])"
    and "\<And>j. j \<noteq> n \<Longrightarrow> pcs' j = pcs j"
    using uncontended_call [OF reach _ att] load by blast
  moreover have "try_consume b0 (clk n) = (out, b0\<lparr>tb_state := w\<rparr>)"
  proof -
    have "attempt b0 = attempt b"
      using consume_all_bucket [OF run] attempt_state [where b = b and w = "tb_state b0"] by (metis ext)
    with att show ?thesis by (simp add: try_consume_def)
  qed
  with consume_all_snoc [OF run] Suc.prems have "outs = outs0 @ [out]" "b' = b0\<lparr>tb_state := w\<rparr>"
    by auto
  moreover have "length outs0 = n" using consume_all_length [OF run] by simp
  ultimately show ?case using load by (intro exI [of _ pcs']) auto
qed

section \<open>The lock-free bucket\<close>

text \<open>C22: the compare-and-swap loop is linearizable. Under every interleaving of any number of
  threads, with spurious failures of the weak swap, the calls that have returned behave as the
  same calls of \<open>try_consume\<close> one after the other in the order they took effect, each exactly
  once, and the shared word is what that run leaves.\<close>

theorem try_consume_linearizable:
  assumes "cas_reach b clk (word, pcs, hist)"
  shows "consume_all b (map (clk \<circ> fst) hist) = (map snd hist, b\<lparr>tb_state := word\<rparr>) \<and>
    distinct (map fst hist) \<and> (\<forall>i out. pcs i = Returned out \<longleftrightarrow> (i, out) \<in> set hist)"
  using cas_reach_linearized [OF assms] by (simp add: linearized_def)

theorem try_consume_linearizable_witness:
  "\<exists>word pcs hist. map fst hist = [0, 1 :: nat] \<and>
     consume_all demo_bucket [11, 11] = (map snd hist, demo_bucket\<lparr>tb_state := word\<rparr>) \<and>
     (\<exists>out. pcs (1 :: nat) = Returned out)"
proof -
  obtain outs b' where run: "consume_all demo_bucket (map (\<lambda>_. 11) [0..<2]) = (outs, b')" by force
  then obtain pcs where "cas_reach demo_bucket (\<lambda>_. 11) (tb_state b', pcs, zip [0..<2] outs)"
    using sequential_reachable by blast
  note lin = try_consume_linearizable [OF this]
  have len: "length outs = 2" using consume_all_length [OF run] by simp
  then have mem: "(1, outs ! 1) \<in> set (zip [0..<2] outs)" by (force simp: in_set_zip)
  have eleven: "map ((\<lambda>_. 11) \<circ> fst) (zip [0..<2] outs) = [11, 11 :: u64]"
    using len by (auto simp: map_replicate_const comp_def numeral_2_eq_2)
  show ?thesis
  proof (intro exI conjI)
    show "map fst (zip [0..<2] outs) = [0, 1]" using len by (simp add: upt_rec)
    show "consume_all demo_bucket [11, 11] = (map snd (zip [0..<2] outs), demo_bucket\<lparr>tb_state := tb_state b'\<rparr>)"
      using lin unfolding eleven by blast
    show "pcs 1 = Returned (outs ! 1)" using lin mem by blast
  qed
qed

text \<open>The clock readings of racing callers need not take effect in order, and the bucket
  stores a reading even when it is older than the stored one. Then the same second is
  refilled again: a bucket of one token and one token per second can grant three within one
  second.\<close>

lemma stale_clock_refills_twice:
  "\<exists>clk word pcs hist. cas_reach (AtomicTokenBucket_new 1 1 0 issuer 10) clk (word, pcs, hist) \<and>
     (\<forall>i. 10 \<le> clk i) \<and> (\<forall>i. clk i \<le> 11) \<and> grants (map snd hist) = 3"
proof -
  let ?b = "AtomicTokenBucket_new 1 1 0 issuer 10" and ?clk = "\<lambda>i :: nat. if even i then 11 else 10 :: u64"
  let ?B = "\<lambda>w. \<lparr>tb_state = w, capacity_milli = 1000, refill_milli_per_sec = 1000, jitter_offset = 0\<rparr>"
  have b: "?b = ?B (pack 10 1000)"
    unfolding AtomicTokenBucket_new_def Let_def max_units
    by (simp add: clamp_def deterministic_jitter_def word_less_nat_alt)
  have steps: "granted (fst (try_consume (?B (pack 10 1000)) 11))" "snd (try_consume (?B (pack 10 1000)) 11) = ?B (pack 11 0)"
    "\<not> granted (fst (try_consume (?B (pack 11 0)) 10))" "snd (try_consume (?B (pack 11 0)) 10) = ?B (pack 10 0)"
    "granted (fst (try_consume (?B (pack 10 0)) 11))" "snd (try_consume (?B (pack 10 0)) 11) = ?B (pack 11 0)"
    by (simp_all add: try_consume_def attempt_def refilled_def sat_sub_def sat_mul_def Let_def)
  have clk: "map ?clk [0..<5] = [11, 10, 11, 10, 11]" by (simp add: upt_rec)
  obtain outs b' where run: "consume_all ?b (map ?clk [0..<5]) = (outs, b')" by force
  then have "outs = fst (consume_all (?B (pack 10 1000)) [11, 10, 11, 10, 11])"
    unfolding clk b by simp
  then have "grants outs = 3"
    by (simp only: consume_all.simps case_prod_beta steps grants_def fst_conv filter.simps list.size if_True if_False)
  moreover obtain pcs where "cas_reach ?b ?clk (tb_state b', pcs, zip [0..<5] outs)"
    using sequential_reachable [OF run] by blast
  moreover have "map snd (zip [0..<5] outs) = outs"
    using consume_all_length [OF run] by simp
  ultimately show ?thesis by (intro exI [of _ ?clk] exI conjI) (auto simp: word_le_nat_alt)
qed

text \<open>C23: with clock readings that do not run backwards and fit 32 bits, a new bucket grants at
  most its burst plus its rate times the elapsed seconds. The order matters: the bucket
  stores a reading even when it is older than the stored one, so racing callers whose
  readings take effect out of order refill the same second again, and a bucket of one token
  and one token per second can grant three within one second.\<close>

theorem bucket_grants_bounded:
  assumes "1 \<le> unat burst" "unat burst \<le> 4294967" "1 \<le> unat per_second" "unat per_second \<le> 4294967"
    and "sorted (map unat (t # ts))" "list_all (\<lambda>t. unat t < 2 ^ 32) (t # ts)"
  shows "grants (fst (consume_all (AtomicTokenBucket_new burst per_second jitter issuer t) ts)) \<le>
    unat burst + unat per_second * (unat (last (t # ts)) - unat t) \<and>
    (\<exists>clk word pcs hist. cas_reach (AtomicTokenBucket_new 1 1 0 issuer 10) clk (word, pcs, hist) \<and>
      (\<forall>i. 10 \<le> clk i) \<and> (\<forall>i. clk i \<le> 11) \<and> grants (map snd hist) = 3)"
proof -
  let ?b = "AtomicTokenBucket_new burst per_second jitter issuer t"
  have t: "unat t < 2 ^ 32" using assms(6) by simp
  note new = new_bucket [OF assms(1-4) t, of jitter issuer]
  obtain outs b' where run: "consume_all ?b ts = (outs, b')" by force
  have "sorted (bucket_time ?b # map unat ts)" "list_all (\<lambda>t. unat t < 2 ^ 32) ts"
    using assms(5,6) by (simp_all add: new)
  from grants_bound [OF run this] have "1000 * grants outs + bucket_milli b' \<le>
      1000 * unat burst + (last (unat t # map unat ts) - unat t) * (1000 * unat per_second)"
    by (simp only: new)
  then have "1000 * grants outs \<le> 1000 * (unat burst + unat per_second * (last (unat t # map unat ts) - unat t))"
    by (simp add: algebra_simps)
  then have "grants outs \<le> unat burst + unat per_second * (last (unat t # map unat ts) - unat t)"
    by simp
  moreover have "last (unat t # map unat ts) = unat (last (t # ts))" by (simp add: last_map)
  ultimately have "grants (fst (consume_all ?b ts)) \<le> unat burst + unat per_second * (unat (last (t # ts)) - unat t)"
    by (simp only: run fst_conv)
  then show ?thesis using stale_clock_refills_twice by (rule conjI)
qed

theorem bucket_grants_bounded_witness:
  "grants (fst (consume_all (AtomicTokenBucket_new 20 10 0 ''GISSUER'' 100) [100, 101, 103])) \<le> 50"
  using bucket_grants_bounded [of 20 10 100 "[100, 101, 103]" 0 "''GISSUER''"] by simp

section \<open>The two tiers\<close>

lemma limiter_new_ok: "dash_map D \<Longrightarrow> limiter_ok D (PerIssuerRateLimiter_new G D cfg ms)"
  by (simp add: limiter_ok_def PerIssuerRateLimiter_new_def dash_map.get_new)

lemma record_success_simps [simp]:
  "buckets (record_success i out l) = buckets l" "global (record_success i out l) = global l"
  "rl_config (record_success i out l) = rl_config l"
  by (simp_all add: record_success_def)

lemma check_buckets:
  assumes "dash_map D" and "check G D issuer t l = (r, l')"
  shows "dm_get D (buckets l') j =
    (if j = issuer \<and> fst (gov_check G (global l)) = None
     then Some (snd (try_consume (issuer_bucket D issuer t l) t)) else dm_get D (buckets l) j)"
  using assms(2)
  by (auto simp: check_def consume_issuer_eq issuer_bucket_def dash_map.get_insert [OF assms(1)]
      split: prod.splits option.splits if_splits)

lemma limiter_check_ok:
  assumes "dash_map D" and "limiter_ok D l" and "check G D issuer t l = (r, l')"
  shows "limiter_ok D l'"
  using assms(2) try_consume_ok [OF surjective_pairing issuer_bucket_ok [OF assms(2)], of issuer t t]
  by (auto simp: limiter_ok_def check_buckets [OF assms(1,3)] split: if_splits)

text \<open>C24: the two tiers. A request passes exactly when the global limiter and the issuer's own
  bucket both grant it; when the global limiter refuses, no bucket is touched; other issuers
  are never affected; the metrics count one hit or one violation per request; and the cache
  meant to keep snapshots of the buckets is never written. A status
  query leaves every bucket alone but charges the global limiter exactly as a request does.\<close>

theorem check_two_tiers:
  assumes "dash_map D" and "check G D issuer t l = (r, l')"
  shows "(r = Ok () \<longleftrightarrow> fst (gov_check G (global l)) = None \<and> granted (fst (try_consume (issuer_bucket D issuer t l) t))) \<and>
    ((\<exists>w. r = Err (GlobalExhausted w)) \<longleftrightarrow> fst (gov_check G (global l)) \<noteq> None) \<and>
    (fst (gov_check G (global l)) \<noteq> None \<longrightarrow> buckets l' = buckets l) \<and>
    (\<forall>j. j \<noteq> issuer \<longrightarrow> dm_get D (buckets l') j = dm_get D (buckets l) j) \<and>
    (\<forall>m. rl_metrics l = Some m \<longrightarrow> (\<exists>m'. rl_metrics l' = Some m' \<and>
       counter_value m' RateLimitHits [issuer] = counter_value m RateLimitHits [issuer] + (if r = Ok () then 1 else 0) \<and>
       counter_value m' RateLimitViolations [] = counter_value m RateLimitViolations [] + (if r = Ok () then 0 else 1))) \<and>
    rl_cache l' = rl_cache l \<and> buckets (snd (status G D issuer t' l)) = buckets l \<and> global (snd (status G D issuer t' l)) = global l'"
proof (intro conjI)
  show "\<forall>m. rl_metrics l = Some m \<longrightarrow> (\<exists>m'. rl_metrics l' = Some m' \<and>
       counter_value m' RateLimitHits [issuer] = counter_value m RateLimitHits [issuer] + (if r = Ok () then 1 else 0) \<and>
       counter_value m' RateLimitViolations [] = counter_value m RateLimitViolations [] + (if r = Ok () then 0 else 1))"
    using assms(2)
    by (auto simp: check_def consume_issuer_eq record_success_def metric_method_defs Let_def
        split: prod.splits option.splits if_splits)
next
  show "\<forall>j. j \<noteq> issuer \<longrightarrow> dm_get D (buckets l') j = dm_get D (buckets l) j"
    by (simp add: check_buckets [OF assms])
next
  show "rl_cache l' = rl_cache l" "buckets (snd (status G D issuer t' l)) = buckets l" "global (snd (status G D issuer t' l)) = global l'"
    using assms(2) by (auto simp: status_def check_def consume_issuer_eq record_success_def Let_def
        split: prod.splits option.splits if_splits)
qed (use assms(2) in \<open>auto simp: check_def consume_issuer_eq issuer_bucket_def
       split: prod.splits option.splits if_splits\<close>)

theorem check_two_tiers_witness:
  "dm_get alist_dash_map (buckets (snd (check gcra_ops alist_dash_map ''GA'' 10 demo_limiter))) ''GB'' =
     dm_get alist_dash_map (buckets demo_limiter) ''GB''"
  using check_two_tiers [OF alist_dash.dash_map_axioms surjective_pairing, of gcra_ops "''GA''" 10 demo_limiter]
  by simp

text \<open>C25: the retry advice suffices. When \<open>check\<close> refuses a request at the issuer tier, the wait it
  reports is one second, and one second later the issuer's bucket, if nobody else used it,
  grants a request; so \<open>until_ready\<close> returns after at most two rounds.\<close>

theorem retry_advice_suffices:
  assumes "dash_map D" and "limiter_ok D l" and "unat t + 1 < 2 ^ 32"
    and "check G D issuer t l = (Err (IssuerExhausted issuer' wait), l')"
  shows "wait = 1000000000 \<and> granted (fst (consume_issuer D issuer (t + 1) l')) \<and>
    until_ready_loop D issuer [t, t + 1] (l\<lparr>global := global l'\<rparr>) \<noteq> None"
proof -
  let ?b = "issuer_bucket D issuer t l"
  obtain out b1 where one: "try_consume ?b t = (out, b1)" by force
  have refused: "fst (gov_check G (global l)) = None" "\<not> granted out"
    and wait: "wait = from_secs (next_token_wait D issuer t (l'\<lparr>rl_metrics := rl_metrics l\<rparr>))"
    using assms(4) one
    by (auto simp: check_def consume_issuer_eq issuer_bucket_def next_token_wait_def
        split: prod.splits option.splits if_splits)
  note later = refused_then_granted [OF issuer_bucket_ok [OF assms(2)] assms(3) one refused(2)]
  have b1: "dm_get D (buckets l') issuer = Some b1"
    using check_buckets [OF assms(1,4), of issuer] refused(1) one by simp
  then have ib: "issuer_bucket D issuer (t + 1) l' = b1" by (simp add: issuer_bucket_def)
  have "next_token_wait D issuer t (l'\<lparr>rl_metrics := rl_metrics l\<rparr>) = 1"
    using later(1) b1 by (simp add: next_token_wait_def max_def)
  then have "wait = 1000000000" by (simp add: wait from_secs_def)
  moreover have "granted (fst (consume_issuer D issuer (t + 1) l'))"
    by (simp add: consume_issuer_eq ib later(2))
  moreover have "until_ready_loop D issuer [t, t + 1] (l\<lparr>global := global l'\<rparr>) \<noteq> None"
  proof -
    let ?l = "l\<lparr>global := global l'\<rparr>"
    have ib0: "issuer_bucket D issuer t ?l = ?b" by (simp add: issuer_bucket_def split: option.split)
    have ib1: "issuer_bucket D issuer (t + 1) (?l\<lparr>buckets := dm_insert D issuer b1 (buckets l)\<rparr>) = b1"
      by (simp add: issuer_bucket_def dash_map.get_insert [OF assms(1)])
    show ?thesis
      by (simp add: consume_issuer_eq ib0 one refused(2) ib1 later(2))
  qed
  ultimately show ?thesis by blast
qed

lemma demo_limiter_used_simps:
  "limiter_ok alist_dash_map demo_limiter_used"
  "issuer_bucket alist_dash_map ''GA'' 10 demo_limiter_used = empty_bucket"
  "fst (gov_check gcra_ops (global demo_limiter_used)) = None"
  by (simp_all add: limiter_ok_def demo_limiter_used_def demo_limiter_def PerIssuerRateLimiter_new_def bucket_ok_def
      empty_bucket_def issuer_bucket_def gcra_ops_def RateLimiterConfig_default_def Let_def)

lemma demo_limiter_used_refuses:
  "\<exists>wait. fst (check gcra_ops alist_dash_map ''GA'' 10 demo_limiter_used) = Err (IssuerExhausted ''GA'' wait)"
proof -
  have "\<not> granted (fst (try_consume empty_bucket 10))"
    by (simp add: empty_bucket_def try_consume_def attempt_def refilled_def sat_sub_def sat_mul_def Let_def)
  moreover obtain g where "gov_check gcra_ops (global demo_limiter_used) = (None, g)"
    using demo_limiter_used_simps(3) by (metis prod.collapse)
  moreover have "issuer_bucket alist_dash_map ''GA'' 10 (demo_limiter_used\<lparr>global := g\<rparr>) = empty_bucket" for g
    using demo_limiter_used_simps(2) by (simp add: issuer_bucket_def split: option.splits)
  ultimately show ?thesis
    by (simp add: check_def consume_issuer_eq)
qed

theorem retry_advice_suffices_witness:
  "\<exists>l wait. check gcra_ops alist_dash_map ''GA'' 10 demo_limiter_used = (Err (IssuerExhausted ''GA'' wait), l) \<and>
     wait = 1000000000 \<and> granted (fst (consume_issuer alist_dash_map ''GA'' 11 l))"
proof -
  obtain wait l where run: "check gcra_ops alist_dash_map ''GA'' 10 demo_limiter_used = (Err (IssuerExhausted ''GA'' wait), l)"
    using demo_limiter_used_refuses by (metis prod.collapse)
  from retry_advice_suffices [OF alist_dash.dash_map_axioms demo_limiter_used_simps(1) _ run]
  have "wait = 1000000000" "granted (fst (consume_issuer alist_dash_map ''GA'' (10 + 1) l))" by simp_all
  with run show ?thesis by auto
qed

end
