(* ===== verification/In_Memory_Cache.thy ===== *)
theory In_Memory_Cache
  imports Metrics
begin

text \<open>
  The in-memory cache (\<open>src/src/cache.rs\<close>, \<open>CacheKey\<close> and \<open>InMemoryCache\<close>): a hash map with expiry
  times, a queue of keys in order of use, statistics and a broadcast of cache events. Every
  operation holds its locks to the end, so it is one atomic function of the state. The hash
  map is an association list, the channel the list of events sent, and clock readings
  (Unix seconds) are arguments.
\<close>

section \<open>Data\<close>

datatype CacheKey = Verification string | Config string | Events string

definition CacheKey_verification :: "case_table \<Rightarrow> string \<Rightarrow> CacheKey" where
  "CacheKey_verification tbl hash = Verification (to_lowercase tbl (trim hash))"

fun as_string :: "CacheKey \<Rightarrow> string" where
  "as_string (Verification hash) = ''verification:'' @ hash"
| "as_string (Config key) = ''config:'' @ key"
| "as_string (Events hash) = ''events:'' @ hash"

record Entry =
  e_value :: string
  expires_at :: u64

datatype CacheEvent = Evicted CacheKey | Expired CacheKey | Updated CacheKey | Deleted CacheKey

record CacheStats =
  hits :: nat
  misses :: nat
  evictions :: nat
  expired :: nat

definition CacheStats_default :: CacheStats where
  "CacheStats_default = \<lparr>hits = 0, misses = 0, evictions = 0, expired = 0\<rparr>"

definition hit_rate :: "CacheStats \<Rightarrow> rat" where
  "hit_rate s =
     (let total = hits s + misses s in if total = 0 then 0 else of_nat (hits s) / of_nat total)"

record CacheStatsSnapshot =
  sn_hits :: nat
  sn_misses :: nat
  sn_evictions :: nat
  sn_expired :: nat
  sn_hit_rate :: rat
  sn_current_size :: nat
  sn_max_size :: nat

record InMemoryCache =
  store :: "(CacheKey \<times> Entry) list"
  imc_metrics :: "metrics option"
  lru_queue :: "CacheKey list"
  max_size :: nat
  stats :: CacheStats
  cache_event_tx :: "CacheEvent list"

definition with_max_size :: "nat \<Rightarrow> InMemoryCache" where
  "with_max_size n =
     \<lparr>store = [], imc_metrics = None, lru_queue = [], max_size = n, stats = CacheStats_default,
      cache_event_tx = []\<rparr>"

definition InMemoryCache_new :: InMemoryCache where
  "InMemoryCache_new =
     \<lparr>store = [], imc_metrics = None, lru_queue = [], max_size = 0, stats = CacheStats_default,
      cache_event_tx = []\<rparr>"

definition imc_with_metrics :: "metrics \<Rightarrow> InMemoryCache \<Rightarrow> InMemoryCache" where
  "imc_with_metrics m c = c\<lparr>imc_metrics := Some m\<rparr>"

section \<open>Steps\<close>

text \<open>Inserting an entry and moving its key to the front of the queue.\<close>

definition put_entry :: "CacheKey \<Rightarrow> string \<Rightarrow> u64 \<Rightarrow> u64 \<Rightarrow> InMemoryCache \<Rightarrow> InMemoryCache" where
  "put_entry key value ttl t c =
     c\<lparr>store := AList.update key \<lparr>e_value = value, expires_at = sat_add t ttl\<rparr> (store c),
       lru_queue := key # filter (\<lambda>k. k \<noteq> key) (lru_queue c)\<rparr>"

definition touch :: "CacheKey \<Rightarrow> InMemoryCache \<Rightarrow> InMemoryCache" where
  "touch key c = c\<lparr>lru_queue := key # filter (\<lambda>k. k \<noteq> key) (lru_queue c)\<rparr>"

definition drop_entry :: "CacheKey \<Rightarrow> InMemoryCache \<Rightarrow> InMemoryCache" where
  "drop_entry key c =
     c\<lparr>store := AList.delete key (store c), lru_queue := filter (\<lambda>k. k \<noteq> key) (lru_queue c)\<rparr>"

text \<open>
  The eviction loop: while the store is over the limit, drop the key at the back of the queue.
  \<open>set_raw\<close> announces the evictions, the batch operations do not.
\<close>

function evict_loop :: "bool \<Rightarrow> InMemoryCache \<Rightarrow> InMemoryCache" where
  "evict_loop announce c =
     (if length (store c) > max_size c then
        (if lru_queue c = [] then c
         else
           let lru_key = last (lru_queue c) in
           evict_loop announce
             (c\<lparr>lru_queue := butlast (lru_queue c),
                store := AList.delete lru_key (store c),
                stats := (stats c)\<lparr>evictions := evictions (stats c) + 1\<rparr>,
                cache_event_tx := cache_event_tx c @ (if announce then [Evicted lru_key] else [])\<rparr>))
      else c)"
  by pat_completeness auto
termination by (relation "measure (\<lambda>(a, c). length (lru_queue c))") auto

declare evict_loop.simps [simp del]

section \<open>Operations\<close>

text \<open>The readings of the clock inside a batch are \<open>clk 0\<close>, \<open>clk 1\<close> and so on.\<close>

fun put_all :: "(nat \<Rightarrow> u64) \<Rightarrow> nat \<Rightarrow> (CacheKey \<times> string \<times> u64) list \<Rightarrow> InMemoryCache \<Rightarrow> InMemoryCache" where
  "put_all clk i [] c = c"
| "put_all clk i ((key, value, ttl) # es) c = put_all clk (i + 1) es (put_entry key value ttl (clk i) c)"

definition warm :: "(nat \<Rightarrow> u64) \<Rightarrow> (CacheKey \<times> string \<times> u64) list \<Rightarrow> InMemoryCache \<Rightarrow> nat \<times> InMemoryCache" where
  "warm clk es c =
     (let c = put_all clk 0 es c in (length es, if max_size c > 0 then evict_loop False c else c))"

definition set_batch :: "(nat \<Rightarrow> u64) \<Rightarrow> (CacheKey \<times> string \<times> u64) list \<Rightarrow> InMemoryCache \<Rightarrow> nat \<times> InMemoryCache" where
  "set_batch clk es c =
     (let c = put_all clk 0 es c in (length es, if max_size c > 0 then evict_loop False c else c))"

definition cache_stats :: "InMemoryCache \<Rightarrow> CacheStatsSnapshot \<times> InMemoryCache" where
  "cache_stats c =
     (let s = stats c;
          snap = \<lparr>sn_hits = hits s, sn_misses = misses s, sn_evictions = evictions s, sn_expired = expired s,
                  sn_hit_rate = hit_rate s, sn_current_size = length (store c), sn_max_size = max_size c\<rparr>
      in (snap,
          c\<lparr>imc_metrics := map_option (\<lambda>m.
             increment_cache_evictions_by (evictions s)
               (set_cache_hit_rate (sn_hit_rate snap) (set_cache_size (sn_current_size snap) m))) (imc_metrics c)\<rparr>))"

fun get_batch_loop :: "u64 \<Rightarrow> CacheKey list \<Rightarrow> InMemoryCache \<Rightarrow> (CacheKey \<times> string option) list \<times> InMemoryCache" where
  "get_batch_loop t [] c = ([], c)"
| "get_batch_loop t (key # keys) c =
     (let (r, c1) =
        (case map_of (store c) key of
           Some entry \<Rightarrow>
             if expires_at entry > t then
               (Some (e_value entry), (touch key c)\<lparr>stats := (stats c)\<lparr>hits := hits (stats c) + 1\<rparr>\<rparr>)
             else (None, (drop_entry key c)\<lparr>stats := (stats c)\<lparr>expired := expired (stats c) + 1\<rparr>\<rparr>)
         | None \<Rightarrow> (None, c\<lparr>stats := (stats c)\<lparr>misses := misses (stats c) + 1\<rparr>\<rparr>));
        (rs, c2) = get_batch_loop t keys c1
      in ((key, r) # rs, c2))"

definition get_batch :: "u64 \<Rightarrow> CacheKey list \<Rightarrow> InMemoryCache \<Rightarrow> (CacheKey \<times> string option) list \<times> InMemoryCache" where
  "get_batch t keys c = get_batch_loop t keys c"

definition get_raw_with_expiry :: "u64 \<Rightarrow> CacheKey \<Rightarrow> InMemoryCache \<Rightarrow> (string option \<times> bool) \<times> InMemoryCache" where
  "get_raw_with_expiry t key c =
     (case map_of (store c) key of
        Some entry \<Rightarrow>
          if expires_at entry > t then
            ((Some (e_value entry), False), (touch key c)\<lparr>stats := (stats c)\<lparr>hits := hits (stats c) + 1\<rparr>\<rparr>)
          else
            ((None, True),
             (drop_entry key c)\<lparr>stats := (stats c)\<lparr>expired := expired (stats c) + 1\<rparr>,
                cache_event_tx := cache_event_tx c @ [Expired key]\<rparr>)
      | None \<Rightarrow> ((None, False), c\<lparr>stats := (stats c)\<lparr>misses := misses (stats c) + 1\<rparr>\<rparr>))"

definition imc_get_raw :: "u64 \<Rightarrow> CacheKey \<Rightarrow> InMemoryCache \<Rightarrow> string option \<times> InMemoryCache" where
  "imc_get_raw t key c = (case get_raw_with_expiry t key c of ((v, was_expired), c') \<Rightarrow> (v, c'))"

definition imc_set_raw :: "u64 \<Rightarrow> CacheKey \<Rightarrow> string \<Rightarrow> u64 \<Rightarrow> InMemoryCache \<Rightarrow> InMemoryCache" where
  "imc_set_raw t key value ttl c =
     (let c = put_entry key value ttl t c;
          c = c\<lparr>cache_event_tx := cache_event_tx c @ [Updated key]\<rparr>
      in if max_size c > 0 then evict_loop True c else c)"

definition imc_delete :: "CacheKey \<Rightarrow> InMemoryCache \<Rightarrow> InMemoryCache" where
  "imc_delete key c =
     (let existed = (map_of (store c) key \<noteq> None);
          c = drop_entry key c
      in if existed then c\<lparr>cache_event_tx := cache_event_tx c @ [Deleted key]\<rparr> else c)"

definition imc_record_hit :: "InMemoryCache \<Rightarrow> InMemoryCache" where
  "imc_record_hit c = c\<lparr>imc_metrics := map_option increment_cache_hits (imc_metrics c)\<rparr>"

definition imc_record_miss :: "InMemoryCache \<Rightarrow> InMemoryCache" where
  "imc_record_miss c = c\<lparr>imc_metrics := map_option increment_cache_misses (imc_metrics c)\<rparr>"

definition imc_record_expired :: "InMemoryCache \<Rightarrow> InMemoryCache" where
  "imc_record_expired c = c\<lparr>imc_metrics := map_option increment_cache_expired (imc_metrics c)\<rparr>"

definition imc_record_serialization_failure :: "InMemoryCache \<Rightarrow> InMemoryCache" where
  "imc_record_serialization_failure c =
     c\<lparr>imc_metrics := map_option increment_cache_serialization_failures (imc_metrics c)\<rparr>"

end
