(* ===== verification/In_Memory_Correct.thy ===== *)
theory In_Memory_Correct
  imports In_Memory_Cache
begin

text \<open>
  The in-memory cache refines a bounded map with expiry: the queue always lists exactly the
  stored keys, an over-full store loses its least recently used keys, and lookups answer the
  entry last written while it is alive. \<open>kv_cache\<close> is the contract the clients rely on.
\<close>

section \<open>Invariant and view\<close>

definition cache_inv :: "InMemoryCache \<Rightarrow> bool" where
  "cache_inv c \<longleftrightarrow>
     distinct (map fst (store c)) \<and> distinct (lru_queue c) \<and> set (lru_queue c) = fst ` set (store c)"

definition within_limit :: "InMemoryCache \<Rightarrow> bool" where
  "within_limit c \<longleftrightarrow> (max_size c > 0 \<longrightarrow> length (store c) \<le> max_size c)"

definition lookup :: "InMemoryCache \<Rightarrow> CacheKey \<Rightarrow> Entry option" where
  "lookup c = map_of (store c)"

definition live :: "InMemoryCache \<Rightarrow> u64 \<Rightarrow> CacheKey \<Rightarrow> string option" where
  "live c t k =
     (case lookup c k of Some e \<Rightarrow> if expires_at e > t then Some (e_value e) else None | None \<Rightarrow> None)"

text \<open>The keys that stay when a key is used last, under the size limit.\<close>

definition kept :: "InMemoryCache \<Rightarrow> CacheKey list \<Rightarrow> CacheKey list" where
  "kept c q = (if max_size c = 0 then q else take (max_size c) q)"

definition front :: "CacheKey \<Rightarrow> CacheKey list \<Rightarrow> CacheKey list" where
  "front k q = k # filter (\<lambda>x. x \<noteq> k) q"

lemma keys_delete: "fst ` set (AList.delete k xs) = fst ` set xs - {k}"
  by (metis delete_keys set_map set_removeAll)

lemma cache_inv_length: "cache_inv c \<Longrightarrow> length (lru_queue c) = length (store c)"
  by (metis cache_inv_def distinct_card length_map set_map)

lemma lookup_dom: "cache_inv c \<Longrightarrow> k \<in> set (lru_queue c) \<longleftrightarrow> lookup c k \<noteq> None"
  by (auto simp: cache_inv_def lookup_def map_of_eq_None_iff)

lemma cache_inv_new: "cache_inv (with_max_size n)" "cache_inv InMemoryCache_new"
  by (simp_all add: cache_inv_def with_max_size_def InMemoryCache_new_def)

lemma distinct_front: "distinct q \<Longrightarrow> distinct (front k q)"
  by (simp add: front_def)

lemma set_front: "set (front k q) = insert k (set q)"
  by (auto simp: front_def)

section \<open>Single steps\<close>

lemma put_entry_simps [simp]:
  "lookup (put_entry k v ttl t c) = (lookup c)(k \<mapsto> \<lparr>e_value = v, expires_at = sat_add t ttl\<rparr>)"
  "lru_queue (put_entry k v ttl t c) = front k (lru_queue c)"
  "max_size (put_entry k v ttl t c) = max_size c"
  "stats (put_entry k v ttl t c) = stats c"
  "cache_event_tx (put_entry k v ttl t c) = cache_event_tx c"
  by (simp_all add: put_entry_def lookup_def front_def update_conv')

lemma put_entry_inv: "cache_inv c \<Longrightarrow> cache_inv (put_entry k v ttl t c)"
  by (auto simp: cache_inv_def put_entry_def distinct_update dom_update)

lemma touch_simps [simp]:
  "store (touch k c) = store c" "lru_queue (touch k c) = front k (lru_queue c)"
  "max_size (touch k c) = max_size c"
  by (simp_all add: touch_def front_def)

lemma touch_inv: "cache_inv c \<Longrightarrow> lookup c k \<noteq> None \<Longrightarrow> cache_inv (touch k c)"
  using lookup_dom [of c k] by (auto simp: cache_inv_def distinct_front set_front)

lemma drop_entry_simps [simp]:
  "lookup (drop_entry k c) = (lookup c)(k := None)"
  "lru_queue (drop_entry k c) = filter (\<lambda>x. x \<noteq> k) (lru_queue c)"
  "max_size (drop_entry k c) = max_size c"
  by (simp_all add: drop_entry_def lookup_def delete_conv')

lemma drop_entry_inv: "cache_inv c \<Longrightarrow> cache_inv (drop_entry k c)"
  by (auto simp: cache_inv_def drop_entry_def distinct_delete keys_delete)

lemma cache_inv_cong:
  "store c' = store c \<Longrightarrow> lru_queue c' = lru_queue c \<Longrightarrow> cache_inv c' = cache_inv c"
  by (simp add: cache_inv_def)

lemma lookup_cong: "store c' = store c \<Longrightarrow> lookup c' = lookup c"
  by (simp add: lookup_def)

section \<open>Eviction\<close>

lemma evict_loop_spec:
  assumes "cache_inv c"
  shows "cache_inv (evict_loop a c) \<and> max_size (evict_loop a c) = max_size c \<and>
    lru_queue (evict_loop a c) = take (max_size c) (lru_queue c) \<and>
    lookup (evict_loop a c) = lookup c |` set (take (max_size c) (lru_queue c)) \<and>
    evictions (stats (evict_loop a c)) = evictions (stats c) + (length (store c) - max_size c)"
  using assms
proof (induction a c rule: evict_loop.induct)
  case (1 a c)
  have len: "length (lru_queue c) = length (store c)" by (rule cache_inv_length [OF 1(2)])
  show ?case
  proof (cases "length (store c) > max_size c")
    case False
    have "lookup c |` set (lru_queue c) = lookup c"
      using lookup_dom [OF 1(2)] by (auto simp: fun_eq_iff restrict_map_def)
    with False 1(2) len show ?thesis by (simp add: evict_loop.simps)
  next
    case True
    with len obtain q k where q: "lru_queue c = q @ [k]"
      by (metis length_greater_0_conv less_nat_zero_code not_gr_zero rev_exhaust)
    let ?c = "c\<lparr>lru_queue := q, store := AList.delete k (store c),
        stats := (stats c)\<lparr>evictions := evictions (stats c) + 1\<rparr>,
        cache_event_tx := cache_event_tx c @ (if a then [Evicted k] else [])\<rparr>"
    have step: "evict_loop a c = evict_loop a ?c"
      using True q by (subst evict_loop.simps) (simp add: Let_def)
    have k: "k \<notin> set q" using 1(2) q by (auto simp: cache_inv_def)
    have inv: "cache_inv ?c"
      using 1(2) q by (auto simp: cache_inv_def distinct_delete keys_delete)
    have ends: "last (lru_queue c) = k" "butlast (lru_queue c) = q" "lru_queue c \<noteq> []"
      by (simp_all add: q)
    note IH = 1(1) [OF True ends(3) refl, unfolded ends(1,2)]
    have lk: "lookup ?c = (lookup c)(k := None)" by (simp add: lookup_def delete_conv')
    have take: "take (max_size c) (lru_queue c) = take (max_size c) q"
      using True len q by simp
    have len': "length (store ?c) = length (store c) - 1"
      using cache_inv_length [OF inv] q len by simp
    have "cache_inv (evict_loop a ?c) \<and> max_size (evict_loop a ?c) = max_size ?c \<and>
        lru_queue (evict_loop a ?c) = take (max_size ?c) (lru_queue ?c) \<and>
        lookup (evict_loop a ?c) = lookup ?c |` set (take (max_size ?c) (lru_queue ?c)) \<and>
        evictions (stats (evict_loop a ?c)) = evictions (stats ?c) + (length (store ?c) - max_size ?c)"
      by (rule IH [OF inv])
    then show ?thesis
      using k True len' unfolding step take lk by (auto simp: restrict_map_def fun_eq_iff dest: in_set_takeD)
  qed
qed

lemma limited_spec:
  assumes "cache_inv c" and "c' = (if max_size c > 0 then evict_loop a c else c)"
  shows "cache_inv c'" "max_size c' = max_size c" "lru_queue c' = kept c (lru_queue c)"
    "lookup c' = lookup c |` set (kept c (lru_queue c))" "within_limit c'"
proof -
  have id: "lookup c |` set (lru_queue c) = lookup c"
    using lookup_dom [OF assms(1)] by (auto simp: fun_eq_iff restrict_map_def)
  show "cache_inv c'" "max_size c' = max_size c" "lru_queue c' = kept c (lru_queue c)"
    "lookup c' = lookup c |` set (kept c (lru_queue c))"
    using evict_loop_spec [OF assms(1), of a] assms(1) id by (auto simp: assms(2) kept_def)
  then show "within_limit c'"
    using cache_inv_length [of c'] by (auto simp: within_limit_def kept_def)
qed

section \<open>Operations\<close>

lemma set_raw_spec:
  assumes "cache_inv c"
  shows "cache_inv (imc_set_raw t k v ttl c)" "max_size (imc_set_raw t k v ttl c) = max_size c"
    "lru_queue (imc_set_raw t k v ttl c) = kept c (front k (lru_queue c))"
    "lookup (imc_set_raw t k v ttl c) =
       (lookup c)(k \<mapsto> \<lparr>e_value = v, expires_at = sat_add t ttl\<rparr>) |` set (kept c (front k (lru_queue c)))"
    "within_limit (imc_set_raw t k v ttl c)"
proof -
  let ?p = "put_entry k v ttl t c"
  let ?c = "?p\<lparr>cache_event_tx := cache_event_tx ?p @ [Updated k]\<rparr>"
  have inv: "cache_inv ?c" using put_entry_inv [OF assms] by (simp add: cache_inv_def)
  have eq: "imc_set_raw t k v ttl c = (if max_size ?c > 0 then evict_loop True ?c else ?c)"
    by (simp add: imc_set_raw_def Let_def)
  have lk: "lookup ?c = lookup ?p" by (simp add: lookup_def)
  have kc: "kept ?c q = kept c q" for q by (simp add: kept_def)
  note spec = limited_spec [OF inv eq]
  show "cache_inv (imc_set_raw t k v ttl c)" "max_size (imc_set_raw t k v ttl c) = max_size c"
    "lru_queue (imc_set_raw t k v ttl c) = kept c (front k (lru_queue c))"
    "lookup (imc_set_raw t k v ttl c) =
       (lookup c)(k \<mapsto> \<lparr>e_value = v, expires_at = sat_add t ttl\<rparr>) |` set (kept c (front k (lru_queue c)))"
    "within_limit (imc_set_raw t k v ttl c)"
    using spec unfolding kc lk by simp_all
qed

lemma get_raw_spec:
  assumes "cache_inv c"
  shows "fst (imc_get_raw t k c) = live c t k" "cache_inv (snd (imc_get_raw t k c))"
    "max_size (snd (imc_get_raw t k c)) = max_size c"
    "lookup (snd (imc_get_raw t k c)) = (if live c t k = None then (lookup c)(k := None) else lookup c)"
    "lru_queue (snd (imc_get_raw t k c)) =
       (if live c t k = None then filter (\<lambda>x. x \<noteq> k) (lru_queue c) else front k (lru_queue c))"
proof -
  have none: "lookup c k = None \<Longrightarrow> filter (\<lambda>x. x \<noteq> k) (lru_queue c) = lru_queue c"
    using lookup_dom [OF assms, of k] by (auto intro: filter_True)
  note defs = imc_get_raw_def get_raw_with_expiry_def live_def lookup_def [symmetric]
  show "fst (imc_get_raw t k c) = live c t k"
    by (auto simp: defs split: option.split prod.split)
  show "cache_inv (snd (imc_get_raw t k c))"
    using assms touch_inv [OF assms, of k] drop_entry_inv [OF assms, of k]
    by (auto simp: defs cache_inv_def split: option.split prod.split)
  show "max_size (snd (imc_get_raw t k c)) = max_size c"
    by (auto simp: defs split: option.split prod.split)
  show "lookup (snd (imc_get_raw t k c)) = (if live c t k = None then (lookup c)(k := None) else lookup c)"
    by (auto simp: imc_get_raw_def get_raw_with_expiry_def live_def lookup_def drop_entry_def delete_conv'
        fun_eq_iff split: option.split prod.split)
  show "lru_queue (snd (imc_get_raw t k c)) =
       (if live c t k = None then filter (\<lambda>x. x \<noteq> k) (lru_queue c) else front k (lru_queue c))"
    using none by (auto simp: defs split: option.split prod.split)
qed

lemma delete_spec:
  assumes "cache_inv c"
  shows "cache_inv (imc_delete k c)" "lookup (imc_delete k c) = (lookup c)(k := None)"
    "max_size (imc_delete k c) = max_size c" "lru_queue (imc_delete k c) = filter (\<lambda>x. x \<noteq> k) (lru_queue c)"
  using drop_entry_inv [OF assms, of k]
  by (auto simp: imc_delete_def Let_def cache_inv_def lookup_def drop_entry_def delete_conv')

lemma put_all_inv: "cache_inv c \<Longrightarrow> cache_inv (put_all clk i es c) \<and> max_size (put_all clk i es c) = max_size c"
  by (induction clk i es c rule: put_all.induct) (auto simp: put_entry_inv)

lemma batch_set_spec:
  assumes "cache_inv c"
  shows "cache_inv (snd (set_batch clk es c))" "within_limit (snd (set_batch clk es c))"
    "cache_inv (snd (warm clk es c))" "within_limit (snd (warm clk es c))"
    "max_size (snd (set_batch clk es c)) = max_size c" "max_size (snd (warm clk es c)) = max_size c"
  using limited_spec [OF _ refl, of "put_all clk 0 es c" False] put_all_inv [OF assms, of clk 0 es]
  by (simp_all add: set_batch_def warm_def Let_def)

lemma within_limit_get:
  assumes "cache_inv c" and "within_limit c"
  shows "within_limit (snd (imc_get_raw t k c))"
proof -
  have "length (lru_queue (snd (imc_get_raw t k c))) \<le> length (lru_queue c)"
  proof (cases "live c t k")
    case None
    then show ?thesis by (simp add: get_raw_spec [OF assms(1)])
  next
    case (Some v)
    then have "k \<in> set (lru_queue c)"
      using lookup_dom [OF assms(1)] by (auto simp: live_def split: option.splits)
    then have "length (filter (\<lambda>x. x \<noteq> k) (lru_queue c)) < length (lru_queue c)"
      by (auto intro: length_filter_less)
    with Some show ?thesis by (simp add: get_raw_spec [OF assms(1)] front_def)
  qed
  then show ?thesis
    using assms cache_inv_length [OF assms(1)] cache_inv_length [OF get_raw_spec(2) [OF assms(1)]]
      get_raw_spec(3) [OF assms(1)]
    by (auto simp: within_limit_def)
qed

lemma within_limit_delete:
  assumes "cache_inv c" and "within_limit c"
  shows "within_limit (imc_delete k c)"
  using assms cache_inv_length [OF assms(1)] cache_inv_length [OF delete_spec(1) [OF assms(1)], of k]
    delete_spec(3,4) [OF assms(1), of k] length_filter_le [of "\<lambda>x. x \<noteq> k" "lru_queue c"]
  by (auto simp: within_limit_def)

section \<open>The contract of a cache\<close>

locale kv_cache =
  fixes get :: "u64 \<Rightarrow> CacheKey \<Rightarrow> 's \<Rightarrow> string option \<times> 's"
    and set :: "u64 \<Rightarrow> CacheKey \<Rightarrow> string \<Rightarrow> u64 \<Rightarrow> 's \<Rightarrow> 's"
    and del :: "CacheKey \<Rightarrow> 's \<Rightarrow> 's"
    and inv :: "'s \<Rightarrow> bool"
  assumes inv_get: "inv s \<Longrightarrow> inv (snd (get t k s))"
    and inv_set: "inv s \<Longrightarrow> inv (set t k v ttl s)"
    and inv_del: "inv s \<Longrightarrow> inv (del k s)"
    and get_set: "inv s \<Longrightarrow> fst (get t' k (set t k v ttl s)) = (if t' < sat_add t ttl then Some v else None)"
    and get_set_other: "inv s \<Longrightarrow> k' \<noteq> k \<Longrightarrow>
      fst (get t' k' (set t k v ttl s)) = None \<or> fst (get t' k' (set t k v ttl s)) = fst (get t' k' s)"
    and get_get: "inv s \<Longrightarrow> t \<le> t' \<Longrightarrow> fst (get t' k' (snd (get t k s))) = fst (get t' k' s)"
    and get_del: "inv s \<Longrightarrow> fst (get t k' (del k s)) = (if k' = k then None else fst (get t k' s))"
begin

text \<open>A key that was set reads back until it expires, whatever is read in between.\<close>

lemma get_after_reads:
  assumes "inv s" and "t \<le> t'"
  shows "fst (get t' k (snd (get t k' (set t k v ttl s)))) = (if t' < sat_add t ttl then Some v else None)"
  using get_get [OF inv_set [OF assms(1)] assms(2)] get_set [OF assms(1)] by simp

end

lemma live_cong: "lookup c' k = lookup c k \<Longrightarrow> live c' t k = live c t k"
  by (simp add: live_def)

interpretation imc: kv_cache imc_get_raw imc_set_raw imc_delete cache_inv
proof
  fix c :: InMemoryCache and t t' ttl :: u64 and k k' v
  assume inv: "cache_inv c"
  note g = get_raw_spec [OF inv]
  show "cache_inv (snd (imc_get_raw t k c))" by (rule g(2))
  show "cache_inv (imc_set_raw t k v ttl c)" by (rule set_raw_spec [OF inv])
  show "cache_inv (imc_delete k c)" by (rule delete_spec [OF inv])
  note gs = get_raw_spec(1) [OF set_raw_spec(1) [OF inv]]
  have "k \<in> set (kept c (front k (lru_queue c)))"
    by (cases "max_size c") (auto simp: kept_def front_def)
  then show "fst (imc_get_raw t' k (imc_set_raw t k v ttl c)) = (if t' < sat_add t ttl then Some v else None)"
    by (simp add: gs live_def set_raw_spec(4) [OF inv])
  show "k' \<noteq> k \<Longrightarrow> fst (imc_get_raw t' k' (imc_set_raw t k v ttl c)) = None \<or>
      fst (imc_get_raw t' k' (imc_set_raw t k v ttl c)) = fst (imc_get_raw t' k' c)"
    by (auto simp: gs g(1) live_def set_raw_spec(4) [OF inv] restrict_map_def)
  show "fst (imc_get_raw t' k' (imc_delete k c)) = (if k' = k then None else fst (imc_get_raw t' k' c))" for t' k'
    by (simp add: get_raw_spec(1) [OF delete_spec(1) [OF inv]] g(1) live_def delete_spec(2) [OF inv])
  assume le: "t \<le> t'"
  show "fst (imc_get_raw t' k' (snd (imc_get_raw t k c))) = fst (imc_get_raw t' k' c)"
    using le by (auto simp: get_raw_spec(1) [OF g(2)] g(1,4) live_def split: option.splits)
qed

end
