(* ===== verification/Cache_Recency.thy ===== *)
theory Cache_Recency
  imports In_Memory_Correct
begin

text \<open>
  The abstract least-recently-used cache: one list of entries, the most recently used first,
  and the counters. A read of a live entry moves it to the front, a read of an expired one
  removes it, a write puts its entry in front, and whatever lies beyond the size limit is
  forgotten. \<open>recency\<close> reads this list off an \<open>InMemoryCache\<close>; the lemmas show that every
  operation of the in-memory cache acts on it as the abstract one does.
\<close>

section \<open>The abstract cache\<close>

record lru_model =
  recent :: "(CacheKey \<times> Entry) list"
  counts :: CacheStats

definition lru_new :: lru_model where
  "lru_new = \<lparr>recent = [], counts = CacheStats_default\<rparr>"

definition without :: "CacheKey \<Rightarrow> (CacheKey \<times> Entry) list \<Rightarrow> (CacheKey \<times> Entry) list" where
  "without k xs = filter (\<lambda>p. fst p \<noteq> k) xs"

definition lru_get :: "u64 \<Rightarrow> CacheKey \<Rightarrow> lru_model \<Rightarrow> string option \<times> lru_model" where
  "lru_get t k m =
     (case map_of (recent m) k of
        None \<Rightarrow> (None, m\<lparr>counts := (counts m)\<lparr>misses := misses (counts m) + 1\<rparr>\<rparr>)
      | Some e \<Rightarrow>
          if t < expires_at e
          then (Some (e_value e),
                m\<lparr>recent := (k, e) # without k (recent m), counts := (counts m)\<lparr>hits := hits (counts m) + 1\<rparr>\<rparr>)
          else (None,
                m\<lparr>recent := without k (recent m), counts := (counts m)\<lparr>expired := expired (counts m) + 1\<rparr>\<rparr>))"

definition lru_put :: "CacheKey \<Rightarrow> string \<Rightarrow> u64 \<Rightarrow> u64 \<Rightarrow> lru_model \<Rightarrow> lru_model" where
  "lru_put k v ttl t m =
     m\<lparr>recent := (k, \<lparr>e_value = v, expires_at = sat_add t ttl\<rparr>) # without k (recent m)\<rparr>"

text \<open>Cutting the list to the limit; a limit of 0 means no limit.\<close>

definition lru_cut :: "nat \<Rightarrow> lru_model \<Rightarrow> lru_model" where
  "lru_cut n m =
     (if n = 0 then m
      else m\<lparr>recent := take n (recent m),
             counts := (counts m)\<lparr>evictions := evictions (counts m) + (length (recent m) - n)\<rparr>\<rparr>)"

definition lru_delete :: "CacheKey \<Rightarrow> lru_model \<Rightarrow> lru_model" where
  "lru_delete k m = m\<lparr>recent := without k (recent m)\<rparr>"

fun lru_put_all :: "(nat \<Rightarrow> u64) \<Rightarrow> nat \<Rightarrow> (CacheKey \<times> string \<times> u64) list \<Rightarrow> lru_model \<Rightarrow> lru_model" where
  "lru_put_all clk i [] m = m"
| "lru_put_all clk i ((k, v, ttl) # es) m = lru_put_all clk (i + 1) es (lru_put k v ttl (clk i) m)"

fun lru_get_all :: "u64 \<Rightarrow> CacheKey list \<Rightarrow> lru_model \<Rightarrow> (CacheKey \<times> string option) list \<times> lru_model" where
  "lru_get_all t [] m = ([], m)"
| "lru_get_all t (k # ks) m =
     (let (r, m1) = lru_get t k m; (rs, m2) = lru_get_all t ks m1 in ((k, r) # rs, m2))"

definition lru_snapshot :: "nat \<Rightarrow> lru_model \<Rightarrow> CacheStatsSnapshot" where
  "lru_snapshot n m =
     \<lparr>sn_hits = hits (counts m), sn_misses = misses (counts m), sn_evictions = evictions (counts m),
      sn_expired = expired (counts m), sn_hit_rate = hit_rate (counts m),
      sn_current_size = length (recent m), sn_max_size = n\<rparr>"

section \<open>The list of an in-memory cache\<close>

definition recency :: "InMemoryCache \<Rightarrow> (CacheKey \<times> Entry) list" where
  "recency c = map (\<lambda>k. (k, the (lookup c k))) (lru_queue c)"

definition lru_of :: "InMemoryCache \<Rightarrow> lru_model" where
  "lru_of c = \<lparr>recent = recency c, counts = stats c\<rparr>"

lemma lru_of_simps [simp]: "recent (lru_of c) = recency c" "counts (lru_of c) = stats c"
  by (simp_all add: lru_of_def)

lemma lru_of_new: "lru_of (with_max_size n) = lru_new"
  by (simp add: lru_of_def lru_new_def recency_def with_max_size_def)

lemma recency_cong:
  "store c' = store c \<Longrightarrow> lru_queue c' = lru_queue c \<Longrightarrow> recency c' = recency c"
  by (simp add: recency_def lookup_def)

lemma recency_updates [simp]:
  "recency (c\<lparr>stats := s\<rparr>) = recency c"
  "recency (c\<lparr>cache_event_tx := es\<rparr>) = recency c"
  "recency (c\<lparr>imc_metrics := m\<rparr>) = recency c"
  by (simp_all add: recency_def lookup_def)

lemma length_recency: "cache_inv c \<Longrightarrow> length (recency c) = length (store c)"
  by (simp add: recency_def cache_inv_length)

lemma map_of_recency:
  assumes "cache_inv c"
  shows "map_of (recency c) k = lookup c k"
  using lookup_dom [OF assms, of k] by (auto simp: recency_def map_of_map_restrict restrict_map_def)

lemma set_recency:
  assumes "cache_inv c"
  shows "set (recency c) = set (store c)"
proof -
  have "(k, e) \<in> set (recency c) \<longleftrightarrow> lookup c k = Some e" for k e
    using lookup_dom [OF assms, of k] by (auto simp: recency_def)
  moreover have "lookup c k = Some e \<longleftrightarrow> (k, e) \<in> set (store c)" for k e
    using assms by (auto simp: cache_inv_def lookup_def)
  ultimately show ?thesis by auto
qed

lemma without_recency:
  "without k (recency c) = map (\<lambda>x. (x, the (lookup c x))) (filter (\<lambda>x. x \<noteq> k) (lru_queue c))"
  by (simp add: without_def recency_def filter_map comp_def)

lemma recency_put:
  "recency (put_entry k v ttl t c) =
     (k, \<lparr>e_value = v, expires_at = sat_add t ttl\<rparr>) # without k (recency c)"
  by (simp add: without_recency) (simp add: recency_def front_def)

lemma recency_touch: "lookup c k = Some e \<Longrightarrow> recency (touch k c) = (k, e) # without k (recency c)"
  by (simp add: without_recency) (simp add: recency_def front_def lookup_def)

lemma recency_drop: "recency (drop_entry k c) = without k (recency c)"
  by (simp add: without_recency) (simp add: recency_def)

lemma evict_loop_stats:
  assumes "cache_inv c"
  shows "stats (evict_loop a c) =
    (stats c)\<lparr>evictions := evictions (stats c) + (length (store c) - max_size c)\<rparr>"
proof -
  have "stats (evict_loop a c) = (stats c)\<lparr>evictions := evictions (stats (evict_loop a c))\<rparr>"
  proof (induction a c rule: evict_loop.induct)
    case (1 a c)
    then show ?case by (subst (1 2) evict_loop.simps) (auto simp: Let_def)
  qed
  with evict_loop_spec [OF assms, of a] show ?thesis by simp
qed

lemma recency_evict:
  assumes "cache_inv c"
  shows "recency (evict_loop a c) = take (max_size c) (recency c)"
  using evict_loop_spec [OF assms, of a] by (simp add: recency_def take_map)

lemma lru_of_limited:
  assumes "cache_inv c"
  shows "lru_of (if max_size c > 0 then evict_loop a c else c) = lru_cut (max_size c) (lru_of c)"
  by (simp add: lru_of_def lru_cut_def recency_evict [OF assms] evict_loop_stats [OF assms] length_recency [OF assms])

section \<open>Every operation follows the abstract cache\<close>

lemma lru_of_put: "lru_of (put_entry k v ttl t c) = lru_put k v ttl t (lru_of c)"
  by (simp add: lru_of_def lru_put_def recency_put)

lemma lru_of_set:
  assumes "cache_inv c"
  shows "lru_of (imc_set_raw t k v ttl c) = lru_cut (max_size c) (lru_put k v ttl t (lru_of c))"
proof -
  let ?p = "put_entry k v ttl t c"
  let ?c = "?p\<lparr>cache_event_tx := cache_event_tx ?p @ [Updated k]\<rparr>"
  have inv: "cache_inv ?c" using put_entry_inv [OF assms] by (simp add: cache_inv_def)
  have "lru_of ?c = lru_of ?p" by (simp add: lru_of_def)
  with lru_of_limited [OF inv, of True] show ?thesis
    by (simp add: imc_set_raw_def Let_def lru_of_put)
qed

lemma lru_of_get:
  assumes "cache_inv c"
  shows "lru_get t k (lru_of c) = (fst (imc_get_raw t k c), lru_of (snd (imc_get_raw t k c)))"
proof -
  note defs = lru_get_def map_of_recency [OF assms] imc_get_raw_def get_raw_with_expiry_def lookup_def [symmetric]
  show ?thesis
    by (cases "lookup c k") (simp_all add: defs lru_of_def recency_touch recency_drop)
qed

lemma lru_of_delete: "lru_of (imc_delete k c) = lru_delete k (lru_of c)"
proof -
  have "recency (imc_delete k c) = recency (drop_entry k c)"
    by (rule recency_cong) (simp_all add: imc_delete_def Let_def)
  moreover have "stats (imc_delete k c) = stats c"
    by (simp add: imc_delete_def drop_entry_def Let_def)
  ultimately show ?thesis by (simp add: lru_of_def lru_delete_def recency_drop)
qed

lemma lru_of_put_all: "lru_of (put_all clk i es c) = lru_put_all clk i es (lru_of c)"
  by (induction clk i es c rule: put_all.induct) (simp_all add: lru_of_put)

lemma lru_of_batch:
  assumes "cache_inv c"
  shows "lru_of (snd (set_batch clk es c)) = lru_cut (max_size c) (lru_put_all clk 0 es (lru_of c))"
    and "lru_of (snd (warm clk es c)) = lru_cut (max_size c) (lru_put_all clk 0 es (lru_of c))"
  using put_all_inv [OF assms, of clk 0 es] lru_of_limited [of "put_all clk 0 es c" False]
  by (simp_all add: set_batch_def warm_def Let_def lru_of_put_all)

text \<open>One turn of the batch read differs from a single read only in the events it sends.\<close>

lemma get_batch_turn:
  "\<exists>c1. get_batch_loop t (k # ks) c =
      ((k, fst (imc_get_raw t k c)) # fst (get_batch_loop t ks c1), snd (get_batch_loop t ks c1)) \<and>
    store c1 = store (snd (imc_get_raw t k c)) \<and> lru_queue c1 = lru_queue (snd (imc_get_raw t k c)) \<and>
    stats c1 = stats (snd (imc_get_raw t k c))"
  by (auto simp: imc_get_raw_def get_raw_with_expiry_def case_prod_beta split: option.split)

lemma lru_of_get_batch:
  "cache_inv c \<Longrightarrow>
     lru_get_all t ks (lru_of c) = (fst (get_batch_loop t ks c), lru_of (snd (get_batch_loop t ks c)))"
proof (induction ks arbitrary: c)
  case (Cons k ks)
  from get_batch_turn [of t k ks c] obtain c1 where turn: "get_batch_loop t (k # ks) c =
      ((k, fst (imc_get_raw t k c)) # fst (get_batch_loop t ks c1), snd (get_batch_loop t ks c1))"
    "store c1 = store (snd (imc_get_raw t k c))" "lru_queue c1 = lru_queue (snd (imc_get_raw t k c))"
    "stats c1 = stats (snd (imc_get_raw t k c))" by blast
  have "lru_of c1 = lru_of (snd (imc_get_raw t k c))"
    using recency_cong [OF turn(2,3)] turn(4) by (simp add: lru_of_def)
  moreover have "cache_inv c1"
    using get_raw_spec(2) [OF Cons.prems] cache_inv_cong [OF turn(2,3)] by simp
  ultimately show ?case
    using Cons.IH [of c1] lru_of_get [OF Cons.prems, of t k]
    unfolding turn(1) lru_get_all.simps by simp
qed simp

lemma lru_of_stats:
  assumes "cache_inv c"
  shows "fst (cache_stats c) = lru_snapshot (max_size c) (lru_of c)" "lru_of (snd (cache_stats c)) = lru_of c"
  by (simp_all add: cache_stats_def lru_snapshot_def Let_def length_recency [OF assms] lru_of_def)

end
