(* ===== verification/Cache_Breaker.thy ===== *)
theory Cache_Breaker
  imports Metrics
begin

text \<open>
  The guards of the Redis cache (\<open>src/src/cache.rs\<close>): circuit breaker, bulkhead and health-check
  state. Instants and system times are nanoseconds, passed as arguments; configured durations
  are \<open>u64\<close> milliseconds; counters wrap as in the release build.
\<close>

section \<open>Circuit breaker\<close>

datatype CircuitState = Closed | Open | HalfOpen

fun circuit_state_str :: "CircuitState \<Rightarrow> string" where
  "circuit_state_str Closed = ''closed''"
| "circuit_state_str Open = ''open''"
| "circuit_state_str HalfOpen = ''half_open''"

fun as_metric_value :: "CircuitState \<Rightarrow> int" where
  "as_metric_value Closed = 0"
| "as_metric_value Open = 1"
| "as_metric_value HalfOpen = 2"

record CacheCircuitBreakerConfig =
  ccfg_failure_threshold :: u32
  ccfg_open_duration_ms :: u64
  ccfg_half_open_max_calls :: u32
  ccfg_backoff_base_ms :: u64
  ccfg_backoff_max_ms :: u64

definition CacheCircuitBreakerConfig_default :: CacheCircuitBreakerConfig where
  "CacheCircuitBreakerConfig_default =
     \<lparr>ccfg_failure_threshold = 5, ccfg_open_duration_ms = 30000, ccfg_half_open_max_calls = 1,
      ccfg_backoff_base_ms = 100, ccfg_backoff_max_ms = 30000\<rparr>"

record CacheCircuitBreaker =
  cb_state :: CircuitState
  consecutive_failures :: u32
  failure_threshold :: u32
  open_duration :: u64
  half_open_max_calls :: u32
  half_open_calls :: u32
  opened_at :: "nat option"
  backoff_base :: u64
  backoff_max :: u64
  last_transition :: "(CircuitState \<times> CircuitState) option"

definition CacheCircuitBreaker_new :: "CacheCircuitBreakerConfig \<Rightarrow> CacheCircuitBreaker" where
  "CacheCircuitBreaker_new config =
     \<lparr>cb_state = Closed, consecutive_failures = 0, failure_threshold = ccfg_failure_threshold config,
      open_duration = ccfg_open_duration_ms config,
      half_open_max_calls = ccfg_half_open_max_calls config, half_open_calls = 0, opened_at = None,
      backoff_base = ccfg_backoff_base_ms config, backoff_max = ccfg_backoff_max_ms config,
      last_transition = None\<rparr>"

definition transition_to :: "nat \<Rightarrow> CircuitState \<Rightarrow> CacheCircuitBreaker \<Rightarrow> CacheCircuitBreaker" where
  "transition_to t new_state cb =
     (let old_state = cb_state cb;
          cb = cb\<lparr>cb_state := new_state\<rparr>;
          cb = (case new_state of
                  Closed \<Rightarrow> cb\<lparr>consecutive_failures := 0, opened_at := None, half_open_calls := 0\<rparr>
                | Open \<Rightarrow> cb\<lparr>opened_at := Some t, half_open_calls := 0\<rparr>
                | HalfOpen \<Rightarrow> cb\<lparr>half_open_calls := 0\<rparr>)
      in cb\<lparr>last_transition := Some (old_state, new_state)\<rparr>)"

definition current_backoff :: "CacheCircuitBreaker \<Rightarrow> u64" where
  "current_backoff cb =
     (let failure_count = max (consecutive_failures cb) 1;
          base = backoff_base cb;
          exponent = min (failure_count - 1) 6
      in min (base * 2 ^ unat exponent) (backoff_max cb))"

text \<open>\<open>Instant::elapsed\<close> is zero for an instant in the future.\<close>

definition should_allow :: "nat \<Rightarrow> CacheCircuitBreaker \<Rightarrow> bool \<times> CacheCircuitBreaker" where
  "should_allow t cb =
     (case cb_state cb of
        Closed \<Rightarrow> (True, cb)
      | Open \<Rightarrow>
          (case opened_at cb of
             Some opened \<Rightarrow>
               if t - opened \<ge> unat (current_backoff cb) * 1000000
               then (True, transition_to t HalfOpen cb) else (False, cb)
           | None \<Rightarrow> (False, cb))
      | HalfOpen \<Rightarrow> (half_open_calls cb < half_open_max_calls cb, cb))"

definition breaker_success :: "nat \<Rightarrow> CacheCircuitBreaker \<Rightarrow> CacheCircuitBreaker" where
  "breaker_success t cb =
     (case cb_state cb of
        Closed \<Rightarrow> cb\<lparr>consecutive_failures := 0\<rparr>
      | HalfOpen \<Rightarrow>
          let cb = cb\<lparr>half_open_calls := half_open_calls cb + 1\<rparr> in
          if half_open_calls cb \<ge> half_open_max_calls cb then transition_to t Closed cb else cb
      | Open \<Rightarrow> cb)"

definition breaker_failure :: "nat \<Rightarrow> CacheCircuitBreaker \<Rightarrow> CacheCircuitBreaker" where
  "breaker_failure t cb =
     (case cb_state cb of
        Closed \<Rightarrow>
          let cb = cb\<lparr>consecutive_failures := consecutive_failures cb + 1\<rparr> in
          if consecutive_failures cb \<ge> failure_threshold cb then transition_to t Open cb else cb
      | HalfOpen \<Rightarrow> transition_to t Open cb
      | Open \<Rightarrow> cb\<lparr>consecutive_failures := consecutive_failures cb + 1\<rparr>)"

definition take_last_transition ::
    "CacheCircuitBreaker \<Rightarrow> (CircuitState \<times> CircuitState) option \<times> CacheCircuitBreaker" where
  "take_last_transition cb = (last_transition cb, cb\<lparr>last_transition := None\<rparr>)"

section \<open>Bulkhead\<close>

record CacheBulkheadConfig =
  bcfg_max_concurrent :: u32
  bcfg_max_queue :: u32

definition CacheBulkheadConfig_default :: CacheBulkheadConfig where
  "CacheBulkheadConfig_default = \<lparr>bcfg_max_concurrent = 20, bcfg_max_queue = 200\<rparr>"

text \<open>The semaphore is the number of free permits.\<close>

record CacheBulkhead =
  permits :: nat
  bh_max_concurrent :: nat
  bh_max_queue :: nat

definition CacheBulkhead_new :: "CacheBulkheadConfig \<Rightarrow> CacheBulkhead" where
  "CacheBulkhead_new config =
     \<lparr>permits = unat (bcfg_max_concurrent config), bh_max_concurrent = unat (bcfg_max_concurrent config),
      bh_max_queue = unat (bcfg_max_queue config)\<rparr>"

definition bulkhead_try_acquire :: "CacheBulkhead \<Rightarrow> CacheBulkhead option" where
  "bulkhead_try_acquire b = (if permits b = 0 then None else Some (b\<lparr>permits := permits b - 1\<rparr>))"

text \<open>Dropping the guard.\<close>

definition bulkhead_release :: "CacheBulkhead \<Rightarrow> CacheBulkhead" where
  "bulkhead_release b = b\<lparr>permits := permits b + 1\<rparr>"

definition active_count :: "CacheBulkhead \<Rightarrow> nat" where
  "active_count b = bh_max_concurrent b - permits b"

section \<open>Health checks\<close>

record HealthCheckState =
  last_check :: "nat option"
  is_healthy :: bool
  backoff_until :: "nat option"
  hc_failures :: u32

definition HealthCheckState_new :: HealthCheckState where
  "HealthCheckState_new = \<lparr>last_check = None, is_healthy = True, backoff_until = None, hc_failures = 0\<rparr>"

definition should_check :: "nat \<Rightarrow> HealthCheckState \<Rightarrow> bool" where
  "should_check t s = (case backoff_until s of Some until \<Rightarrow> \<not> t < until | None \<Rightarrow> True)"

definition health_success :: "nat \<Rightarrow> HealthCheckState \<Rightarrow> HealthCheckState" where
  "health_success t s = s\<lparr>is_healthy := True, last_check := Some t, backoff_until := None, hc_failures := 0\<rparr>"

definition health_failure :: "nat \<Rightarrow> HealthCheckState \<Rightarrow> HealthCheckState" where
  "health_failure t s =
     (let s = s\<lparr>is_healthy := False, last_check := Some t, hc_failures := hc_failures s + 1\<rparr>;
          backoff_secs = min (2 ^ unat (min (hc_failures s) 6)) (60 :: u64)
      in s\<lparr>backoff_until := Some (t + unat backoff_secs * 1000000000)\<rparr>)"

end
