(* ===== verification/Cache_Backend.thy ===== *)
theory Cache_Backend
  imports In_Memory_Cache Cache_Breaker
begin

text \<open>
  The Redis cache with its guards and fallback, and the backend that dispatches between Redis
  and memory (\<open>src/src/cache.rs\<close>, \<open>RedisCache\<close> and \<open>CacheBackend\<close>). The Redis client is a
  parameter: a record of commands over an opaque connection, \<open>Inl\<close> being its error message.
  One operation reads the clocks once; the permit it takes is returned when it ends.
\<close>

section \<open>Parameters\<close>

record 'r redis_ops =
  redis_ping :: "'r \<Rightarrow> bool \<times> 'r"
  redis_get :: "string \<Rightarrow> 'r \<Rightarrow> (string + string option) \<times> 'r"
  redis_set_ex :: "string \<Rightarrow> string \<Rightarrow> u64 \<Rightarrow> 'r \<Rightarrow> (string + unit) \<times> 'r"
  redis_del :: "string \<Rightarrow> 'r \<Rightarrow> (string + unit) \<times> 'r"

text \<open>The clocks: monotonic and system nanoseconds, and Unix seconds.\<close>

record clocks =
  instant :: nat
  system :: nat
  unix_secs :: u64

section \<open>RedisCache\<close>

record 'r RedisCache =
  connection :: 'r
  rc_metrics :: "metrics option"
  health_check_state :: HealthCheckState
  circuit_breaker :: CacheCircuitBreaker
  bulkhead :: CacheBulkhead
  fallback_cache :: InMemoryCache
  circuit_breaker_config :: CacheCircuitBreakerConfig

definition RedisCache_with_config ::
    "'r \<Rightarrow> CacheCircuitBreakerConfig \<Rightarrow> CacheBulkheadConfig \<Rightarrow> 'r RedisCache" where
  "RedisCache_with_config conn cb_config bulkhead_config =
     \<lparr>connection = conn, rc_metrics = None, health_check_state = HealthCheckState_new,
      circuit_breaker = CacheCircuitBreaker_new cb_config, bulkhead = CacheBulkhead_new bulkhead_config,
      fallback_cache = InMemoryCache_new, circuit_breaker_config = cb_config\<rparr>"

definition RedisCache_new :: "'r \<Rightarrow> 'r RedisCache" where
  "RedisCache_new conn =
     RedisCache_with_config conn CacheCircuitBreakerConfig_default CacheBulkheadConfig_default"

definition redis_with_metrics :: "metrics \<Rightarrow> 'r RedisCache \<Rightarrow> 'r RedisCache" where
  "redis_with_metrics m c = c\<lparr>rc_metrics := Some m\<rparr>"

definition on_metrics :: "(metrics \<Rightarrow> metrics) \<Rightarrow> 'r RedisCache \<Rightarrow> 'r RedisCache" where
  "on_metrics f c = c\<lparr>rc_metrics := map_option f (rc_metrics c)\<rparr>"

definition circuit_breaker_allows :: "clocks \<Rightarrow> 'r RedisCache \<Rightarrow> bool \<times> 'r RedisCache" where
  "circuit_breaker_allows k c =
     (case should_allow (instant k) (circuit_breaker c) of (ok, cb) \<Rightarrow> (ok, c\<lparr>circuit_breaker := cb\<rparr>))"

definition redis_record_success :: "clocks \<Rightarrow> 'r RedisCache \<Rightarrow> 'r RedisCache" where
  "redis_record_success k c =
     (case take_last_transition (breaker_success (instant k) (circuit_breaker c)) of
        (tr, cb) \<Rightarrow>
          let c = c\<lparr>circuit_breaker := cb\<rparr> in
          case tr of
            None \<Rightarrow> c
          | Some (from, to) \<Rightarrow>
              on_metrics (\<lambda>m.
                let m = set_cache_circuit_state (as_metric_value to)
                          (record_cache_circuit_transition (circuit_state_str from) (circuit_state_str to) m)
                in if to = Closed then increment_cache_circuit_recovery m else m) c)"

definition redis_record_failure :: "clocks \<Rightarrow> 'r RedisCache \<Rightarrow> 'r RedisCache" where
  "redis_record_failure k c =
     (case take_last_transition (breaker_failure (instant k) (circuit_breaker c)) of
        (tr, cb) \<Rightarrow>
          let c = c\<lparr>circuit_breaker := cb\<rparr> in
          case tr of
            None \<Rightarrow> c
          | Some (from, to) \<Rightarrow>
              on_metrics (\<lambda>m. set_cache_circuit_state (as_metric_value to)
                (record_cache_circuit_transition (circuit_state_str from) (circuit_state_str to) m)) c)"

definition circuit_state :: "'r RedisCache \<Rightarrow> CircuitState" where
  "circuit_state c = cb_state (circuit_breaker c)"

definition redis_check_connection :: "'r redis_ops \<Rightarrow> clocks \<Rightarrow> 'r RedisCache \<Rightarrow> bool \<times> 'r RedisCache" where
  "redis_check_connection R k c =
     (let st = health_check_state c in
      if \<not> should_check (system k) st then (is_healthy st, c)
      else
        case redis_ping R (connection c) of
          (result, conn) \<Rightarrow>
            (result,
             c\<lparr>connection := conn,
               health_check_state := (if result then health_success (system k) st else health_failure (system k) st)\<rparr>))"

text \<open>
  The three commands share their guards: breaker, bulkhead, bulkhead gauge, health check, the
  command, and the breaker's record of the outcome.
\<close>

definition guarded_command ::
    "'r redis_ops \<Rightarrow> clocks \<Rightarrow> ('r \<Rightarrow> (string + 'a) \<times> 'r) \<Rightarrow> 'r RedisCache \<Rightarrow> (string, 'a) result \<times> 'r RedisCache" where
  "guarded_command R k cmd c =
     (case should_allow (instant k) (circuit_breaker c) of
        (False, cb) \<Rightarrow>
          (Err ''Cache circuit breaker is open'',
           on_metrics increment_cache_circuit_rejection (c\<lparr>circuit_breaker := cb\<rparr>))
      | (True, cb) \<Rightarrow>
          let c = c\<lparr>circuit_breaker := cb\<rparr> in
          case bulkhead_try_acquire (bulkhead c) of
            None \<Rightarrow> (Err ''Cache bulkhead is full'', on_metrics increment_cache_bulkhead_rejection c)
          | Some b \<Rightarrow>
              let c = c\<lparr>bulkhead := b\<rparr>;
                  c = on_metrics (set_cache_bulkhead_active (int (active_count b))) c;
                  (r, c) =
                    (case redis_check_connection R k c of
                       (False, c) \<Rightarrow> (Err ''Redis connection is unhealthy'', redis_record_failure k c)
                     | (True, c) \<Rightarrow>
                         (case cmd (connection c) of
                            (Inr v, conn) \<Rightarrow> (Ok v, redis_record_success k (c\<lparr>connection := conn\<rparr>))
                          | (Inl e, conn) \<Rightarrow> (Err e, redis_record_failure k (c\<lparr>connection := conn\<rparr>))))
              in (r, c\<lparr>bulkhead := bulkhead_release (bulkhead c)\<rparr>))"

definition redis_get_raw ::
    "'r redis_ops \<Rightarrow> clocks \<Rightarrow> string \<Rightarrow> 'r RedisCache \<Rightarrow> (string, string option) result \<times> 'r RedisCache" where
  "redis_get_raw R k key = guarded_command R k (redis_get R key)"

definition redis_set_raw ::
    "'r redis_ops \<Rightarrow> clocks \<Rightarrow> string \<Rightarrow> string \<Rightarrow> u64 \<Rightarrow> 'r RedisCache \<Rightarrow> (string, unit) result \<times> 'r RedisCache" where
  "redis_set_raw R k key value ttl = guarded_command R k (redis_set_ex R key value ttl)"

definition redis_delete ::
    "'r redis_ops \<Rightarrow> clocks \<Rightarrow> string \<Rightarrow> 'r RedisCache \<Rightarrow> (string, unit) result \<times> 'r RedisCache" where
  "redis_delete R k key = guarded_command R k (redis_del R key)"

definition redis_record_hit :: "'r RedisCache \<Rightarrow> 'r RedisCache" where
  "redis_record_hit c = on_metrics increment_cache_hits c"

definition redis_record_miss :: "'r RedisCache \<Rightarrow> 'r RedisCache" where
  "redis_record_miss c = on_metrics increment_cache_misses c"

definition redis_record_expired :: "'r RedisCache \<Rightarrow> 'r RedisCache" where
  "redis_record_expired c = on_metrics increment_cache_expired c"

definition redis_record_serialization_failure :: "'r RedisCache \<Rightarrow> 'r RedisCache" where
  "redis_record_serialization_failure c = on_metrics increment_cache_serialization_failures c"

section \<open>CacheBackend\<close>

datatype 'r CacheBackend = Redis "'r RedisCache" | InMemory InMemoryCache

text \<open>A lookup in memory with its hit, miss or expiry counted.\<close>

definition counted_get :: "clocks \<Rightarrow> CacheKey \<Rightarrow> InMemoryCache \<Rightarrow> string option \<times> InMemoryCache" where
  "counted_get k key c =
     (case get_raw_with_expiry (unix_secs k) key c of
        ((value, was_expired), c) \<Rightarrow>
          (value,
           if was_expired then imc_record_expired c
           else if value \<noteq> None then imc_record_hit c else imc_record_miss c))"

definition backend_check_connection :: "'r redis_ops \<Rightarrow> clocks \<Rightarrow> 'r CacheBackend \<Rightarrow> bool \<times> 'r CacheBackend" where
  "backend_check_connection R k b =
     (case b of
        Redis c \<Rightarrow> (case redis_check_connection R k c of (ok, c) \<Rightarrow> (ok, Redis c))
      | InMemory c \<Rightarrow> (True, InMemory c))"

definition backend_get_raw ::
    "'r redis_ops \<Rightarrow> clocks \<Rightarrow> CacheKey \<Rightarrow> 'r CacheBackend \<Rightarrow> string option \<times> 'r CacheBackend" where
  "backend_get_raw R k key b =
     (case b of
        Redis c \<Rightarrow>
          (case redis_get_raw R k (as_string key) c of
             (Ok v, c) \<Rightarrow> (v, Redis (case v of Some _ \<Rightarrow> redis_record_hit c | None \<Rightarrow> redis_record_miss c))
           | (Err _, c) \<Rightarrow>
               let c = on_metrics increment_cache_fallback_use c in
               case counted_get k key (fallback_cache c) of
                 (v, f) \<Rightarrow> (v, Redis (c\<lparr>fallback_cache := f\<rparr>)))
      | InMemory c \<Rightarrow> (case counted_get k key c of (v, c) \<Rightarrow> (v, InMemory c)))"

definition backend_set_raw ::
    "'r redis_ops \<Rightarrow> clocks \<Rightarrow> CacheKey \<Rightarrow> string \<Rightarrow> u64 \<Rightarrow> 'r CacheBackend \<Rightarrow> 'r CacheBackend" where
  "backend_set_raw R k key value ttl b =
     (case b of
        Redis c \<Rightarrow>
          (case redis_set_raw R k (as_string key) value ttl c of
             (Ok _, c) \<Rightarrow> Redis c
           | (Err _, c) \<Rightarrow>
               let c = on_metrics increment_cache_fallback_use c
               in Redis (c\<lparr>fallback_cache := imc_set_raw (unix_secs k) key value ttl (fallback_cache c)\<rparr>))
      | InMemory c \<Rightarrow> InMemory (imc_set_raw (unix_secs k) key value ttl c))"

text \<open>The typed accessors over a \<open>serde_json\<close> codec.\<close>

definition backend_get ::
    "'r redis_ops \<Rightarrow> (string \<Rightarrow> string + 'a) \<Rightarrow> clocks \<Rightarrow> CacheKey \<Rightarrow> 'r CacheBackend \<Rightarrow> 'a option \<times> 'r CacheBackend" where
  "backend_get R from_str k key b =
     (case backend_get_raw R k key b of
        (Some v, b) \<Rightarrow>
          (case from_str v of
             Inr parsed \<Rightarrow> (Some parsed, b)
           | Inl _ \<Rightarrow>
               (None,
                case b of
                  Redis c \<Rightarrow> Redis (redis_record_serialization_failure c)
                | InMemory c \<Rightarrow> InMemory (imc_record_serialization_failure c)))
      | (None, b) \<Rightarrow> (None, b))"

definition backend_set ::
    "'r redis_ops \<Rightarrow> ('a \<Rightarrow> string + string) \<Rightarrow> clocks \<Rightarrow> CacheKey \<Rightarrow> 'a \<Rightarrow> u64 \<Rightarrow> 'r CacheBackend \<Rightarrow>
     (string, unit) result \<times> 'r CacheBackend" where
  "backend_set R to_str k key value ttl b =
     (case to_str value of
        Inl e \<Rightarrow> (Err e, b)
      | Inr s \<Rightarrow> (Ok (), backend_set_raw R k key s ttl b))"

definition backend_delete :: "'r redis_ops \<Rightarrow> clocks \<Rightarrow> CacheKey \<Rightarrow> 'r CacheBackend \<Rightarrow> 'r CacheBackend" where
  "backend_delete R k key b =
     (case b of
        Redis c \<Rightarrow>
          (case redis_delete R k (as_string key) c of
             (Ok _, c) \<Rightarrow> Redis c
           | (Err _, c) \<Rightarrow>
               let c = on_metrics increment_cache_fallback_use c
               in Redis (c\<lparr>fallback_cache := imc_delete key (fallback_cache c)\<rparr>))
      | InMemory c \<Rightarrow> InMemory (imc_delete key c))"

end
