(* ===== verification/Cache_Claims.thy ===== *)
theory Cache_Claims
  imports Cache_Recency Cache_Backend
begin

text \<open>
  Properties of the caches: the in-memory cache over any run, its least-recently-used
  semantics, the circuit breaker's cycle, and what the Redis fallback remembers.
\<close>

section \<open>Data for the witnesses\<close>

text \<open>A Redis that takes deletions and times out on reads, for the witness.\<close>

definition flaky_ops :: "(string \<times> string) list redis_ops" where
  "flaky_ops =
     \<lparr>redis_ping = (\<lambda>r. (True, r)),
      redis_get = (\<lambda>k r. (Inl ''timeout'', r)),
      redis_set_ex = (\<lambda>k v ttl r. (Inr (), AList.update k v r)),
      redis_del = (\<lambda>k r. (Inr (), AList.delete k r))\<rparr>"

definition demo_redis :: "(string \<times> string) list RedisCache" where
  "demo_redis =
     (RedisCache_new [])\<lparr>fallback_cache := imc_set_raw 100 (Config ''k'') ''old'' 3600 InMemoryCache_new\<rparr>"

definition demo_clocks :: clocks where
  "demo_clocks = \<lparr>instant = 0, system = 0, unix_secs = 200\<rparr>"

section \<open>Runs of the in-memory cache\<close>

datatype cache_call =
    DoGet u64 CacheKey
  | DoSet u64 CacheKey string u64
  | DoDelete CacheKey
  | DoWarm "nat \<Rightarrow> u64" "(CacheKey \<times> string \<times> u64) list"
  | DoSetBatch "nat \<Rightarrow> u64" "(CacheKey \<times> string \<times> u64) list"
  | DoGetBatch u64 "CacheKey list"
  | DoStats

fun cache_do :: "cache_call \<Rightarrow> InMemoryCache \<Rightarrow> InMemoryCache" where
  "cache_do (DoGet t k) c = snd (imc_get_raw t k c)"
| "cache_do (DoSet t k v ttl) c = imc_set_raw t k v ttl c"
| "cache_do (DoDelete k) c = imc_delete k c"
| "cache_do (DoWarm clk es) c = snd (warm clk es c)"
| "cache_do (DoSetBatch clk es) c = snd (set_batch clk es c)"
| "cache_do (DoGetBatch t ks) c = snd (get_batch t ks c)"
| "cache_do DoStats c = snd (cache_stats c)"

definition sound_cache :: "InMemoryCache \<Rightarrow> bool" where
  "sound_cache c \<longleftrightarrow> cache_inv c \<and> within_limit c"

lemma sound_cache_cong:
  "store c' = store c \<Longrightarrow> lru_queue c' = lru_queue c \<Longrightarrow> max_size c' = max_size c \<Longrightarrow>
     sound_cache c' = sound_cache c"
  by (simp add: sound_cache_def cache_inv_def within_limit_def)

lemma get_batch_loop_sound:
  "sound_cache c \<Longrightarrow> sound_cache (snd (get_batch_loop t ks c)) \<and> max_size (snd (get_batch_loop t ks c)) = max_size c"
proof (induction ks arbitrary: c)
  case Nil
  then show ?case by simp
next
  case (Cons k ks)
  let ?g = "snd (imc_get_raw t k c)"
  obtain r c1 where step: "(case map_of (store c) k of
        Some entry \<Rightarrow>
          if expires_at entry > t then
            (Some (e_value entry), (touch k c)\<lparr>stats := (stats c)\<lparr>hits := hits (stats c) + 1\<rparr>\<rparr>)
          else (None, (drop_entry k c)\<lparr>stats := (stats c)\<lparr>expired := expired (stats c) + 1\<rparr>\<rparr>)
      | None \<Rightarrow> (None, c\<lparr>stats := (stats c)\<lparr>misses := misses (stats c) + 1\<rparr>\<rparr>)) = (r, c1)"
    by force
  have same: "store c1 = store ?g" "lru_queue c1 = lru_queue ?g" "max_size c1 = max_size ?g"
    using step by (auto simp: imc_get_raw_def get_raw_with_expiry_def split: option.splits if_splits)
  have "sound_cache ?g"
    using Cons.prems get_raw_spec(2) within_limit_get by (simp add: sound_cache_def)
  then have "sound_cache c1" using sound_cache_cong [OF same] by simp
  moreover have "max_size c1 = max_size c"
    using same(3) get_raw_spec(3) Cons.prems by (simp add: sound_cache_def)
  ultimately show ?case using Cons.IH step by (simp add: case_prod_beta)
qed

lemma cache_do_sound: "sound_cache c \<Longrightarrow> sound_cache (cache_do call c) \<and> max_size (cache_do call c) = max_size c"
proof (cases call)
  case (DoGetBatch t ks)
  then show "sound_cache c \<Longrightarrow> ?thesis" using get_batch_loop_sound by (simp add: get_batch_def)
next
  case DoStats
  then show "sound_cache c \<Longrightarrow> ?thesis"
    by (simp add: cache_stats_def Let_def sound_cache_def cache_inv_def within_limit_def)
qed (auto simp: sound_cache_def get_raw_spec set_raw_spec delete_spec batch_set_spec within_limit_get within_limit_delete)

lemma fold_cache_sound:
  "sound_cache c \<Longrightarrow> sound_cache (fold cache_do calls c) \<and> max_size (fold cache_do calls c) = max_size c"
proof (induction calls arbitrary: c)
  case (Cons call calls)
  with cache_do_sound [OF Cons.prems, of call] show ?case by simp
qed simp

text \<open>C26: over any sequence of reads, writes, deletions, warm-ups, batches and statistics calls, at
  any clock readings, the cache keeps at most its maximum number of entries, each key once,
  and its recency queue lists exactly the stored keys, each once.\<close>

theorem cache_stays_bounded:
  "let c = fold cache_do calls (with_max_size n) in
   max_size c = n \<and> distinct (map fst (store c)) \<and> distinct (lru_queue c) \<and>
   set (lru_queue c) = fst ` set (store c) \<and> (n = 0 \<or> length (store c) \<le> n)"
  using fold_cache_sound [of "with_max_size n" calls] cache_inv_new(1) [of n]
  by (auto simp: sound_cache_def cache_inv_def within_limit_def with_max_size_def Let_def)

section \<open>Least recently used\<close>

text \<open>What a call answers, beside the state \<open>cache_do\<close> leaves.\<close>

datatype cache_reply =
    Done
  | Value "string option"
  | Values "(CacheKey \<times> string option) list"
  | Stored nat
  | Snapshot CacheStatsSnapshot

fun cache_answer :: "cache_call \<Rightarrow> InMemoryCache \<Rightarrow> cache_reply" where
  "cache_answer (DoGet t k) c = Value (fst (imc_get_raw t k c))"
| "cache_answer (DoSet t k v ttl) c = Done"
| "cache_answer (DoDelete k) c = Done"
| "cache_answer (DoWarm clk es) c = Stored (fst (warm clk es c))"
| "cache_answer (DoSetBatch clk es) c = Stored (fst (set_batch clk es c))"
| "cache_answer (DoGetBatch t ks) c = Values (fst (get_batch t ks c))"
| "cache_answer DoStats c = Snapshot (fst (cache_stats c))"

fun cache_run :: "cache_call list \<Rightarrow> InMemoryCache \<Rightarrow> cache_reply list \<times> InMemoryCache" where
  "cache_run [] c = ([], c)"
| "cache_run (call # calls) c =
     (let (rs, c') = cache_run calls (cache_do call c) in (cache_answer call c # rs, c'))"

text \<open>The same calls on the abstract cache with limit \<open>n\<close>.\<close>

fun lru_call :: "nat \<Rightarrow> cache_call \<Rightarrow> lru_model \<Rightarrow> cache_reply \<times> lru_model" where
  "lru_call n (DoGet t k) m = (let (v, m') = lru_get t k m in (Value v, m'))"
| "lru_call n (DoSet t k v ttl) m = (Done, lru_cut n (lru_put k v ttl t m))"
| "lru_call n (DoDelete k) m = (Done, lru_delete k m)"
| "lru_call n (DoWarm clk es) m = (Stored (length es), lru_cut n (lru_put_all clk 0 es m))"
| "lru_call n (DoSetBatch clk es) m = (Stored (length es), lru_cut n (lru_put_all clk 0 es m))"
| "lru_call n (DoGetBatch t ks) m = (let (rs, m') = lru_get_all t ks m in (Values rs, m'))"
| "lru_call n DoStats m = (Snapshot (lru_snapshot n m), m)"

fun lru_run :: "nat \<Rightarrow> cache_call list \<Rightarrow> lru_model \<Rightarrow> cache_reply list \<times> lru_model" where
  "lru_run n [] m = ([], m)"
| "lru_run n (call # calls) m =
     (let (r, m1) = lru_call n call m; (rs, m2) = lru_run n calls m1 in (r # rs, m2))"

lemma cache_call_refines:
  assumes "cache_inv c"
  shows "lru_call (max_size c) call (lru_of c) = (cache_answer call c, lru_of (cache_do call c))"
proof (cases call)
  case (DoGetBatch t ks)
  then show ?thesis by (simp add: get_batch_def lru_of_get_batch [OF assms])
qed (simp_all add: lru_of_get lru_of_set lru_of_delete lru_of_batch lru_of_stats assms,
     simp_all add: warm_def set_batch_def Let_def)

lemma cache_run_refines:
  "sound_cache c \<Longrightarrow> cache_run calls c = (rs, c') \<Longrightarrow>
     sound_cache c' \<and> lru_run (max_size c) calls (lru_of c) = (rs, lru_of c')"
proof (induction calls arbitrary: c rs)
  case (Cons call calls)
  have inv: "cache_inv c" using Cons.prems(1) by (simp add: sound_cache_def)
  from Cons.prems(2) obtain rs' where rs: "rs = cache_answer call c # rs'"
    "cache_run calls (cache_do call c) = (rs', c')" by (auto simp: case_prod_beta)
  have "sound_cache c' \<and> lru_run (max_size c) calls (lru_of (cache_do call c)) = (rs', lru_of c')"
    using Cons.IH [OF _ rs(2)] cache_do_sound [OF Cons.prems(1), of call] by simp
  then show ?case by (simp add: rs(1) cache_call_refines [OF inv])
qed simp

text \<open>C27: the in-memory cache is a least-recently-used cache. Over any sequence of reads, writes,
  deletions, warm-ups, batches and statistics calls, at any clock readings and any size limit,
  the answers are those of the abstract cache, which is one list of entries with the most
  recently used in front: a read of a live entry answers it and moves it to the front, a read
  of an expired one answers nothing and removes it, a write puts its entry in front, and only
  the entries beyond the limit, at the back, are lost. After the run the store holds the
  entries of that list, the recency queue their order, and the counters are the abstract ones.
  The broadcast of cache events is not part of the statement.\<close>

theorem cache_is_lru_map:
  "case cache_run calls (with_max_size n) of (replies, c) \<Rightarrow>
   case lru_run n calls lru_new of (replies', m) \<Rightarrow>
     replies = replies' \<and> lru_queue c = map fst (recent m) \<and>
     set (store c) = set (recent m) \<and> length (store c) = length (recent m) \<and> stats c = counts m"
proof -
  obtain rs c where run: "cache_run calls (with_max_size n) = (rs, c)" by force
  have "sound_cache (with_max_size n)"
    using cache_inv_new(1) [of n] by (simp add: sound_cache_def within_limit_def with_max_size_def)
  from cache_run_refines [OF this run] have inv: "cache_inv c" and "lru_run n calls lru_new = (rs, lru_of c)"
    by (simp_all add: sound_cache_def lru_of_new) (simp add: with_max_size_def)
  moreover have "lru_queue c = map fst (recency c)" by (simp add: recency_def comp_def)
  ultimately show ?thesis by (simp add: run set_recency [OF inv] length_recency [OF inv])
qed

section \<open>The circuit breaker\<close>

lemma failures_closed:
  "m < unat (ccfg_failure_threshold cfg) \<Longrightarrow>
     (breaker_failure t ^^ m) (CacheCircuitBreaker_new cfg) =
     (CacheCircuitBreaker_new cfg)\<lparr>consecutive_failures := word_of_nat m\<rparr>"
proof (induction m)
  case 0
  show ?case by (simp add: CacheCircuitBreaker_new_def)
next
  case (Suc m)
  have "unat (1 + word_of_nat m :: u32) = Suc m"
    using Suc.prems by (intro unat_Suc_word less_imp_le)
  with Suc show ?case
    by (simp add: breaker_failure_def CacheCircuitBreaker_new_def Let_def word_le_nat_alt add.commute)
qed

lemma failures_open:
  assumes "m = unat (ccfg_failure_threshold cfg)" and "0 < m"
  shows "(breaker_failure t ^^ m) (CacheCircuitBreaker_new cfg) =
    (CacheCircuitBreaker_new cfg)\<lparr>consecutive_failures := ccfg_failure_threshold cfg, cb_state := Open,
      opened_at := Some t, last_transition := Some (Closed, Open)\<rparr>"
proof -
  obtain k where k: "m = Suc k" using assms(2) by (cases m) auto
  have th: "1 + word_of_nat k = ccfg_failure_threshold cfg"
    using assms(1) k by (metis of_nat_Suc word_of_nat_unat)
  have "k < unat (ccfg_failure_threshold cfg)" using assms(1) k by simp
  then have "(breaker_failure t ^^ m) (CacheCircuitBreaker_new cfg) =
      breaker_failure t ((CacheCircuitBreaker_new cfg)\<lparr>consecutive_failures := word_of_nat k\<rparr>)"
    by (simp add: k failures_closed)
  then show ?thesis
    using th by (simp add: breaker_failure_def CacheCircuitBreaker_new_def transition_to_def Let_def add.commute)
qed

lemma successes_close:
  assumes "cb_state cb = HalfOpen" and "half_open_calls cb = 0"
  shows "m < unat (half_open_max_calls cb) \<Longrightarrow>
      (breaker_success t ^^ m) cb = cb\<lparr>half_open_calls := word_of_nat m\<rparr>"
    and "m = unat (half_open_max_calls cb) \<Longrightarrow> 0 < m \<Longrightarrow>
      cb_state ((breaker_success t ^^ m) cb) = Closed \<and> consecutive_failures ((breaker_success t ^^ m) cb) = 0"
proof -
  show run: "(breaker_success t ^^ m) cb = cb\<lparr>half_open_calls := word_of_nat m\<rparr>"
    if "m < unat (half_open_max_calls cb)" for m
    using that
  proof (induction m)
    case 0
    then show ?case using assms by simp
  next
    case (Suc m)
    have "unat (1 + word_of_nat m :: u32) = Suc m"
      using Suc.prems by (intro unat_Suc_word less_imp_le)
    with Suc assms show ?case by (simp add: breaker_success_def Let_def word_le_nat_alt add.commute)
  qed
  assume m: "m = unat (half_open_max_calls cb)" "0 < m"
  obtain k where k: "m = Suc k" using m(2) by (cases m) auto
  have th: "1 + word_of_nat k = half_open_max_calls cb"
    using m(1) k by (metis of_nat_Suc word_of_nat_unat)
  show "cb_state ((breaker_success t ^^ m) cb) = Closed \<and> consecutive_failures ((breaker_success t ^^ m) cb) = 0"
  proof -
    have "k < unat (half_open_max_calls cb)" using m(1) k by simp
    then have "(breaker_success t ^^ m) cb = breaker_success t (cb\<lparr>half_open_calls := word_of_nat k\<rparr>)"
      by (simp add: k run)
    then show ?thesis
      using th assms(1) by (simp add: breaker_success_def transition_to_def Let_def add.commute)
  qed
qed

lemma backoff_exact:
  assumes "unat (ccfg_backoff_base_ms cfg) * 64 < 2 ^ 64" and "1 \<le> unat f"
  shows "unat (current_backoff ((CacheCircuitBreaker_new cfg)\<lparr>consecutive_failures := f\<rparr>)) =
    min (unat (ccfg_backoff_base_ms cfg) * 2 ^ min (unat f - 1) 6) (unat (ccfg_backoff_max_ms cfg))"
proof -
  let ?e = "min (unat f - 1) 6" and ?b = "unat (ccfg_backoff_base_ms cfg)"
  have f: "max f 1 = f" using assms(2) by (intro max_absorb1) (simp add: word_le_nat_alt)
  have f1: "unat (f - 1) = unat f - 1"
    using assms(2) by (simp add: unat_sub word_le_nat_alt)
  have p: "(2 :: nat) ^ ?e \<le> 2 ^ 6" by (rule power_increasing) auto
  then have "?b * 2 ^ ?e \<le> ?b * 64" by simp
  then have lt: "?b * 2 ^ ?e < 2 ^ 64" using assms(1) by (rule le_less_trans)
  have "unat (word_of_nat (2 ^ ?e) :: u64) = 2 ^ ?e"
    using p by (subst unat_of_nat) simp
  then have "unat (2 ^ ?e :: u64) = 2 ^ ?e" by simp
  then have "unat (ccfg_backoff_base_ms cfg * 2 ^ ?e) = ?b * 2 ^ ?e"
    using lt by (simp add: unat_word_ariths)
  then show ?thesis
    by (simp add: current_backoff_def CacheCircuitBreaker_new_def Let_def f f1 unat_min_word)
qed

text \<open>C29: the cycle of the cache breaker. A new breaker stays closed through every failure before
  the threshold and opens at it; open, it admits exactly after the exponential backoff, at
  most the configured maximum and without overflow; the admitted call finds it half-open,
  where exactly the configured number of successes closes it and one failure opens it again. Half-open
  admits without counting, so any number of callers may probe until one of them reports.\<close>

theorem cache_breaker_cycle:
  fixes cfg :: CacheCircuitBreakerConfig
  assumes "n = unat (ccfg_failure_threshold cfg)" "0 < n" "0 < unat (ccfg_half_open_max_calls cfg)"
    and "unat (ccfg_backoff_base_ms cfg) * 64 < 2 ^ 64"
    and "cb = (breaker_failure t ^^ n) (CacheCircuitBreaker_new cfg)"
    and "backoff = min (unat (ccfg_backoff_base_ms cfg) * 2 ^ min (n - 1) 6) (unat (ccfg_backoff_max_ms cfg))"
  shows "(\<forall>m < n. cb_state ((breaker_failure t ^^ m) (CacheCircuitBreaker_new cfg)) = Closed) \<and>
    cb_state cb = Open \<and>
    (fst (should_allow t' cb) \<longleftrightarrow> backoff * 1000000 \<le> t' - t) \<and>
    (backoff * 1000000 \<le> t' - t \<longrightarrow>
      (let half = snd (should_allow t' cb) in
       cb_state half = HalfOpen \<and> should_allow t'' half = (True, half) \<and>
       (\<forall>m < unat (ccfg_half_open_max_calls cfg). cb_state ((breaker_success t'' ^^ m) half) = HalfOpen) \<and>
       cb_state ((breaker_success t'' ^^ unat (ccfg_half_open_max_calls cfg)) half) = Closed \<and>
       cb_state (breaker_failure t'' half) = Open))"
proof -
  have closed: "\<forall>m < n. cb_state ((breaker_failure t ^^ m) (CacheCircuitBreaker_new cfg)) = Closed"
    using failures_closed assms(1) by (simp add: CacheCircuitBreaker_new_def)
  have cb: "cb = (CacheCircuitBreaker_new cfg)\<lparr>consecutive_failures := ccfg_failure_threshold cfg, cb_state := Open,
      opened_at := Some t, last_transition := Some (Closed, Open)\<rparr>"
    using failures_open [OF assms(1,2)] assms(5) by simp
  have "current_backoff cb = current_backoff ((CacheCircuitBreaker_new cfg)\<lparr>consecutive_failures := ccfg_failure_threshold cfg\<rparr>)"
    by (simp add: cb current_backoff_def)
  then have wait: "unat (current_backoff cb) = backoff"
    using backoff_exact [OF assms(4), of "ccfg_failure_threshold cfg"] assms(1,2,6) by simp
  have allow: "fst (should_allow t' cb) \<longleftrightarrow> backoff * 1000000 \<le> t' - t"
    and half: "backoff * 1000000 \<le> t' - t \<Longrightarrow> snd (should_allow t' cb) = transition_to t' HalfOpen cb"
    using wait by (simp_all add: should_allow_def cb)
  let ?h = "transition_to t' HalfOpen cb"
  have h: "cb_state ?h = HalfOpen" "half_open_calls ?h = 0" "half_open_max_calls ?h = ccfg_half_open_max_calls cfg"
    by (simp_all add: transition_to_def Let_def cb CacheCircuitBreaker_new_def)
  have "should_allow t'' ?h = (True, ?h)"
    using assms(3) h by (simp add: should_allow_def word_less_nat_alt)
  moreover have "\<forall>m < unat (ccfg_half_open_max_calls cfg). cb_state ((breaker_success t'' ^^ m) ?h) = HalfOpen"
    using successes_close(1) [OF h(1,2)] h(1,3) by simp
  moreover have "cb_state ((breaker_success t'' ^^ unat (ccfg_half_open_max_calls cfg)) ?h) = Closed"
    using successes_close(2) [OF h(1,2)] h(3) assms(3) by simp
  moreover have "cb_state (breaker_failure t'' ?h) = Open"
    using h(1) by (simp add: breaker_failure_def transition_to_def Let_def)
  ultimately show ?thesis
    using closed allow half h(1) by (simp add: cb Let_def)
qed

theorem cache_breaker_cycle_witness:
  "cb_state ((breaker_failure 0 ^^ 5) (CacheCircuitBreaker_new CacheCircuitBreakerConfig_default)) = Open"
  using cache_breaker_cycle [of 5 CacheCircuitBreakerConfig_default, OF _ _ _ _ refl refl]
  by (simp add: CacheCircuitBreakerConfig_default_def)

section \<open>The fallback\<close>

lemma guarded_command_fallback: "fallback_cache (snd (guarded_command R k cmd c)) = fallback_cache c"
  by (auto simp: guarded_command_def on_metrics_def redis_check_connection_def redis_record_success_def
      redis_record_failure_def take_last_transition_def Let_def
      split: prod.splits bool.splits option.splits sum.splits if_splits)

text \<open>C31: operations that reach Redis leave the fallback as it was. So after a deletion that Redis
  confirmed, a read that Redis cannot serve still answers the value the fallback holds for
  the deleted key.\<close>

theorem fallback_outlives_deletion:
  assumes "redis_delete R k1 (as_string key) c = (Ok (), c1)"
    and "fst (redis_get_raw R k2 (as_string key) c1) = Err e"
  shows "backend_delete R k1 key (Redis c) = Redis c1 \<and>
    fst (backend_get_raw R k2 key (Redis c1)) = fst (imc_get_raw (unix_secs k2) key (fallback_cache c))"
proof -
  have c1: "fallback_cache c1 = fallback_cache c"
    using guarded_command_fallback [of R k1 "redis_del R (as_string key)" c] assms(1)
    by (simp add: redis_delete_def)
  obtain c2 where c2: "redis_get_raw R k2 (as_string key) c1 = (Err e, c2)"
    using assms(2) by (metis prod.collapse)
  then have "fallback_cache c2 = fallback_cache c"
    using guarded_command_fallback [of R k2 "redis_get R (as_string key)" c1] c1
    by (simp add: redis_get_raw_def)
  with c2 assms(1) show ?thesis
    by (simp add: backend_delete_def backend_get_raw_def counted_get_def imc_get_raw_def on_metrics_def
        Let_def case_prod_beta)
qed

lemmas redis_run_defs =
  redis_delete_def redis_get_raw_def guarded_command_def should_allow_def bulkhead_try_acquire_def
  redis_check_connection_def should_check_def health_success_def on_metrics_def breaker_success_def breaker_failure_def
  redis_record_success_def redis_record_failure_def take_last_transition_def bulkhead_release_def flaky_ops_def demo_redis_def RedisCache_new_def
  RedisCache_with_config_def HealthCheckState_new_def CacheCircuitBreaker_new_def CacheBulkhead_new_def
  CacheCircuitBreakerConfig_default_def CacheBulkheadConfig_default_def demo_clocks_def Let_def

theorem fallback_outlives_deletion_witness:
  "fst (backend_get_raw flaky_ops demo_clocks (Config ''k'')
      (backend_delete flaky_ops demo_clocks (Config ''k'') (Redis demo_redis))) = Some ''old''"
proof -
  obtain c1 where del: "redis_delete flaky_ops demo_clocks (as_string (Config ''k'')) demo_redis = (Ok (), c1)"
    and get: "fst (redis_get_raw flaky_ops demo_clocks (as_string (Config ''k'')) c1) = Err ''timeout''"
    by (simp add: redis_run_defs)
  from fallback_outlives_deletion [OF this]
  have "fst (backend_get_raw flaky_ops demo_clocks (Config ''k'')
      (backend_delete flaky_ops demo_clocks (Config ''k'') (Redis demo_redis))) =
      fst (imc_get_raw 200 (Config ''k'') (imc_set_raw 100 (Config ''k'') ''old'' 3600 InMemoryCache_new))"
    by (simp add: demo_clocks_def demo_redis_def)
  then show ?thesis by (simp add: imc.get_set [OF cache_inv_new(2)] sat_add_def)
qed

end
