(* ===== verification/Webhook.thy ===== *)
theory Webhook
  imports Event_Log Cache_Backend
begin

text \<open>
  The webhook dispatcher (\<open>src/src/webhook.rs\<close>): payloads, signed requests, retries with
  exponential backoff, deduplication through the cache, and the dead-letter queue in memory
  or in the cache. What is outside the repository is one record of parameters \<open>web_env\<close>: the
  HTTP client, the JSON codecs, HMAC-SHA256 and hex, the Redis client, and the clocks. The
  world \<open>'n\<close> is the rest of the system; it changes while a request or a sleep is under way,
  and the clocks are read from it. The lines logged to stderr are left out.
\<close>

section \<open>Data\<close>

definition MAX_DLQ_DEPTH :: nat where
  "MAX_DLQ_DEPTH = 10000"

definition DLQ_REDIS_KEY_PREFIX :: string where
  "DLQ_REDIS_KEY_PREFIX = ''webhook:dlq:''"

definition DEDUP_KEY_PREFIX :: string where
  "DEDUP_KEY_PREFIX = ''webhook:dedup:''"

record WebhookPayload =
  wp_event_id :: string
  wp_event_type :: string
  wp_idempotency_key :: string
  wp_sequence :: u64
  wp_timestamp :: int
  wp_aggregate_id :: string
  wp_actor :: string
  wp_data :: json
  wp_metadata :: "json option"

definition payload_of :: "Event \<Rightarrow> WebhookPayload" where
  "payload_of e =
     \<lparr>wp_event_id = ev_id e, wp_event_type = ev_event_type e, wp_idempotency_key = ev_idempotency_key e,
      wp_sequence = ev_sequence e, wp_timestamp = ev_timestamp e, wp_aggregate_id = ev_aggregate_id e,
      wp_actor = ev_actor e, wp_data = ev_data e, wp_metadata = ev_metadata e\<rparr>"

record DeadLetterEntry =
  dl_url :: string
  dl_payload :: WebhookPayload
  dl_attempts :: u32
  dl_last_error :: string
  dl_failed_at :: int

record WebhookDispatcherConfig =
  wc_urls :: "string list"
  wc_secret :: "string option"
  wc_max_retries :: u32
  wc_base_delay_ms :: u64
  wc_max_delay_ms :: u64
  wc_request_timeout_ms :: u64
  wc_jitter_enabled :: bool

definition WebhookDispatcherConfig_default :: WebhookDispatcherConfig where
  "WebhookDispatcherConfig_default =
     \<lparr>wc_urls = [], wc_secret = None, wc_max_retries = 5, wc_base_delay_ms = 200, wc_max_delay_ms = 30000,
      wc_request_timeout_ms = 10000, wc_jitter_enabled = True\<rparr>"

section \<open>Parameters\<close>

record http_request =
  rq_url :: string
  rq_headers :: "(string \<times> string) list"
  rq_body :: string

text \<open>
  \<open>http_post\<close> answers a transport error message or a status code; \<open>status_text\<close> is how a status
  code prints.
\<close>

record ('c, 'r, 'n) web_env =
  http_post :: "'c \<Rightarrow> http_request \<Rightarrow> 'n \<Rightarrow> (string + u16) \<times> 'n"
  status_text :: "u16 \<Rightarrow> string"
  sleep_ms :: "u64 \<Rightarrow> 'n \<Rightarrow> 'n"
  world_clocks :: "'n \<Rightarrow> clocks"
  utc_now :: "'n \<Rightarrow> int"
  subsec_nanos :: "'n \<Rightarrow> u32"
  hmac_sha256 :: "u8 list \<Rightarrow> u8 list \<Rightarrow> u8 list"
  hex_encode :: "u8 list \<Rightarrow> string"
  payload_json :: "WebhookPayload \<Rightarrow> string + string"
  entry_json :: "DeadLetterEntry \<Rightarrow> string + string"
  entry_of_json :: "string \<Rightarrow> string + DeadLetterEntry"
  web_redis :: "'r redis_ops"

section \<open>The dispatcher\<close>

record ('c, 'r) WebhookDispatcher =
  wd_urls :: "string list"
  wd_client :: 'c
  wd_secret :: "string option"
  wd_max_retries :: u32
  wd_base_delay_ms :: u64
  wd_max_delay_ms :: u64
  wd_jitter_enabled :: bool
  wd_metrics :: "metrics option"
  wd_dlq :: "DeadLetterEntry list"
  wd_cache :: "'r CacheBackend option"
  deduplication_ttl :: u64

text \<open>\<open>client\<close> is what the client builder answers for a timeout in milliseconds.\<close>

definition WebhookDispatcher_new ::
    "(u64 \<Rightarrow> 'c) \<Rightarrow> WebhookDispatcherConfig \<Rightarrow> metrics option \<Rightarrow> ('c, 'r) WebhookDispatcher" where
  "WebhookDispatcher_new client cfg m =
     \<lparr>wd_urls = wc_urls cfg, wd_client = client (wc_request_timeout_ms cfg), wd_secret = wc_secret cfg,
      wd_max_retries = wc_max_retries cfg, wd_base_delay_ms = wc_base_delay_ms cfg,
      wd_max_delay_ms = wc_max_delay_ms cfg, wd_jitter_enabled = wc_jitter_enabled cfg, wd_metrics = m,
      wd_dlq = [], wd_cache = None, deduplication_ttl = 3600\<rparr>"

definition webhook_with_cache :: "'r CacheBackend \<Rightarrow> ('c, 'r) WebhookDispatcher \<Rightarrow> ('c, 'r) WebhookDispatcher" where
  "webhook_with_cache b d = d\<lparr>wd_cache := Some b\<rparr>"

definition with_deduplication_ttl :: "u64 \<Rightarrow> ('c, 'r) WebhookDispatcher \<Rightarrow> ('c, 'r) WebhookDispatcher" where
  "with_deduplication_ttl ttl d = d\<lparr>deduplication_ttl := ttl\<rparr>"

definition on_webhook_metrics ::
    "(metrics \<Rightarrow> metrics) \<Rightarrow> ('c, 'r) WebhookDispatcher \<Rightarrow> ('c, 'r) WebhookDispatcher" where
  "on_webhook_metrics f d = d\<lparr>wd_metrics := map_option f (wd_metrics d)\<rparr>"

definition compute_webhook_signature :: "('c, 'r, 'n) web_env \<Rightarrow> string \<Rightarrow> string \<Rightarrow> string" where
  "compute_webhook_signature E secret body =
     hex_encode E (hmac_sha256 E (map byte_of secret) (map byte_of body))"

definition jitter_ms :: "u32 \<Rightarrow> u64 \<Rightarrow> u64" where
  "jitter_ms nanos max_ms = (if max_ms = 0 then 0 else ucast nanos mod max_ms)"

definition backoff_delay :: "u32 \<Rightarrow> ('c, 'r) WebhookDispatcher \<Rightarrow> u32 \<Rightarrow> u64" where
  "backoff_delay nanos d attempt =
     (let e = sat_mul (wd_base_delay_ms d) (push_bit (unat (min attempt 20)) 1);
          capped = min e (wd_max_delay_ms d)
      in if wd_jitter_enabled d then sat_add capped (jitter_ms nanos (capped div 4)) else capped)"

definition build_request ::
    "('c, 'r, 'n) web_env \<Rightarrow> string \<Rightarrow> WebhookPayload \<Rightarrow> string \<Rightarrow> ('c, 'r) WebhookDispatcher \<Rightarrow> http_request" where
  "build_request E url p body d =
     \<lparr>rq_url = url,
      rq_headers =
        [(''Content-Type'', ''application/json''), (''X-Idempotency-Key'', wp_idempotency_key p),
         (''X-Event-Id'', wp_event_id p), (''X-Event-Type'', wp_event_type p)] @
        (case wd_secret d of
           None \<Rightarrow> []
         | Some secret \<Rightarrow>
             [(''X-Signature-256'', compute_webhook_signature E secret body), (''X-Webhook-Secret'', secret)]),
      rq_body = body\<rparr>"

text \<open>The status codes 200 to 299.\<close>

definition is_success :: "u16 \<Rightarrow> bool" where
  "is_success status \<longleftrightarrow> 200 \<le> status \<and> status < 300"

definition send_once ::
    "('c, 'r, 'n) web_env \<Rightarrow> string \<Rightarrow> WebhookPayload \<Rightarrow> ('c, 'r) WebhookDispatcher \<Rightarrow> 'n \<Rightarrow>
     (string, unit) result \<times> 'n" where
  "send_once E url p d w =
     (case payload_json E p of
        Inl e \<Rightarrow> (Err e, w)
      | Inr body \<Rightarrow>
          (case http_post E (wd_client d) (build_request E url p body d) w of
             (Inl e, w) \<Rightarrow> (Err e, w)
           | (Inr status, w) \<Rightarrow>
               if is_success status then (Ok (), w) else (Err (''HTTP '' @ status_text E status), w)))"

section \<open>Dead letters\<close>

definition dlq_key :: "string \<Rightarrow> CacheKey" where
  "dlq_key url = Events (DLQ_REDIS_KEY_PREFIX @ url)"

definition dedup_key :: "Event \<Rightarrow> CacheKey" where
  "dedup_key e = Events (DEDUP_KEY_PREFIX @ ev_idempotency_key e)"

fun count_persisted ::
    "'r redis_ops \<Rightarrow> clocks \<Rightarrow> string list \<Rightarrow> 'r CacheBackend \<Rightarrow> nat \<times> 'r CacheBackend" where
  "count_persisted R k [] b = (0, b)"
| "count_persisted R k (u # us) b =
     (case backend_get_raw R k (dlq_key u) b of
        (v, b) \<Rightarrow>
          (case count_persisted R k us b of
             (count, b) \<Rightarrow> (if v \<noteq> None then count + 1 else count, b)))"

definition push_dead_letter :: "DeadLetterEntry \<Rightarrow> DeadLetterEntry list \<Rightarrow> DeadLetterEntry list" where
  "push_dead_letter entry q = (if length q \<ge> MAX_DLQ_DEPTH then tl q else q) @ [entry]"

definition dead_letter ::
    "('c, 'r, 'n) web_env \<Rightarrow> DeadLetterEntry \<Rightarrow> nat \<Rightarrow> ('c, 'r) WebhookDispatcher \<Rightarrow> 'n \<Rightarrow> ('c, 'r) WebhookDispatcher" where
  "dead_letter E entry start d w =
     (let k = world_clocks E w;
          (depth, d) =
            (case wd_cache d of
               Some b \<Rightarrow>
                 let serialized = (case entry_json E entry of Inl _ \<Rightarrow> [] | Inr s \<Rightarrow> s);
                     b = backend_set_raw (web_redis E) k (dlq_key (dl_url entry)) serialized 604800 b;
                     (count, b) = count_persisted (web_redis E) k (wd_urls d) b
                 in (count, d\<lparr>wd_cache := Some b\<rparr>)
             | None \<Rightarrow>
                 let q = push_dead_letter entry (wd_dlq d) in (length q, d\<lparr>wd_dlq := q\<rparr>))
      in on_webhook_metrics
           (\<lambda>m. set_webhook_dlq_depth (int depth)
                  (record_webhook_delivery ''dead_lettered'' (elapsed_secs start (instant k)) m)) d)"

section \<open>Delivery\<close>

text \<open>
  The attempts \<open>attempt\<close>, \<open>attempt + 1\<close> and so on, \<open>n\<close> of them at most; the result is the last
  error when all of them failed.
\<close>

fun attempt_loop ::
    "('c, 'r, 'n) web_env \<Rightarrow> string \<Rightarrow> WebhookPayload \<Rightarrow> nat \<Rightarrow> u32 \<Rightarrow> nat \<Rightarrow> string \<Rightarrow>
     ('c, 'r) WebhookDispatcher \<Rightarrow> 'n \<Rightarrow> string option \<times> ('c, 'r) WebhookDispatcher \<times> 'n" where
  "attempt_loop E url p start attempt 0 last_error d w = (Some last_error, d, w)"
| "attempt_loop E url p start attempt (Suc n) last_error d w =
     (let (d, w) =
        (if attempt > 0 then
           (on_webhook_metrics increment_webhook_retry d,
            sleep_ms E (backoff_delay (subsec_nanos E w) d (attempt - 1)) w)
         else (d, w))
      in case send_once E url p d w of
           (Ok _, w) \<Rightarrow>
             (None,
              on_webhook_metrics
                (record_webhook_delivery ''success'' (elapsed_secs start (instant (world_clocks E w)))) d, w)
         | (Err e, w) \<Rightarrow> attempt_loop E url p start (attempt + 1) n e d w)"

definition deliver_with_retry ::
    "('c, 'r, 'n) web_env \<Rightarrow> WebhookPayload \<Rightarrow> string \<Rightarrow> ('c, 'r) WebhookDispatcher \<times> 'n \<Rightarrow>
     ('c, 'r) WebhookDispatcher \<times> 'n" where
  "deliver_with_retry E p url = (\<lambda>(d, w).
     let start = instant (world_clocks E w) in
     case attempt_loop E url p start 0 (unat (wd_max_retries d) + 1) ''no attempts made'' d w of
       (None, d, w) \<Rightarrow> (d, w)
     | (Some last_error, d, w) \<Rightarrow>
         (dead_letter E
            \<lparr>dl_url = url, dl_payload = p, dl_attempts = wd_max_retries d + 1, dl_last_error = last_error,
             dl_failed_at = utc_now E w\<rparr> start d w, w))"

definition dispatch ::
    "('c, 'r, 'n) web_env \<Rightarrow> Event \<Rightarrow> ('c, 'r) WebhookDispatcher \<times> 'n \<Rightarrow> ('c, 'r) WebhookDispatcher \<times> 'n" where
  "dispatch E e = (\<lambda>(d, w).
     if wd_urls d = [] then (d, w)
     else
       let deliver = fold (deliver_with_retry E (payload_of e)) (wd_urls d);
           k = world_clocks E w
       in case wd_cache d of
            None \<Rightarrow> deliver (d, w)
          | Some b \<Rightarrow>
              (case backend_get_raw (web_redis E) k (dedup_key e) b of
                 (Some _, b) \<Rightarrow> (on_webhook_metrics increment_webhook_retry (d\<lparr>wd_cache := Some b\<rparr>), w)
               | (None, b) \<Rightarrow>
                   let b = backend_set_raw (web_redis E) k (dedup_key e) ''delivered'' (deduplication_ttl d) b
                   in deliver (d\<lparr>wd_cache := Some b\<rparr>, w)))"

section \<open>The queue from outside\<close>

fun drain_persisted ::
    "('c, 'r, 'n) web_env \<Rightarrow> clocks \<Rightarrow> string list \<Rightarrow> 'r CacheBackend \<Rightarrow> DeadLetterEntry list \<times> 'r CacheBackend" where
  "drain_persisted E k [] b = ([], b)"
| "drain_persisted E k (u # us) b =
     (let (raw, b) = backend_get_raw (web_redis E) k (dlq_key u) b;
          found =
            (case raw of
               None \<Rightarrow> []
             | Some s \<Rightarrow> (case entry_of_json E s of Inl _ \<Rightarrow> [] | Inr entry \<Rightarrow> [entry]));
          b = backend_delete (web_redis E) k (dlq_key u) b;
          (drained, b) = drain_persisted E k us b
      in (found @ drained, b))"

definition drain_dlq ::
    "('c, 'r, 'n) web_env \<Rightarrow> clocks \<Rightarrow> ('c, 'r) WebhookDispatcher \<Rightarrow> DeadLetterEntry list \<times> ('c, 'r) WebhookDispatcher" where
  "drain_dlq E k d =
     (let (entries, d) =
        (case wd_cache d of
           Some b \<Rightarrow> (case drain_persisted E k (wd_urls d) b of (es, b) \<Rightarrow> (es, d\<lparr>wd_cache := Some b\<rparr>))
         | None \<Rightarrow> (wd_dlq d, d\<lparr>wd_dlq := []\<rparr>))
      in (entries, on_webhook_metrics (set_webhook_dlq_depth 0) d))"

definition url_count :: "('c, 'r) WebhookDispatcher \<Rightarrow> nat" where
  "url_count d = length (wd_urls d)"

definition dlq_depth ::
    "('c, 'r, 'n) web_env \<Rightarrow> clocks \<Rightarrow> ('c, 'r) WebhookDispatcher \<Rightarrow> nat \<times> ('c, 'r) WebhookDispatcher" where
  "dlq_depth E k d =
     (case wd_cache d of
        Some b \<Rightarrow> (case count_persisted (web_redis E) k (wd_urls d) b of (n, b) \<Rightarrow> (n, d\<lparr>wd_cache := Some b\<rparr>))
      | None \<Rightarrow> (length (wd_dlq d), d))"

end
