(* ===== verification/Webhook_Claims.thy ===== *)
theory Webhook_Claims
  imports Webhook In_Memory_Correct
begin

text \<open>
  Properties of the webhook dispatcher: what a dispatch sends and dead-letters, and what the
  deduplication entry suppresses.
\<close>

section \<open>Data for the witnesses\<close>

text \<open>One receiver is down and one is up; every system call leaves the world as it is.\<close>

definition demo_env :: "(u64, unit, unit) web_env" where
  "demo_env =
     \<lparr>http_post = (\<lambda>cl rq w. (if rq_url rq = ''http://up'' then Inr 200 else Inl ''connection refused'', w)),
      status_text = (\<lambda>_. []), sleep_ms = (\<lambda>_ w. w),
      world_clocks = (\<lambda>_. \<lparr>instant = 0, system = 0, unix_secs = 100\<rparr>), utc_now = (\<lambda>_. 0),
      subsec_nanos = (\<lambda>_. 0), hmac_sha256 = (\<lambda>key body. body), hex_encode = (\<lambda>_. []),
      payload_json = (\<lambda>_. Inr ''{}''), entry_json = (\<lambda>_. Inr ''{}''), entry_of_json = (\<lambda>_. Inl ''eof''),
      web_redis =
        \<lparr>redis_ping = (\<lambda>r. (False, r)), redis_get = (\<lambda>_ r. (Inl ''closed'', r)),
         redis_set_ex = (\<lambda>_ _ _ r. (Inl ''closed'', r)), redis_del = (\<lambda>_ r. (Inl ''closed'', r))\<rparr>\<rparr>"

definition demo_dispatcher :: "(u64, unit) WebhookDispatcher" where
  "demo_dispatcher =
     WebhookDispatcher_new (\<lambda>ms. ms)
       (WebhookDispatcherConfig_default\<lparr>wc_urls := [''http://down'', ''http://up''], wc_max_retries := 1\<rparr>) None"

definition demo_notice :: Event where
  "demo_notice = Event_new ''uuid'' 0 ''doc-1'' EVENT_DOCUMENT_REGISTERED JNull ''GA''"

section \<open>Observing the requests\<close>

text \<open>The same environment with every request and its outcome recorded.\<close>

definition traced ::
    "('c, 'r, 'n) web_env \<Rightarrow> ('c, 'r, 'n \<times> (http_request \<times> (string + u16)) list) web_env" where
  "traced E =
     \<lparr>http_post = (\<lambda>cl rq (w, tr). case http_post E cl rq w of (out, w') \<Rightarrow> (out, w', tr @ [(rq, out)])),
      status_text = status_text E, sleep_ms = (\<lambda>n (w, tr). (sleep_ms E n w, tr)),
      world_clocks = (\<lambda>(w, tr). world_clocks E w), utc_now = (\<lambda>(w, tr). utc_now E w),
      subsec_nanos = (\<lambda>(w, tr). subsec_nanos E w), hmac_sha256 = hmac_sha256 E, hex_encode = hex_encode E,
      payload_json = payload_json E, entry_json = entry_json E, entry_of_json = entry_of_json E,
      web_redis = web_redis E\<rparr>"

fun accepted :: "string + u16 \<Rightarrow> bool" where
  "accepted (Inr status) = is_success status"
| "accepted (Inl _) = False"

text \<open>
  The outcomes of one delivery: failures until the first success or until the first attempt
  and all \<open>m\<close> retries are used up.
\<close>

definition complete_run :: "nat \<Rightarrow> (string + u16) list \<Rightarrow> bool" where
  "complete_run m outs \<longleftrightarrow>
     outs \<noteq> [] \<and> list_all (\<lambda>x. \<not> accepted x) (butlast outs) \<and> length outs \<le> m + 1 \<and>
     (accepted (last outs) \<or> length outs = m + 1)"

lemma traced_simps [simp]:
  "build_request (traced E) = build_request E"
  "payload_json (traced E) = payload_json E"
  "http_post (traced E) cl rq (w, tr) = (case http_post E cl rq w of (out, w') \<Rightarrow> (out, w', tr @ [(rq, out)]))"
  by (simp_all add: fun_eq_iff traced_def build_request_def compute_webhook_signature_def split: option.split)

lemma build_request_metrics [simp]:
  "build_request E u p b (on_webhook_metrics f d) = build_request E u p b d"
  by (simp add: build_request_def on_webhook_metrics_def)

lemma on_webhook_metrics_simps [simp]:
  "wd_urls (on_webhook_metrics f d) = wd_urls d" "wd_client (on_webhook_metrics f d) = wd_client d"
  "wd_secret (on_webhook_metrics f d) = wd_secret d" "wd_max_retries (on_webhook_metrics f d) = wd_max_retries d"
  "wd_dlq (on_webhook_metrics f d) = wd_dlq d" "wd_cache (on_webhook_metrics f d) = wd_cache d"
  "deduplication_ttl (on_webhook_metrics f d) = deduplication_ttl d"
  by (simp_all add: on_webhook_metrics_def)

text \<open>What a delivery never changes.\<close>

definition same_setup :: "('c, 'r) WebhookDispatcher \<Rightarrow> ('c, 'r) WebhookDispatcher \<Rightarrow> bool" where
  "same_setup d d' \<longleftrightarrow>
     wd_urls d' = wd_urls d \<and> wd_client d' = wd_client d \<and> wd_secret d' = wd_secret d \<and>
     wd_max_retries d' = wd_max_retries d \<and> deduplication_ttl d' = deduplication_ttl d"

lemma same_setup_refl [simp]: "same_setup d d"
  by (simp add: same_setup_def)

lemma same_setup_trans: "same_setup d d1 \<Longrightarrow> same_setup d1 d2 \<Longrightarrow> same_setup d d2"
  by (simp add: same_setup_def)

lemma same_setup_max_retries: "same_setup d d' \<Longrightarrow> wd_max_retries d' = wd_max_retries d"
  by (simp add: same_setup_def)

lemma build_request_setup: "same_setup d d' \<Longrightarrow> build_request E u p b d' = build_request E u p b d"
  by (simp add: same_setup_def build_request_def)

lemma send_once_traced:
  assumes "payload_json E p = Inr body" and "send_once (traced E) url p d (w, tr) = (r, w', tr')"
  shows "\<exists>out. tr' = tr @ [(build_request E url p body d, out)] \<and> (accepted out \<longleftrightarrow> is_ok r)"
proof -
  obtain out v where post: "http_post E (wd_client d) (build_request E url p body d) w = (out, v)" by force
  then show ?thesis
    using assms by (cases out) (auto simp: send_once_def split: if_splits)
qed

section \<open>One delivery\<close>

lemma attempt_loop_frame:
  "attempt_loop E url p start a n le d w = (r, d', w') \<Longrightarrow>
     same_setup d d' \<and> wd_dlq d' = wd_dlq d \<and> wd_cache d' = wd_cache d"
proof (induction E url p start a n le d w arbitrary: r d' w' rule: attempt_loop.induct)
  case (2 E url p start a n le d w)
  let ?s = "if a > 0 then
      (on_webhook_metrics increment_webhook_retry d, sleep_ms E (backoff_delay (subsec_nanos E w) d (a - 1)) w)
    else (d, w)"
  obtain d1 w1 where s: "?s = (d1, w1)" by force
  then have d1: "same_setup d d1 \<and> wd_dlq d1 = wd_dlq d \<and> wd_cache d1 = wd_cache d"
    by (auto simp: same_setup_def split: if_splits)
  obtain q v where send: "send_once E url p d1 w1 = (q, v)" by force
  show ?case
  proof (cases q)
    case (Ok u)
    then have "d' = on_webhook_metrics
        (record_webhook_delivery ''success'' (elapsed_secs start (instant (world_clocks E v)))) d1"
      using 2(2) send unfolding attempt_loop.simps s by auto
    with d1 show ?thesis by (simp add: same_setup_def)
  next
    case (Err e)
    then have "attempt_loop E url p start (a + 1) n e d1 v = (r, d', w')"
      using 2(2) send unfolding attempt_loop.simps s by simp
    from 2(1) [OF s [symmetric] refl send [symmetric] Err this] d1 show ?thesis by (simp add: same_setup_def)
  qed
qed (simp add: same_setup_def)

lemma attempt_loop_traced:
  assumes "payload_json E p = Inr body"
    and "attempt_loop (traced E) url p start a n le d (w, tr) = (r, d', w', tr')"
  shows "\<exists>outs. tr' = tr @ map (Pair (build_request E url p body d)) outs \<and>
    (if r = None
     then outs \<noteq> [] \<and> length outs \<le> n \<and> list_all (\<lambda>x. \<not> accepted x) (butlast outs) \<and> accepted (last outs)
     else length outs = n \<and> list_all (\<lambda>x. \<not> accepted x) outs)"
  using assms(2)
proof (induction n arbitrary: a le d w tr)
  case (Suc n)
  obtain d1 w1 where s: "(if a > 0 then
      (on_webhook_metrics increment_webhook_retry d,
       sleep_ms (traced E) (backoff_delay (subsec_nanos (traced E) (w, tr)) d (a - 1)) (w, tr))
    else (d, w, tr)) = (d1, w1, tr)"
    by (cases "a > 0") (auto simp: traced_def)
  then have d1: "build_request E url p body d1 = build_request E url p body d"
    by (auto split: if_splits)
  obtain q v tr1 where send: "send_once (traced E) url p d1 (w1, tr) = (q, v, tr1)"
    using prod_cases3 by blast
  obtain out where out: "tr1 = tr @ [(build_request E url p body d, out)]" "accepted out \<longleftrightarrow> is_ok q"
    using send_once_traced [OF assms(1) send] d1 by auto
  show ?case
  proof (cases q)
    case (Ok u)
    then have "r = None" "tr' = tr1"
      using Suc.prems send unfolding attempt_loop.simps s by simp_all
    with Ok out show ?thesis by (intro exI [of _ "[out]"]) simp
  next
    case (Err e)
    then have "attempt_loop (traced E) url p start (a + 1) n e d1 (v, tr1) = (r, d', w', tr')"
      using Suc.prems send unfolding attempt_loop.simps s by simp
    from Suc.IH [OF this] obtain outs where outs:
      "tr' = tr1 @ map (Pair (build_request E url p body d)) outs"
      "if r = None
       then outs \<noteq> [] \<and> length outs \<le> n \<and> list_all (\<lambda>x. \<not> accepted x) (butlast outs) \<and> accepted (last outs)
       else length outs = n \<and> list_all (\<lambda>x. \<not> accepted x) outs"
      unfolding d1 by blast
    with Err out show ?thesis by (intro exI [of _ "out # outs"]) (auto split: if_splits)
  qed
qed auto

section \<open>The dead-letter queue in memory\<close>

lemma dead_letter_simps:
  "same_setup d (dead_letter E entry start d w)"
  "wd_cache d = None \<Longrightarrow> wd_cache (dead_letter E entry start d w) = None"
  "wd_cache d = None \<Longrightarrow> wd_dlq (dead_letter E entry start d w) = push_dead_letter entry (wd_dlq d)"
  by (auto simp: dead_letter_def same_setup_def Let_def split: option.split prod.split)

text \<open>Pushing into the bounded queue keeps the last entries.\<close>

lemma push_all:
  "length q \<le> MAX_DLQ_DEPTH \<Longrightarrow>
     fold push_dead_letter es q = drop (length q + length es - MAX_DLQ_DEPTH) (q @ es)"
proof (induction es arbitrary: q)
  case (Cons x es)
  let ?q = "push_dead_letter x q"
  have len: "length ?q = min (length q + 1) MAX_DLQ_DEPTH" and q: "?q = drop (length q + 1 - MAX_DLQ_DEPTH) (q @ [x])"
    using Cons.prems by (auto simp: push_dead_letter_def MAX_DLQ_DEPTH_def drop_Suc)
  have le: "length q + 1 - MAX_DLQ_DEPTH \<le> length (q @ [x])" by simp
  have "fold push_dead_letter (x # es) q = drop (length ?q + length es - MAX_DLQ_DEPTH) (?q @ es)"
    using Cons.IH [of ?q] len by simp
  also have "?q @ es = drop (length q + 1 - MAX_DLQ_DEPTH) (q @ x # es)"
    unfolding q using le by (simp add: MAX_DLQ_DEPTH_def)
  finally show ?case using len Cons.prems by (auto simp: MAX_DLQ_DEPTH_def min_def add.commute split: if_splits)
qed simp

lemma deliver_traced:
  assumes "payload_json E p = Inr body" and "wd_cache d = None"
    and "deliver_with_retry (traced E) p url (d, w, tr) = (d', w', tr')"
  shows "\<exists>outs es. tr' = tr @ map (Pair (build_request E url p body d)) outs \<and>
    complete_run (unat (wd_max_retries d)) outs \<and> same_setup d d' \<and> wd_cache d' = None \<and>
    wd_dlq d' = fold push_dead_letter es (wd_dlq d) \<and>
    map dl_url es = (if accepted (last outs) then [] else [url]) \<and>
    list_all (\<lambda>x. dl_payload x = p \<and> dl_attempts x = wd_max_retries d + 1) es"
proof -
  let ?m = "unat (wd_max_retries d)" and ?start = "instant (world_clocks (traced E) (w, tr))"
  obtain r d1 w1 tr1 where loop:
    "attempt_loop (traced E) url p ?start 0 (?m + 1) ''no attempts made'' d (w, tr) = (r, d1, w1, tr1)"
    using prod_cases4 by blast
  note frame = attempt_loop_frame [OF loop]
  obtain outs where outs: "tr1 = tr @ map (Pair (build_request E url p body d)) outs"
    "if r = None
     then outs \<noteq> [] \<and> length outs \<le> ?m + 1 \<and> list_all (\<lambda>x. \<not> accepted x) (butlast outs) \<and> accepted (last outs)
     else length outs = ?m + 1 \<and> list_all (\<lambda>x. \<not> accepted x) outs"
    using attempt_loop_traced [OF assms(1) loop] by blast
  show ?thesis
  proof (cases r)
    case None
    then have "d' = d1" "tr' = tr1" using assms(3) loop by (simp_all add: deliver_with_retry_def Let_def)
    with None outs frame assms(2) show ?thesis
      by (intro exI [of _ outs] exI [of _ "[]"]) (simp add: complete_run_def)
  next
    case (Some e)
    let ?entry = "\<lparr>dl_url = url, dl_payload = p, dl_attempts = wd_max_retries d1 + 1, dl_last_error = e,
      dl_failed_at = utc_now (traced E) (w1, tr1)\<rparr>"
    have d': "d' = dead_letter (traced E) ?entry ?start d1 (w1, tr1)" "tr' = tr1"
      using Some assms(3) loop unfolding deliver_with_retry_def Let_def by auto
    have "outs \<noteq> []" using Some outs(2) by auto
    then have "\<not> accepted (last outs)" "complete_run ?m outs"
      using Some outs(2) by (auto simp: complete_run_def list_all_iff dest: in_set_butlastD)
    moreover have "same_setup d d'"
      using same_setup_trans [OF conjunct1 [OF frame] dead_letter_simps(1)] d'(1) by simp
    ultimately show ?thesis using d' outs(1) frame assms(2) same_setup_max_retries [of d d1]
      by (intro exI [of _ outs] exI [of _ "[?entry]"]) (simp add: dead_letter_simps)
  qed
qed

section \<open>A whole dispatch\<close>

lemma deliver_all_traced:
  assumes "payload_json E p = Inr body"
  shows "wd_cache d = None \<Longrightarrow> fold (deliver_with_retry (traced E) p) us (d, w, tr) = (d', w', tr') \<Longrightarrow>
    \<exists>runs es. map fst runs = us \<and> list_all (\<lambda>(u, outs). complete_run (unat (wd_max_retries d)) outs) runs \<and>
    tr' = tr @ concat (map (\<lambda>(u, outs). map (Pair (build_request E u p body d)) outs) runs) \<and>
    wd_dlq d' = fold push_dead_letter es (wd_dlq d) \<and>
    map dl_url es = map fst (filter (\<lambda>(u, outs). \<not> accepted (last outs)) runs) \<and>
    list_all (\<lambda>x. dl_payload x = p \<and> dl_attempts x = wd_max_retries d + 1) es"
proof (induction us arbitrary: d w tr)
  case (Cons u us)
  obtain d1 w1 tr1 where one: "deliver_with_retry (traced E) p u (d, w, tr) = (d1, w1, tr1)"
    using prod_cases3 by blast
  from deliver_traced [OF assms Cons.prems(1) one] obtain outs es1 where first:
    "tr1 = tr @ map (Pair (build_request E u p body d)) outs" "complete_run (unat (wd_max_retries d)) outs"
    "same_setup d d1" "wd_cache d1 = None" "wd_dlq d1 = fold push_dead_letter es1 (wd_dlq d)"
    "map dl_url es1 = (if accepted (last outs) then [] else [u])"
    "list_all (\<lambda>x. dl_payload x = p \<and> dl_attempts x = wd_max_retries d + 1) es1"
    by blast
  have "fold (deliver_with_retry (traced E) p) us (d1, w1, tr1) = (d', w', tr')"
    using Cons.prems(2) one by simp
  from Cons.IH [OF first(4) this, unfolded same_setup_max_retries [OF first(3)] build_request_setup [OF first(3)]]
  obtain runs es where rest: "map fst runs = us"
    "list_all (\<lambda>(u, outs). complete_run (unat (wd_max_retries d)) outs) runs"
    "tr' = tr1 @ concat (map (\<lambda>(u, outs). map (Pair (build_request E u p body d)) outs) runs)"
    "wd_dlq d' = fold push_dead_letter es (wd_dlq d1)"
    "map dl_url es = map fst (filter (\<lambda>(u, outs). \<not> accepted (last outs)) runs)"
    "list_all (\<lambda>x. dl_payload x = p \<and> dl_attempts x = wd_max_retries d + 1) es"
    by blast
  show ?case
    by (intro exI [of _ "(u, outs) # runs"] exI [of _ "es1 @ es"] conjI) (use first rest in auto)
qed simp

text \<open>C32: a dispatch without a cache contacts every URL in registration order, whatever happened to
  the URLs before: the requests for one URL are copies of the same signed request, at least
  one and at most one more than the retries, failing up to the last; either the last one was
  answered with success, or all attempts were used and the URL gets exactly one dead letter
  with this payload. The queue afterwards is the old one with the new dead letters, cut to
  the latest 10,000.\<close>

theorem dispatch_attempts_every_url:
  assumes "payload_json E (payload_of e) = Inr body" and "wd_cache d = None"
    and "length (wd_dlq d) \<le> MAX_DLQ_DEPTH"
    and "dispatch (traced E) e (d, w, []) = (d', w', requests)"
  shows "\<exists>runs es. map fst runs = wd_urls d \<and>
    list_all (\<lambda>(u, outs). complete_run (unat (wd_max_retries d)) outs) runs \<and>
    requests = concat (map (\<lambda>(u, outs). map (Pair (build_request E u (payload_of e) body d)) outs) runs) \<and>
    map dl_url es = map fst (filter (\<lambda>(u, outs). \<not> accepted (last outs)) runs) \<and>
    list_all (\<lambda>x. dl_payload x = payload_of e \<and> dl_attempts x = wd_max_retries d + 1) es \<and>
    wd_dlq d' = drop (length (wd_dlq d) + length es - MAX_DLQ_DEPTH) (wd_dlq d @ es)"
proof -
  have "fold (deliver_with_retry (traced E) (payload_of e)) (wd_urls d) (d, w, []) = (d', w', requests)"
    using assms(2,4) by (auto simp: dispatch_def Let_def split: if_splits)
  from deliver_all_traced [OF assms(1,2) this] show ?thesis
    unfolding push_all [OF assms(3)] append_Nil by blast
qed

theorem dispatch_attempts_every_url_witness:
  "\<exists>runs. map fst runs = [''http://down'', ''http://up''] \<and>
     list_all (\<lambda>(u, outs). complete_run 1 outs) runs \<and>
     snd (snd (dispatch (traced demo_env) demo_notice (demo_dispatcher, (), []))) =
       concat (map (\<lambda>(u, outs). map (Pair (build_request demo_env u (payload_of demo_notice) ''{}'' demo_dispatcher)) outs) runs)"
proof -
  obtain d' w' requests where run:
    "dispatch (traced demo_env) demo_notice (demo_dispatcher, (), []) = (d', w', requests)"
    using prod_cases3 by blast
  have "payload_json demo_env (payload_of demo_notice) = Inr ''{}''" "wd_cache demo_dispatcher = None"
    "length (wd_dlq demo_dispatcher) \<le> MAX_DLQ_DEPTH"
    by (simp_all add: demo_env_def demo_dispatcher_def WebhookDispatcher_new_def)
  from dispatch_attempts_every_url [OF this run] obtain runs where
    "map fst runs = wd_urls demo_dispatcher"
    "list_all (\<lambda>(u, outs). complete_run (unat (wd_max_retries demo_dispatcher)) outs) runs"
    "requests = concat (map (\<lambda>(u, outs). map (Pair (build_request demo_env u (payload_of demo_notice) ''{}'' demo_dispatcher)) outs) runs)"
    by blast
  moreover have "wd_urls demo_dispatcher = [''http://down'', ''http://up'']" "unat (wd_max_retries demo_dispatcher) = 1"
    by (simp_all add: demo_dispatcher_def WebhookDispatcher_new_def)
  ultimately show ?thesis unfolding run by (intro exI [of _ runs]) simp
qed

section \<open>Deduplication\<close>

text \<open>An unbounded in-memory cache behind the dispatcher that stores \<open>x\<close> under \<open>key\<close>.\<close>

definition remembers :: "CacheKey \<Rightarrow> Entry option \<Rightarrow> 'r CacheBackend \<Rightarrow> bool" where
  "remembers key x b \<longleftrightarrow> (\<exists>c. b = InMemory c \<and> cache_inv c \<and> max_size c = 0 \<and> lookup c key = x)"

definition remembering :: "CacheKey \<Rightarrow> Entry option \<Rightarrow> ('c, 'r) WebhookDispatcher \<Rightarrow> bool" where
  "remembering key x d \<longleftrightarrow> (\<exists>b. wd_cache d = Some b \<and> remembers key x b)"

lemma counted_get_eq:
  "fst (counted_get k key c) = fst (imc_get_raw (unix_secs k) key c)"
  "store (snd (counted_get k key c)) = store (snd (imc_get_raw (unix_secs k) key c))"
  "lru_queue (snd (counted_get k key c)) = lru_queue (snd (imc_get_raw (unix_secs k) key c))"
  "max_size (snd (counted_get k key c)) = max_size (snd (imc_get_raw (unix_secs k) key c))"
  by (simp_all add: counted_get_def imc_get_raw_def imc_record_expired_def imc_record_hit_def imc_record_miss_def
      case_prod_beta)

lemma counted_get_spec:
  assumes "cache_inv c"
  shows "fst (counted_get k key c) = live c (unix_secs k) key"
    "cache_inv (snd (counted_get k key c))" "max_size (snd (counted_get k key c)) = max_size c"
    "lookup (snd (counted_get k key c)) =
       (if live c (unix_secs k) key = None then (lookup c)(key := None) else lookup c)"
  using get_raw_spec [OF assms, where t = "unix_secs k" and k = key] counted_get_eq [of k key c]
    cache_inv_cong [of "snd (counted_get k key c)" "snd (imc_get_raw (unix_secs k) key c)"]
    lookup_cong [of "snd (counted_get k key c)" "snd (imc_get_raw (unix_secs k) key c)"]
  by simp_all

lemma remembers_get:
  assumes "remembers K x b" and "key \<noteq> K"
  shows "remembers K x (snd (backend_get_raw R k key b))"
  using assms by (auto simp: remembers_def backend_get_raw_def case_prod_beta counted_get_spec)

lemma remembers_set:
  assumes "remembers K x b" and "key \<noteq> K"
  shows "remembers K x (backend_set_raw R k key v ttl b)"
proof -
  obtain c where c: "b = InMemory c" "cache_inv c" "max_size c = 0" "lookup c K = x"
    using assms(1) by (auto simp: remembers_def)
  have "K \<in> set (lru_queue c) \<longleftrightarrow> x \<noteq> None" using lookup_dom [OF c(2)] c(4) by simp
  with c assms(2) show ?thesis
    by (auto simp: remembers_def backend_set_raw_def set_raw_spec kept_def set_front restrict_map_def)
qed

lemma remembers_count: "remembers K x b \<Longrightarrow> K \<notin> dlq_key ` set us \<Longrightarrow> remembers K x (snd (count_persisted R k us b))"
proof (induction us arbitrary: b)
  case (Cons u us)
  then have "remembers K x (snd (backend_get_raw R k (dlq_key u) b))" by (intro remembers_get) auto
  with Cons show ?case by (auto simp: case_prod_beta)
qed simp

lemma dedup_not_dlq: "dedup_key e \<noteq> dlq_key u"
  by (simp add: dedup_key_def dlq_key_def DEDUP_KEY_PREFIX_def DLQ_REDIS_KEY_PREFIX_def)

lemma dedup_key_inject: "dedup_key e = dedup_key e' \<longleftrightarrow> ev_idempotency_key e = ev_idempotency_key e'"
  by (simp add: dedup_key_def)

lemma dead_letter_remembering:
  assumes "remembering (dedup_key e) x d"
  shows "remembering (dedup_key e) x (dead_letter E entry start d w)"
    "wd_dlq (dead_letter E entry start d w) = wd_dlq d"
proof -
  obtain b where b: "wd_cache d = Some b" "remembers (dedup_key e) x b"
    using assms by (auto simp: remembering_def)
  let ?k = "world_clocks E w"
  let ?b = "backend_set_raw (web_redis E) ?k (dlq_key (dl_url entry))
      (case entry_json E entry of Inl _ \<Rightarrow> [] | Inr s \<Rightarrow> s) 604800 b"
  have "remembers (dedup_key e) x ?b"
    using b(2) dedup_not_dlq [of e] by (intro remembers_set) metis+
  then have "remembers (dedup_key e) x (snd (count_persisted (web_redis E) ?k (wd_urls d) ?b))"
    using dedup_not_dlq [of e] by (intro remembers_count) auto
  then show "remembering (dedup_key e) x (dead_letter E entry start d w)"
    using b(1) by (simp add: dead_letter_def remembering_def Let_def case_prod_beta)
  show "wd_dlq (dead_letter E entry start d w) = wd_dlq d"
    using b(1) by (simp add: dead_letter_def Let_def case_prod_beta)
qed

lemma deliver_remembering:
  assumes "remembering (dedup_key e) x d" and "deliver_with_retry E p u (d, w) = (d', w')"
  shows "remembering (dedup_key e) x d' \<and> same_setup d d' \<and> wd_dlq d' = wd_dlq d"
proof -
  obtain r d1 w1 where loop:
    "attempt_loop E u p (instant (world_clocks E w)) 0 (unat (wd_max_retries d) + 1) ''no attempts made'' d w = (r, d1, w1)"
    using prod_cases3 by blast
  note frame = attempt_loop_frame [OF loop]
  then have d1: "remembering (dedup_key e) x d1" using assms(1) by (simp add: remembering_def)
  from assms(2) loop have "d' = d1 \<or> (\<exists>entry start. d' = dead_letter E entry start d1 w1)"
    unfolding deliver_with_retry_def Let_def by (auto split: option.splits)
  then show ?thesis
    using d1 dead_letter_remembering [OF d1] frame same_setup_trans [OF _ dead_letter_simps(1)] by auto
qed

lemma deliver_all_remembering:
  "remembering (dedup_key e) x d \<Longrightarrow> fold (deliver_with_retry E p) us (d, w) = (d', w') \<Longrightarrow>
     remembering (dedup_key e) x d' \<and> same_setup d d' \<and> wd_dlq d' = wd_dlq d"
proof (induction us arbitrary: d w)
  case (Cons u us)
  obtain d1 w1 where one: "deliver_with_retry E p u (d, w) = (d1, w1)" by force
  have rest: "fold (deliver_with_retry E p) us (d1, w1) = (d', w')" using Cons.prems(2) one by simp
  from deliver_remembering [OF Cons.prems(1) one] Cons.IH [OF _ rest] show ?case
    using same_setup_trans by auto
qed simp

lemma dispatch_remembering:
  assumes "remembering (dedup_key e) x d" and "ev_idempotency_key e' \<noteq> ev_idempotency_key e"
    and "dispatch E e' (d, w) = (d', w')"
  shows "remembering (dedup_key e) x d' \<and> same_setup d d' \<and> wd_dlq d' = wd_dlq d"
proof (cases "wd_urls d = []")
  case True
  with assms show ?thesis by (simp add: dispatch_def)
next
  case False
  have ne: "dedup_key e' \<noteq> dedup_key e" using assms(2) by (simp add: dedup_key_inject)
  obtain b where b: "wd_cache d = Some b" "remembers (dedup_key e) x b"
    using assms(1) by (auto simp: remembering_def)
  let ?k = "world_clocks E w"
  obtain v b1 where get: "backend_get_raw (web_redis E) ?k (dedup_key e') b = (v, b1)" by force
  have b1: "remembers (dedup_key e) x b1" using remembers_get [OF b(2) ne] get by (metis snd_conv)
  show ?thesis
  proof (cases v)
    case (Some s)
    then have "d' = on_webhook_metrics increment_webhook_retry (d\<lparr>wd_cache := Some b1\<rparr>)"
      using assms(3) b(1) get False by (simp add: dispatch_def Let_def)
    with b1 show ?thesis by (simp add: remembering_def same_setup_def)
  next
    case None
    let ?d = "d\<lparr>wd_cache := Some (backend_set_raw (web_redis E) ?k (dedup_key e') ''delivered'' (deduplication_ttl d) b1)\<rparr>"
    have "fold (deliver_with_retry E (payload_of e')) (wd_urls d) (?d, w) = (d', w')"
      using assms(3) b(1) get False None by (simp add: dispatch_def Let_def)
    moreover have "remembering (dedup_key e) x ?d"
      using remembers_set [OF b1 ne] by (simp add: remembering_def)
    ultimately show ?thesis
      using deliver_all_remembering [of e x ?d] by (simp add: same_setup_def)
  qed
qed

lemma dispatch_first:
  assumes "wd_urls d \<noteq> []" and "remembering (dedup_key e) None d"
    and "dispatch E e (d, w) = (d', w')"
  shows "remembering (dedup_key e)
      (Some \<lparr>e_value = ''delivered'', expires_at = sat_add (unix_secs (world_clocks E w)) (deduplication_ttl d)\<rparr>) d' \<and>
    same_setup d d' \<and> wd_dlq d' = wd_dlq d"
proof -
  obtain c where c: "wd_cache d = Some (InMemory c)" "cache_inv c" "max_size c = 0" "lookup c (dedup_key e) = None"
    using assms(2) by (auto simp: remembering_def remembers_def)
  let ?k = "world_clocks E w"
  obtain c1 where get: "counted_get ?k (dedup_key e) c = (None, c1)"
    using counted_get_spec(1) [OF c(2), of ?k "dedup_key e"] c(4) by (cases "counted_get ?k (dedup_key e) c") (simp add: live_def)
  let ?set = "imc_set_raw (unix_secs ?k) (dedup_key e) ''delivered'' (deduplication_ttl d) c1"
  have run: "fold (deliver_with_retry E (payload_of e)) (wd_urls d) (d\<lparr>wd_cache := Some (InMemory ?set)\<rparr>, w) = (d', w')"
    using assms(1,3) c(1) get by (simp add: dispatch_def backend_get_raw_def backend_set_raw_def Let_def)
  have inv: "cache_inv c1" "max_size c1 = 0"
    using counted_get_spec(2,3) [OF c(2), of ?k "dedup_key e"] c(3) get by simp_all
  have "remembering (dedup_key e)
      (Some \<lparr>e_value = ''delivered'', expires_at = sat_add (unix_secs ?k) (deduplication_ttl d)\<rparr>)
      (d\<lparr>wd_cache := Some (InMemory ?set)\<rparr>)"
    using inv by (simp add: remembering_def remembers_def set_raw_spec kept_def set_front)
  from deliver_all_remembering [OF this run] show ?thesis by (simp add: same_setup_def)
qed

lemma fold_dispatch_remembering:
  "remembering (dedup_key e) x d \<Longrightarrow> list_all (\<lambda>e'. ev_idempotency_key e' \<noteq> ev_idempotency_key e) es \<Longrightarrow>
     fold (dispatch E) es (d, w) = (d', w') \<Longrightarrow>
     remembering (dedup_key e) x d' \<and> same_setup d d' \<and> wd_dlq d' = wd_dlq d"
proof (induction es arbitrary: d w)
  case (Cons e1 es)
  obtain d1 w1 where one: "dispatch E e1 (d, w) = (d1, w1)" by force
  have rest: "fold (dispatch E) es (d1, w1) = (d', w')" using Cons.prems(3) one by simp
  from dispatch_remembering [OF Cons.prems(1) _ one] Cons.prems(2) Cons.IH [OF _ _ rest] show ?case
    using same_setup_trans by auto
qed simp

text \<open>C33: behind an unbounded in-memory cache an event is dispatched at most once within the
  deduplication time, whatever came of it: after a first dispatch, even one whose deliveries
  all failed, and any further events with other keys, an event with the same idempotency key
  sends nothing until the first dispatch's time plus the time to live; it changes neither the
  outside world nor the queue.\<close>

theorem redelivery_is_suppressed:
  assumes "wd_urls d \<noteq> []" and "wd_cache d = Some (InMemory c)" and "cache_inv c" and "max_size c = 0"
    and "lookup c (dedup_key e) = None"
    and "dispatch E e (d, w) = (d1, w1)"
    and "list_all (\<lambda>e'. ev_idempotency_key e' \<noteq> ev_idempotency_key e) es"
    and "fold (dispatch E) es (d1, w1) = (d2, w2)"
    and "ev_idempotency_key e' = ev_idempotency_key e"
    and "unix_secs (world_clocks E w3) < sat_add (unix_secs (world_clocks E w)) (deduplication_ttl d)"
  shows "\<exists>d3. dispatch E e' (d2, w3) = (d3, w3) \<and> wd_dlq d3 = wd_dlq d \<and>
    wd_metrics d3 = map_option increment_webhook_retry (wd_metrics d2)"
proof -
  let ?x = "\<lparr>e_value = ''delivered'', expires_at = sat_add (unix_secs (world_clocks E w)) (deduplication_ttl d)\<rparr>"
  have "remembering (dedup_key e) None d" using assms(2-5) by (simp add: remembering_def remembers_def)
  from dispatch_first [OF assms(1) this assms(6)]
  have one: "remembering (dedup_key e) (Some ?x) d1" "same_setup d d1" "wd_dlq d1 = wd_dlq d" by auto
  from fold_dispatch_remembering [OF one(1) assms(7,8)]
  have two: "remembering (dedup_key e) (Some ?x) d2" "same_setup d1 d2" "wd_dlq d2 = wd_dlq d1" by auto
  obtain c2 where c2: "wd_cache d2 = Some (InMemory c2)" "cache_inv c2" "lookup c2 (dedup_key e) = Some ?x"
    using two(1) by (auto simp: remembering_def remembers_def)
  have key: "dedup_key e' = dedup_key e" using assms(9) by (simp add: dedup_key_inject)
  have "fst (counted_get (world_clocks E w3) (dedup_key e') c2) = Some ''delivered''"
    using counted_get_spec(1) [OF c2(2)] c2(3) assms(10) by (simp add: live_def key)
  then obtain c3 where get: "counted_get (world_clocks E w3) (dedup_key e') c2 = (Some ''delivered'', c3)"
    by (metis prod.collapse)
  have "wd_urls d2 \<noteq> []" using assms(1) one(2) two(2) by (simp add: same_setup_def)
  with get c2(1) show ?thesis
    using one(3) two(3) by (simp add: dispatch_def backend_get_raw_def on_webhook_metrics_def Let_def)
qed

theorem redelivery_is_suppressed_witness:
  "\<exists>d3. dispatch demo_env demo_notice
      (dispatch demo_env demo_notice (demo_dispatcher\<lparr>wd_cache := Some (InMemory InMemoryCache_new)\<rparr>, ())) = (d3, ()) \<and>
     wd_dlq d3 = []"
proof -
  let ?d = "demo_dispatcher\<lparr>wd_cache := Some (InMemory InMemoryCache_new)\<rparr>"
  obtain d1 w1 where one: "dispatch demo_env demo_notice (?d, ()) = (d1, w1)"
    by (cases "dispatch demo_env demo_notice (?d, ())")
  note defs = demo_dispatcher_def WebhookDispatcher_new_def
  have urls: "wd_urls ?d \<noteq> []" and cache: "wd_cache ?d = Some (InMemory InMemoryCache_new)" and dlq: "wd_dlq ?d = []"
    by (simp_all add: defs)
  have new: "max_size InMemoryCache_new = 0" "lookup InMemoryCache_new (dedup_key demo_notice) = None"
    by (simp_all add: InMemoryCache_new_def lookup_def)
  have ttl: "unix_secs (world_clocks demo_env ()) < sat_add (unix_secs (world_clocks demo_env ())) (deduplication_ttl ?d)"
    by (simp add: demo_env_def defs sat_add_def)
  have others: "list_all (\<lambda>e'. ev_idempotency_key e' \<noteq> ev_idempotency_key demo_notice) []"
    "fold (dispatch demo_env) [] (d1, w1) = (d1, w1)" by simp_all
  from redelivery_is_suppressed [OF urls cache cache_inv_new(2) new one others refl ttl]
  obtain d3 where "dispatch demo_env demo_notice (d1, ()) = (d3, ())" "wd_dlq d3 = wd_dlq ?d" by blast
  then show ?thesis unfolding one dlq by (intro exI [of _ d3]) simp
qed

end
