(* ===== verification/Webhook_Tasks.thy ===== *)
theory Webhook_Tasks
  imports Webhook_Claims
begin

text \<open>
  Background dispatches (\<open>src/src/webhook.rs\<close>, \<open>dispatch_background\<close>): every call spawns a task that
  runs \<open>dispatch\<close>, and the tasks interleave wherever \<open>dispatch\<close> awaits. A task looks up the
  deduplication entry, writes it, and delivers to one URL after the other; each of these is a
  step, one step of one task at a time. A delivery awaits several times inside its step, but it
  neither reads nor writes a deduplication entry, so finer steps would decide nothing else here. A schedule lists which task runs next, with what the
  outside world does on its own before that step.
\<close>

section \<open>Tasks\<close>

datatype task_stage = Checking | Marking | Delivering "string list" | Delivered | Skipped

fun task_step ::
    "('c, 'r, 'n) web_env \<Rightarrow> Event \<Rightarrow> task_stage \<Rightarrow> ('c, 'r) WebhookDispatcher \<times> 'n \<Rightarrow>
     task_stage \<times> ('c, 'r) WebhookDispatcher \<times> 'n" where
  "task_step E e Checking (d, w) =
     (if wd_urls d = [] then (Skipped, d, w)
      else
        case wd_cache d of
          None \<Rightarrow> (Delivering (wd_urls d), d, w)
        | Some b \<Rightarrow>
            (case backend_get_raw (web_redis E) (world_clocks E w) (dedup_key e) b of
               (Some _, b) \<Rightarrow> (Skipped, on_webhook_metrics increment_webhook_retry (d\<lparr>wd_cache := Some b\<rparr>), w)
             | (None, b) \<Rightarrow> (Marking, d\<lparr>wd_cache := Some b\<rparr>, w)))"
| "task_step E e Marking (d, w) =
     (Delivering (wd_urls d),
      d\<lparr>wd_cache :=
          map_option
            (backend_set_raw (web_redis E) (world_clocks E w) (dedup_key e) ''delivered'' (deduplication_ttl d))
            (wd_cache d)\<rparr>, w)"
| "task_step E e (Delivering []) (d, w) = (Delivered, d, w)"
| "task_step E e (Delivering (u # us)) (d, w) =
     (Delivering us, deliver_with_retry E (payload_of e) u (d, w))"
| "task_step E e Delivered (d, w) = (Delivered, d, w)"
| "task_step E e Skipped (d, w) = (Skipped, d, w)"






subsection \<open>A task alone is a dispatch\<close>

lemma deliver_steps:
  "((\<lambda>(st, s). task_step E e st s) ^^ length us) (Delivering us, s) =
     (Delivering [], fold (deliver_with_retry E (payload_of e)) us s)"
proof (induction us arbitrary: s)
  case (Cons u us)
  then show ?case by (cases s) (simp add: funpow_Suc_right del: funpow.simps)
qed simp

lemma task_alone_is_dispatch:
  "\<exists>n st. ((\<lambda>(st, s). task_step E e st s) ^^ n) (Checking, d, w) = (st, dispatch E e (d, w)) \<and>
     st \<in> {Delivered, Skipped}"
proof (cases "wd_urls d = []")
  case True
  then show ?thesis
    by (intro exI [of _ 1] exI [of _ Skipped]) (simp add: dispatch_def)
next
  case urls: False
  let ?step = "\<lambda>(st, s). task_step E e st s"
  have finish: "\<exists>n. (?step ^^ n) (Checking, d, w) = (Delivered, fold (deliver_with_retry E (payload_of e)) us s)"
    if "(?step ^^ k) (Checking, d, w) = (Delivering us, s)" for us s k
    using that deliver_steps [where us = us and s = s and E = E and e = e]
    by (intro exI [of _ "Suc (length us + k)"], cases "fold (deliver_with_retry E (payload_of e)) us s")
      (simp add: funpow_add)
  show ?thesis
  proof (cases "wd_cache d")
    case None
    then have "(?step ^^ 1) (Checking, d, w) = (Delivering (wd_urls d), d, w)" using urls by simp
    moreover have "dispatch E e (d, w) = fold (deliver_with_retry E (payload_of e)) (wd_urls d) (d, w)"
      using None urls by (simp add: dispatch_def)
    ultimately show ?thesis using finish by (metis insertI1)
  next
    case (Some b)
    let ?k = "world_clocks E w"
    obtain v b1 where get: "backend_get_raw (web_redis E) ?k (dedup_key e) b = (v, b1)" by force
    show ?thesis
    proof (cases v)
      case None
      let ?b = "backend_set_raw (web_redis E) ?k (dedup_key e) ''delivered'' (deduplication_ttl d) b1"
      have "(?step ^^ 2) (Checking, d, w) = (Delivering (wd_urls d), d\<lparr>wd_cache := Some ?b\<rparr>, w)"
        using urls Some get None by (simp add: numeral_2_eq_2)
      moreover have "dispatch E e (d, w) =
          fold (deliver_with_retry E (payload_of e)) (wd_urls d) (d\<lparr>wd_cache := Some ?b\<rparr>, w)"
        using Some get None urls by (simp add: dispatch_def Let_def)
      ultimately show ?thesis using finish by (metis insertI1)
    next
      case (Some s)
      with \<open>wd_cache d = Some b\<close> get urls show ?thesis
        by (intro exI [of _ 1] exI [of _ Skipped]) (simp add: dispatch_def Let_def)
    qed
  qed
qed

section \<open>Which tasks send\<close>












section \<open>Any schedule\<close>









lemma remembering_metrics [simp]:
  "remembering key x (on_webhook_metrics f d) \<longleftrightarrow> remembering key x d"
  by (simp add: remembering_def)

lemma same_setup_updates [simp]:
  "same_setup d0 (on_webhook_metrics f d) \<longleftrightarrow> same_setup d0 d"
  "same_setup d0 (d\<lparr>wd_cache := b\<rparr>) \<longleftrightarrow> same_setup d0 d"
  by (simp_all add: same_setup_def)

subsection \<open>The steps\<close>





subsection \<open>The invariant\<close>






section \<open>Deduplication of background dispatches\<close>




end
