(* ===== verification/Webhook_Letters.thy ===== *)
theory Webhook_Letters
  imports Webhook_Claims
begin

text \<open>
  Dead letters kept in the cache (\<open>src/src/webhook.rs\<close>): what a sequence of failed deliveries leaves
  behind and what \<open>dlq_depth\<close> and \<open>drain_dlq\<close> then answer. The cache keeps one key per URL, so it
  implements a box with one slot per URL.
\<close>

section \<open>One slot per URL\<close>


lemma dlq_key_inject [simp]: "dlq_key u = dlq_key v \<longleftrightarrow> u = v"
  by (simp add: dlq_key_def)






section \<open>Counting and draining\<close>




section \<open>Failed deliveries\<close>











end
