(* ===== verification/Redis_Tasks.thy ===== *)
theory Redis_Tasks
  imports Cache_Backend
begin

text \<open>
  Concurrent Redis commands (\<open>src/src/cache.rs\<close>, \<open>RedisCache::get_raw\<close>, \<open>set_raw\<close> and \<open>delete\<close>). The
  guards of one command release the breaker's lock before they take a permit, and the permit is
  held while others pass the guards. A call is a sequence of steps: breaker, permit, gauge,
  health check, command, report, return; the steps of any number of calls interleave. The
  health check keeps its lock across the ping and is one step.
\<close>

section \<open>Steps of a call\<close>

datatype 'a call_stage =
    Entering
  | Acquiring
  | Gauging
  | Pinging
  | Executing
  | Reporting "(string, 'a) result"
  | Leaving "(string, 'a) result"
  | Answered "(string, 'a) result"

type_synonym ('r, 'a) redis_command = "'r \<Rightarrow> (string + 'a) \<times> 'r"

fun call_step ::
    "'r redis_ops \<Rightarrow> clocks \<Rightarrow> ('r, 'a) redis_command \<Rightarrow> 'a call_stage \<Rightarrow> 'r RedisCache \<Rightarrow>
     'a call_stage \<times> 'r RedisCache" where
  "call_step R k cmd Entering c =
     (case should_allow (instant k) (circuit_breaker c) of
        (False, cb) \<Rightarrow>
          (Answered (Err ''Cache circuit breaker is open''),
           on_metrics increment_cache_circuit_rejection (c\<lparr>circuit_breaker := cb\<rparr>))
      | (True, cb) \<Rightarrow> (Acquiring, c\<lparr>circuit_breaker := cb\<rparr>))"
| "call_step R k cmd Acquiring c =
     (case bulkhead_try_acquire (bulkhead c) of
        None \<Rightarrow> (Answered (Err ''Cache bulkhead is full''), on_metrics increment_cache_bulkhead_rejection c)
      | Some b \<Rightarrow> (Gauging, c\<lparr>bulkhead := b\<rparr>))"
| "call_step R k cmd Gauging c =
     (Pinging, on_metrics (set_cache_bulkhead_active (int (active_count (bulkhead c)))) c)"
| "call_step R k cmd Pinging c =
     (case redis_check_connection R k c of
        (False, c) \<Rightarrow> (Reporting (Err ''Redis connection is unhealthy''), c)
      | (True, c) \<Rightarrow> (Executing, c))"
| "call_step R k cmd Executing c =
     (case cmd (connection c) of
        (Inr v, conn) \<Rightarrow> (Reporting (Ok v), c\<lparr>connection := conn\<rparr>)
      | (Inl e, conn) \<Rightarrow> (Reporting (Err e), c\<lparr>connection := conn\<rparr>))"
| "call_step R k cmd (Reporting r) c =
     (Leaving r, case r of Ok _ \<Rightarrow> redis_record_success k c | Err _ \<Rightarrow> redis_record_failure k c)"
| "call_step R k cmd (Leaving r) c = (Answered r, c\<lparr>bulkhead := bulkhead_release (bulkhead c)\<rparr>)"
| "call_step R k cmd (Answered r) c = (Answered r, c)"

text \<open>Without interference the steps make up the guarded command.\<close>

lemma record_keeps_connection [simp]:
  "bulkhead (on_metrics f c) = bulkhead c" "connection (on_metrics f c) = connection c"
  "circuit_breaker (on_metrics f c) = circuit_breaker c"
  "health_check_state (on_metrics f c) = health_check_state c"
  "bulkhead (redis_record_success k c) = bulkhead c" "bulkhead (redis_record_failure k c) = bulkhead c"
  by (simp_all add: on_metrics_def redis_record_success_def redis_record_failure_def take_last_transition_def
      Let_def split: option.split)

lemma call_alone:
  "((\<lambda>(st, c). call_step R k cmd st c) ^^ 7) (Entering, c) =
     (case guarded_command R k cmd c of (r, c') \<Rightarrow> (Answered r, c'))"
proof -
  let ?step = "\<lambda>(st, c). call_step R k cmd st c"
  have seven: "(?step ^^ 7) x = ?step (?step (?step (?step (?step (?step (?step x))))))" for x
    by (simp add: numeral_eq_Suc)
  obtain ok cb where allow: "should_allow (instant k) (circuit_breaker c) = (ok, cb)" by force
  show ?thesis
  proof (cases "ok \<and> permits (bulkhead c) \<noteq> 0")
    case False
    with allow show ?thesis
      unfolding seven by (cases ok) (simp_all add: guarded_command_def bulkhead_try_acquire_def Let_def)
  next
    case True
    let ?b = "(bulkhead c)\<lparr>permits := permits (bulkhead c) - 1\<rparr>"
    let ?c = "on_metrics (set_cache_bulkhead_active (int (active_count ?b))) (c\<lparr>circuit_breaker := cb, bulkhead := ?b\<rparr>)"
    obtain healthy c1 where ping: "redis_check_connection R k ?c = (healthy, c1)" by force
    obtain out conn where cmd: "cmd (connection c1) = (out, conn)" by force
    from True allow ping cmd show ?thesis
      unfolding seven
      by (cases healthy; cases out) (simp_all add: guarded_command_def bulkhead_try_acquire_def Let_def)
  qed
qed

section \<open>Many calls\<close>

type_synonym ('r, 'a) redis_calls = "(('r, 'a) redis_command \<times> 'a call_stage) list"

definition run_call ::
    "'r redis_ops \<Rightarrow> nat \<times> clocks \<Rightarrow> ('r, 'a) redis_calls \<times> 'r RedisCache \<Rightarrow> ('r, 'a) redis_calls \<times> 'r RedisCache" where
  "run_call R = (\<lambda>(i, k) (ts, c).
     if i < length ts then
       (case call_step R k (fst (ts ! i)) (snd (ts ! i)) c of (st, c) \<Rightarrow> (ts[i := (fst (ts ! i), st)], c))
     else (ts, c))"

definition run_calls ::
    "'r redis_ops \<Rightarrow> ('r, 'a) redis_command list \<Rightarrow> (nat \<times> clocks) list \<Rightarrow> 'r RedisCache \<Rightarrow>
     ('r, 'a) redis_calls \<times> 'r RedisCache" where
  "run_calls R cmds sched c = fold (run_call R) sched (map (\<lambda>cmd. (cmd, Entering)) cmds, c)"

fun holds_permit :: "'a call_stage \<Rightarrow> bool" where
  "holds_permit Entering = False"
| "holds_permit Acquiring = False"
| "holds_permit (Answered _) = False"
| "holds_permit _ = True"

fun has_answered :: "'a call_stage \<Rightarrow> bool" where
  "has_answered (Answered _) = True"
| "has_answered _ = False"

lemma answered_holds_none: "has_answered st \<Longrightarrow> \<not> holds_permit st"
  by (cases st) simp_all

text \<open>The stages a call reaches only after it set the gauge.\<close>

fun past_gauge :: "'a call_stage \<Rightarrow> bool" where
  "past_gauge Entering = False"
| "past_gauge Acquiring = False"
| "past_gauge Gauging = False"
| "past_gauge (Answered (Err _)) = False"
| "past_gauge _ = True"

definition permits_taken :: "('r, 'a) redis_calls \<Rightarrow> nat" where
  "permits_taken ts = length (filter (\<lambda>t. holds_permit (snd t)) ts)"

section \<open>Permits and the gauge\<close>

lemma permits_taken_update:
  assumes "i < length ts"
  shows "permits_taken (ts[i := (f, st)]) + (if holds_permit (snd (ts ! i)) then 1 else 0) =
    permits_taken ts + (if holds_permit st then 1 else 0)"
  using assms
proof (induction ts arbitrary: i)
  case (Cons t ts)
  then show ?case by (cases i) (auto simp: permits_taken_def)
qed simp

lemma permits_taken_pos: "i < length ts \<Longrightarrow> holds_permit (snd (ts ! i)) \<Longrightarrow> 0 < permits_taken ts"
  unfolding permits_taken_def length_greater_0_conv filter_empty_conv by (metis nth_mem)

text \<open>What a step does to the bulkhead: the limits stay, and the permits follow the stage.\<close>

lemma call_step_bulkhead:
  assumes "call_step R k cmd st c = (st', c')" and "holds_permit st \<Longrightarrow> permits (bulkhead c) < bh_max_concurrent (bulkhead c)"
  shows "bh_max_concurrent (bulkhead c') = bh_max_concurrent (bulkhead c) \<and> bh_max_queue (bulkhead c') = bh_max_queue (bulkhead c) \<and>
    permits (bulkhead c') + (if holds_permit st' then 1 else 0) = permits (bulkhead c) + (if holds_permit st then 1 else 0)"
  using assms
  by (cases st)
    (auto simp: bulkhead_try_acquire_def bulkhead_release_def redis_check_connection_def Let_def
      split: prod.splits bool.splits option.splits sum.splits result.splits if_splits)

lemma gauge_snoc [simp]:
  "gauge_value (m @ [SetGauge i x]) i = x"
  "j \<noteq> i \<Longrightarrow> gauge_value (m @ SetGauge j x # m') i = gauge_value (m @ m') i"
  "gauge_value (m @ Inc j ls # m') i = gauge_value (m @ m') i"
  by (simp_all add: gauge_value_def)

definition gauge_up :: "'r RedisCache \<Rightarrow> bool" where
  "gauge_up c \<longleftrightarrow> (case rc_metrics c of None \<Rightarrow> True | Some m \<Rightarrow> 1 \<le> gauge_value m CacheBulkheadActive)"

lemma call_step_gauge:
  assumes "call_step R k cmd st c = (st', c')" and "holds_permit st \<Longrightarrow> permits (bulkhead c) < bh_max_concurrent (bulkhead c)"
  shows "gauge_up c \<Longrightarrow> gauge_up c'" and "past_gauge st' \<Longrightarrow> (past_gauge st \<Longrightarrow> gauge_up c) \<Longrightarrow> gauge_up c'"
proof -
  show up: "gauge_up c'" if "gauge_up c" using assms that
    by (cases st)
      (auto simp: gauge_up_def on_metrics_def redis_check_connection_def redis_record_success_def active_count_def
        redis_record_failure_def Let_def increment_cache_circuit_rejection_def increment_cache_bulkhead_rejection_def
        set_cache_bulkhead_active_def set_cache_circuit_state_def record_cache_circuit_transition_def
        increment_cache_circuit_recovery_def
        split: prod.splits bool.splits option.splits sum.splits result.splits if_splits)
  assume past: "past_gauge st'" "past_gauge st \<Longrightarrow> gauge_up c"
  show "gauge_up c'"
  proof (cases "past_gauge st")
    case True
    with up past(2) show ?thesis by blast
  next
    case False
    with assms past(1) have "st = Gauging"
      by (cases st) (auto split: prod.splits bool.splits option.splits sum.splits result.splits)
    with assms show ?thesis
      by (auto simp: gauge_up_def on_metrics_def active_count_def set_cache_bulkhead_active_def split: option.split)
  qed
qed

section \<open>Any schedule\<close>

definition calls_inv :: "'r RedisCache \<Rightarrow> ('r, 'a) redis_calls \<times> 'r RedisCache \<Rightarrow> bool" where
  "calls_inv c0 = (\<lambda>(ts, c).
     bh_max_concurrent (bulkhead c) = bh_max_concurrent (bulkhead c0) \<and>
     bh_max_queue (bulkhead c) = bh_max_queue (bulkhead c0) \<and>
     permits_taken ts + permits (bulkhead c) = bh_max_concurrent (bulkhead c0) \<and>
     (list_ex (\<lambda>t. past_gauge (snd t)) ts \<longrightarrow> gauge_up c))"

lemma calls_inv_start:
  "permits (bulkhead c) = bh_max_concurrent (bulkhead c) \<Longrightarrow> calls_inv c (map (\<lambda>cmd. (cmd, Entering)) cmds, c)"
  by (auto simp: calls_inv_def permits_taken_def list_ex_iff)

lemma calls_inv_step:
  assumes "calls_inv c0 (ts, c)"
  shows "calls_inv c0 (run_call R (i, k) (ts, c))"
proof (cases "i < length ts")
  case False
  with assms show ?thesis by (simp add: run_call_def)
next
  case True
  obtain st' c' where step: "call_step R k (fst (ts ! i)) (snd (ts ! i)) c = (st', c')" by force
  have room: "permits (bulkhead c) < bh_max_concurrent (bulkhead c)" if "holds_permit (snd (ts ! i))"
    using permits_taken_pos [OF True that] assms by (simp add: calls_inv_def)
  note bulk = call_step_bulkhead [OF step room] and gauge = call_step_gauge [OF step room]
  let ?ts = "ts[i := (fst (ts ! i), st')]"
  have "permits_taken ?ts + permits (bulkhead c') = permits_taken ts + permits (bulkhead c)"
    using permits_taken_update [OF True, of "fst (ts ! i)" st'] bulk by (auto split: if_splits)
  moreover have "gauge_up c'" if "list_ex (\<lambda>t. past_gauge (snd t)) ?ts"
  proof -
    from that obtain t where t: "t \<in> set ?ts" "past_gauge (snd t)" by (auto simp: list_ex_iff)
    then have "t \<in> set ts \<or> t = (fst (ts ! i), st')" using set_update_subset_insert by fastforce
    then show ?thesis
    proof
      assume "t \<in> set ts"
      with t(2) assms gauge(1) show ?thesis by (auto simp: calls_inv_def list_ex_iff)
    next
      assume "t = (fst (ts ! i), st')"
      with t(2) assms gauge(2) nth_mem [OF True] show ?thesis by (auto simp: calls_inv_def list_ex_iff)
    qed
  qed
  moreover have "run_call R (i, k) (ts, c) = (?ts, c')" using True step by (simp add: run_call_def)
  ultimately show ?thesis using assms bulk by (simp add: calls_inv_def)
qed

lemma calls_inv_run:
  "calls_inv c0 s \<Longrightarrow> calls_inv c0 (fold (run_call R) sched s)"
proof (induction sched arbitrary: s)
  case (Cons x sched)
  from calls_inv_step [of c0 "fst s" "snd s" R "fst x" "snd x"] Cons.prems
  have "calls_inv c0 (run_call R x s)" by simp
  from Cons.IH [OF this] show ?case by simp
qed simp

section \<open>Reaching the limit\<close>

text \<open>The breaker lets a call pass, the connection is taken for healthy, and Redis answers pings.\<close>

definition lets_pass :: "'r redis_ops \<Rightarrow> clocks \<Rightarrow> 'r RedisCache \<Rightarrow> bool" where
  "lets_pass R k c \<longleftrightarrow>
     fst (should_allow (instant k) (circuit_breaker c)) \<and> 0 < half_open_max_calls (circuit_breaker c) \<and>
     (is_healthy (health_check_state c) \<or> should_check (system k) (health_check_state c)) \<and>
     (\<forall>r. fst (redis_ping R r))"

lemma allow_again:
  assumes "should_allow t cb = (True, cb')" and "0 < half_open_max_calls cb"
  shows "should_allow t cb' = (True, cb')" and "half_open_max_calls cb' = half_open_max_calls cb"
  using assms by (auto simp: should_allow_def transition_to_def Let_def
      split: CircuitState.splits option.splits if_splits)

lemma check_passes:
  assumes "is_healthy (health_check_state c) \<or> should_check (system k) (health_check_state c)"
    and "redis_ping R (connection c) = (True, r)"
  shows "\<exists>c'. redis_check_connection R k c = (True, c') \<and> circuit_breaker c' = circuit_breaker c \<and>
    bulkhead c' = bulkhead c \<and>
    (is_healthy (health_check_state c') \<or> should_check (system k) (health_check_state c'))"
  using assms
  by (cases "should_check (system k) (health_check_state c)")
    (simp_all add: redis_check_connection_def health_success_def Let_def)

lemma four_steps:
  assumes "lets_pass R k c" and "permits (bulkhead c) \<noteq> 0"
  shows "\<exists>c'. ((\<lambda>(st, c). call_step R k cmd st c) ^^ 4) (Entering, c) = (Executing, c') \<and> lets_pass R k c' \<and>
    permits (bulkhead c') = permits (bulkhead c) - 1"
proof -
  obtain cb where allow: "should_allow (instant k) (circuit_breaker c) = (True, cb)"
    "should_allow (instant k) cb = (True, cb)" "0 < half_open_max_calls cb"
    using assms(1) allow_again [of "instant k" "circuit_breaker c"]
    by (cases "should_allow (instant k) (circuit_breaker c)") (auto simp: lets_pass_def)
  let ?b = "(bulkhead c)\<lparr>permits := permits (bulkhead c) - 1\<rparr>"
  let ?c = "on_metrics (set_cache_bulkhead_active (int (active_count ?b))) (c\<lparr>circuit_breaker := cb, bulkhead := ?b\<rparr>)"
  obtain r where "redis_ping R (connection c) = (True, r)"
    using assms(1) by (metis lets_pass_def prod.collapse)
  then obtain c' where "redis_check_connection R k ?c = (True, c')" "circuit_breaker c' = cb" "bulkhead c' = ?b"
    "is_healthy (health_check_state c') \<or> should_check (system k) (health_check_state c')"
    using check_passes [of ?c k R r] assms(1) by (auto simp: lets_pass_def)
  with allow assms show ?thesis
    by (intro exI [of _ c']) (simp add: numeral_eq_Suc bulkhead_try_acquire_def lets_pass_def)
qed

lemma run_one:
  assumes "i < length ts"
  shows "fold (run_call R) (replicate n (i, k)) (ts, c) =
    (case ((\<lambda>(st, c). call_step R k (fst (ts ! i)) st c) ^^ n) (snd (ts ! i), c) of
       (st, c') \<Rightarrow> (ts[i := (fst (ts ! i), st)], c'))"
  using assms
proof (induction n arbitrary: ts c)
  case (Suc n)
  obtain st c1 where "call_step R k (fst (ts ! i)) (snd (ts ! i)) c = (st, c1)" by force
  with Suc show ?case by (simp add: run_call_def funpow_Suc_right del: funpow.simps)
qed simp

lemma all_executing:
  assumes "lets_pass R k c" and "length cmds \<le> permits (bulkhead c)"
  shows "\<exists>sched c'. fold (run_call R) sched (pre @ map (\<lambda>cmd. (cmd, Entering)) cmds, c) =
    (pre @ map (\<lambda>cmd. (cmd, Executing)) cmds, c')"
  using assms
proof (induction cmds arbitrary: pre c)
  case Nil
  show ?case by (intro exI [of _ "[]"]) simp
next
  case (Cons cmd cmds)
  then obtain c1 where c1: "((\<lambda>(st, c). call_step R k cmd st c) ^^ 4) (Entering, c) = (Executing, c1)"
    "lets_pass R k c1" "permits (bulkhead c1) = permits (bulkhead c) - 1"
    using four_steps [of R k c cmd] by auto
  have "length cmds \<le> permits (bulkhead c1)" using Cons.prems(2) c1(3) by simp
  from Cons.IH [OF c1(2) this, of "pre @ [(cmd, Executing)]"] obtain sched c' where
    "fold (run_call R) sched ((pre @ [(cmd, Executing)]) @ map (\<lambda>cmd. (cmd, Entering)) cmds, c1) =
      ((pre @ [(cmd, Executing)]) @ map (\<lambda>cmd. (cmd, Executing)) cmds, c')" by blast
  moreover have "fold (run_call R) (replicate 4 (length pre, k)) (pre @ map (\<lambda>cmd. (cmd, Entering)) (cmd # cmds), c) =
      ((pre @ [(cmd, Executing)]) @ map (\<lambda>cmd. (cmd, Entering)) cmds, c1)"
    using c1(1) by (subst run_one) simp_all
  ultimately show ?case
    by (intro exI [of _ "replicate 4 (length pre, k) @ sched"] exI [of _ c']) simp
qed

section \<open>The limit on Redis commands\<close>

text \<open>A Redis that answers, behind a half-open breaker with one probe to let pass.\<close>

definition answering_ops :: "unit redis_ops" where
  "answering_ops =
     \<lparr>redis_ping = (\<lambda>r. (True, r)), redis_get = (\<lambda>_ r. (Inr None, r)),
      redis_set_ex = (\<lambda>_ _ _ r. (Inr (), r)), redis_del = (\<lambda>_ r. (Inr (), r))\<rparr>"

definition half_open_cache :: "unit RedisCache" where
  "half_open_cache =
     (RedisCache_new ())\<lparr>circuit_breaker := (CacheCircuitBreaker_new CacheCircuitBreakerConfig_default)\<lparr>cb_state := HalfOpen\<rparr>\<rparr>"

text \<open>C30: concurrent Redis commands on an idle cache, under any schedule of their steps. The calls
  between taking a permit and returning it are as many as there are permits missing, so never
  more than \<open>max_concurrent\<close>, and when all calls have returned all permits are back. Nothing else
  limits them: as long as the breaker lets calls pass, also when it is half-open and meant to
  let few of them probe, that many calls can be executing at once. The gauge of active calls
  is set on the way in only: after a command that succeeded it never shows zero again.\<close>

theorem bulkhead_is_the_limit:
  assumes "permits (bulkhead c) = bh_max_concurrent (bulkhead c)"
    and "run_calls R cmds sched c = (ts, c')"
  shows "permits_taken ts + permits (bulkhead c') = bh_max_concurrent (bulkhead c) \<and>
    (list_all (\<lambda>t. has_answered (snd t)) ts \<longrightarrow> bulkhead c' = bulkhead c) \<and>
    (\<forall>cmd v m. (cmd, Answered (Ok v)) \<in> set ts \<and> rc_metrics c' = Some m \<longrightarrow>
       1 \<le> gauge_value m CacheBulkheadActive) \<and>
    (lets_pass R k c \<and> length cmds \<le> bh_max_concurrent (bulkhead c) \<longrightarrow>
       (\<exists>sched'. map snd (fst (run_calls R cmds sched' c)) = replicate (length cmds) Executing))"
proof (intro conjI impI allI)
  have inv: "calls_inv c (ts, c')"
    using calls_inv_run [OF calls_inv_start [OF assms(1)], of R sched cmds] assms(2) by (simp add: run_calls_def)
  then show "permits_taken ts + permits (bulkhead c') = bh_max_concurrent (bulkhead c)"
    by (simp add: calls_inv_def)
  show "bulkhead c' = bulkhead c" if "list_all (\<lambda>t. has_answered (snd t)) ts"
  proof -
    from that have "permits_taken ts = 0"
      by (auto simp: permits_taken_def list_all_iff filter_empty_conv dest: answered_holds_none)
    with inv assms(1) show ?thesis by (simp add: calls_inv_def)
  qed
  show "1 \<le> gauge_value m CacheBulkheadActive" if "(cmd, Answered (Ok v)) \<in> set ts \<and> rc_metrics c' = Some m" for cmd v m
    using inv that by (force simp: calls_inv_def list_ex_iff gauge_up_def)
  show "\<exists>sched'. map snd (fst (run_calls R cmds sched' c)) = replicate (length cmds) Executing"
    if "lets_pass R k c \<and> length cmds \<le> bh_max_concurrent (bulkhead c)"
  proof -
    from that assms(1) all_executing [of R k c cmds "[]"] obtain sched' c1 where
      "fold (run_call R) sched' (map (\<lambda>cmd. (cmd, Entering)) cmds, c) = (map (\<lambda>cmd. (cmd, Executing)) cmds, c1)"
      by auto
    then show ?thesis by (intro exI [of _ sched']) (simp add: run_calls_def comp_def map_replicate_const)
  qed
qed

theorem bulkhead_is_the_limit_witness:
  "cb_state (circuit_breaker half_open_cache) = HalfOpen \<and> half_open_max_calls (circuit_breaker half_open_cache) = 1 \<and>
   (\<exists>sched. map snd (fst (run_calls answering_ops [redis_get answering_ops ''a'', redis_get answering_ops ''b''] sched
      half_open_cache)) = [Executing, Executing])"
proof -
  note defs = half_open_cache_def RedisCache_new_def RedisCache_with_config_def CacheCircuitBreaker_new_def
    CacheCircuitBreakerConfig_default_def CacheBulkhead_new_def CacheBulkheadConfig_default_def HealthCheckState_new_def
  let ?k = "\<lparr>instant = 0, system = 0, unix_secs = 0\<rparr>"
  have idle: "permits (bulkhead half_open_cache) = bh_max_concurrent (bulkhead half_open_cache)"
    and room: "length [redis_get answering_ops ''a'', redis_get answering_ops ''b''] \<le> bh_max_concurrent (bulkhead half_open_cache)"
    and pass: "lets_pass answering_ops ?k half_open_cache"
    by (simp_all add: defs lets_pass_def should_allow_def answering_ops_def)
  have start: "run_calls answering_ops [redis_get answering_ops ''a'', redis_get answering_ops ''b''] [] half_open_cache =
      ([(redis_get answering_ops ''a'', Entering), (redis_get answering_ops ''b'', Entering)], half_open_cache)"
    by (simp add: run_calls_def)
  from bulkhead_is_the_limit [OF idle start, of ?k] pass room
  have "\<exists>sched. map snd (fst (run_calls answering_ops [redis_get answering_ops ''a'', redis_get answering_ops ''b''] sched
      half_open_cache)) = [Executing, Executing]" by simp
  then show ?thesis by (simp add: defs)
qed

end
