(* ===== verification/Stellar_Breaker.thy ===== *)
theory Stellar_Breaker
  imports Prelude
begin

text \<open>
  The errors and the circuit breaker of the Horizon client (\<open>src/src/stellar.rs\<close>). The breaker's
  atomics are \<open>u64\<close> (\<open>usize\<close>) fields and its semaphore the number of free permits; durations and
  instants are nanoseconds. The functions \<open>allow_call\<close>, \<open>horizon_success\<close> and \<open>horizon_failure\<close> are
  the source's run from start to end without interference. The source holds no lock across
  them, so they can also interleave inside: that is \<open>Stellar_Atomic\<close>.
\<close>

section \<open>Constants and configuration\<close>

definition DEFAULT_FAILURE_THRESHOLD :: u32 where
  "DEFAULT_FAILURE_THRESHOLD = 5"

definition DEFAULT_OPEN_DURATION_MS :: u64 where
  "DEFAULT_OPEN_DURATION_MS = 30000"

definition DEFAULT_HALF_OPEN_MAX_CALLS :: u32 where
  "DEFAULT_HALF_OPEN_MAX_CALLS = 1"

definition from_millis :: "u64 \<Rightarrow> nat" where
  "from_millis ms = unat ms * 1000000"

record CircuitBreakerConfig =
  bc_failure_threshold :: u32
  bc_open_duration :: nat
  bc_half_open_max_calls :: u32

definition CircuitBreakerConfig_default :: CircuitBreakerConfig where
  "CircuitBreakerConfig_default =
     \<lparr>bc_failure_threshold = DEFAULT_FAILURE_THRESHOLD, bc_open_duration = from_millis DEFAULT_OPEN_DURATION_MS,
      bc_half_open_max_calls = DEFAULT_HALF_OPEN_MAX_CALLS\<rparr>"

datatype HorizonState = HorizonClosed | HorizonOpen | HorizonHalfOpen

text \<open>The discriminants, as the atomic stores them.\<close>

fun as_usize :: "HorizonState \<Rightarrow> u64" where
  "as_usize HorizonClosed = 0"
| "as_usize HorizonOpen = 1"
| "as_usize HorizonHalfOpen = 2"

fun horizon_state_str :: "HorizonState \<Rightarrow> string" where
  "horizon_state_str HorizonClosed = ''closed''"
| "horizon_state_str HorizonOpen = ''open''"
| "horizon_state_str HorizonHalfOpen = ''half-open''"

record CircuitBreakerMetrics =
  trips :: u64
  recoveries :: u64
  half_open_success_count :: u64
  half_open_failure_count :: u64
  rejected_calls :: u64
  successful_calls :: u64
  failed_calls :: u64
  timeout_calls :: u64
  retryable_http_calls :: u64
  failures_seen :: u32
  in_flight :: u32

definition CircuitBreakerMetrics_default :: CircuitBreakerMetrics where
  "CircuitBreakerMetrics_default =
     \<lparr>trips = 0, recoveries = 0, half_open_success_count = 0, half_open_failure_count = 0, rejected_calls = 0,
      successful_calls = 0, failed_calls = 0, timeout_calls = 0, retryable_http_calls = 0, failures_seen = 0,
      in_flight = 0\<rparr>"

section \<open>Errors\<close>

datatype StellarError =
    CircuitOpen HorizonState nat
  | Request string string
  | Timeout string nat
  | RetryableHttpStatus u16 string string
  | NonRetryableHttpStatus u16 string string
  | ResponseParse string string string
  | VerificationNotFound string
  | RetryExhausted string u32 u32 StellarError

fun is_retryable :: "StellarError \<Rightarrow> bool" where
  "is_retryable (CircuitOpen _ _) = True"
| "is_retryable (Request _ _) = True"
| "is_retryable (Timeout _ _) = True"
| "is_retryable (RetryableHttpStatus _ _ _) = True"
| "is_retryable (ResponseParse _ _ _) = True"
| "is_retryable (RetryExhausted _ _ _ final_error) = is_retryable final_error"
| "is_retryable (NonRetryableHttpStatus _ _ _) = False"
| "is_retryable (VerificationNotFound _) = False"

fun affects_circuit_breaker :: "StellarError \<Rightarrow> bool" where
  "affects_circuit_breaker (RetryExhausted _ _ _ final_error) = affects_circuit_breaker final_error"
| "affects_circuit_breaker (Request _ _) = True"
| "affects_circuit_breaker (Timeout _ _) = True"
| "affects_circuit_breaker (RetryableHttpStatus _ _ _) = True"
| "affects_circuit_breaker _ = False"

section \<open>The breaker\<close>

record CircuitBreaker =
  br_config :: CircuitBreakerConfig
  br_state :: u64
  br_opened_at :: "nat option"
  br_consecutive_failures :: u64
  br_half_open_in_flight :: u64
  br_half_open_successes :: u64
  br_half_open_permits :: nat
  br_metrics :: CircuitBreakerMetrics

definition CircuitBreaker_new :: "CircuitBreakerConfig \<Rightarrow> CircuitBreaker" where
  "CircuitBreaker_new config =
     \<lparr>br_config = config, br_state = as_usize HorizonClosed, br_opened_at = None, br_consecutive_failures = 0,
      br_half_open_in_flight = 0, br_half_open_successes = 0,
      br_half_open_permits = unat (max (bc_half_open_max_calls config) 1),
      br_metrics = CircuitBreakerMetrics_default\<rparr>"

definition breaker_state :: "CircuitBreaker \<Rightarrow> HorizonState" where
  "breaker_state b =
     (if br_state b = 0 then HorizonClosed
      else if br_state b = 1 then HorizonOpen
      else if br_state b = 2 then HorizonHalfOpen
      else HorizonClosed)"

definition breaker_metrics :: "CircuitBreaker \<Rightarrow> CircuitBreakerMetrics" where
  "breaker_metrics b = br_metrics b"

definition increment_trips :: "CircuitBreaker \<Rightarrow> CircuitBreaker" where
  "increment_trips b = b\<lparr>br_metrics := (br_metrics b)\<lparr>trips := sat_add (trips (br_metrics b)) 1\<rparr>\<rparr>"

definition increment_recoveries :: "CircuitBreaker \<Rightarrow> CircuitBreaker" where
  "increment_recoveries b =
     b\<lparr>br_metrics := (br_metrics b)\<lparr>recoveries := sat_add (recoveries (br_metrics b)) 1\<rparr>\<rparr>"

definition increment_rejected_calls :: "CircuitBreaker \<Rightarrow> CircuitBreaker" where
  "increment_rejected_calls b =
     b\<lparr>br_metrics := (br_metrics b)\<lparr>rejected_calls := sat_add (rejected_calls (br_metrics b)) 1\<rparr>\<rparr>"

definition increment_successful_calls :: "CircuitBreaker \<Rightarrow> CircuitBreaker" where
  "increment_successful_calls b =
     b\<lparr>br_metrics := (br_metrics b)\<lparr>successful_calls := sat_add (successful_calls (br_metrics b)) 1\<rparr>\<rparr>"

definition increment_failed_calls :: "CircuitBreaker \<Rightarrow> CircuitBreaker" where
  "increment_failed_calls b =
     b\<lparr>br_metrics := (br_metrics b)\<lparr>failed_calls := sat_add (failed_calls (br_metrics b)) 1\<rparr>\<rparr>"

definition increment_timeout_calls :: "CircuitBreaker \<Rightarrow> CircuitBreaker" where
  "increment_timeout_calls b =
     b\<lparr>br_metrics := (br_metrics b)\<lparr>timeout_calls := sat_add (timeout_calls (br_metrics b)) 1\<rparr>\<rparr>"

definition increment_retryable_http_calls :: "CircuitBreaker \<Rightarrow> CircuitBreaker" where
  "increment_retryable_http_calls b =
     b\<lparr>br_metrics := (br_metrics b)\<lparr>retryable_http_calls := sat_add (retryable_http_calls (br_metrics b)) 1\<rparr>\<rparr>"

definition increment_half_open_successes :: "CircuitBreaker \<Rightarrow> CircuitBreaker" where
  "increment_half_open_successes b =
     b\<lparr>br_metrics := (br_metrics b)\<lparr>half_open_success_count := sat_add (half_open_success_count (br_metrics b)) 1\<rparr>\<rparr>"

definition increment_half_open_failures :: "CircuitBreaker \<Rightarrow> CircuitBreaker" where
  "increment_half_open_failures b =
     b\<lparr>br_metrics := (br_metrics b)\<lparr>half_open_failure_count := sat_add (half_open_failure_count (br_metrics b)) 1\<rparr>\<rparr>"

lemmas breaker_metric_defs =
  increment_trips_def increment_recoveries_def increment_rejected_calls_def increment_successful_calls_def
  increment_failed_calls_def increment_timeout_calls_def increment_retryable_http_calls_def
  increment_half_open_successes_def increment_half_open_failures_def

section \<open>Calls\<close>

text \<open>
  Without interference the exchange succeeds at once. The permit taken in the half-open branch
  is dropped when \<open>allow_call\<close> returns, so the number of free permits is the same afterwards;
  while another thread is between the two, it is one less (\<open>Stellar_Atomic\<close>).
\<close>

definition enter_half_open :: "CircuitBreaker \<Rightarrow> CircuitBreaker" where
  "enter_half_open b =
     b\<lparr>br_state := as_usize HorizonHalfOpen, br_half_open_in_flight := 0, br_half_open_successes := 0\<rparr>"

definition allow_call :: "nat \<Rightarrow> CircuitBreaker \<Rightarrow> (StellarError, unit) result \<times> CircuitBreaker" where
  "allow_call t b =
     (if br_state b = as_usize HorizonClosed then (Ok (), b)
      else if br_state b = as_usize HorizonOpen then
        (case br_opened_at b of
           Some opened \<Rightarrow>
             let elapsed = t - opened in
             if elapsed \<ge> bc_open_duration (br_config b) then (Ok (), enter_half_open b)
             else
               (Err (CircuitOpen HorizonOpen (bc_open_duration (br_config b) - elapsed)), increment_rejected_calls b)
         | None \<Rightarrow> (Ok (), enter_half_open b))
      else if br_state b = as_usize HorizonHalfOpen then
        (if br_half_open_permits b = 0 then
           (Err (CircuitOpen HorizonHalfOpen 0), increment_rejected_calls b)
         else (Ok (), b\<lparr>br_half_open_in_flight := br_half_open_in_flight b + 1\<rparr>))
      else (Ok (), b))"

definition horizon_success :: "CircuitBreaker \<Rightarrow> CircuitBreaker" where
  "horizon_success b =
     (if br_state b = as_usize HorizonClosed then increment_successful_calls (b\<lparr>br_consecutive_failures := 0\<rparr>)
      else if br_state b = as_usize HorizonHalfOpen then
        let successes = br_half_open_successes b + 1;
            should_close = successes \<ge> ucast (max (bc_half_open_max_calls (br_config b)) 1);
            b = b\<lparr>br_half_open_in_flight := br_half_open_in_flight b - 1, br_half_open_successes := successes\<rparr>;
            b = increment_half_open_successes (increment_successful_calls b)
        in if should_close then
             increment_recoveries
               (b\<lparr>br_state := as_usize HorizonClosed, br_opened_at := None, br_consecutive_failures := 0\<rparr>)
           else b
      else b)"

definition count_error_kind :: "StellarError \<Rightarrow> CircuitBreaker \<Rightarrow> CircuitBreaker" where
  "count_error_kind err b =
     (case err of
        Timeout _ _ \<Rightarrow> increment_timeout_calls b
      | RetryableHttpStatus _ _ _ \<Rightarrow> increment_retryable_http_calls b
      | _ \<Rightarrow> b)"

definition horizon_failure :: "nat \<Rightarrow> StellarError \<Rightarrow> CircuitBreaker \<Rightarrow> CircuitBreaker" where
  "horizon_failure t err b =
     (if br_state b = as_usize HorizonClosed then
        let failures = br_consecutive_failures b + 1;
            b = b\<lparr>br_consecutive_failures := failures\<rparr>;
            b = increment_failed_calls (count_error_kind err b)
        in if failures \<ge> ucast (max (bc_failure_threshold (br_config b)) 1) then
             increment_trips (b\<lparr>br_state := as_usize HorizonOpen, br_opened_at := Some t\<rparr>)
           else b
      else if br_state b = as_usize HorizonHalfOpen then
        increment_half_open_failures (increment_failed_calls (increment_trips
          (b\<lparr>br_half_open_in_flight := br_half_open_in_flight b - 1, br_state := as_usize HorizonOpen,
             br_opened_at := Some t\<rparr>)))
      else b)"

definition record_result :: "nat \<Rightarrow> (StellarError, 'a) result \<Rightarrow> CircuitBreaker \<Rightarrow> CircuitBreaker" where
  "record_result t r b =
     (case r of
        Ok _ \<Rightarrow> horizon_success b
      | Err err \<Rightarrow> if affects_circuit_breaker err then horizon_failure t err b else b)"

section \<open>Runs\<close>

text \<open>
  Many tasks share the breaker: between the admission of a call and the report of its result
  other calls are admitted and reported, in any order. Here each of these functions runs to
  its end before the next begins.
\<close>

datatype breaker_op = Ask nat | Report nat "(StellarError, unit) result"

fun breaker_do :: "breaker_op \<Rightarrow> CircuitBreaker \<Rightarrow> (StellarError, unit) result option \<times> CircuitBreaker" where
  "breaker_do (Ask t) b = (let (r, b') = allow_call t b in (Some r, b'))"
| "breaker_do (Report t r) b = (None, record_result t r b)"

fun breaker_run ::
  "breaker_op list \<Rightarrow> CircuitBreaker \<Rightarrow> (StellarError, unit) result option list \<times> CircuitBreaker" where
  "breaker_run [] b = ([], b)"
| "breaker_run (x # xs) b =
     (let (r, b1) = breaker_do x b; (rs, b2) = breaker_run xs b1 in (r # rs, b2))"

end
