(* ===== verification/App_Config.thy ===== *)
theory App_Config
  imports Rust_Text Metrics
begin

text \<open>
  The configuration (\<open>src/src/config.rs\<close>): the settings are read from environment variables, each
  check adds its message to one list of errors, and the configuration is built when the list
  is empty. Every binding of \<open>from_env_with_metrics\<close> is a definition that answers the value and
  the messages it adds. The environment, the URL parser of the \<open>url\<close> crate, the key parser of
  \<open>stellar_strkey\<close> and the Unicode tables are parameters.
\<close>

section \<open>Constants\<close>

definition DEFAULT_STELLAR_RETRY_BASE_DELAY_MS :: u64 where
  "DEFAULT_STELLAR_RETRY_BASE_DELAY_MS = 100"

definition DEFAULT_STELLAR_RETRY_MAX_DELAY_MS :: u64 where
  "DEFAULT_STELLAR_RETRY_MAX_DELAY_MS = 10000"

definition DEFAULT_STELLAR_REQUEST_TIMEOUT_MS :: u64 where
  "DEFAULT_STELLAR_REQUEST_TIMEOUT_MS = 10000"

definition DEFAULT_STELLAR_CIRCUIT_BREAKER_FAILURE_THRESHOLD :: u32 where
  "DEFAULT_STELLAR_CIRCUIT_BREAKER_FAILURE_THRESHOLD = 5"

definition DEFAULT_STELLAR_CIRCUIT_BREAKER_OPEN_DURATION_MS :: u64 where
  "DEFAULT_STELLAR_CIRCUIT_BREAKER_OPEN_DURATION_MS = 30000"

definition DEFAULT_STELLAR_CIRCUIT_BREAKER_HALF_OPEN_MAX_CALLS :: u32 where
  "DEFAULT_STELLAR_CIRCUIT_BREAKER_HALF_OPEN_MAX_CALLS = 1"

definition DEFAULT_STELLAR_RETRY_JITTER_TYPE :: string where
  "DEFAULT_STELLAR_RETRY_JITTER_TYPE = ''full''"

definition DEFAULT_STELLAR_BULKHEAD_MAX_CONCURRENT :: u32 where
  "DEFAULT_STELLAR_BULKHEAD_MAX_CONCURRENT = 10"

definition DEFAULT_STELLAR_BULKHEAD_MAX_QUEUE :: u32 where
  "DEFAULT_STELLAR_BULKHEAD_MAX_QUEUE = 100"

definition DEFAULT_CACHE_CIRCUIT_BREAKER_FAILURE_THRESHOLD :: u32 where
  "DEFAULT_CACHE_CIRCUIT_BREAKER_FAILURE_THRESHOLD = 5"

definition DEFAULT_CACHE_CIRCUIT_BREAKER_OPEN_DURATION_MS :: u64 where
  "DEFAULT_CACHE_CIRCUIT_BREAKER_OPEN_DURATION_MS = 30000"

definition DEFAULT_CACHE_CIRCUIT_BREAKER_HALF_OPEN_MAX_CALLS :: u32 where
  "DEFAULT_CACHE_CIRCUIT_BREAKER_HALF_OPEN_MAX_CALLS = 1"

definition DEFAULT_CACHE_CIRCUIT_BREAKER_BACKOFF_BASE_MS :: u64 where
  "DEFAULT_CACHE_CIRCUIT_BREAKER_BACKOFF_BASE_MS = 100"

definition DEFAULT_CACHE_CIRCUIT_BREAKER_BACKOFF_MAX_MS :: u64 where
  "DEFAULT_CACHE_CIRCUIT_BREAKER_BACKOFF_MAX_MS = 30000"

definition DEFAULT_CACHE_BULKHEAD_MAX_CONCURRENT :: u32 where
  "DEFAULT_CACHE_BULKHEAD_MAX_CONCURRENT = 20"

definition DEFAULT_CACHE_BULKHEAD_MAX_QUEUE :: u32 where
  "DEFAULT_CACHE_BULKHEAD_MAX_QUEUE = 200"

definition CONFIG_VERSION :: u32 where
  "CONFIG_VERSION = 1"

definition PORT_MIN :: u16 where
  "PORT_MIN = 1"

definition PORT_MAX :: u16 where
  "PORT_MAX = 65535"

definition MIN_TIMEOUT_MS :: u64 where
  "MIN_TIMEOUT_MS = 1"

definition MAX_TIMEOUT_MS :: u64 where
  "MAX_TIMEOUT_MS = 300000"

definition MIN_BURST :: u32 where
  "MIN_BURST = 1"

lemmas config_constants =
  DEFAULT_STELLAR_RETRY_BASE_DELAY_MS_def DEFAULT_STELLAR_RETRY_MAX_DELAY_MS_def
  DEFAULT_STELLAR_REQUEST_TIMEOUT_MS_def DEFAULT_STELLAR_CIRCUIT_BREAKER_FAILURE_THRESHOLD_def
  DEFAULT_STELLAR_CIRCUIT_BREAKER_OPEN_DURATION_MS_def DEFAULT_STELLAR_CIRCUIT_BREAKER_HALF_OPEN_MAX_CALLS_def
  DEFAULT_STELLAR_RETRY_JITTER_TYPE_def DEFAULT_STELLAR_BULKHEAD_MAX_CONCURRENT_def
  DEFAULT_STELLAR_BULKHEAD_MAX_QUEUE_def DEFAULT_CACHE_CIRCUIT_BREAKER_FAILURE_THRESHOLD_def
  DEFAULT_CACHE_CIRCUIT_BREAKER_OPEN_DURATION_MS_def DEFAULT_CACHE_CIRCUIT_BREAKER_HALF_OPEN_MAX_CALLS_def
  DEFAULT_CACHE_CIRCUIT_BREAKER_BACKOFF_BASE_MS_def DEFAULT_CACHE_CIRCUIT_BREAKER_BACKOFF_MAX_MS_def
  DEFAULT_CACHE_BULKHEAD_MAX_CONCURRENT_def DEFAULT_CACHE_BULKHEAD_MAX_QUEUE_def
  CONFIG_VERSION_def PORT_MIN_def
  PORT_MAX_def MIN_TIMEOUT_MS_def
  MAX_TIMEOUT_MS_def MIN_BURST_def

section \<open>Errors and parameters\<close>

datatype ConfigError = Validation string

text \<open>The \<open>Display\<close> of an error.\<close>

fun config_error_string :: "ConfigError \<Rightarrow> string" where
  "config_error_string (Validation s) = ''configuration validation failed:'' @ [CHR 0x0A] @ s"

record 'u config_env =
  env_var :: "string \<Rightarrow> string option"
  parse_url :: "string \<Rightarrow> 'u option"
  url_scheme :: "'u \<Rightarrow> string"
  private_key_ok :: "string \<Rightarrow> bool"
  unicode :: case_table

definition quoted :: "string \<Rightarrow> string" where
  "quoted s = [CHR 0x27] @ s @ [CHR 0x27]"

section \<open>Validated types\<close>

definition ValidatedUrl_parse :: "'u config_env \<Rightarrow> string \<Rightarrow> (ConfigError, 'u) result" where
  "ValidatedUrl_parse P input =
     (case parse_url P input of
        None \<Rightarrow> Err (Validation (''invalid URL: '' @ quoted input))
      | Some u \<Rightarrow>
          if url_scheme P u \<noteq> ''http'' \<and> url_scheme P u \<noteq> ''https'' then
            Err (Validation (''URL must use http or https scheme, got '' @ quoted (url_scheme P u) @ '' in '' @
                   quoted input))
          else Ok u)"

definition ValidatedRedisUrl_parse :: "'u config_env \<Rightarrow> string \<Rightarrow> (ConfigError, 'u) result" where
  "ValidatedRedisUrl_parse P input =
     (case parse_url P input of
        None \<Rightarrow> Err (Validation (''invalid Redis URL: '' @ quoted input))
      | Some u \<Rightarrow>
          if url_scheme P u \<noteq> ''redis'' \<and> url_scheme P u \<noteq> ''rediss'' then
            Err (Validation (''REDIS_URL must use redis:// or rediss:// scheme, got '' @ quoted (url_scheme P u)))
          else Ok u)"

definition ValidatedPort_new :: "u16 \<Rightarrow> (ConfigError, u16) result" where
  "ValidatedPort_new p =
     (if p < PORT_MIN then
        Err (Validation (''port '' @ dec (unat p) @ '' is below minimum '' @ dec (unat PORT_MIN)))
      else if p > PORT_MAX then
        Err (Validation (''port '' @ dec (unat p) @ '' exceeds maximum '' @ dec (unat PORT_MAX)))
      else Ok p)"

section \<open>Versions\<close>

definition ConfigVersion_new :: "u32 \<Rightarrow> (ConfigError, u32) result" where
  "ConfigVersion_new version =
     (if version = 0 then Err (Validation ''config version must be >= 1'')
      else if version > CONFIG_VERSION then
        Err (Validation (''config version '' @ dec (unat version) @ '' exceeds current schema version '' @
               dec (unat CONFIG_VERSION)))
      else Ok version)"

definition ConfigVersion_current :: u32 where
  "ConfigVersion_current = CONFIG_VERSION"

section \<open>The configuration\<close>

record AppConfig =
  port :: u16
  stellar_horizon_url :: string
  stellar_secret_key :: "string option"
  redis_url :: string
  rate_limit_per_second :: u32
  rate_limit_burst :: u32
  per_issuer_rate_limit_per_second :: u32
  per_issuer_rate_limit_burst :: u32
  issuer_rate_limit_ttl_seconds :: u64
  per_issuer_rate_limit_jitter_seconds :: u64
  stellar_max_retries :: u32
  stellar_retry_base_delay_ms :: u64
  stellar_retry_max_delay_ms :: u64
  stellar_retry_jitter_enabled :: bool
  stellar_request_timeout_ms :: u64
  stellar_circuit_breaker_failure_threshold :: u32
  stellar_circuit_breaker_open_duration_ms :: u64
  stellar_circuit_breaker_half_open_max_calls :: u32
  stellar_retry_jitter_type :: string
  stellar_bulkhead_max_concurrent :: u32
  stellar_bulkhead_max_queue :: u32
  log_level :: string
  webhook_urls :: "string list"
  webhook_secret :: "string option"
  webhook_max_retries :: u32
  webhook_retry_base_delay_ms :: u64
  webhook_retry_max_delay_ms :: u64
  webhook_request_timeout_ms :: u64
  webhook_jitter_enabled :: bool
  cache_verification_ttl :: u64
  cache_backend :: string
  cache_max_size :: u64
  cache_config_ttl :: u64
  cache_events_ttl :: u64
  cache_circuit_breaker_failure_threshold :: u32
  cache_circuit_breaker_open_duration_ms :: u64
  cache_circuit_breaker_half_open_max_calls :: u32
  cache_circuit_breaker_backoff_base_ms :: u64
  cache_circuit_breaker_backoff_max_ms :: u64
  cache_bulkhead_max_concurrent :: u32
  cache_bulkhead_max_queue :: u32

definition get_env_or_default :: "'u config_env \<Rightarrow> string \<Rightarrow> string \<Rightarrow> string" where
  "get_env_or_default P key default_value = (case env_var P key of Some v \<Rightarrow> v | None \<Rightarrow> default_value)"

subsection \<open>Defaults\<close>

text \<open>The variables with a fixed default.\<close>

definition env_defaults :: "(string \<times> string) list" where
  "env_defaults =
     [(''PORT'', ''8080''),
      (''RATE_LIMIT_PER_SECOND'', ''100''),
      (''PER_ISSUER_RATE_LIMIT_PER_SECOND'', ''10''),
      (''ISSUER_RATE_LIMIT_TTL_SECONDS'', ''3600''),
      (''PER_ISSUER_RATE_LIMIT_JITTER_SECONDS'', ''0''),
      (''STELLAR_MAX_RETRIES'', ''3''),
      (''STELLAR_RETRY_BASE_DELAY_MS'', dec (unat DEFAULT_STELLAR_RETRY_BASE_DELAY_MS)),
      (''STELLAR_RETRY_MAX_DELAY_MS'', dec (unat DEFAULT_STELLAR_RETRY_MAX_DELAY_MS)),
      (''STELLAR_RETRY_JITTER'', ''true''),
      (''STELLAR_REQUEST_TIMEOUT_MS'', dec (unat DEFAULT_STELLAR_REQUEST_TIMEOUT_MS)),
      (''STELLAR_CIRCUIT_BREAKER_FAILURE_THRESHOLD'', dec (unat DEFAULT_STELLAR_CIRCUIT_BREAKER_FAILURE_THRESHOLD)),
      (''STELLAR_CIRCUIT_BREAKER_OPEN_DURATION_MS'', dec (unat DEFAULT_STELLAR_CIRCUIT_BREAKER_OPEN_DURATION_MS)),
      (''STELLAR_CIRCUIT_BREAKER_HALF_OPEN_MAX_CALLS'', dec (unat DEFAULT_STELLAR_CIRCUIT_BREAKER_HALF_OPEN_MAX_CALLS)),
      (''STELLAR_RETRY_JITTER_TYPE'', DEFAULT_STELLAR_RETRY_JITTER_TYPE),
      (''STELLAR_BULKHEAD_MAX_CONCURRENT'', dec (unat DEFAULT_STELLAR_BULKHEAD_MAX_CONCURRENT)),
      (''STELLAR_BULKHEAD_MAX_QUEUE'', dec (unat DEFAULT_STELLAR_BULKHEAD_MAX_QUEUE)),
      (''CACHE_VERIFICATION_TTL'', ''3600''),
      (''CACHE_BACKEND'', ''inmemory''),
      (''CACHE_MAX_SIZE'', ''10000''),
      (''CACHE_CONFIG_TTL'', ''3600''),
      (''CACHE_EVENTS_TTL'', ''1800''),
      (''CACHE_CIRCUIT_BREAKER_FAILURE_THRESHOLD'', dec (unat DEFAULT_CACHE_CIRCUIT_BREAKER_FAILURE_THRESHOLD)),
      (''CACHE_CIRCUIT_BREAKER_OPEN_DURATION_MS'', dec (unat DEFAULT_CACHE_CIRCUIT_BREAKER_OPEN_DURATION_MS)),
      (''CACHE_CIRCUIT_BREAKER_HALF_OPEN_MAX_CALLS'', dec (unat DEFAULT_CACHE_CIRCUIT_BREAKER_HALF_OPEN_MAX_CALLS)),
      (''CACHE_CIRCUIT_BREAKER_BACKOFF_BASE_MS'', dec (unat DEFAULT_CACHE_CIRCUIT_BREAKER_BACKOFF_BASE_MS)),
      (''CACHE_CIRCUIT_BREAKER_BACKOFF_MAX_MS'', dec (unat DEFAULT_CACHE_CIRCUIT_BREAKER_BACKOFF_MAX_MS)),
      (''CACHE_BULKHEAD_MAX_CONCURRENT'', dec (unat DEFAULT_CACHE_BULKHEAD_MAX_CONCURRENT)),
      (''CACHE_BULKHEAD_MAX_QUEUE'', dec (unat DEFAULT_CACHE_BULKHEAD_MAX_QUEUE)),
      (''WEBHOOK_MAX_RETRIES'', ''5''),
      (''WEBHOOK_RETRY_BASE_DELAY_MS'', ''200''),
      (''WEBHOOK_RETRY_MAX_DELAY_MS'', ''30000''),
      (''WEBHOOK_REQUEST_TIMEOUT_MS'', ''10000''),
      (''WEBHOOK_JITTER_ENABLED'', ''true''),
      (''STELLAR_HORIZON_URL'', ''https://horizon-testnet.stellar.org''),
      (''REDIS_URL'', ''redis://127.0.0.1:6379''),
      (''LOG_LEVEL'', ''info''),
      (''WEBHOOK_URLS'', [])]"

definition raw :: "'u config_env \<Rightarrow> string \<Rightarrow> string" where
  "raw P key =
     get_env_or_default P key (case map_of env_defaults key of Some d \<Rightarrow> d | None \<Rightarrow> [])"

definition rate_limit_burst_raw :: "'u config_env \<Rightarrow> string" where
  "rate_limit_burst_raw P = get_env_or_default P ''RATE_LIMIT_BURST'' (raw P ''RATE_LIMIT_PER_SECOND'')"

definition per_issuer_burst_raw :: "'u config_env \<Rightarrow> string" where
  "per_issuer_burst_raw P =
     (let rps = (case parse_uint (2 ^ 32 - 1) (raw P ''PER_ISSUER_RATE_LIMIT_PER_SECOND'') of
                   Some v \<Rightarrow> word_of_nat v
                 | None \<Rightarrow> 10) :: u32
      in get_env_or_default P ''PER_ISSUER_RATE_LIMIT_BURST'' (dec (unat (sat_mul rps 2))))"

subsection \<open>Checks\<close>

text \<open>The shapes of check the bindings share. \<open>ty\<close> is the name of the integer type.\<close>

definition not_valid :: "string \<Rightarrow> string \<Rightarrow> string \<Rightarrow> string" where
  "not_valid name ty s = name @ '' must be a valid '' @ ty @ '', got '' @ quoted s"

definition parse_word :: "string \<Rightarrow> 'a::len word option" where
  "parse_word s = map_option word_of_nat (parse_uint (2 ^ LENGTH('a) - 1) s)"

definition check_any :: "string \<Rightarrow> string \<Rightarrow> 'a::len word \<Rightarrow> string \<Rightarrow> 'a word \<times> string list" where
  "check_any name ty fallback s =
     (case parse_word s of Some v \<Rightarrow> (v, []) | None \<Rightarrow> (fallback, [not_valid name ty s]))"

definition check_positive :: "string \<Rightarrow> string \<Rightarrow> 'a::len word \<Rightarrow> string \<Rightarrow> 'a word \<times> string list" where
  "check_positive name ty fallback s =
     (case parse_word s of
        Some v \<Rightarrow> if v > 0 then (v, []) else (fallback, [name @ '' must be greater than 0''])
      | None \<Rightarrow> (fallback, [not_valid name ty s]))"

definition check_timeout :: "string \<Rightarrow> u64 \<Rightarrow> string \<Rightarrow> u64 \<times> string list" where
  "check_timeout name fallback s =
     (case parse_word s of
        Some v \<Rightarrow>
          if v > 0 \<and> v \<le> MAX_TIMEOUT_MS then (v, [])
          else if v > 0 then
            (fallback, [name @ '' ('' @ dec (unat v) @ '') exceeds maximum '' @ dec (unat MAX_TIMEOUT_MS)])
          else (fallback, [name @ '' must be greater than 0''])
      | None \<Rightarrow> (fallback, [not_valid name ''u64'' s]))"

definition check_backoff :: "string \<Rightarrow> u64 \<Rightarrow> string \<Rightarrow> u64 \<times> string list" where
  "check_backoff name fallback s =
     (case parse_word s of
        Some v \<Rightarrow>
          if v > 0 \<and> v \<le> MAX_TIMEOUT_MS then (v, []) else (fallback, [name @ '' must be greater than 0''])
      | None \<Rightarrow> (fallback, [not_valid name ''u64'' s]))"

definition check_bool :: "'u config_env \<Rightarrow> string \<Rightarrow> string \<Rightarrow> bool \<times> string list" where
  "check_bool P name s =
     (let l = to_lowercase (unicode P) s in
      if l \<in> {''1'', ''true'', ''yes'', ''y''} then (True, [])
      else if l \<in> {''0'', ''false'', ''no'', ''n''} then (False, [])
      else (True, [name @ '' must be a boolean, got '' @ quoted l]))"

subsection \<open>Bindings\<close>

definition load_stellar_secret_key :: "'u config_env \<Rightarrow> string option \<times> string list" where
  "load_stellar_secret_key P =
     (case env_var P ''STELLAR_SECRET_KEY'' of
        Some key \<Rightarrow>
          (Some key,
           if private_key_ok P key then []
           else [''STELLAR_SECRET_KEY must be a valid Stellar ed25519 secret key''])
      | None \<Rightarrow>
          (None,
           [''STELLAR_SECRET_KEY is required but not set. Please set the environment variable.'']))"

definition horizon_url_errors :: "'u config_env \<Rightarrow> string list" where
  "horizon_url_errors P =
     (if is_ok (ValidatedUrl_parse P (raw P ''STELLAR_HORIZON_URL'')) then []
      else [''STELLAR_HORIZON_URL must be a valid http/https URL, got '' @ quoted (raw P ''STELLAR_HORIZON_URL'')])"

definition redis_url_errors :: "'u config_env \<Rightarrow> string list" where
  "redis_url_errors P =
     (if is_ok (ValidatedRedisUrl_parse P (raw P ''REDIS_URL'')) then []
      else [''REDIS_URL must be a valid redis:// or rediss:// URL, got '' @ quoted (raw P ''REDIS_URL'')])"

definition load_port :: "'u config_env \<Rightarrow> u16 \<times> string list" where
  "load_port P =
     (case parse_word (raw P ''PORT'') of
        Some p \<Rightarrow> (case ValidatedPort_new p of Ok _ \<Rightarrow> (p, []) | Err e \<Rightarrow> (8080, [config_error_string e]))
      | None \<Rightarrow> (8080, [''PORT must be a valid u16 (1-65535), got '' @ quoted (raw P ''PORT'')]))"

definition load_rate_limit_per_second :: "'u config_env \<Rightarrow> u32 \<times> string list" where
  "load_rate_limit_per_second P =
     check_positive ''RATE_LIMIT_PER_SECOND'' ''u32'' 100 (raw P ''RATE_LIMIT_PER_SECOND'')"

definition load_rate_limit_burst :: "'u config_env \<Rightarrow> u32 \<times> string list" where
  "load_rate_limit_burst P =
     check_any ''RATE_LIMIT_BURST'' ''u32'' (fst (load_rate_limit_per_second P)) (rate_limit_burst_raw P)"

definition rate_limit_burst_errors :: "'u config_env \<Rightarrow> string list" where
  "rate_limit_burst_errors P =
     (let burst = fst (load_rate_limit_burst P); rps = fst (load_rate_limit_per_second P) in
      (if burst = 0 then [''RATE_LIMIT_BURST must be greater than 0''] else []) @
      (if burst < rps then
         [''RATE_LIMIT_BURST ('' @ dec (unat burst) @ '') must be >= RATE_LIMIT_PER_SECOND ('' @ dec (unat rps) @ '')'']
       else []))"

definition load_per_issuer_rate_limit_per_second :: "'u config_env \<Rightarrow> u32 \<times> string list" where
  "load_per_issuer_rate_limit_per_second P =
     check_positive ''PER_ISSUER_RATE_LIMIT_PER_SECOND'' ''u32'' 10 (raw P ''PER_ISSUER_RATE_LIMIT_PER_SECOND'')"

definition load_per_issuer_rate_limit_burst :: "'u config_env \<Rightarrow> u32 \<times> string list" where
  "load_per_issuer_rate_limit_burst P =
     check_positive ''PER_ISSUER_RATE_LIMIT_BURST'' ''u32''
       (fst (load_per_issuer_rate_limit_per_second P) * 2) (per_issuer_burst_raw P)"

definition per_issuer_errors :: "'u config_env \<Rightarrow> string list" where
  "per_issuer_errors P =
     (let burst = fst (load_per_issuer_rate_limit_burst P);
          rps = fst (load_per_issuer_rate_limit_per_second P);
          global_rps = fst (load_rate_limit_per_second P)
      in (if burst < rps then
            [''PER_ISSUER_RATE_LIMIT_BURST ('' @ dec (unat burst) @
             '') must be >= PER_ISSUER_RATE_LIMIT_PER_SECOND ('' @ dec (unat rps) @ '')'']
          else []) @
         (if rps > global_rps then
            [''PER_ISSUER_RATE_LIMIT_PER_SECOND ('' @ dec (unat rps) @
             '') must not exceed RATE_LIMIT_PER_SECOND ('' @ dec (unat global_rps) @ '')'']
          else []))"

definition load_issuer_rate_limit_ttl_seconds :: "'u config_env \<Rightarrow> u64 \<times> string list" where
  "load_issuer_rate_limit_ttl_seconds P =
     check_positive ''ISSUER_RATE_LIMIT_TTL_SECONDS'' ''u64'' 3600 (raw P ''ISSUER_RATE_LIMIT_TTL_SECONDS'')"

definition load_per_issuer_rate_limit_jitter_seconds :: "'u config_env \<Rightarrow> u64 \<times> string list" where
  "load_per_issuer_rate_limit_jitter_seconds P =
     check_any ''PER_ISSUER_RATE_LIMIT_JITTER_SECONDS'' ''u64'' 0 (raw P ''PER_ISSUER_RATE_LIMIT_JITTER_SECONDS'')"

definition jitter_errors :: "'u config_env \<Rightarrow> string list" where
  "jitter_errors P =
     (let jitter = fst (load_per_issuer_rate_limit_jitter_seconds P);
          ttl = fst (load_issuer_rate_limit_ttl_seconds P)
      in if jitter \<ge> ttl then
           [''PER_ISSUER_RATE_LIMIT_JITTER_SECONDS ('' @ dec (unat jitter) @
            '') must be < ISSUER_RATE_LIMIT_TTL_SECONDS ('' @ dec (unat ttl) @ '')'']
         else [])"

definition load_stellar_max_retries :: "'u config_env \<Rightarrow> u32 \<times> string list" where
  "load_stellar_max_retries P =
     check_any ''STELLAR_MAX_RETRIES'' ''u32'' 3 (raw P ''STELLAR_MAX_RETRIES'')"

definition load_stellar_retry_base_delay_ms :: "'u config_env \<Rightarrow> u64 \<times> string list" where
  "load_stellar_retry_base_delay_ms P =
     check_timeout ''STELLAR_RETRY_BASE_DELAY_MS'' DEFAULT_STELLAR_RETRY_BASE_DELAY_MS (raw P ''STELLAR_RETRY_BASE_DELAY_MS'')"

definition load_stellar_retry_max_delay_ms :: "'u config_env \<Rightarrow> u64 \<times> string list" where
  "load_stellar_retry_max_delay_ms P =
     check_timeout ''STELLAR_RETRY_MAX_DELAY_MS'' DEFAULT_STELLAR_RETRY_MAX_DELAY_MS (raw P ''STELLAR_RETRY_MAX_DELAY_MS'')"

definition load_stellar_retry_jitter_enabled :: "'u config_env \<Rightarrow> bool \<times> string list" where
  "load_stellar_retry_jitter_enabled P = check_bool P ''STELLAR_RETRY_JITTER'' (raw P ''STELLAR_RETRY_JITTER'')"

definition load_stellar_request_timeout_ms :: "'u config_env \<Rightarrow> u64 \<times> string list" where
  "load_stellar_request_timeout_ms P =
     check_timeout ''STELLAR_REQUEST_TIMEOUT_MS'' DEFAULT_STELLAR_REQUEST_TIMEOUT_MS (raw P ''STELLAR_REQUEST_TIMEOUT_MS'')"

definition load_stellar_circuit_breaker_failure_threshold :: "'u config_env \<Rightarrow> u32 \<times> string list" where
  "load_stellar_circuit_breaker_failure_threshold P =
     check_positive ''STELLAR_CIRCUIT_BREAKER_FAILURE_THRESHOLD'' ''u32'' DEFAULT_STELLAR_CIRCUIT_BREAKER_FAILURE_THRESHOLD (raw P ''STELLAR_CIRCUIT_BREAKER_FAILURE_THRESHOLD'')"

definition load_stellar_circuit_breaker_open_duration_ms :: "'u config_env \<Rightarrow> u64 \<times> string list" where
  "load_stellar_circuit_breaker_open_duration_ms P =
     check_timeout ''STELLAR_CIRCUIT_BREAKER_OPEN_DURATION_MS'' DEFAULT_STELLAR_CIRCUIT_BREAKER_OPEN_DURATION_MS (raw P ''STELLAR_CIRCUIT_BREAKER_OPEN_DURATION_MS'')"

definition load_stellar_circuit_breaker_half_open_max_calls :: "'u config_env \<Rightarrow> u32 \<times> string list" where
  "load_stellar_circuit_breaker_half_open_max_calls P =
     check_positive ''STELLAR_CIRCUIT_BREAKER_HALF_OPEN_MAX_CALLS'' ''u32'' DEFAULT_STELLAR_CIRCUIT_BREAKER_HALF_OPEN_MAX_CALLS (raw P ''STELLAR_CIRCUIT_BREAKER_HALF_OPEN_MAX_CALLS'')"

definition load_stellar_retry_jitter_type :: "'u config_env \<Rightarrow> string \<times> string list" where
  "load_stellar_retry_jitter_type P =
     (let s = raw P ''STELLAR_RETRY_JITTER_TYPE''; l = to_lowercase (unicode P) s in
      if l \<in> {''none'', ''full'', ''equal'', ''decorrelated''} then (s, [])
      else
        (DEFAULT_STELLAR_RETRY_JITTER_TYPE,
         [''STELLAR_RETRY_JITTER_TYPE must be one of: none, full, equal, decorrelated; got '' @ quoted l]))"

definition load_stellar_bulkhead_max_concurrent :: "'u config_env \<Rightarrow> u32 \<times> string list" where
  "load_stellar_bulkhead_max_concurrent P =
     check_positive ''STELLAR_BULKHEAD_MAX_CONCURRENT'' ''u32'' DEFAULT_STELLAR_BULKHEAD_MAX_CONCURRENT (raw P ''STELLAR_BULKHEAD_MAX_CONCURRENT'')"

definition load_stellar_bulkhead_max_queue :: "'u config_env \<Rightarrow> u32 \<times> string list" where
  "load_stellar_bulkhead_max_queue P =
     check_positive ''STELLAR_BULKHEAD_MAX_QUEUE'' ''u32'' DEFAULT_STELLAR_BULKHEAD_MAX_QUEUE (raw P ''STELLAR_BULKHEAD_MAX_QUEUE'')"

definition load_cache_verification_ttl :: "'u config_env \<Rightarrow> u64 \<times> string list" where
  "load_cache_verification_ttl P =
     check_any ''CACHE_VERIFICATION_TTL'' ''u64'' 3600 (raw P ''CACHE_VERIFICATION_TTL'')"

definition load_cache_backend :: "'u config_env \<Rightarrow> string \<times> string list" where
  "load_cache_backend P =
     (let l = to_lowercase (unicode P) (raw P ''CACHE_BACKEND'') in
      if l \<in> {''redis'', ''rediss''} then (''redis'', [])
      else if l \<in> {''inmemory'', ''memory''} then (''inmemory'', [])
      else
        (''inmemory'',
         [''CACHE_BACKEND must be '' @ quoted ''redis'' @ '' or '' @ quoted ''inmemory'' @ '', got '' @ quoted l]))"

definition load_cache_max_size :: "'u config_env \<Rightarrow> u64 \<times> string list" where
  "load_cache_max_size P =
     check_any ''CACHE_MAX_SIZE'' ''usize'' 10000 (raw P ''CACHE_MAX_SIZE'')"

definition load_cache_config_ttl :: "'u config_env \<Rightarrow> u64 \<times> string list" where
  "load_cache_config_ttl P =
     check_any ''CACHE_CONFIG_TTL'' ''u64'' 3600 (raw P ''CACHE_CONFIG_TTL'')"

definition load_cache_events_ttl :: "'u config_env \<Rightarrow> u64 \<times> string list" where
  "load_cache_events_ttl P =
     check_any ''CACHE_EVENTS_TTL'' ''u64'' 1800 (raw P ''CACHE_EVENTS_TTL'')"

definition load_cache_circuit_breaker_failure_threshold :: "'u config_env \<Rightarrow> u32 \<times> string list" where
  "load_cache_circuit_breaker_failure_threshold P =
     check_positive ''CACHE_CIRCUIT_BREAKER_FAILURE_THRESHOLD'' ''u32'' DEFAULT_CACHE_CIRCUIT_BREAKER_FAILURE_THRESHOLD (raw P ''CACHE_CIRCUIT_BREAKER_FAILURE_THRESHOLD'')"

definition load_cache_circuit_breaker_open_duration_ms :: "'u config_env \<Rightarrow> u64 \<times> string list" where
  "load_cache_circuit_breaker_open_duration_ms P =
     check_timeout ''CACHE_CIRCUIT_BREAKER_OPEN_DURATION_MS'' DEFAULT_CACHE_CIRCUIT_BREAKER_OPEN_DURATION_MS (raw P ''CACHE_CIRCUIT_BREAKER_OPEN_DURATION_MS'')"

definition load_cache_circuit_breaker_half_open_max_calls :: "'u config_env \<Rightarrow> u32 \<times> string list" where
  "load_cache_circuit_breaker_half_open_max_calls P =
     check_positive ''CACHE_CIRCUIT_BREAKER_HALF_OPEN_MAX_CALLS'' ''u32'' DEFAULT_CACHE_CIRCUIT_BREAKER_HALF_OPEN_MAX_CALLS (raw P ''CACHE_CIRCUIT_BREAKER_HALF_OPEN_MAX_CALLS'')"

definition load_cache_circuit_breaker_backoff_base_ms :: "'u config_env \<Rightarrow> u64 \<times> string list" where
  "load_cache_circuit_breaker_backoff_base_ms P =
     check_backoff ''CACHE_CIRCUIT_BREAKER_BACKOFF_BASE_MS'' DEFAULT_CACHE_CIRCUIT_BREAKER_BACKOFF_BASE_MS (raw P ''CACHE_CIRCUIT_BREAKER_BACKOFF_BASE_MS'')"

definition load_cache_circuit_breaker_backoff_max_ms :: "'u config_env \<Rightarrow> u64 \<times> string list" where
  "load_cache_circuit_breaker_backoff_max_ms P =
     check_backoff ''CACHE_CIRCUIT_BREAKER_BACKOFF_MAX_MS'' DEFAULT_CACHE_CIRCUIT_BREAKER_BACKOFF_MAX_MS (raw P ''CACHE_CIRCUIT_BREAKER_BACKOFF_MAX_MS'')"

definition load_cache_bulkhead_max_concurrent :: "'u config_env \<Rightarrow> u32 \<times> string list" where
  "load_cache_bulkhead_max_concurrent P =
     check_positive ''CACHE_BULKHEAD_MAX_CONCURRENT'' ''u32'' DEFAULT_CACHE_BULKHEAD_MAX_CONCURRENT (raw P ''CACHE_BULKHEAD_MAX_CONCURRENT'')"

definition load_cache_bulkhead_max_queue :: "'u config_env \<Rightarrow> u32 \<times> string list" where
  "load_cache_bulkhead_max_queue P =
     check_positive ''CACHE_BULKHEAD_MAX_QUEUE'' ''u32'' DEFAULT_CACHE_BULKHEAD_MAX_QUEUE (raw P ''CACHE_BULKHEAD_MAX_QUEUE'')"

definition load_webhook_max_retries :: "'u config_env \<Rightarrow> u32 \<times> string list" where
  "load_webhook_max_retries P =
     check_any ''WEBHOOK_MAX_RETRIES'' ''u32'' 5 (raw P ''WEBHOOK_MAX_RETRIES'')"

definition load_webhook_retry_base_delay_ms :: "'u config_env \<Rightarrow> u64 \<times> string list" where
  "load_webhook_retry_base_delay_ms P =
     check_timeout ''WEBHOOK_RETRY_BASE_DELAY_MS'' 200 (raw P ''WEBHOOK_RETRY_BASE_DELAY_MS'')"

definition load_webhook_retry_max_delay_ms :: "'u config_env \<Rightarrow> u64 \<times> string list" where
  "load_webhook_retry_max_delay_ms P =
     check_timeout ''WEBHOOK_RETRY_MAX_DELAY_MS'' 30000 (raw P ''WEBHOOK_RETRY_MAX_DELAY_MS'')"

definition load_webhook_request_timeout_ms :: "'u config_env \<Rightarrow> u64 \<times> string list" where
  "load_webhook_request_timeout_ms P =
     check_timeout ''WEBHOOK_REQUEST_TIMEOUT_MS'' 10000 (raw P ''WEBHOOK_REQUEST_TIMEOUT_MS'')"

definition load_webhook_jitter_enabled :: "'u config_env \<Rightarrow> bool \<times> string list" where
  "load_webhook_jitter_enabled P = check_bool P ''WEBHOOK_JITTER_ENABLED'' (raw P ''WEBHOOK_JITTER_ENABLED'')"

definition log_level_errors :: "'u config_env \<Rightarrow> string list" where
  "log_level_errors P =
     (let l = to_lowercase (unicode P) (raw P ''LOG_LEVEL'') in
      if l \<in> {''trace'', ''debug'', ''info'', ''warn'', ''error''} then []
      else [''LOG_LEVEL must be one of: trace, debug, info, warn, error; got '' @ quoted l])"

definition stellar_delay_errors :: "'u config_env \<Rightarrow> string list" where
  "stellar_delay_errors P =
     (if fst (load_stellar_retry_max_delay_ms P) < fst (load_stellar_retry_base_delay_ms P) then
        [''STELLAR_RETRY_MAX_DELAY_MS must be greater than or equal to STELLAR_RETRY_BASE_DELAY_MS'']
      else [])"

definition webhook_delay_errors :: "'u config_env \<Rightarrow> string list" where
  "webhook_delay_errors P =
     (if fst (load_webhook_retry_max_delay_ms P) < fst (load_webhook_retry_base_delay_ms P) then
        [''WEBHOOK_RETRY_MAX_DELAY_MS must be greater than or equal to WEBHOOK_RETRY_BASE_DELAY_MS'']
      else [])"

text \<open>\<open>split\<close> at every comma, \<open>n\<close> commas giving \<open>n + 1\<close> parts.\<close>

fun split_comma :: "string \<Rightarrow> string list" where
  "split_comma [] = [[]]"
| "split_comma (c # cs) =
     (if c = CHR '','' then [] # split_comma cs
      else case split_comma cs of [] \<Rightarrow> [[c]] | part # parts \<Rightarrow> (c # part) # parts)"

definition load_webhook_urls :: "'u config_env \<Rightarrow> string list \<times> string list" where
  "load_webhook_urls P =
     (let urls = filter (\<lambda>s. s \<noteq> []) (map trim (split_comma (raw P ''WEBHOOK_URLS''))) in
      (urls,
       map (\<lambda>url. ''WEBHOOK_URLS must contain valid URLs, got '' @ quoted url)
         (filter (\<lambda>url. \<not> is_ok (ValidatedUrl_parse P url)) urls)))"

subsection \<open>Loading\<close>

text \<open>All messages, in the order of the checks.\<close>

definition config_errors :: "'u config_env \<Rightarrow> string list" where
  "config_errors P =
     concat
       [snd (load_stellar_secret_key P), snd (load_port P), horizon_url_errors P, redis_url_errors P,
        snd (load_rate_limit_per_second P),
        snd (load_rate_limit_burst P),
        rate_limit_burst_errors P,
        snd (load_per_issuer_rate_limit_per_second P),
        snd (load_per_issuer_rate_limit_burst P),
        per_issuer_errors P,
        snd (load_issuer_rate_limit_ttl_seconds P),
        snd (load_per_issuer_rate_limit_jitter_seconds P),
        jitter_errors P,
        snd (load_stellar_max_retries P),
        snd (load_stellar_retry_base_delay_ms P),
        snd (load_stellar_retry_max_delay_ms P),
        snd (load_stellar_retry_jitter_enabled P),
        snd (load_stellar_request_timeout_ms P),
        snd (load_stellar_circuit_breaker_failure_threshold P),
        snd (load_stellar_circuit_breaker_open_duration_ms P),
        snd (load_stellar_circuit_breaker_half_open_max_calls P),
        snd (load_stellar_retry_jitter_type P),
        snd (load_stellar_bulkhead_max_concurrent P),
        snd (load_stellar_bulkhead_max_queue P),
        snd (load_cache_verification_ttl P),
        snd (load_cache_backend P),
        snd (load_cache_max_size P),
        snd (load_cache_config_ttl P),
        snd (load_cache_events_ttl P),
        snd (load_cache_circuit_breaker_failure_threshold P),
        snd (load_cache_circuit_breaker_open_duration_ms P),
        snd (load_cache_circuit_breaker_half_open_max_calls P),
        snd (load_cache_circuit_breaker_backoff_base_ms P),
        snd (load_cache_circuit_breaker_backoff_max_ms P),
        snd (load_cache_bulkhead_max_concurrent P),
        snd (load_cache_bulkhead_max_queue P),
        log_level_errors P,
        stellar_delay_errors P,
        snd (load_webhook_max_retries P),
        snd (load_webhook_retry_base_delay_ms P),
        snd (load_webhook_retry_max_delay_ms P),
        snd (load_webhook_request_timeout_ms P),
        snd (load_webhook_jitter_enabled P),
        webhook_delay_errors P,
        snd (load_webhook_urls P)]"

fun join :: "string \<Rightarrow> string list \<Rightarrow> string" where
  "join sep [] = []"
| "join sep [s] = s"
| "join sep (s # ss) = s @ sep @ join sep ss"

definition loaded_config :: "'u config_env \<Rightarrow> AppConfig" where
  "loaded_config P =
     \<lparr>port = fst (load_port P),
      stellar_horizon_url = raw P ''STELLAR_HORIZON_URL'',
      stellar_secret_key = fst (load_stellar_secret_key P),
      redis_url = raw P ''REDIS_URL'',
      rate_limit_per_second = fst (load_rate_limit_per_second P),
      rate_limit_burst = fst (load_rate_limit_burst P),
      per_issuer_rate_limit_per_second = fst (load_per_issuer_rate_limit_per_second P),
      per_issuer_rate_limit_burst = fst (load_per_issuer_rate_limit_burst P),
      issuer_rate_limit_ttl_seconds = fst (load_issuer_rate_limit_ttl_seconds P),
      per_issuer_rate_limit_jitter_seconds = fst (load_per_issuer_rate_limit_jitter_seconds P),
      stellar_max_retries = fst (load_stellar_max_retries P),
      stellar_retry_base_delay_ms = fst (load_stellar_retry_base_delay_ms P),
      stellar_retry_max_delay_ms = fst (load_stellar_retry_max_delay_ms P),
      stellar_retry_jitter_enabled = fst (load_stellar_retry_jitter_enabled P),
      stellar_request_timeout_ms = fst (load_stellar_request_timeout_ms P),
      stellar_circuit_breaker_failure_threshold = fst (load_stellar_circuit_breaker_failure_threshold P),
      stellar_circuit_breaker_open_duration_ms = fst (load_stellar_circuit_breaker_open_duration_ms P),
      stellar_circuit_breaker_half_open_max_calls = fst (load_stellar_circuit_breaker_half_open_max_calls P),
      stellar_retry_jitter_type = fst (load_stellar_retry_jitter_type P),
      stellar_bulkhead_max_concurrent = fst (load_stellar_bulkhead_max_concurrent P),
      stellar_bulkhead_max_queue = fst (load_stellar_bulkhead_max_queue P),
      log_level = raw P ''LOG_LEVEL'',
      webhook_urls = fst (load_webhook_urls P),
      webhook_secret = env_var P ''WEBHOOK_SECRET'',
      webhook_max_retries = fst (load_webhook_max_retries P),
      webhook_retry_base_delay_ms = fst (load_webhook_retry_base_delay_ms P),
      webhook_retry_max_delay_ms = fst (load_webhook_retry_max_delay_ms P),
      webhook_request_timeout_ms = fst (load_webhook_request_timeout_ms P),
      webhook_jitter_enabled = fst (load_webhook_jitter_enabled P),
      cache_verification_ttl = fst (load_cache_verification_ttl P),
      cache_backend = fst (load_cache_backend P),
      cache_max_size = fst (load_cache_max_size P),
      cache_config_ttl = fst (load_cache_config_ttl P),
      cache_events_ttl = fst (load_cache_events_ttl P),
      cache_circuit_breaker_failure_threshold = fst (load_cache_circuit_breaker_failure_threshold P),
      cache_circuit_breaker_open_duration_ms = fst (load_cache_circuit_breaker_open_duration_ms P),
      cache_circuit_breaker_half_open_max_calls = fst (load_cache_circuit_breaker_half_open_max_calls P),
      cache_circuit_breaker_backoff_base_ms = fst (load_cache_circuit_breaker_backoff_base_ms P),
      cache_circuit_breaker_backoff_max_ms = fst (load_cache_circuit_breaker_backoff_max_ms P),
      cache_bulkhead_max_concurrent = fst (load_cache_bulkhead_max_concurrent P),
      cache_bulkhead_max_queue = fst (load_cache_bulkhead_max_queue P)\<rparr>"

definition from_env_with_metrics ::
    "'u config_env \<Rightarrow> metrics option \<Rightarrow> (ConfigError, AppConfig) result \<times> metrics option" where
  "from_env_with_metrics P m =
     (if config_errors P \<noteq> [] then
        (Err (Validation (''- '' @ join ([CHR 0x0A] @ ''- '') (config_errors P))),
         map_option increment_config_validation_failure m)
      else (Ok (loaded_config P), map_option increment_config_reload m))"

definition from_env :: "'u config_env \<Rightarrow> (ConfigError, AppConfig) result" where
  "from_env P = fst (from_env_with_metrics P None)"

definition reload_from_env ::
    "'u config_env \<Rightarrow> metrics option \<Rightarrow> AppConfig \<Rightarrow> (ConfigError, AppConfig) result \<times> metrics option" where
  "reload_from_env P m c = from_env_with_metrics P m"

definition app_config_version :: u32 where
  "app_config_version = CONFIG_VERSION"

definition validate_compatible :: "u32 \<Rightarrow> AppConfig \<Rightarrow> (ConfigError, unit) result" where
  "validate_compatible previous_version c =
     (if previous_version > CONFIG_VERSION then
        Err (Validation (''cannot roll back from config version '' @ dec (unat previous_version) @
               '' to current version '' @ dec (unat CONFIG_VERSION)))
      else Ok ())"

section \<open>The reload channel\<close>

record ConfigUpdate =
  cu_config :: AppConfig
  cu_version :: u32

definition ConfigUpdate_new :: "AppConfig \<Rightarrow> (ConfigError, ConfigUpdate) result" where
  "ConfigUpdate_new c = Ok \<lparr>cu_config = c, cu_version = ConfigVersion_current\<rparr>"

text \<open>A watch channel is the value its receivers see.\<close>

definition config_channel :: "AppConfig \<Rightarrow> (ConfigError, ConfigUpdate) result" where
  "config_channel initial = ConfigUpdate_new initial"

section \<open>Debug output\<close>

datatype debug_value =
    DNat nat
  | DBool bool
  | DString string
  | DOption "string option"
  | DStrings "string list"

definition AppConfig_debug :: "AppConfig \<Rightarrow> (string \<times> debug_value) list" where
  "AppConfig_debug c =
     [(''port'', DNat (unat (port c))),
      (''stellar_horizon_url'', DString (stellar_horizon_url c)),
      (''stellar_secret_key'', DOption (map_option (\<lambda>_. ''<redacted>'') (stellar_secret_key c))),
      (''redis_url'', DString (redis_url c)),
      (''rate_limit_per_second'', DNat (unat (rate_limit_per_second c))),
      (''rate_limit_burst'', DNat (unat (rate_limit_burst c))),
      (''per_issuer_rate_limit_per_second'', DNat (unat (per_issuer_rate_limit_per_second c))),
      (''per_issuer_rate_limit_burst'', DNat (unat (per_issuer_rate_limit_burst c))),
      (''issuer_rate_limit_ttl_seconds'', DNat (unat (issuer_rate_limit_ttl_seconds c))),
      (''per_issuer_rate_limit_jitter_seconds'', DNat (unat (per_issuer_rate_limit_jitter_seconds c))),
      (''stellar_max_retries'', DNat (unat (stellar_max_retries c))),
      (''stellar_retry_base_delay_ms'', DNat (unat (stellar_retry_base_delay_ms c))),
      (''stellar_retry_max_delay_ms'', DNat (unat (stellar_retry_max_delay_ms c))),
      (''stellar_retry_jitter_enabled'', DBool (stellar_retry_jitter_enabled c)),
      (''stellar_request_timeout_ms'', DNat (unat (stellar_request_timeout_ms c))),
      (''stellar_circuit_breaker_failure_threshold'', DNat (unat (stellar_circuit_breaker_failure_threshold c))),
      (''stellar_circuit_breaker_open_duration_ms'', DNat (unat (stellar_circuit_breaker_open_duration_ms c))),
      (''stellar_circuit_breaker_half_open_max_calls'', DNat (unat (stellar_circuit_breaker_half_open_max_calls c))),
      (''stellar_retry_jitter_type'', DString (stellar_retry_jitter_type c)),
      (''stellar_bulkhead_max_concurrent'', DNat (unat (stellar_bulkhead_max_concurrent c))),
      (''stellar_bulkhead_max_queue'', DNat (unat (stellar_bulkhead_max_queue c))),
      (''log_level'', DString (log_level c)),
      (''webhook_urls'', DStrings (webhook_urls c)),
      (''webhook_secret'', DOption (map_option (\<lambda>_. ''<redacted>'') (webhook_secret c))),
      (''webhook_max_retries'', DNat (unat (webhook_max_retries c))),
      (''webhook_retry_base_delay_ms'', DNat (unat (webhook_retry_base_delay_ms c))),
      (''webhook_retry_max_delay_ms'', DNat (unat (webhook_retry_max_delay_ms c))),
      (''webhook_request_timeout_ms'', DNat (unat (webhook_request_timeout_ms c))),
      (''webhook_jitter_enabled'', DBool (webhook_jitter_enabled c)),
      (''cache_verification_ttl'', DNat (unat (cache_verification_ttl c))),
      (''cache_backend'', DString (cache_backend c)),
      (''cache_max_size'', DNat (unat (cache_max_size c))),
      (''cache_config_ttl'', DNat (unat (cache_config_ttl c))),
      (''cache_events_ttl'', DNat (unat (cache_events_ttl c))),
      (''cache_circuit_breaker_failure_threshold'', DNat (unat (cache_circuit_breaker_failure_threshold c))),
      (''cache_circuit_breaker_open_duration_ms'', DNat (unat (cache_circuit_breaker_open_duration_ms c))),
      (''cache_circuit_breaker_half_open_max_calls'', DNat (unat (cache_circuit_breaker_half_open_max_calls c))),
      (''cache_circuit_breaker_backoff_base_ms'', DNat (unat (cache_circuit_breaker_backoff_base_ms c))),
      (''cache_circuit_breaker_backoff_max_ms'', DNat (unat (cache_circuit_breaker_backoff_max_ms c))),
      (''cache_bulkhead_max_concurrent'', DNat (unat (cache_bulkhead_max_concurrent c))),
      (''cache_bulkhead_max_queue'', DNat (unat (cache_bulkhead_max_queue c)))]"

end
