(* ===== verification/Stellar_Client.thy ===== *)
theory Stellar_Client
  imports Stellar_Breaker Hash_Validator App_Config Cache_Backend
begin

text \<open>
  The Horizon client (\<open>src/src/stellar.rs\<close>): verification of a hash against the transactions
  Horizon reports, with retries, bulkhead, stale-cache fallback and circuit breaker. The HTTP
  client, the JSON codecs, base64, the RFC 3339 parser, the random generator, the wait for a
  bulkhead permit and the clocks are the record of parameters \<open>horizon_env\<close>; the world \<open>'n\<close>
  changes while a request, a sleep or a wait is under way. Durations are nanoseconds, and the
  floating-point jitter is computed in rationals.
\<close>

section \<open>Configuration\<close>

definition DEFAULT_RETRY_BASE_DELAY_MS :: u64 where
  "DEFAULT_RETRY_BASE_DELAY_MS = 100"

definition DEFAULT_RETRY_MAX_DELAY_MS :: u64 where
  "DEFAULT_RETRY_MAX_DELAY_MS = 10000"

definition DEFAULT_REQUEST_TIMEOUT_MS :: u64 where
  "DEFAULT_REQUEST_TIMEOUT_MS = 10000"

datatype RetryJitter = JitterNone | JitterFull | JitterEqual | JitterDecorrelated

record RetryPolicy =
  rp_max_retries :: u32
  rp_base_delay :: nat
  rp_max_delay :: nat
  rp_jitter :: RetryJitter

record BulkheadConfig =
  bk_max_concurrent :: u32
  bk_max_queue :: u32

definition BulkheadConfig_default :: BulkheadConfig where
  "BulkheadConfig_default = \<lparr>bk_max_concurrent = 10, bk_max_queue = 100\<rparr>"

record GracefulDegradationConfig =
  gd_fallback_cache_ttl :: nat
  gd_stale_cache_ok :: bool

definition GracefulDegradationConfig_default :: GracefulDegradationConfig where
  "GracefulDegradationConfig_default = \<lparr>gd_fallback_cache_ttl = 300 * 1000000000, gd_stale_cache_ok = True\<rparr>"

record StellarClientConfig =
  st_retry :: RetryPolicy
  st_circuit_breaker :: CircuitBreakerConfig
  st_request_timeout :: nat
  st_rate_limit_per_second :: u32
  st_rate_limit_burst :: u32
  st_bulkhead :: BulkheadConfig
  st_graceful_degradation :: GracefulDegradationConfig

definition StellarClientConfig_default :: StellarClientConfig where
  "StellarClientConfig_default =
     \<lparr>st_retry =
        \<lparr>rp_max_retries = 3, rp_base_delay = from_millis DEFAULT_RETRY_BASE_DELAY_MS,
         rp_max_delay = from_millis DEFAULT_RETRY_MAX_DELAY_MS, rp_jitter = JitterFull\<rparr>,
      st_circuit_breaker = CircuitBreakerConfig_default,
      st_request_timeout = from_millis DEFAULT_REQUEST_TIMEOUT_MS, st_rate_limit_per_second = 10,
      st_rate_limit_burst = 10, st_bulkhead = BulkheadConfig_default,
      st_graceful_degradation = GracefulDegradationConfig_default\<rparr>"

definition jitter_of_name :: "string \<Rightarrow> RetryJitter" where
  "jitter_of_name s =
     (if s = ''none'' then JitterNone
      else if s = ''full'' then JitterFull
      else if s = ''equal'' then JitterEqual
      else if s = ''decorrelated'' then JitterDecorrelated
      else JitterFull)"

definition StellarClientConfig_from_app_config :: "case_table \<Rightarrow> AppConfig \<Rightarrow> StellarClientConfig" where
  "StellarClientConfig_from_app_config tbl c =
     \<lparr>st_retry =
        \<lparr>rp_max_retries = stellar_max_retries c, rp_base_delay = from_millis (stellar_retry_base_delay_ms c),
         rp_max_delay = from_millis (stellar_retry_max_delay_ms c),
         rp_jitter = jitter_of_name (to_lowercase tbl (stellar_retry_jitter_type c))\<rparr>,
      st_circuit_breaker =
        \<lparr>bc_failure_threshold = stellar_circuit_breaker_failure_threshold c,
         bc_open_duration = from_millis (stellar_circuit_breaker_open_duration_ms c),
         bc_half_open_max_calls = stellar_circuit_breaker_half_open_max_calls c\<rparr>,
      st_request_timeout = from_millis (stellar_request_timeout_ms c),
      st_rate_limit_per_second = rate_limit_per_second c, st_rate_limit_burst = rate_limit_burst c,
      st_bulkhead =
        \<lparr>bk_max_concurrent = stellar_bulkhead_max_concurrent c, bk_max_queue = stellar_bulkhead_max_queue c\<rparr>,
      st_graceful_degradation = GracefulDegradationConfig_default\<rparr>"

section \<open>Results\<close>

datatype VerificationStatus = ConfirmedMatch | NoMatch | NetworkError | MalformedResponse

fun verification_status_debug :: "VerificationStatus \<Rightarrow> string" where
  "verification_status_debug ConfirmedMatch = ''ConfirmedMatch''"
| "verification_status_debug NoMatch = ''NoMatch''"
| "verification_status_debug NetworkError = ''NetworkError''"
| "verification_status_debug MalformedResponse = ''MalformedResponse''"

record VerificationResult =
  vr_status :: VerificationStatus
  vr_transaction_id :: "string option"
  vr_timestamp :: "int option"
  vr_last_http_status :: "u16 option"

definition verified :: "VerificationResult \<Rightarrow> bool" where
  "verified r \<longleftrightarrow> vr_status r = ConfirmedMatch"

record TransactionRecord =
  tr_transaction_id :: string
  tr_timestamp :: int
  tr_verified :: bool

record HorizonTransaction =
  tx_id :: string
  tx_created_at :: "string option"
  tx_memo :: "string option"
  tx_memo_type :: "string option"

section \<open>Parameters\<close>

text \<open>A response has a status and a body, which may fail to arrive.\<close>

record http_response =
  rs_status :: u16
  rs_body :: "string + string"

record ('c, 'r, 'n) horizon_env =
  http_get :: "'c \<Rightarrow> string \<Rightarrow> 'n \<Rightarrow> (string + http_response) \<times> 'n"
  horizon_json :: "string \<Rightarrow> string + HorizonTransaction list"
  parse_rfc3339 :: "string \<Rightarrow> int option"
  base64_encode :: "u8 list \<Rightarrow> string"
  hz_sleep :: "nat \<Rightarrow> 'n \<Rightarrow> 'n"
  hz_yield :: "'n \<Rightarrow> 'n"
  hz_clocks :: "'n \<Rightarrow> clocks"
  hz_subsec_nanos :: "'n \<Rightarrow> u32"
  gen_range :: "u64 \<Rightarrow> 'n \<Rightarrow> u64"
  bulkhead_wait :: "nat \<Rightarrow> 'n \<Rightarrow> bool \<times> 'n"
  result_json :: "VerificationResult \<Rightarrow> string + string"
  result_of_json :: "string \<Rightarrow> string + VerificationResult"
  hz_subtle :: subtle_ops
  hz_unicode :: case_table
  hz_redis :: "'r redis_ops"

section \<open>The client\<close>

text \<open>\<open>sc_bulkhead\<close> is the number of permits of the semaphore.\<close>

record ('c, 'r) StellarClient =
  sc_horizon_url :: string
  sc_http_client :: 'c
  sc_circuit_breaker :: CircuitBreaker
  sc_max_retries :: u32
  sc_metrics :: "metrics option"
  sc_config :: StellarClientConfig
  sc_cache :: "'r CacheBackend option"
  sc_bulkhead :: nat

text \<open>
  The fields \<open>Debug\<close> prints, in order; \<open>http_debug\<close> is how the HTTP client prints. The metrics are
  only said to be there.
\<close>

definition StellarClient_debug :: "('c \<Rightarrow> string) \<Rightarrow> ('c, 'r) StellarClient \<Rightarrow> (string \<times> debug_value) list" where
  "StellarClient_debug http_debug c =
     [(''horizon_url'', DString (sc_horizon_url c)), (''http_client'', DString (http_debug (sc_http_client c))),
      (''max_retries'', DNat (unat (sc_max_retries c))),
      (''metrics'', DOption (map_option (\<lambda>_. ''<metrics>'') (sc_metrics c)))]"

definition trim_trailing_slash :: "string \<Rightarrow> string" where
  "trim_trailing_slash s = rev (dropWhile (\<lambda>c. c = CHR ''/'') (rev s))"

definition StellarClient_with_config ::
    "(nat \<Rightarrow> 'c) \<Rightarrow> string \<Rightarrow> StellarClientConfig \<Rightarrow> ('c, 'r) StellarClient" where
  "StellarClient_with_config client url cfg =
     \<lparr>sc_horizon_url = trim_trailing_slash url, sc_http_client = client (st_request_timeout cfg),
      sc_circuit_breaker = CircuitBreaker_new (st_circuit_breaker cfg),
      sc_max_retries = rp_max_retries (st_retry cfg), sc_metrics = None, sc_config = cfg, sc_cache = None,
      sc_bulkhead = unat (bk_max_concurrent (st_bulkhead cfg))\<rparr>"

definition StellarClient_new :: "(nat \<Rightarrow> 'c) \<Rightarrow> string \<Rightarrow> ('c, 'r) StellarClient" where
  "StellarClient_new client url = StellarClient_with_config client url StellarClientConfig_default"

definition StellarClient_from_app_config ::
    "(nat \<Rightarrow> 'c) \<Rightarrow> case_table \<Rightarrow> AppConfig \<Rightarrow> ('c, 'r) StellarClient" where
  "StellarClient_from_app_config client tbl c =
     StellarClient_with_config client (stellar_horizon_url c) (StellarClientConfig_from_app_config tbl c)"

definition with_max_retries :: "u32 \<Rightarrow> ('c, 'r) StellarClient \<Rightarrow> ('c, 'r) StellarClient" where
  "with_max_retries n c = c\<lparr>sc_max_retries := n\<rparr>"

definition stellar_with_metrics :: "metrics \<Rightarrow> ('c, 'r) StellarClient \<Rightarrow> ('c, 'r) StellarClient" where
  "stellar_with_metrics m c = c\<lparr>sc_metrics := Some m\<rparr>"

definition stellar_with_cache :: "'r CacheBackend \<Rightarrow> ('c, 'r) StellarClient \<Rightarrow> ('c, 'r) StellarClient" where
  "stellar_with_cache b c = c\<lparr>sc_cache := Some b\<rparr>"

definition on_stellar_metrics ::
    "(metrics \<Rightarrow> metrics) \<Rightarrow> ('c, 'r) StellarClient \<Rightarrow> ('c, 'r) StellarClient" where
  "on_stellar_metrics f c = c\<lparr>sc_metrics := map_option f (sc_metrics c)\<rparr>"

definition horizon_circuit_state :: "('c, 'r) StellarClient \<Rightarrow> HorizonState" where
  "horizon_circuit_state c = breaker_state (sc_circuit_breaker c)"

definition circuit_breaker_metrics :: "('c, 'r) StellarClient \<Rightarrow> CircuitBreakerMetrics" where
  "circuit_breaker_metrics c = breaker_metrics (sc_circuit_breaker c)"

definition verification_cache_key :: "case_table \<Rightarrow> string \<Rightarrow> CacheKey" where
  "verification_cache_key tbl hash = CacheKey_verification tbl hash"

definition warm_cache ::
    "('c, 'r, 'n) horizon_env \<Rightarrow> (string \<times> VerificationResult \<times> u64) list \<Rightarrow> ('c, 'r) StellarClient \<Rightarrow> 'n \<Rightarrow>
     nat \<times> ('c, 'r) StellarClient" where
  "warm_cache E entries c w =
     (case sc_cache c of
        Some (InMemory inmem) \<Rightarrow>
          let cache_entries =
                map (\<lambda>(hash, r, ttl).
                  (CacheKey_verification (hz_unicode E) hash,
                   case result_json E r of Inl _ \<Rightarrow> [] | Inr s \<Rightarrow> s, ttl)) entries;
              (n, inmem) = warm (\<lambda>_. unix_secs (hz_clocks E w)) cache_entries inmem
          in (n, c\<lparr>sc_cache := Some (InMemory inmem)\<rparr>)
      | _ \<Rightarrow> (0, c))"

section \<open>Delays\<close>

text \<open>Rounding to the nearest integer, ties away from zero, of a rational that is not negative.\<close>

definition round_millis :: "rat \<Rightarrow> u64" where
  "round_millis x = (let n = nat \<lfloor>x + 1 / 2\<rfloor> in if n < 2 ^ 64 then word_of_nat n else - 1)"

definition jittered_delay_full :: "u32 \<Rightarrow> nat \<Rightarrow> nat" where
  "jittered_delay_full nanos max_delay =
     (let fraction = of_nat (unat nanos) / 1000000000
      in from_millis (round_millis (of_nat max_delay / 1000000000 * 1000 * fraction)))"

definition jittered_delay_equal :: "nat \<Rightarrow> nat" where
  "jittered_delay_equal max_delay = from_millis (round_millis (of_nat max_delay / 1000000000 * 1000 / 2))"

definition jittered_delay_decorrelated :: "(u64 \<Rightarrow> u64) \<Rightarrow> nat \<Rightarrow> nat" where
  "jittered_delay_decorrelated draw base =
     (let millis = word_of_nat (base div 1000000);
          decorrelated = sat_mul millis 3 div 4;
          jitter = draw (max decorrelated 1)
      in from_millis (min jitter millis))"

definition checked_mul_duration :: "nat \<Rightarrow> nat \<Rightarrow> nat option" where
  "checked_mul_duration d k = (if d * k div 1000000000 < 2 ^ 64 then Some (d * k) else None)"

definition retry_delay :: "('c, 'r, 'n) horizon_env \<Rightarrow> 'n \<Rightarrow> ('c, 'r) StellarClient \<Rightarrow> u32 \<Rightarrow> nat" where
  "retry_delay E w c attempt =
     (let retry = st_retry (sc_config c);
          multiplier = 2 ^ unat (min attempt 31);
          exponential = (case checked_mul_duration (rp_base_delay retry) multiplier of
                           Some d \<Rightarrow> d | None \<Rightarrow> rp_max_delay retry);
          capped = min exponential (rp_max_delay retry)
      in case rp_jitter retry of
           JitterNone \<Rightarrow> capped
         | JitterFull \<Rightarrow> jittered_delay_full (hz_subsec_nanos E w) capped
         | JitterEqual \<Rightarrow> jittered_delay_equal capped
         | JitterDecorrelated \<Rightarrow> jittered_delay_decorrelated (\<lambda>n. gen_range E n w) capped)"

definition sleep :: "('c, 'r, 'n) horizon_env \<Rightarrow> nat \<Rightarrow> 'n \<Rightarrow> 'n" where
  "sleep E delay w = (if delay = 0 then hz_yield E w else hz_sleep E delay w)"

section \<open>Connection check\<close>

definition http_success :: "u16 \<Rightarrow> bool" where
  "http_success status \<longleftrightarrow> 200 \<le> status \<and> status < 300"

definition check_connection ::
    "('c, 'r, 'n) horizon_env \<Rightarrow> ('c, 'r) StellarClient \<Rightarrow> 'n \<Rightarrow> bool \<times> ('c, 'r) StellarClient \<times> 'n" where
  "check_connection E c w =
     (let start = instant (hz_clocks E w) in
      case http_get E (sc_http_client c) (sc_horizon_url c) w of
        (out, w) \<Rightarrow>
          let r = (case out of Inr resp \<Rightarrow> http_success (rs_status resp) | Inl _ \<Rightarrow> False);
              secs = elapsed_secs start (instant (hz_clocks E w))
          in (r,
              on_stellar_metrics (\<lambda>m.
                let m = record_horizon_latency (if r then ''success'' else ''error'') secs (increment_request_count m)
                in if r then m else increment_error_count m) c,
              w))"

definition check_failed :: "string \<Rightarrow> ('c, 'r) StellarClient \<Rightarrow> StellarError" where
  "check_failed reason c = Request (sc_horizon_url c) reason"

fun check_loop ::
    "('c, 'r, 'n) horizon_env \<Rightarrow> u32 \<Rightarrow> nat \<Rightarrow> StellarError option \<Rightarrow> ('c, 'r) StellarClient \<Rightarrow> 'n \<Rightarrow>
     (StellarError option, unit) result \<times> ('c, 'r) StellarClient \<times> 'n" where
  "check_loop E attempt 0 last_error c w = (Err last_error, c, w)"
| "check_loop E attempt (Suc n) last_error c w =
     (case check_connection E c w of
        (True, c, w) \<Rightarrow> (Ok (), c, w)
      | (False, c, w) \<Rightarrow>
          if n = 0 then (Err last_error, c, w)
          else
            check_loop E (attempt + 1) n
              (Some (check_failed ''connection check returned a non-success response'' c)) c
              (sleep E (retry_delay E w c attempt) w))"

definition check_connection_with_retry ::
    "('c, 'r, 'n) horizon_env \<Rightarrow> ('c, 'r) StellarClient \<Rightarrow> 'n \<Rightarrow>
     (StellarError, bool) result \<times> ('c, 'r) StellarClient \<times> 'n" where
  "check_connection_with_retry E c w =
     (let retries = rp_max_retries (st_retry (sc_config c)); max_attempts = sat_add retries 1 in
      case check_loop E 0 (unat max_attempts) None c w of
        (Ok _, c, w) \<Rightarrow> (Ok True, c, w)
      | (Err last_error, c, w) \<Rightarrow>
          (Err (RetryExhausted ''check_connection'' max_attempts retries
             (case last_error of Some e \<Rightarrow> e | None \<Rightarrow> check_failed ''connection check failed'' c)), c, w))"

section \<open>Verification\<close>

definition ascii_lower :: "char \<Rightarrow> char" where
  "ascii_lower c = (let n = of_char c :: nat in if 65 \<le> n \<and> n \<le> 90 then char_of (n + 32) else c)"

definition eq_ignore_ascii_case :: "string \<Rightarrow> string \<Rightarrow> bool" where
  "eq_ignore_ascii_case s t \<longleftrightarrow> map ascii_lower s = map ascii_lower t"

definition expected_hash_b64 :: "('c, 'r, 'n) horizon_env \<Rightarrow> string \<Rightarrow> string option" where
  "expected_hash_b64 E hash =
     (case CanonicalHash_new (hz_subtle E) hash of
        Err _ \<Rightarrow> None
      | Ok h \<Rightarrow>
          (case to_stellar_memo_base64 (base64_encode E) (hz_unicode E) h of
             Some (Ok s) \<Rightarrow> Some s
           | _ \<Rightarrow> None))"

definition memo_matches :: "('c, 'r, 'n) horizon_env \<Rightarrow> string \<Rightarrow> HorizonTransaction \<Rightarrow> bool" where
  "memo_matches E hash tx =
     (let memo = (case tx_memo tx of Some m \<Rightarrow> m | None \<Rightarrow> []) in
      if tx_memo_type tx = Some ''text'' then eq_ignore_ascii_case memo hash
      else if tx_memo_type tx = Some ''hash'' then
        (case expected_hash_b64 E hash of Some b64 \<Rightarrow> b64 = memo | None \<Rightarrow> False)
      else False)"

definition record_of :: "('c, 'r, 'n) horizon_env \<Rightarrow> HorizonTransaction \<Rightarrow> TransactionRecord" where
  "record_of E tx =
     \<lparr>tr_transaction_id = tx_id tx,
      tr_timestamp =
        (case tx_created_at tx of
           None \<Rightarrow> 0
         | Some ts \<Rightarrow> (case parse_rfc3339 E ts of Some n \<Rightarrow> n | None \<Rightarrow> 0)),
      tr_verified = True\<rparr>"

definition parse_horizon_transaction ::
    "('c, 'r, 'n) horizon_env \<Rightarrow> http_response \<Rightarrow> string \<Rightarrow> (string, TransactionRecord option) result" where
  "parse_horizon_transaction E resp hash =
     (case rs_body resp of
        Inl e \<Rightarrow> Err e
      | Inr body \<Rightarrow>
          (case horizon_json E body of
             Inl e \<Rightarrow> Err e
           | Inr records \<Rightarrow> Ok (map_option (record_of E) (find (memo_matches E hash) records))))"

definition is_retryable_status :: "u16 \<Rightarrow> bool" where
  "is_retryable_status status \<longleftrightarrow> status = 408 \<or> status = 429 \<or> 500 \<le> status \<and> status \<le> 599"

definition try_stale_cache_fallback ::
    "('c, 'r, 'n) horizon_env \<Rightarrow> string \<Rightarrow> ('c, 'r) StellarClient \<Rightarrow> 'n \<Rightarrow>
     VerificationResult option \<times> ('c, 'r) StellarClient" where
  "try_stale_cache_fallback E hash c w =
     (case sc_cache c of
        None \<Rightarrow> (None, c)
      | Some b \<Rightarrow>
          (case backend_get (hz_redis E) (result_of_json E) (hz_clocks E w)
                  (CacheKey_verification (hz_unicode E) hash) b of
             (r, b) \<Rightarrow>
               (case r of
                  Some r \<Rightarrow>
                    if verified r \<or> gd_stale_cache_ok (st_graceful_degradation (sc_config c)) then Some r else None
                | None \<Rightarrow> None,
                c\<lparr>sc_cache := Some b\<rparr>)))"

definition transactions_url :: "string \<Rightarrow> ('c, 'r) StellarClient \<Rightarrow> string" where
  "transactions_url hash c = sc_horizon_url c @ ''/transactions?memo='' @ hash"

datatype loop_exit = ReturnedResult VerificationResult | LeftLoop VerificationStatus "u16 option"

fun verify_loop ::
    "('c, 'r, 'n) horizon_env \<Rightarrow> string \<Rightarrow> nat \<Rightarrow> u32 \<Rightarrow> nat \<Rightarrow> VerificationStatus \<Rightarrow> u16 option \<Rightarrow>
     ('c, 'r) StellarClient \<Rightarrow> 'n \<Rightarrow> loop_exit \<times> ('c, 'r) StellarClient \<times> 'n" where
  "verify_loop E hash start attempt 0 last_status last_http c w = (LeftLoop last_status last_http, c, w)"
| "verify_loop E hash start attempt (Suc n) last_status last_http c w =
     (let (c, w) =
        (if attempt > 0 then
           (on_stellar_metrics increment_retry c, hz_sleep E (retry_delay E w c (attempt - 1)) w)
         else (c, w));
          horizon_start = instant (hz_clocks E w);
          (bulkhead_acquired, w) = bulkhead_wait E (sc_bulkhead c) w
      in if \<not> bulkhead_acquired then
           (case try_stale_cache_fallback E hash c w of
              (Some fallback, c) \<Rightarrow> (ReturnedResult fallback, c, w)
            | (None, c) \<Rightarrow> verify_loop E hash start (attempt + 1) n NetworkError last_http c w)
         else
           (case http_get E (sc_http_client c) (transactions_url hash c) w of
              (Inl _, w) \<Rightarrow>
                verify_loop E hash start (attempt + 1) n NetworkError None
                  (on_stellar_metrics
                    (record_horizon_latency ''error'' (elapsed_secs horizon_start (instant (hz_clocks E w)))) c) w
            | (Inr resp, w) \<Rightarrow>
                let status = rs_status resp;
                    status_str = (if http_success status then ''success'' else ''error'');
                    c = on_stellar_metrics
                          (record_horizon_latency status_str (elapsed_secs horizon_start (instant (hz_clocks E w)))) c
                in if http_success status then
                     (case parse_horizon_transaction E resp hash of
                        Ok (Some record) \<Rightarrow>
                          (ReturnedResult
                             \<lparr>vr_status = ConfirmedMatch, vr_transaction_id = Some (tr_transaction_id record),
                              vr_timestamp = Some (tr_timestamp record), vr_last_http_status = None\<rparr>,
                           on_stellar_metrics
                             (record_verification ''success'' (elapsed_secs start (instant (hz_clocks E w)))) c, w)
                      | Ok None \<Rightarrow> (LeftLoop NoMatch last_http, c, w)
                      | Err _ \<Rightarrow> verify_loop E hash start (attempt + 1) n MalformedResponse last_http c w)
                   else if is_retryable_status status then
                     verify_loop E hash start (attempt + 1) n NetworkError (Some status) c w
                   else (LeftLoop NoMatch (Some status), c, w)))"

definition failed_result :: "VerificationStatus \<Rightarrow> u16 option \<Rightarrow> VerificationResult" where
  "failed_result status http =
     \<lparr>vr_status = status, vr_transaction_id = None, vr_timestamp = None, vr_last_http_status = http\<rparr>"

definition verify_hash ::
    "('c, 'r, 'n) horizon_env \<Rightarrow> string \<Rightarrow> ('c, 'r) StellarClient \<Rightarrow> 'n \<Rightarrow>
     VerificationResult \<times> ('c, 'r) StellarClient \<times> 'n" where
  "verify_hash E hash c w =
     (case CanonicalHash_new (hz_subtle E) hash of
        Err _ \<Rightarrow> (failed_result MalformedResponse None, c, w)
      | Ok canonical \<Rightarrow>
          let start = instant (hz_clocks E w) in
          case verify_loop E (as_str canonical) start 0 (unat (sc_max_retries c) + 1) NoMatch None c w of
            (ReturnedResult r, c, w) \<Rightarrow> (r, c, w)
          | (LeftLoop status http, c, w) \<Rightarrow>
              (failed_result status http,
               on_stellar_metrics
                 (record_verification ''failure'' (elapsed_secs start (instant (hz_clocks E w)))) c, w))"

definition execute_verify_hash_with_retry ::
    "('c, 'r, 'n) horizon_env \<Rightarrow> string \<Rightarrow> ('c, 'r) StellarClient \<Rightarrow> 'n \<Rightarrow>
     (StellarError, VerificationResult) result \<times> ('c, 'r) StellarClient \<times> 'n" where
  "execute_verify_hash_with_retry E hash c w =
     (case verify_hash E hash c w of
        (r, c, w) \<Rightarrow>
          (if vr_status r \<in> {ConfirmedMatch, NoMatch} then Ok r
           else
             let reason = (case vr_last_http_status r of
                             Some status \<Rightarrow> ''HTTP '' @ dec (unat status)
                           | None \<Rightarrow> ''verification returned '' @ verification_status_debug (vr_status r))
             in Err (RetryExhausted ''verify_hash'' (sc_max_retries c + 1) (sc_max_retries c)
                       (Request (sc_horizon_url c) reason)),
           c, w))"

text \<open>The breaker around an operation; other calls may use the breaker while it runs.\<close>

definition stellar_call ::
    "('c, 'r, 'n) horizon_env \<Rightarrow>
     (('c, 'r) StellarClient \<Rightarrow> 'n \<Rightarrow> (StellarError, 'a) result \<times> ('c, 'r) StellarClient \<times> 'n) \<Rightarrow>
     ('c, 'r) StellarClient \<Rightarrow> 'n \<Rightarrow> (StellarError, 'a) result \<times> ('c, 'r) StellarClient \<times> 'n" where
  "stellar_call E operation c w =
     (case allow_call (instant (hz_clocks E w)) (sc_circuit_breaker c) of
        (Err e, b) \<Rightarrow> (Err e, c\<lparr>sc_circuit_breaker := b\<rparr>, w)
      | (Ok _, b) \<Rightarrow>
          (case operation (c\<lparr>sc_circuit_breaker := b\<rparr>) w of
             (r, c, w) \<Rightarrow>
               (r, c\<lparr>sc_circuit_breaker :=
                      record_result (instant (hz_clocks E w)) r (sc_circuit_breaker c)\<rparr>, w)))"

definition verify_hash_with_retry ::
    "('c, 'r, 'n) horizon_env \<Rightarrow> string \<Rightarrow> ('c, 'r) StellarClient \<Rightarrow> 'n \<Rightarrow>
     (StellarError, VerificationResult) result \<times> ('c, 'r) StellarClient \<times> 'n" where
  "verify_hash_with_retry E hash = stellar_call E (execute_verify_hash_with_retry E hash)"

definition anchor_transfer :: "string \<Rightarrow> string \<Rightarrow> ('c, 'r) StellarClient \<Rightarrow> ('c, 'r) StellarClient" where
  "anchor_transfer transfer_hash memo c = on_stellar_metrics increment_request_count c"

end
