(* ===== verification/Stellar_Breaker_Correct.thy ===== *)
theory Stellar_Breaker_Correct
  imports Stellar_Breaker
begin

text \<open>
  The breaker as a machine with three states, and the refinement: every admission and every
  report of a result acts on the breaker's fields as the machine says.
\<close>

section \<open>Readings\<close>

lemma metric_frame [simp]:
  "br_config (increment_trips b) = br_config b" "br_state (increment_trips b) = br_state b"
  "br_opened_at (increment_trips b) = br_opened_at b" "br_half_open_permits (increment_trips b) = br_half_open_permits b"
  "br_config (increment_recoveries b) = br_config b" "br_state (increment_recoveries b) = br_state b"
  "br_opened_at (increment_recoveries b) = br_opened_at b"
  "br_consecutive_failures (increment_recoveries b) = br_consecutive_failures b"
  "br_half_open_permits (increment_recoveries b) = br_half_open_permits b"
  by (simp_all add: breaker_metric_defs)

lemma rejected_frame [simp]:
  "br_config (increment_rejected_calls b) = br_config b" "br_state (increment_rejected_calls b) = br_state b"
  "br_opened_at (increment_rejected_calls b) = br_opened_at b"
  "br_consecutive_failures (increment_rejected_calls b) = br_consecutive_failures b"
  "br_half_open_successes (increment_rejected_calls b) = br_half_open_successes b"
  "br_half_open_permits (increment_rejected_calls b) = br_half_open_permits b"
  by (simp_all add: breaker_metric_defs)

lemma call_frame [simp]:
  "br_config (increment_successful_calls b) = br_config b" "br_state (increment_successful_calls b) = br_state b"
  "br_opened_at (increment_successful_calls b) = br_opened_at b"
  "br_consecutive_failures (increment_successful_calls b) = br_consecutive_failures b"
  "br_half_open_successes (increment_successful_calls b) = br_half_open_successes b"
  "br_half_open_permits (increment_successful_calls b) = br_half_open_permits b"
  "br_config (increment_half_open_successes b) = br_config b" "br_state (increment_half_open_successes b) = br_state b"
  "br_opened_at (increment_half_open_successes b) = br_opened_at b"
  "br_consecutive_failures (increment_half_open_successes b) = br_consecutive_failures b"
  "br_half_open_successes (increment_half_open_successes b) = br_half_open_successes b"
  "br_half_open_permits (increment_half_open_successes b) = br_half_open_permits b"
  "br_half_open_in_flight (increment_successful_calls b) = br_half_open_in_flight b"
  "br_half_open_in_flight (increment_half_open_successes b) = br_half_open_in_flight b"
  by (simp_all add: breaker_metric_defs)

lemma failed_frame [simp]:
  "br_config (increment_failed_calls b) = br_config b" "br_state (increment_failed_calls b) = br_state b"
  "br_opened_at (increment_failed_calls b) = br_opened_at b"
  "br_consecutive_failures (increment_failed_calls b) = br_consecutive_failures b"
  "br_half_open_permits (increment_failed_calls b) = br_half_open_permits b"
  "br_config (increment_half_open_failures b) = br_config b" "br_state (increment_half_open_failures b) = br_state b"
  "br_opened_at (increment_half_open_failures b) = br_opened_at b"
  "br_half_open_permits (increment_half_open_failures b) = br_half_open_permits b"
  by (simp_all add: breaker_metric_defs)

lemma count_error_kind_frame [simp]:
  "br_config (count_error_kind err b) = br_config b" "br_state (count_error_kind err b) = br_state b"
  "br_opened_at (count_error_kind err b) = br_opened_at b"
  "br_consecutive_failures (count_error_kind err b) = br_consecutive_failures b"
  "br_half_open_permits (count_error_kind err b) = br_half_open_permits b"
  by (simp_all add: count_error_kind_def breaker_metric_defs split: StellarError.split)

section \<open>Limits\<close>

definition threshold :: "CircuitBreakerConfig \<Rightarrow> nat" where
  "threshold cfg = max (unat (bc_failure_threshold cfg)) 1"

definition probes :: "CircuitBreakerConfig \<Rightarrow> nat" where
  "probes cfg = max (unat (bc_half_open_max_calls cfg)) 1"

lemma limits_pos: "0 < threshold cfg" "0 < probes cfg"
  by (simp_all add: threshold_def probes_def)

lemma limits_small: "threshold cfg < 2 ^ 32" "probes cfg < 2 ^ 32"
  by (simp_all add: threshold_def probes_def)

lemma limit_words:
  "ucast (max (bc_failure_threshold cfg) 1) \<le> (x :: u64) \<longleftrightarrow> threshold cfg \<le> unat x"
  "ucast (max (bc_half_open_max_calls cfg) 1) \<le> (x :: u64) \<longleftrightarrow> probes cfg \<le> unat x"
  by (simp_all add: word_le_nat_alt unat_u32_as_u64 unat_max_word threshold_def probes_def)

lemma unat_succ:
  assumes "unat x < n" and "n < 2 ^ 32"
  shows "unat (x + 1 :: u64) = unat x + 1"
proof -
  have "unat x + unat (1 :: u64) < 2 ^ 64" using assms by simp
  then show ?thesis by (simp add: unat_word_ariths)
qed

section \<open>The machine\<close>

text \<open>
  Closed with a number of failures in a row, open since an instant, or half-open with a number
  of successes and the balance of calls admitted and reported since it became half-open.
\<close>

datatype machine = MClosed nat | MOpen nat | MHalf nat int

datatype outcome = Success | Failure | Ignored

definition outcome_of :: "(StellarError, unit) result \<Rightarrow> outcome" where
  "outcome_of r =
     (case r of Ok _ \<Rightarrow> Success | Err e \<Rightarrow> if affects_circuit_breaker e then Failure else Ignored)"

fun machine_ask :: "CircuitBreakerConfig \<Rightarrow> nat \<Rightarrow> machine \<Rightarrow> (StellarError, unit) result \<times> machine" where
  "machine_ask cfg t (MClosed f) = (Ok (), MClosed f)"
| "machine_ask cfg t (MOpen t0) =
     (if t - t0 < bc_open_duration cfg
      then (Err (CircuitOpen HorizonOpen (bc_open_duration cfg - (t - t0))), MOpen t0)
      else (Ok (), MHalf 0 0))"
| "machine_ask cfg t (MHalf s d) = (Ok (), MHalf s (d + 1))"

fun machine_report :: "CircuitBreakerConfig \<Rightarrow> nat \<Rightarrow> outcome \<Rightarrow> machine \<Rightarrow> machine" where
  "machine_report cfg t Success (MClosed f) = MClosed 0"
| "machine_report cfg t Failure (MClosed f) = (if f + 1 < threshold cfg then MClosed (f + 1) else MOpen t)"
| "machine_report cfg t Success (MHalf s d) = (if s + 1 < probes cfg then MHalf (s + 1) (d - 1) else MClosed 0)"
| "machine_report cfg t Failure (MHalf s d) = MOpen t"
| "machine_report cfg t x m = m"

fun machine_do ::
  "CircuitBreakerConfig \<Rightarrow> breaker_op \<Rightarrow> machine \<Rightarrow> (StellarError, unit) result option \<times> machine" where
  "machine_do cfg (Ask t) m = (let (r, m') = machine_ask cfg t m in (Some r, m'))"
| "machine_do cfg (Report t r) m = (None, machine_report cfg t (outcome_of r) m)"

fun machine_run ::
  "CircuitBreakerConfig \<Rightarrow> breaker_op list \<Rightarrow> machine \<Rightarrow> (StellarError, unit) result option list \<times> machine" where
  "machine_run cfg [] m = ([], m)"
| "machine_run cfg (x # xs) m =
     (let (r, m1) = machine_do cfg x m; (rs, m2) = machine_run cfg xs m1 in (r # rs, m2))"

section \<open>The breaker implements the machine\<close>

fun shows_state :: "CircuitBreakerConfig \<Rightarrow> machine \<Rightarrow> CircuitBreaker \<Rightarrow> bool" where
  "shows_state cfg (MClosed f) b \<longleftrightarrow>
     br_state b = 0 \<and> br_opened_at b = None \<and> unat (br_consecutive_failures b) = f \<and> f < threshold cfg"
| "shows_state cfg (MOpen t0) b \<longleftrightarrow> br_state b = 1 \<and> br_opened_at b = Some t0"
| "shows_state cfg (MHalf s d) b \<longleftrightarrow>
     br_state b = 2 \<and> br_opened_at b \<noteq> None \<and> unat (br_half_open_successes b) = s \<and> s < probes cfg \<and>
     br_half_open_in_flight b = word_of_int d"

definition implements :: "CircuitBreakerConfig \<Rightarrow> machine \<Rightarrow> CircuitBreaker \<Rightarrow> bool" where
  "implements cfg m b \<longleftrightarrow> br_config b = cfg \<and> br_half_open_permits b = probes cfg \<and> shows_state cfg m b"

lemma implements_simps [simp]:
  "implements cfg (MClosed f) b \<longleftrightarrow> br_config b = cfg \<and> br_half_open_permits b = probes cfg \<and>
     br_state b = 0 \<and> br_opened_at b = None \<and> unat (br_consecutive_failures b) = f \<and> f < threshold cfg"
  "implements cfg (MOpen t0) b \<longleftrightarrow> br_config b = cfg \<and> br_half_open_permits b = probes cfg \<and>
     br_state b = 1 \<and> br_opened_at b = Some t0"
  "implements cfg (MHalf s d) b \<longleftrightarrow> br_config b = cfg \<and> br_half_open_permits b = probes cfg \<and>
     br_state b = 2 \<and> br_opened_at b \<noteq> None \<and> unat (br_half_open_successes b) = s \<and> s < probes cfg \<and>
     br_half_open_in_flight b = word_of_int d"
  by (simp_all add: implements_def)

lemma new_implements: "implements cfg (MClosed 0) (CircuitBreaker_new cfg)"
  by (simp add: CircuitBreaker_new_def limits_pos) (simp add: probes_def unat_max_word)

lemma ask_implements:
  assumes "implements cfg m b"
  shows "fst (allow_call t b) = fst (machine_ask cfg t m) \<and> implements cfg (snd (machine_ask cfg t m)) (snd (allow_call t b))"
  using assms limits_pos [of cfg]
  by (cases m) (auto simp: allow_call_def enter_half_open_def Let_def)

lemma success_implements:
  assumes "implements cfg m b"
  shows "implements cfg (machine_report cfg t Success m) (horizon_success b)"
proof (cases m)
  case (MHalf s d)
  have "unat (br_half_open_successes b + 1) = s + 1"
    using assms MHalf unat_succ [OF _ limits_small(2) [of cfg]] by simp
  then show ?thesis
    using assms MHalf limits_pos [of cfg] by (auto simp: horizon_success_def Let_def limit_words)
qed (use assms limits_pos [of cfg] in \<open>auto simp: horizon_success_def\<close>)

lemma failure_implements:
  assumes "implements cfg m b"
  shows "implements cfg (machine_report cfg t Failure m) (horizon_failure t err b)"
proof (cases m)
  case (MClosed f)
  have "unat (br_consecutive_failures b + 1) = f + 1"
    using assms MClosed unat_succ [OF _ limits_small(1) [of cfg]] by simp
  then show ?thesis
    using assms MClosed by (auto simp: horizon_failure_def Let_def limit_words)
qed (use assms in \<open>auto simp: horizon_failure_def Let_def\<close>)

lemma ignored_implements [simp]: "machine_report cfg t Ignored m = m"
  by (cases m) simp_all

lemma step_implements:
  assumes "implements cfg m b"
  shows "fst (breaker_do x b) = fst (machine_do cfg x m) \<and> implements cfg (snd (machine_do cfg x m)) (snd (breaker_do x b))"
proof (cases x)
  case (Ask t)
  with ask_implements [OF assms, of t] show ?thesis by (simp add: case_prod_beta)
next
  case (Report t r)
  with success_implements [OF assms, of t] failure_implements [OF assms, of t] assms show ?thesis
    by (auto simp: record_result_def outcome_of_def split: result.split)
qed

lemma run_implements:
  "implements cfg m b \<Longrightarrow>
     fst (breaker_run xs b) = fst (machine_run cfg xs m) \<and>
     implements cfg (snd (machine_run cfg xs m)) (snd (breaker_run xs b))"
proof (induction xs arbitrary: m b)
  case (Cons x xs)
  from Cons.IH [OF conjunct2 [OF step_implements [OF Cons.prems, of x]]] step_implements [OF Cons.prems, of x]
  show ?case by (simp add: case_prod_beta)
qed simp

text \<open>The call that ends the open period is not counted as in flight, but its result is discounted.\<close>

lemma uncounted_probe:
  assumes "br_state b = as_usize HorizonOpen" and "fst (allow_call t b) = Ok ()"
  shows "br_half_open_in_flight (horizon_success (snd (allow_call t b))) = - 1"
proof -
  have "snd (allow_call t b) = enter_half_open b"
    using assms by (auto simp: allow_call_def Let_def split: option.splits if_splits)
  then show ?thesis
    by (simp add: horizon_success_def enter_half_open_def breaker_metric_defs Let_def)
qed

end
