(* ===== verification/Stellar_Atomic.thy ===== *)
theory Stellar_Atomic
  imports Stellar_Breaker_Correct
begin

text \<open>
  The breaker's functions atomic operation by atomic operation (\<open>src/src/stellar.rs\<close>,
  \<open>allow_call\<close>, \<open>record_success\<close>, \<open>record_failure\<close>): every load, store, exchange and counter
  update, the lock around the time stamp, and the taking and dropping of the half-open permit
  are steps of their own. Only the updates of the metrics, which nothing reads back, are
  joined to the step before them. Run without interruption the steps are the functions of
  \<open>Stellar_Breaker\<close>; interleaved, a permit held for a moment refuses another caller, and a trip
  can be undone before its time stamp is written.
\<close>

section \<open>Atomic steps\<close>

datatype breaker_pc =
    AllowLoad | AllowOpened | AllowSwap | AllowReset | AllowClear | AllowProbe | AllowCount | AllowDrop
  | FailLoad StellarError | FailCount StellarError | FailSwap | FailLeave | FailSwapHalf | FailStamp bool
  | SuccLoad | SuccReset | SuccLeave | SuccCount | SuccSwap | SuccTake | SuccClear
  | Admitted | Refused StellarError | Reported

fun atomic_step :: "nat \<Rightarrow> breaker_pc \<Rightarrow> CircuitBreaker \<Rightarrow> breaker_pc \<times> CircuitBreaker" where
  "atomic_step t AllowLoad b =
     (if br_state b = 1 then AllowOpened else if br_state b = 2 then AllowProbe else Admitted, b)"
| "atomic_step t AllowOpened b =
     (case br_opened_at b of
        Some opened \<Rightarrow>
          if t - opened \<ge> bc_open_duration (br_config b) then (AllowSwap, b)
          else
            (Refused (CircuitOpen HorizonOpen (bc_open_duration (br_config b) - (t - opened))),
             increment_rejected_calls b)
      | None \<Rightarrow> (AllowSwap, b))"
| "atomic_step t AllowSwap b =
     (if br_state b = 1 then (AllowReset, b\<lparr>br_state := 2\<rparr>) else (AllowLoad, b))"
| "atomic_step t AllowReset b = (AllowClear, b\<lparr>br_half_open_in_flight := 0\<rparr>)"
| "atomic_step t AllowClear b = (Admitted, b\<lparr>br_half_open_successes := 0\<rparr>)"
| "atomic_step t AllowProbe b =
     (if br_half_open_permits b = 0 then (Refused (CircuitOpen HorizonHalfOpen 0), increment_rejected_calls b)
      else (AllowCount, b\<lparr>br_half_open_permits := br_half_open_permits b - 1\<rparr>))"
| "atomic_step t AllowCount b = (AllowDrop, b\<lparr>br_half_open_in_flight := br_half_open_in_flight b + 1\<rparr>)"
| "atomic_step t AllowDrop b = (Admitted, b\<lparr>br_half_open_permits := br_half_open_permits b + 1\<rparr>)"
| "atomic_step t (FailLoad err) b =
     (if br_state b = 0 then FailCount err else if br_state b = 2 then FailLeave else Reported, b)"
| "atomic_step t (FailCount err) b =
     (let failures = br_consecutive_failures b + 1;
          b = increment_failed_calls (count_error_kind err (b\<lparr>br_consecutive_failures := failures\<rparr>))
      in (if failures \<ge> ucast (max (bc_failure_threshold (br_config b)) 1) then FailSwap else Reported, b))"
| "atomic_step t FailSwap b =
     (if br_state b = 0 then (FailStamp False, b\<lparr>br_state := 1\<rparr>) else (Reported, b))"
| "atomic_step t FailLeave b = (FailSwapHalf, b\<lparr>br_half_open_in_flight := br_half_open_in_flight b - 1\<rparr>)"
| "atomic_step t FailSwapHalf b =
     (if br_state b = 2 then (FailStamp True, b\<lparr>br_state := 1\<rparr>) else (Reported, b))"
| "atomic_step t (FailStamp half) b =
     (let b = increment_trips (b\<lparr>br_opened_at := Some t\<rparr>)
      in (Reported, if half then increment_half_open_failures (increment_failed_calls b) else b))"
| "atomic_step t SuccLoad b =
     (if br_state b = 0 then SuccReset else if br_state b = 2 then SuccLeave else Reported, b)"
| "atomic_step t SuccReset b = (Reported, increment_successful_calls (b\<lparr>br_consecutive_failures := 0\<rparr>))"
| "atomic_step t SuccLeave b = (SuccCount, b\<lparr>br_half_open_in_flight := br_half_open_in_flight b - 1\<rparr>)"
| "atomic_step t SuccCount b =
     (let successes = br_half_open_successes b + 1;
          b = increment_half_open_successes (increment_successful_calls (b\<lparr>br_half_open_successes := successes\<rparr>))
      in (if successes \<ge> ucast (max (bc_half_open_max_calls (br_config b)) 1) then SuccSwap else Reported, b))"
| "atomic_step t SuccSwap b =
     (if br_state b = 2 then (SuccTake, b\<lparr>br_state := 0\<rparr>) else (Reported, b))"
| "atomic_step t SuccTake b = (SuccClear, b\<lparr>br_opened_at := None\<rparr>)"
| "atomic_step t SuccClear b = (Reported, increment_recoveries (b\<lparr>br_consecutive_failures := 0\<rparr>))"
| "atomic_step t Admitted b = (Admitted, b)"
| "atomic_step t (Refused e) b = (Refused e, b)"
| "atomic_step t Reported b = (Reported, b)"

section \<open>Uninterrupted runs\<close>

fun run_alone :: "nat \<Rightarrow> nat \<Rightarrow> breaker_pc \<Rightarrow> CircuitBreaker \<Rightarrow> breaker_pc \<times> CircuitBreaker" where
  "run_alone 0 t pc b = (pc, b)"
| "run_alone (Suc n) t pc b = (case atomic_step t pc b of (pc, b) \<Rightarrow> run_alone n t pc b)"

lemma run_alone_unfold: "0 < n \<Longrightarrow> run_alone n t pc b = (case atomic_step t pc b of (pc, b) \<Rightarrow> run_alone (n - 1) t pc b)"
  by (cases n) simp_all

definition verdict_pc :: "(StellarError, unit) result \<Rightarrow> breaker_pc" where
  "verdict_pc r = (case r of Ok _ \<Rightarrow> Admitted | Err e \<Rightarrow> Refused e)"

lemma allow_call_alone:
  "run_alone 5 t AllowLoad b = (verdict_pc (fst (allow_call t b)), snd (allow_call t b))"
  by (auto simp: run_alone_unfold allow_call_def enter_half_open_def verdict_pc_def Let_def split: option.split)

lemma horizon_failure_alone: "run_alone 4 t (FailLoad err) b = (Reported, horizon_failure t err b)"
  by (auto simp: run_alone_unfold horizon_failure_def Let_def breaker_metric_defs)

lemma horizon_success_alone: "run_alone 6 t SuccLoad b = (Reported, horizon_success b)"
  by (auto simp: run_alone_unfold horizon_success_def Let_def breaker_metric_defs)

section \<open>Interleaved runs\<close>

text \<open>A schedule names the thread that takes the next atomic step and the time it reads.\<close>

fun interleave :: "(nat \<times> nat) list \<Rightarrow> breaker_pc list \<Rightarrow> CircuitBreaker \<Rightarrow> breaker_pc list \<times> CircuitBreaker" where
  "interleave [] pcs b = (pcs, b)"
| "interleave ((i, t) # sched) pcs b =
     (if i < length pcs
      then case atomic_step t (pcs ! i) b of (pc, b) \<Rightarrow> interleave sched (pcs[i := pc]) b
      else interleave sched pcs b)"

text \<open>
  A thread inside the half-open branch holds a permit for two steps. Whatever the schedule, the
  permits held and the free ones add up, so a half-open caller is refused exactly at a moment
  when every permit is held.
\<close>

definition permit_held :: "breaker_pc \<Rightarrow> nat" where
  "permit_held pc = (if pc = AllowCount \<or> pc = AllowDrop then 1 else 0)"

lemma atomic_step_permits:
  "atomic_step t pc b = (pc', b') \<Longrightarrow>
     br_half_open_permits b' + permit_held pc' = br_half_open_permits b + permit_held pc"
  by (cases "(t, pc, b)" rule: atomic_step.cases)
    (auto simp: permit_held_def Let_def split: option.splits if_splits)

lemma interleave_permits:
  "interleave sched pcs b = (pcs', b') \<Longrightarrow>
     br_half_open_permits b' + sum_list (map permit_held pcs') = br_half_open_permits b + sum_list (map permit_held pcs)"
proof (induction sched pcs b rule: interleave.induct)
  case (2 i t sched pcs b)
  show ?case
  proof (cases "i < length pcs")
    case True
    obtain pc b1 where step: "atomic_step t (pcs ! i) b = (pc, b1)" by force
    have "sum_list (map permit_held (pcs[i := pc])) + permit_held (pcs ! i) =
        sum_list (map permit_held pcs) + permit_held pc"
      using True elem_le_sum_list [of i "map permit_held pcs"] by (simp add: map_update sum_list_update)
    moreover have "br_half_open_permits b' + sum_list (map permit_held pcs') =
        br_half_open_permits b1 + sum_list (map permit_held (pcs[i := pc]))"
      using 2 True step by simp
    ultimately show ?thesis using atomic_step_permits [OF step] by simp
  qed (use 2 in simp)
qed simp

lemma half_open_refusal:
  assumes "interleave sched pcs b = (pcs', b')" and "sum_list (map permit_held pcs) = 0"
  shows "fst (atomic_step t AllowProbe b') = Refused (CircuitOpen HorizonHalfOpen 0) \<longleftrightarrow>
    sum_list (map permit_held pcs') = br_half_open_permits b"
  using interleave_permits [OF assms(1)] assms(2) by auto

text \<open>
  Thread 0 reports a failure up to the exchange that opens the breaker, thread 1 asks for
  admission and gets it, then thread 0 writes the time stamp.
\<close>

definition trip_race :: "nat \<Rightarrow> (nat \<times> nat) list" where
  "trip_race t = [(0, t), (0, t), (0, t), (1, t), (1, t), (1, t), (1, t), (1, t), (0, t)]"

lemma trips_failed: "trips (br_metrics (increment_failed_calls b)) = trips (br_metrics b)"
  by (simp add: increment_failed_calls_def)

lemma trips_count: "trips (br_metrics (count_error_kind err b)) = trips (br_metrics b)"
  by (simp add: count_error_kind_def increment_timeout_calls_def increment_retryable_http_calls_def
      split: StellarError.split)

text \<open>C37: the trip of the breaker is not atomic. Take a breaker that is closed, with one failure
  missing to its threshold. A task reports the failure and has just moved the breaker to open,
  without its time stamp; another asks for admission, finds no time stamp and makes the breaker
  half-open. The trip is counted, but the open period never happens: a further call is
  admitted at the same instant, where either uninterrupted order of the two refuses it.\<close>

theorem trip_race_skips_open_period:
  assumes "br_state b = 0" and "br_opened_at b = None" and "0 < br_half_open_permits b"
    and "0 < bc_open_duration (br_config b)"
    and "ucast (max (bc_failure_threshold (br_config b)) 1) \<le> br_consecutive_failures b + 1"
  shows "\<exists>b'. interleave (trip_race t) [FailLoad err, AllowLoad] b = ([Reported, Admitted], b') \<and>
    breaker_state b' = HorizonHalfOpen \<and> trips (br_metrics b') = sat_add (trips (br_metrics b)) 1 \<and>
    fst (allow_call t b') = Ok () \<and>
    (\<exists>e. fst (allow_call t (snd (allow_call t (horizon_failure t err b)))) = Err e) \<and>
    (\<exists>e. fst (allow_call t (horizon_failure t err (snd (allow_call t b)))) = Err e)"
proof -
  let ?c = "increment_failed_calls (count_error_kind err (b\<lparr>br_consecutive_failures := br_consecutive_failures b + 1\<rparr>))"
  have c: "br_state ?c = 0" "br_opened_at ?c = None" "br_config ?c = br_config b"
    "br_half_open_permits ?c = br_half_open_permits b" "trips (br_metrics ?c) = trips (br_metrics b)"
    using assms(1,2) by (simp_all add: trips_failed trips_count)
  have early: "allow_call t b = (Ok (), b)" using assms(1) by (simp add: allow_call_def)
  have late: "horizon_failure t err b = increment_trips (?c\<lparr>br_state := 1, br_opened_at := Some t\<rparr>)"
    using assms(1,5) by (simp add: horizon_failure_def Let_def)
  have refused: "\<exists>e. fst (allow_call t (horizon_failure t err b)) = Err e"
    "\<exists>e. fst (allow_call t (snd (allow_call t (horizon_failure t err b)))) = Err e"
    unfolding late using assms(4) c(3) by (simp_all add: allow_call_def)
  let ?b = "increment_trips (?c\<lparr>br_state := 2, br_half_open_in_flight := 0, br_half_open_successes := 0, br_opened_at := Some t\<rparr>)"
  have "interleave (trip_race t) [FailLoad err, AllowLoad] b = ([Reported, Admitted], ?b)"
    using assms(1,5) c by (simp add: trip_race_def Let_def)
  moreover have "breaker_state ?b = HorizonHalfOpen" "fst (allow_call t ?b) = Ok ()"
    using assms(3) c(4) by (simp_all add: breaker_state_def allow_call_def)
  moreover have "trips (br_metrics ?b) = sat_add (trips (br_metrics b)) 1"
    using c(5) by (simp add: increment_trips_def)
  ultimately show ?thesis using refused early by auto
qed

theorem trip_race_skips_open_period_witness:
  "breaker_state (snd (interleave (trip_race 7) [FailLoad (Timeout [] 0), AllowLoad]
     (CircuitBreaker_new \<lparr>bc_failure_threshold = 1, bc_open_duration = 30, bc_half_open_max_calls = 1\<rparr>))) = HorizonHalfOpen"
  using trip_race_skips_open_period
    [of "CircuitBreaker_new \<lparr>bc_failure_threshold = 1, bc_open_duration = 30, bc_half_open_max_calls = 1\<rparr>" 7 "Timeout [] 0"]
  by (auto simp: CircuitBreaker_new_def)

end
