(* ===== verification/Stellar_Claims.thy ===== *)
theory Stellar_Claims
  imports Stellar_Client Stellar_Atomic Hash_Correct
begin

text \<open>
  Properties of the Horizon client: its breaker as a machine over any run of calls, and what a
  verification asks Horizon and concludes from the answers.
\<close>

section \<open>The breaker\<close>

text \<open>C36: the breaker is the three-state machine it means to be, over any sequence of admissions
  and reports of results, at any times and in any order of the reports, each of these running
  to its end before the next (what can happen inside them is C37). Every answer is the
  machine's. Closed, it admits every call; it trips exactly at the report that makes the
  failures in a row reach the threshold, a success sets them to zero, other errors count
  nothing. Open, it refuses exactly for the open duration, with the remaining time in the
  error, and the first call after it makes it half-open. Half-open, it admits every call, so
  the number of concurrent probes is not limited; one failure opens it again, and exactly the
  configured number of successes closes it with no failures counted. The calls admitted less
  the results reported since it became half-open are the in-flight counter modulo 64 bits:
  the call that ended the open period is not counted, so reporting its result first wraps the
  counter to its maximum.\<close>

theorem breaker_is_the_machine:
  "case breaker_run xs (CircuitBreaker_new cfg) of (answers, b) \<Rightarrow>
   case machine_run cfg xs (MClosed 0) of (answers', m) \<Rightarrow>
     answers = answers' \<and>
     (case m of
        MClosed f \<Rightarrow>
          breaker_state b = HorizonClosed \<and> unat (br_consecutive_failures b) = f \<and> f < threshold cfg
      | MOpen t0 \<Rightarrow>
          breaker_state b = HorizonOpen \<and> br_opened_at b = Some t0 \<and>
          (fst (allow_call t b) = Ok () \<longrightarrow>
             br_half_open_in_flight (horizon_success (snd (allow_call t b))) = - 1)
      | MHalf s d \<Rightarrow>
          breaker_state b = HorizonHalfOpen \<and> unat (br_half_open_successes b) = s \<and> s < probes cfg \<and>
          br_half_open_in_flight b = word_of_int d)"
proof -
  obtain rs b where run: "breaker_run xs (CircuitBreaker_new cfg) = (rs, b)" by force
  obtain rs' m where spec: "machine_run cfg xs (MClosed 0) = (rs', m)" by force
  from run_implements [OF new_implements [of cfg], of xs] run spec
  have "rs = rs'" "implements cfg m b" by simp_all
  then show ?thesis
    using uncounted_probe [of b t] by (cases m) (auto simp: run spec breaker_state_def)
qed

theorem breaker_is_the_machine_witness:
  "br_half_open_in_flight (horizon_success (snd (allow_call 40 (horizon_failure 10 (Timeout [] 0)
     (CircuitBreaker_new \<lparr>bc_failure_threshold = 1, bc_open_duration = 30, bc_half_open_max_calls = 2\<rparr>))))) = - 1"
proof -
  let ?cfg = "\<lparr>bc_failure_threshold = 1, bc_open_duration = 30, bc_half_open_max_calls = 2\<rparr>"
  let ?r = "Err (Timeout [] 0) :: (StellarError, unit) result"
  let ?b = "horizon_failure 10 (Timeout [] 0) (CircuitBreaker_new ?cfg)"
  have "machine_run ?cfg [Report 10 ?r] (MClosed 0) = ([None], MOpen 10)"
    by (simp add: outcome_of_def threshold_def)
  moreover have "breaker_run [Report 10 ?r] (CircuitBreaker_new ?cfg) = ([None], ?b)"
    by (simp add: record_result_def)
  moreover have "fst (allow_call 40 ?b) = Ok ()"
    by (simp add: horizon_failure_def CircuitBreaker_new_def Let_def count_error_kind_def breaker_metric_defs allow_call_def)
  ultimately show ?thesis
    using breaker_is_the_machine [where xs = "[Report 10 ?r]" and cfg = ?cfg and t = 40] by simp
qed

section \<open>Observing the requests\<close>

text \<open>The same environment with every request to Horizon and its outcome recorded.\<close>

definition horizon_traced ::
    "('c, 'r, 'n) horizon_env \<Rightarrow> ('c, 'r, 'n \<times> (string \<times> (string + http_response)) list) horizon_env" where
  "horizon_traced E =
     \<lparr>http_get = (\<lambda>cl url (w, tr). case http_get E cl url w of (out, w') \<Rightarrow> (out, w', tr @ [(url, out)])),
      horizon_json = horizon_json E, parse_rfc3339 = parse_rfc3339 E, base64_encode = base64_encode E,
      hz_sleep = (\<lambda>d (w, tr). (hz_sleep E d w, tr)), hz_yield = (\<lambda>(w, tr). (hz_yield E w, tr)),
      hz_clocks = (\<lambda>(w, tr). hz_clocks E w), hz_subsec_nanos = (\<lambda>(w, tr). hz_subsec_nanos E w),
      gen_range = (\<lambda>n (w, tr). gen_range E n w),
      bulkhead_wait = (\<lambda>n (w, tr). case bulkhead_wait E n w of (ok, w') \<Rightarrow> (ok, w', tr)),
      result_json = result_json E, result_of_json = result_of_json E, hz_subtle = hz_subtle E,
      hz_unicode = hz_unicode E, hz_redis = hz_redis E\<rparr>"

text \<open>What one outcome says about a hash: the status, and the transaction of a confirmed match.\<close>

definition judge ::
    "('c, 'r, 'n) horizon_env \<Rightarrow> string \<Rightarrow> string + http_response \<Rightarrow>
     VerificationStatus \<times> string option \<times> int option" where
  "judge E hash out =
     (case out of
        Inl _ \<Rightarrow> (NetworkError, None, None)
      | Inr resp \<Rightarrow>
          if http_success (rs_status resp) then
            (case parse_horizon_transaction E resp hash of
               Ok (Some r) \<Rightarrow> (ConfirmedMatch, Some (tr_transaction_id r), Some (tr_timestamp r))
             | Ok None \<Rightarrow> (NoMatch, None, None)
             | Err _ \<Rightarrow> (MalformedResponse, None, None))
          else (if is_retryable_status (rs_status resp) then NetworkError else NoMatch, None, None))"

definition conclusive :: "VerificationStatus \<Rightarrow> bool" where
  "conclusive st \<longleftrightarrow> st = ConfirmedMatch \<or> st = NoMatch"

text \<open>Inconclusive outcomes up to the first conclusive one or until all attempts are used.\<close>

definition verification_run :: "('c, 'r, 'n) horizon_env \<Rightarrow> string \<Rightarrow> nat \<Rightarrow> (string + http_response) list \<Rightarrow> bool" where
  "verification_run E hash n outs \<longleftrightarrow>
     outs \<noteq> [] \<and> length outs \<le> n \<and>
     list_all (\<lambda>x. \<not> conclusive (fst (judge E hash x))) (butlast outs) \<and>
     (conclusive (fst (judge E hash (last outs))) \<or> length outs = n)"

fun exit_verdict :: "loop_exit \<Rightarrow> VerificationStatus \<times> string option \<times> int option" where
  "exit_verdict (ReturnedResult r) = (vr_status r, vr_transaction_id r, vr_timestamp r)"
| "exit_verdict (LeftLoop st _) = (st, None, None)"

lemma horizon_traced_simps [simp]:
  "parse_horizon_transaction (horizon_traced E) = parse_horizon_transaction E"
  "http_get (horizon_traced E) cl url (w, tr) = (case http_get E cl url w of (out, w') \<Rightarrow> (out, w', tr @ [(url, out)]))"
  "bulkhead_wait (horizon_traced E) n (w, tr) = (case bulkhead_wait E n w of (ok, w') \<Rightarrow> (ok, w', tr))"
  "hz_sleep (horizon_traced E) d (w, tr) = (hz_sleep E d w, tr)"
  "hz_subtle (horizon_traced E) = hz_subtle E"
proof -
  have same: "horizon_json (horizon_traced E) = horizon_json E" "parse_rfc3339 (horizon_traced E) = parse_rfc3339 E"
    "base64_encode (horizon_traced E) = base64_encode E" "hz_unicode (horizon_traced E) = hz_unicode E"
    "hz_subtle (horizon_traced E) = hz_subtle E"
    by (simp_all add: horizon_traced_def)
  have memo: "memo_matches (horizon_traced E) = memo_matches E"
    by (intro ext) (unfold memo_matches_def expected_hash_b64_def same, rule refl)
  have recd: "record_of (horizon_traced E) = record_of E"
    by (intro ext) (unfold record_of_def same, rule refl)
  show "parse_horizon_transaction (horizon_traced E) = parse_horizon_transaction E"
    by (intro ext) (unfold parse_horizon_transaction_def same memo recd, rule refl)
qed (simp_all add: horizon_traced_def)

lemma on_stellar_metrics_simps [simp]:
  "sc_bulkhead (on_stellar_metrics f c) = sc_bulkhead c" "sc_http_client (on_stellar_metrics f c) = sc_http_client c"
  "transactions_url hash (on_stellar_metrics f c) = transactions_url hash c"
  "sc_circuit_breaker (on_stellar_metrics f c) = sc_circuit_breaker c"
  by (simp_all add: on_stellar_metrics_def transactions_url_def)

lemma verification_run_one:
  "0 < n \<Longrightarrow> conclusive (fst (judge E hash out)) \<or> n = 1 \<Longrightarrow> verification_run E hash n [out]"
  by (auto simp: verification_run_def)

lemma verification_run_more:
  "\<not> conclusive (fst (judge E hash out)) \<Longrightarrow> verification_run E hash n outs \<Longrightarrow>
     verification_run E hash (Suc n) (out # outs)"
  by (auto simp: verification_run_def)

text \<open>One attempt: a request, and the end of the loop exactly on a conclusive outcome.\<close>

lemma verify_attempt:
  assumes "\<And>w. fst (bulkhead_wait E (sc_bulkhead c) w)"
    and "verify_loop (horizon_traced E) hash start a (Suc n) st http c (w, tr) = (x, c', w', tr')"
  obtains c1 out w1 http1 where "sc_bulkhead c1 = sc_bulkhead c" "transactions_url hash c1 = transactions_url hash c"
    "if conclusive (fst (judge E hash out))
     then tr' = tr @ [(transactions_url hash c, out)] \<and> exit_verdict x = judge E hash out
     else snd (judge E hash out) = (None, None) \<and>
       verify_loop (horizon_traced E) hash start (a + 1) n (fst (judge E hash out)) http1 c1
         (w1, tr @ [(transactions_url hash c, out)]) = (x, c', w', tr')"
proof -
  let ?T = "horizon_traced E"
  obtain c0 w0 where start: "(if a > 0 then
      (on_stellar_metrics increment_retry c, hz_sleep ?T (retry_delay ?T (w, tr) c (a - 1)) (w, tr))
    else (c, w, tr)) = (c0, w0, tr)"
    by (cases "a > 0") auto
  then have c0: "sc_bulkhead c0 = sc_bulkhead c" "transactions_url hash c0 = transactions_url hash c"
    by (auto split: if_splits)
  obtain w1 where wait: "bulkhead_wait ?T (sc_bulkhead c0) (w0, tr) = (True, w1, tr)"
    using assms(1) [of w0] c0(1) by (cases "bulkhead_wait E (sc_bulkhead c) w0") auto
  obtain out w2 where get: "http_get ?T (sc_http_client c0) (transactions_url hash c0) (w1, tr) =
      (out, w2, tr @ [(transactions_url hash c, out)])"
    using c0(2) by (cases "http_get E (sc_http_client c0) (transactions_url hash c) w1") auto
  note run = assms(2) [unfolded verify_loop.simps start Let_def prod.case wait get]
  show ?thesis
  proof (cases out)
    case (Inl e)
    then show ?thesis using run c0 by (intro that [where out = out]) (auto simp: judge_def conclusive_def)
  next
    case (Inr resp)
    show ?thesis
    proof (cases "http_success (rs_status resp)")
      case True
      then show ?thesis
        using run c0 Inr
        by (intro that [where out = out and ?http1.0 = http])
          (auto simp: judge_def conclusive_def split: result.splits option.splits)
    next
      case False
      then show ?thesis
        using run c0 Inr
        by (intro that [where out = out]) (auto simp: judge_def conclusive_def split: if_splits)
    qed
  qed
qed

lemma verify_loop_traced:
  assumes "\<And>w. fst (bulkhead_wait E (sc_bulkhead c) w)"
    and "verify_loop (horizon_traced E) hash start a (Suc n) st http c (w, tr) = (x, c', w', tr')"
  shows "\<exists>outs. tr' = tr @ map (Pair (transactions_url hash c)) outs \<and> verification_run E hash (Suc n) outs \<and>
    exit_verdict x = judge E hash (last outs)"
  using assms
proof (induction n arbitrary: a st http c w tr)
  case 0
  obtain c1 out w1 http1 where "sc_bulkhead c1 = sc_bulkhead c" "transactions_url hash c1 = transactions_url hash c" and
    out: "if conclusive (fst (judge E hash out))
     then tr' = tr @ [(transactions_url hash c, out)] \<and> exit_verdict x = judge E hash out
     else snd (judge E hash out) = (None, None) \<and>
       verify_loop (horizon_traced E) hash start (a + 1) 0 (fst (judge E hash out)) http1 c1
         (w1, tr @ [(transactions_url hash c, out)]) = (x, c', w', tr')"
    by (rule verify_attempt [OF 0])
  from out have "tr' = tr @ [(transactions_url hash c, out)]" "exit_verdict x = judge E hash out"
    by (auto simp: prod_eq_iff split: if_splits)
  then show ?case by (intro exI [of _ "[out]"]) (simp add: verification_run_one)
next
  case (Suc n)
  obtain c1 out w1 http1 where
    c1: "sc_bulkhead c1 = sc_bulkhead c" "transactions_url hash c1 = transactions_url hash c" and
    out: "if conclusive (fst (judge E hash out))
     then tr' = tr @ [(transactions_url hash c, out)] \<and> exit_verdict x = judge E hash out
     else snd (judge E hash out) = (None, None) \<and>
       verify_loop (horizon_traced E) hash start (a + 1) (Suc n) (fst (judge E hash out)) http1 c1
         (w1, tr @ [(transactions_url hash c, out)]) = (x, c', w', tr')"
    by (rule verify_attempt [OF Suc.prems])
  show ?case
  proof (cases "conclusive (fst (judge E hash out))")
    case True
    with out show ?thesis by (intro exI [of _ "[out]"]) (simp add: verification_run_one)
  next
    case False
    have free: "\<And>w. fst (bulkhead_wait E (sc_bulkhead c1) w)" using Suc.prems(1) c1(1) by simp
    have rest: "verify_loop (horizon_traced E) hash start (a + 1) (Suc n) (fst (judge E hash out)) http1 c1
        (w1, tr @ [(transactions_url hash c, out)]) = (x, c', w', tr')"
      using out False by simp
    from Suc.IH [OF free rest, unfolded c1] obtain outs where outs:
      "tr' = (tr @ [(transactions_url hash c, out)]) @ map (Pair (transactions_url hash c)) outs"
      "verification_run E hash (Suc n) outs" "exit_verdict x = judge E hash (last outs)"
      by blast
    have "outs \<noteq> []" using outs(2) by (simp add: verification_run_def)
    with outs verification_run_more [OF False outs(2)] show ?thesis
      by (intro exI [of _ "out # outs"]) simp
  qed
qed

section \<open>Verification\<close>

text \<open>
  A transaction names the hash: its memo is the hash as text in either case, or base64 of the 32
  bytes the hash writes. Computing the memo never panics.
\<close>

definition memo_names :: "('c, 'r, 'n) horizon_env \<Rightarrow> string \<Rightarrow> HorizonTransaction \<Rightarrow> bool" where
  "memo_names E hash tx \<longleftrightarrow>
     (let memo = (case tx_memo tx of None \<Rightarrow> [] | Some m \<Rightarrow> m) in
      tx_memo_type tx = Some ''text'' \<and> map ascii_lower memo = map ascii_lower hash \<or>
      tx_memo_type tx = Some ''hash'' \<and>
        (\<exists>bs. length bs = 32 \<and> hash = hex_string bs \<and> memo = base64_encode E bs))"

lemma expected_memo:
  assumes "subtle_crate (hz_subtle E)" and "length bs = 32" and "canonical_hex 64 (hex_string bs)"
  shows "expected_hash_b64 E (hex_string bs) = Some (base64_encode E bs)"
proof -
  have "length (hex_string bs) \<noteq> 0" using assms(2) by simp
  then have "hex_string bs \<noteq> []" by (metis list.size(3))
  then have new: "CanonicalHash_new (hz_subtle E) (hex_string bs) = Ok \<lparr>inner = hex_string bs\<rparr>"
    using subtle_crate.new_eq [OF assms(1), of "hex_string bs"] assms(3) by (simp add: canonical_hex_def)
  have "detect_algorithm (hex_string bs) = Some SHA256"
    using assms(3) by (simp add: detect_algorithm_def canonical_hex_def)
  then have "to_stellar_memo_base64 (base64_encode E) (hz_unicode E) \<lparr>inner = hex_string bs\<rparr> =
      Some (Ok (base64_encode E bs))"
    using hex_to_bytes32_canonical [OF assms(2)]
    by (simp add: to_stellar_memo_base64_def to_stellar_memo_hash_def validate_stellar_memo_def to_bytes_def)
  with new show ?thesis by (simp add: expected_hash_b64_def)
qed

lemma memo_matches_iff:
  assumes "subtle_crate (hz_subtle E)" and "canonical_hex 64 hash"
  shows "memo_matches E hash tx \<longleftrightarrow> memo_names E hash tx"
proof -
  obtain bs where bs: "length bs = 32" "hash = hex_string bs"
    using canonical_is_hex_string [of hash 32] assms(2) by (auto simp: canonical_hex_def)
  have memo: "expected_hash_b64 E hash = Some (base64_encode E bs')" if "length bs' = 32" "hash = hex_string bs'" for bs'
    using expected_memo [OF assms(1) that(1)] that(2) assms(2) by simp
  have "(\<exists>bs. length bs = 32 \<and> hash = hex_string bs \<and> m = base64_encode E bs) \<longleftrightarrow> expected_hash_b64 E hash = Some m" for m
    using memo [OF bs] memo bs by (metis option.inject)
  then show ?thesis
    using memo [OF bs] by (auto simp: memo_matches_def memo_names_def eq_ignore_ascii_case_def Let_def)
qed

text \<open>A successful answer that lists a transaction naming the hash.\<close>

definition lists_hash :: "('c, 'r, 'n) horizon_env \<Rightarrow> string \<Rightarrow> string + http_response \<Rightarrow> string \<Rightarrow> bool" where
  "lists_hash E hash out i \<longleftrightarrow>
     (\<exists>resp body records tx. out = Inr resp \<and> http_success (rs_status resp) \<and> rs_body resp = Inr body \<and>
       horizon_json E body = Inr records \<and> tx \<in> set records \<and> memo_names E hash tx \<and> tx_id tx = i)"

lemma judge_confirmed_iff:
  assumes "subtle_crate (hz_subtle E)" and "canonical_hex 64 hash" and "judge E hash out = (st, i, t)"
  shows "st = ConfirmedMatch \<longleftrightarrow> (\<exists>i. lists_hash E hash out i)"
    and "st = ConfirmedMatch \<Longrightarrow> \<exists>j. i = Some j \<and> lists_hash E hash out j"
proof -
  note names = memo_matches_iff [OF assms(1,2)]
  show found: "\<exists>j. i = Some j \<and> lists_hash E hash out j" if confirmed: "st = ConfirmedMatch"
  proof -
    obtain resp r where resp: "out = Inr resp" "http_success (rs_status resp)" "i = Some (tr_transaction_id r)"
      "parse_horizon_transaction E resp hash = Ok (Some r)"
      using assms(3) confirmed by (auto simp: judge_def split: sum.splits if_splits result.splits option.splits)
    from resp(4) obtain body records tx where tx: "rs_body resp = Inr body" "horizon_json E body = Inr records"
      "find (memo_matches E hash) records = Some tx" "r = record_of E tx"
      by (auto simp: parse_horizon_transaction_def split: sum.splits)
    have "tx \<in> set records" "memo_names E hash tx" using tx(3) names by (auto simp: find_Some_iff)
    with resp tx show ?thesis by (auto simp: lists_hash_def record_of_def)
  qed
  have "st = ConfirmedMatch" if listed: "lists_hash E hash out j" for j
  proof -
    obtain resp body records tx where tx: "out = Inr resp" "http_success (rs_status resp)" "rs_body resp = Inr body"
      "horizon_json E body = Inr records" "tx \<in> set records" "memo_matches E hash tx"
      using listed names by (auto simp: lists_hash_def)
    then obtain tx' where "find (memo_matches E hash) records = Some tx'"
      by (cases "find (memo_matches E hash) records") (auto simp: find_None_iff)
    with tx assms(3) show ?thesis by (simp add: judge_def parse_horizon_transaction_def)
  qed
  with found show "st = ConfirmedMatch \<longleftrightarrow> (\<exists>i. lists_hash E hash out i)" by blast
qed

lemma verify_canonical:
  assumes "CanonicalHash_new (hz_subtle E) hash = Ok h" and "as_str h = hash"
    and "\<And>w. fst (bulkhead_wait E (sc_bulkhead c) w)"
    and "verify_hash (horizon_traced E) hash c (w, []) = (r, c', w', requests)"
  shows "\<exists>outs. requests = map (Pair (transactions_url hash c)) outs \<and>
    verification_run E hash (unat (sc_max_retries c) + 1) outs \<and>
    (vr_status r, vr_transaction_id r, vr_timestamp r) = judge E hash (last outs)"
proof -
  let ?start = "instant (hz_clocks (horizon_traced E) (w, []))"
  obtain x c1 w1 tr1 where loop:
    "verify_loop (horizon_traced E) hash ?start 0 (Suc (unat (sc_max_retries c))) NoMatch None c (w, []) = (x, c1, w1, tr1)"
    using prod_cases4 by blast
  have "requests = tr1" "(vr_status r, vr_transaction_id r, vr_timestamp r) = exit_verdict x"
    using assms(1,2,4) loop by (auto simp: verify_hash_def Let_def failed_result_def split: loop_exit.splits)
  with verify_loop_traced [OF assms(3) loop] show ?thesis by simp
qed

text \<open>A malformed argument counts against the breaker like a failure of Horizon, without a request.\<close>

lemma malformed_input_trips:
  assumes "subtle_crate (hz_subtle E)" and "\<not> canonical_hex 64 hash"
    and "allow_call (instant (hz_clocks E w)) (sc_circuit_breaker c) = (Ok (), b)"
  shows "\<exists>err. verify_hash_with_retry E hash c w =
    (Err err, c\<lparr>sc_circuit_breaker := horizon_failure (instant (hz_clocks E w)) err b\<rparr>, w)"
proof -
  obtain e where "CanonicalHash_new (hz_subtle E) hash = Err e"
    using subtle_crate.new_eq [OF assms(1), of hash] assms(2)
    by (cases "CanonicalHash_new (hz_subtle E) hash") (auto split: if_splits)
  with assms(3) show ?thesis
    by (simp add: verify_hash_with_retry_def stellar_call_def execute_verify_hash_with_retry_def verify_hash_def
        failed_result_def record_result_def)
qed

text \<open>C38: a verification always ends, and its answer is the verdict on Horizon's last answer. A text
  that is not 64 lowercase hexadecimal digits is refused as malformed without a request, yet
  behind the breaker it counts as a failure of Horizon. For
  a canonical hash, with bulkhead permits free, the client asks the same URL at least once
  and at most once more than its retries, stops at the first conclusive outcome and otherwise
  uses all attempts; the result has the status of the last outcome. It is verified exactly if
  a successful response lists a transaction whose memo is the hash, as text in either case or
  as base64 of its bytes, and carries that transaction's identifier.\<close>

theorem verify_hash_judges_last_answer:
  assumes "subtle_crate (hz_subtle E)" and "\<And>w. fst (bulkhead_wait E (sc_bulkhead c) w)"
    and "verify_hash (horizon_traced E) hash c (w, []) = (r, c', w', requests)"
  shows "(\<not> canonical_hex 64 hash \<longrightarrow> requests = [] \<and> vr_status r = MalformedResponse \<and>
      (\<forall>b v. allow_call (instant (hz_clocks E v)) (sc_circuit_breaker c) = (Ok (), b) \<longrightarrow>
        (\<exists>err. verify_hash_with_retry E hash c v =
           (Err err, c\<lparr>sc_circuit_breaker := horizon_failure (instant (hz_clocks E v)) err b\<rparr>, v)))) \<and>
    (canonical_hex 64 hash \<longrightarrow>
      (\<exists>outs. requests = map (Pair (sc_horizon_url c @ ''/transactions?memo='' @ hash)) outs \<and>
        verification_run E hash (unat (sc_max_retries c) + 1) outs \<and>
        (vr_status r, vr_transaction_id r, vr_timestamp r) = judge E hash (last outs) \<and>
        (verified r \<longleftrightarrow> (\<exists>i. lists_hash E hash (last outs) i)) \<and>
        (verified r \<longrightarrow> (\<exists>i. vr_transaction_id r = Some i \<and> lists_hash E hash (last outs) i))))"
proof (intro conjI impI allI)
  assume bad: "\<not> canonical_hex 64 hash"
  show "\<exists>err. verify_hash_with_retry E hash c v =
      (Err err, c\<lparr>sc_circuit_breaker := horizon_failure (instant (hz_clocks E v)) err b\<rparr>, v)"
    if "allow_call (instant (hz_clocks E v)) (sc_circuit_breaker c) = (Ok (), b)" for b v
    by (rule malformed_input_trips [OF assms(1) bad that])
  from bad obtain e where "CanonicalHash_new (hz_subtle E) hash = Err e"
    using subtle_crate.new_eq [OF assms(1), of hash] by (cases "CanonicalHash_new (hz_subtle E) hash") (auto split: if_splits)
  then show "requests = []" "vr_status r = MalformedResponse"
    using assms(3) by (auto simp: verify_hash_def failed_result_def)
next
  assume canonical: "canonical_hex 64 hash"
  then have h: "CanonicalHash_new (hz_subtle E) hash = Ok \<lparr>inner = hash\<rparr>" "as_str \<lparr>inner = hash\<rparr> = hash"
    using subtle_crate.new_eq [OF assms(1), of hash] by (auto simp: as_str_def canonical_hex_def)
  from verify_canonical [OF h assms(2,3)] obtain outs where outs:
    "requests = map (Pair (transactions_url hash c)) outs"
    "verification_run E hash (unat (sc_max_retries c) + 1) outs"
    "(vr_status r, vr_transaction_id r, vr_timestamp r) = judge E hash (last outs)"
    by blast
  with judge_confirmed_iff [OF assms(1) canonical outs(3) [symmetric]]
  show "\<exists>outs. requests = map (Pair (sc_horizon_url c @ ''/transactions?memo='' @ hash)) outs \<and>
      verification_run E hash (unat (sc_max_retries c) + 1) outs \<and>
      (vr_status r, vr_transaction_id r, vr_timestamp r) = judge E hash (last outs) \<and>
      (verified r \<longleftrightarrow> (\<exists>i. lists_hash E hash (last outs) i)) \<and>
      (verified r \<longrightarrow> (\<exists>i. vr_transaction_id r = Some i \<and> lists_hash E hash (last outs) i))"
    unfolding transactions_url_def verified_def by blast
qed

text \<open>A Horizon that is down once and then lists one transaction with the hash as its text memo.\<close>

definition demo_hash :: string where
  "demo_hash = replicate 64 (CHR ''a'')"

definition demo_horizon :: "(unit, unit, nat) horizon_env" where
  "demo_horizon =
     \<lparr>http_get = (\<lambda>cl url w. (if w = 0 then Inl ''refused'' else Inr \<lparr>rs_status = 200, rs_body = Inr ''{}''\<rparr>, w + 1)),
      horizon_json =
        (\<lambda>_. Inr [\<lparr>tx_id = ''tx1'', tx_created_at = None, tx_memo = Some demo_hash, tx_memo_type = Some ''text''\<rparr>]),
      parse_rfc3339 = (\<lambda>_. None), base64_encode = (\<lambda>_. []), hz_sleep = (\<lambda>_ w. w), hz_yield = (\<lambda>w. w),
      hz_clocks = (\<lambda>_. \<lparr>instant = 0, system = 0, unix_secs = 0\<rparr>), hz_subsec_nanos = (\<lambda>_. 0), gen_range = (\<lambda>_ _. 0),
      bulkhead_wait = (\<lambda>n w. (0 < n, w)), result_json = (\<lambda>_. Inr []), result_of_json = (\<lambda>_. Inl []),
      hz_subtle = subtle_ref, hz_unicode = (\<lambda>_ c _. [c]),
      hz_redis =
        \<lparr>redis_ping = (\<lambda>r. (False, r)), redis_get = (\<lambda>_ r. (Inl [], r)), redis_set_ex = (\<lambda>_ _ _ r. (Inl [], r)),
         redis_del = (\<lambda>_ r. (Inl [], r))\<rparr>\<rparr>"

definition demo_client :: "(unit, unit) StellarClient" where
  "demo_client = StellarClient_new (\<lambda>_. ()) ''https://h/''"

theorem verify_hash_judges_last_answer_witness:
  "\<exists>outs. snd (snd (snd (verify_hash (horizon_traced demo_horizon) demo_hash demo_client (0, [])))) =
     map (Pair (''https://h/transactions?memo='' @ demo_hash)) outs \<and> verification_run demo_horizon demo_hash 4 outs"
proof -
  obtain r c' w' requests where run:
    "verify_hash (horizon_traced demo_horizon) demo_hash demo_client (0, []) = (r, c', w', requests)"
    using prod_cases4 by blast
  have env: "subtle_crate (hz_subtle demo_horizon)" "\<And>w. fst (bulkhead_wait demo_horizon (sc_bulkhead demo_client) w)"
    using subtle.subtle_crate_axioms
    by (simp_all add: demo_horizon_def demo_client_def StellarClient_new_def StellarClient_with_config_def
        StellarClientConfig_default_def BulkheadConfig_default_def)
  have c: "sc_horizon_url demo_client = ''https://h''" "unat (sc_max_retries demo_client) = 3"
    by (simp_all add: demo_client_def StellarClient_new_def StellarClient_with_config_def
        StellarClientConfig_default_def trim_trailing_slash_def)
  have "canonical_hex 64 demo_hash"
    by (auto simp: canonical_hex_def demo_hash_def list_all_iff hex_byte_def hex_point_def)
  with verify_hash_judges_last_answer [OF env run] show ?thesis unfolding run c by auto
qed

end
