(* ===== verification/Config_Claims.thy ===== *)
theory Config_Claims
  imports App_Config
begin

text \<open>
  What a loaded configuration guarantees to the components built from it, and that the debug
  output hides the secrets.
\<close>

section \<open>Data for the witness\<close>

text \<open>An environment that sets every variable; a URL parses to its scheme.\<close>

definition demo_settings :: "(string \<times> string) list" where
  "demo_settings =
     [(''STELLAR_SECRET_KEY'', ''SKEY''), (''WEBHOOK_URLS'', ''https://a,https://b''),
      (''STELLAR_HORIZON_URL'', ''https://h''), (''REDIS_URL'', ''redis://r''), (''LOG_LEVEL'', ''info''),
      (''STELLAR_RETRY_JITTER_TYPE'', ''full''), (''CACHE_BACKEND'', ''inmemory''),
      (''PER_ISSUER_RATE_LIMIT_JITTER_SECONDS'', ''0'')]"

definition demo_config_env :: "string config_env" where
  "demo_config_env =
     \<lparr>env_var = (\<lambda>key. Some (case map_of demo_settings key of Some v \<Rightarrow> v | None \<Rightarrow> ''1'')),
      parse_url = (\<lambda>s. if CHR '':'' \<in> set s then Some (takeWhile (\<lambda>c. c \<noteq> CHR '':'') s) else None),
      url_scheme = (\<lambda>u. u), private_key_ok = (\<lambda>k. k = ''SKEY''), unicode = (\<lambda>_ _ _. [])\<rparr>"

lemma demo_env_simps:
  "raw demo_config_env key = (case map_of demo_settings key of Some v \<Rightarrow> v | None \<Rightarrow> ''1'')"
  "env_var demo_config_env key = Some (case map_of demo_settings key of Some v \<Rightarrow> v | None \<Rightarrow> ''1'')"
  "get_env_or_default demo_config_env key d = (case map_of demo_settings key of Some v \<Rightarrow> v | None \<Rightarrow> ''1'')"
  "parse_url demo_config_env s = (if CHR '':'' \<in> set s then Some (takeWhile (\<lambda>c. c \<noteq> CHR '':'') s) else None)"
  "url_scheme demo_config_env u = u" "private_key_ok demo_config_env k \<longleftrightarrow> k = ''SKEY''"
  by (simp_all add: raw_def get_env_or_default_def demo_config_env_def)

lemma parse_word_digit: "parse_word ''1'' = Some (1 :: 'a::len word)" "parse_word ''0'' = Some (0 :: 'a word)"
proof -
  have "1 < (2 :: nat) ^ LENGTH('a)" by (rule one_less_power) simp_all
  then show "parse_word ''1'' = Some (1 :: 'a word)" "parse_word ''0'' = Some (0 :: 'a word)"
    by (simp_all add: parse_word_def parse_uint_def digit_value_def)
qed

lemmas demo_checks = demo_env_simps demo_settings_def parse_word_digit check_positive_def check_any_def
  check_timeout_def check_backoff_def check_bool_def to_lowercase_plain MAX_TIMEOUT_MS_def

lemma demo_webhook_urls: "load_webhook_urls demo_config_env = ([''https://a'', ''https://b''], [])"
  by (simp add: load_webhook_urls_def demo_checks trim_plain ValidatedUrl_parse_def)

lemma demo_limits:
  "load_rate_limit_per_second demo_config_env = (1, [])" "load_rate_limit_burst demo_config_env = (1, [])"
  "load_per_issuer_rate_limit_per_second demo_config_env = (1, [])"
  "load_per_issuer_rate_limit_burst demo_config_env = (1, [])"
  "load_issuer_rate_limit_ttl_seconds demo_config_env = (1, [])"
  "load_per_issuer_rate_limit_jitter_seconds demo_config_env = (0, [])"
  "rate_limit_burst_errors demo_config_env = []" "per_issuer_errors demo_config_env = []"
  "jitter_errors demo_config_env = []"
  by (simp_all add: load_rate_limit_per_second_def load_rate_limit_burst_def rate_limit_burst_raw_def
      load_per_issuer_rate_limit_per_second_def load_per_issuer_rate_limit_burst_def per_issuer_burst_raw_def
      load_issuer_rate_limit_ttl_seconds_def load_per_issuer_rate_limit_jitter_seconds_def
      rate_limit_burst_errors_def per_issuer_errors_def jitter_errors_def demo_checks)

lemma demo_service:
  "snd (load_stellar_secret_key demo_config_env) = []" "snd (load_port demo_config_env) = []"
  "horizon_url_errors demo_config_env = []" "redis_url_errors demo_config_env = []"
  "log_level_errors demo_config_env = []"
  by (simp_all add: load_stellar_secret_key_def load_port_def ValidatedPort_new_def PORT_MIN_def PORT_MAX_def
      horizon_url_errors_def redis_url_errors_def log_level_errors_def ValidatedUrl_parse_def
      ValidatedRedisUrl_parse_def demo_checks)

lemma demo_stellar:
  "snd (load_stellar_max_retries demo_config_env) = []"
  "snd (load_stellar_retry_base_delay_ms demo_config_env) = []"
  "snd (load_stellar_retry_max_delay_ms demo_config_env) = []"
  "snd (load_stellar_retry_jitter_enabled demo_config_env) = []"
  "snd (load_stellar_request_timeout_ms demo_config_env) = []"
  "snd (load_stellar_circuit_breaker_failure_threshold demo_config_env) = []"
  "snd (load_stellar_circuit_breaker_open_duration_ms demo_config_env) = []"
  "snd (load_stellar_circuit_breaker_half_open_max_calls demo_config_env) = []"
  "snd (load_stellar_retry_jitter_type demo_config_env) = []"
  "snd (load_stellar_bulkhead_max_concurrent demo_config_env) = []"
  "snd (load_stellar_bulkhead_max_queue demo_config_env) = []"
  "stellar_delay_errors demo_config_env = []"
  by (simp_all add: load_stellar_max_retries_def
      load_stellar_retry_base_delay_ms_def
      load_stellar_retry_max_delay_ms_def
      load_stellar_retry_jitter_enabled_def
      load_stellar_request_timeout_ms_def
      load_stellar_circuit_breaker_failure_threshold_def
      load_stellar_circuit_breaker_open_duration_ms_def
      load_stellar_circuit_breaker_half_open_max_calls_def
      load_stellar_retry_jitter_type_def
      load_stellar_bulkhead_max_concurrent_def
      load_stellar_bulkhead_max_queue_def
      stellar_delay_errors_def demo_checks)

lemma demo_cache:
  "snd (load_cache_verification_ttl demo_config_env) = []"
  "snd (load_cache_backend demo_config_env) = []"
  "snd (load_cache_max_size demo_config_env) = []"
  "snd (load_cache_config_ttl demo_config_env) = []"
  "snd (load_cache_events_ttl demo_config_env) = []"
  "snd (load_cache_circuit_breaker_failure_threshold demo_config_env) = []"
  "snd (load_cache_circuit_breaker_open_duration_ms demo_config_env) = []"
  "snd (load_cache_circuit_breaker_half_open_max_calls demo_config_env) = []"
  "snd (load_cache_circuit_breaker_backoff_base_ms demo_config_env) = []"
  "snd (load_cache_circuit_breaker_backoff_max_ms demo_config_env) = []"
  "snd (load_cache_bulkhead_max_concurrent demo_config_env) = []"
  "snd (load_cache_bulkhead_max_queue demo_config_env) = []"
  by (simp_all add: load_cache_verification_ttl_def
      load_cache_backend_def
      load_cache_max_size_def
      load_cache_config_ttl_def
      load_cache_events_ttl_def
      load_cache_circuit_breaker_failure_threshold_def
      load_cache_circuit_breaker_open_duration_ms_def
      load_cache_circuit_breaker_half_open_max_calls_def
      load_cache_circuit_breaker_backoff_base_ms_def
      load_cache_circuit_breaker_backoff_max_ms_def
      load_cache_bulkhead_max_concurrent_def
      load_cache_bulkhead_max_queue_def demo_checks)

lemma demo_webhook:
  "snd (load_webhook_max_retries demo_config_env) = []"
  "snd (load_webhook_retry_base_delay_ms demo_config_env) = []"
  "snd (load_webhook_retry_max_delay_ms demo_config_env) = []"
  "snd (load_webhook_request_timeout_ms demo_config_env) = []"
  "snd (load_webhook_jitter_enabled demo_config_env) = []"
  "webhook_delay_errors demo_config_env = []"
  by (simp_all add: load_webhook_max_retries_def
      load_webhook_retry_base_delay_ms_def
      load_webhook_retry_max_delay_ms_def
      load_webhook_request_timeout_ms_def
      load_webhook_jitter_enabled_def
      webhook_delay_errors_def demo_checks)

lemma demo_no_errors: "config_errors demo_config_env = []"
  by (simp add: config_errors_def demo_service demo_limits demo_stellar demo_cache demo_webhook demo_webhook_urls)

section \<open>The checks\<close>

lemma check_positive_ok: "snd (check_positive name ty d s) = [] \<Longrightarrow> 0 < fst (check_positive name ty d s)"
  by (auto simp: check_positive_def split: option.splits if_splits)

lemma check_timeout_ok:
  "snd (check_timeout name d s) = [] \<Longrightarrow> 0 < fst (check_timeout name d s) \<and> fst (check_timeout name d s) \<le> MAX_TIMEOUT_MS"
  by (auto simp: check_timeout_def split: option.splits if_splits)

lemma check_backoff_ok:
  "snd (check_backoff name d s) = [] \<Longrightarrow> 0 < fst (check_backoff name d s) \<and> fst (check_backoff name d s) \<le> MAX_TIMEOUT_MS"
  by (auto simp: check_backoff_def split: option.splits if_splits)

lemma load_port_ok: "snd (load_port P) = [] \<Longrightarrow> PORT_MIN \<le> fst (load_port P)"
  by (auto simp: load_port_def ValidatedPort_new_def not_less split: option.splits if_splits)

lemma load_secret_ok:
  "snd (load_stellar_secret_key P) = [] \<Longrightarrow>
     case fst (load_stellar_secret_key P) of None \<Rightarrow> False | Some key \<Rightarrow> private_key_ok P key"
  by (auto simp: load_stellar_secret_key_def split: option.splits if_splits)

lemma load_cache_backend_ok: "fst (load_cache_backend P) \<in> {''redis'', ''inmemory''}"
  by (simp add: load_cache_backend_def Let_def)

lemma load_jitter_type_ok:
  "snd (load_stellar_retry_jitter_type P) = [] \<Longrightarrow>
     to_lowercase (unicode P) (fst (load_stellar_retry_jitter_type P)) \<in> {''none'', ''full'', ''equal'', ''decorrelated''}"
  by (auto simp: load_stellar_retry_jitter_type_def Let_def split: if_splits)

lemma load_webhook_urls_ok:
  "snd (load_webhook_urls P) = [] \<Longrightarrow>
     list_all (\<lambda>url. url \<noteq> [] \<and> is_ok (ValidatedUrl_parse P url)) (fst (load_webhook_urls P))"
  by (auto simp: load_webhook_urls_def Let_def list_all_iff filter_empty_conv)

section \<open>Valid configurations\<close>

definition timeout_ok :: "u64 \<Rightarrow> bool" where
  "timeout_ok v \<longleftrightarrow> 0 < v \<and> v \<le> 300000"

text \<open>What the limiter, the Horizon client, the webhook dispatcher and the cache are given.\<close>

definition valid_limits :: "AppConfig \<Rightarrow> bool" where
  "valid_limits c \<longleftrightarrow>
     0 < rate_limit_per_second c \<and> rate_limit_per_second c \<le> rate_limit_burst c \<and>
     0 < per_issuer_rate_limit_per_second c \<and>
     per_issuer_rate_limit_per_second c \<le> per_issuer_rate_limit_burst c \<and>
     per_issuer_rate_limit_per_second c \<le> rate_limit_per_second c \<and>
     per_issuer_rate_limit_jitter_seconds c < issuer_rate_limit_ttl_seconds c"

definition valid_stellar :: "'u config_env \<Rightarrow> AppConfig \<Rightarrow> bool" where
  "valid_stellar P c \<longleftrightarrow>
     is_ok (ValidatedUrl_parse P (stellar_horizon_url c)) \<and>
     (case stellar_secret_key c of None \<Rightarrow> False | Some key \<Rightarrow> private_key_ok P key) \<and>
     timeout_ok (stellar_retry_base_delay_ms c) \<and> timeout_ok (stellar_retry_max_delay_ms c) \<and>
     stellar_retry_base_delay_ms c \<le> stellar_retry_max_delay_ms c \<and>
     timeout_ok (stellar_request_timeout_ms c) \<and> timeout_ok (stellar_circuit_breaker_open_duration_ms c) \<and>
     0 < stellar_circuit_breaker_failure_threshold c \<and> 0 < stellar_circuit_breaker_half_open_max_calls c \<and>
     0 < stellar_bulkhead_max_concurrent c \<and> 0 < stellar_bulkhead_max_queue c \<and>
     to_lowercase (unicode P) (stellar_retry_jitter_type c) \<in> {''none'', ''full'', ''equal'', ''decorrelated''}"

definition valid_webhooks :: "'u config_env \<Rightarrow> AppConfig \<Rightarrow> bool" where
  "valid_webhooks P c \<longleftrightarrow>
     list_all (\<lambda>url. url \<noteq> [] \<and> is_ok (ValidatedUrl_parse P url)) (webhook_urls c) \<and>
     timeout_ok (webhook_retry_base_delay_ms c) \<and> timeout_ok (webhook_retry_max_delay_ms c) \<and>
     webhook_retry_base_delay_ms c \<le> webhook_retry_max_delay_ms c \<and> timeout_ok (webhook_request_timeout_ms c)"

definition valid_cache :: "'u config_env \<Rightarrow> AppConfig \<Rightarrow> bool" where
  "valid_cache P c \<longleftrightarrow>
     cache_backend c \<in> {''redis'', ''inmemory''} \<and> is_ok (ValidatedRedisUrl_parse P (redis_url c)) \<and>
     0 < cache_circuit_breaker_failure_threshold c \<and> 0 < cache_circuit_breaker_half_open_max_calls c \<and>
     timeout_ok (cache_circuit_breaker_open_duration_ms c) \<and>
     timeout_ok (cache_circuit_breaker_backoff_base_ms c) \<and> timeout_ok (cache_circuit_breaker_backoff_max_ms c) \<and>
     0 < cache_bulkhead_max_concurrent c \<and> 0 < cache_bulkhead_max_queue c"

definition valid_service :: "'u config_env \<Rightarrow> AppConfig \<Rightarrow> bool" where
  "valid_service P c \<longleftrightarrow>
     0 < port c \<and> to_lowercase (unicode P) (log_level c) \<in> {''trace'', ''debug'', ''info'', ''warn'', ''error''}"

lemma timeout_iff: "0 < v \<and> v \<le> MAX_TIMEOUT_MS \<longleftrightarrow> timeout_ok v"
  by (simp add: timeout_ok_def MAX_TIMEOUT_MS_def)

section \<open>The bindings\<close>

lemma timeout_bindings:
  "snd (load_stellar_retry_base_delay_ms P) = [] \<Longrightarrow> timeout_ok (fst (load_stellar_retry_base_delay_ms P))"
  "snd (load_stellar_retry_max_delay_ms P) = [] \<Longrightarrow> timeout_ok (fst (load_stellar_retry_max_delay_ms P))"
  "snd (load_stellar_request_timeout_ms P) = [] \<Longrightarrow> timeout_ok (fst (load_stellar_request_timeout_ms P))"
  "snd (load_stellar_circuit_breaker_open_duration_ms P) = [] \<Longrightarrow> timeout_ok (fst (load_stellar_circuit_breaker_open_duration_ms P))"
  "snd (load_webhook_retry_base_delay_ms P) = [] \<Longrightarrow> timeout_ok (fst (load_webhook_retry_base_delay_ms P))"
  "snd (load_webhook_retry_max_delay_ms P) = [] \<Longrightarrow> timeout_ok (fst (load_webhook_retry_max_delay_ms P))"
  "snd (load_webhook_request_timeout_ms P) = [] \<Longrightarrow> timeout_ok (fst (load_webhook_request_timeout_ms P))"
  "snd (load_cache_circuit_breaker_open_duration_ms P) = [] \<Longrightarrow> timeout_ok (fst (load_cache_circuit_breaker_open_duration_ms P))"
  "snd (load_cache_circuit_breaker_backoff_base_ms P) = [] \<Longrightarrow> timeout_ok (fst (load_cache_circuit_breaker_backoff_base_ms P))"
  "snd (load_cache_circuit_breaker_backoff_max_ms P) = [] \<Longrightarrow> timeout_ok (fst (load_cache_circuit_breaker_backoff_max_ms P))"
  unfolding load_stellar_retry_base_delay_ms_def
    load_stellar_retry_max_delay_ms_def
    load_stellar_request_timeout_ms_def
    load_stellar_circuit_breaker_open_duration_ms_def
    load_webhook_retry_base_delay_ms_def
    load_webhook_retry_max_delay_ms_def
    load_webhook_request_timeout_ms_def
    load_cache_circuit_breaker_open_duration_ms_def
    load_cache_circuit_breaker_backoff_base_ms_def
    load_cache_circuit_breaker_backoff_max_ms_def
  by (auto simp flip: timeout_iff dest: check_timeout_ok check_backoff_ok)

lemma positive_bindings:
  "snd (load_rate_limit_per_second P) = [] \<Longrightarrow> 0 < fst (load_rate_limit_per_second P)"
  "snd (load_per_issuer_rate_limit_per_second P) = [] \<Longrightarrow> 0 < fst (load_per_issuer_rate_limit_per_second P)"
  "snd (load_stellar_circuit_breaker_failure_threshold P) = [] \<Longrightarrow> 0 < fst (load_stellar_circuit_breaker_failure_threshold P)"
  "snd (load_stellar_circuit_breaker_half_open_max_calls P) = [] \<Longrightarrow> 0 < fst (load_stellar_circuit_breaker_half_open_max_calls P)"
  "snd (load_stellar_bulkhead_max_concurrent P) = [] \<Longrightarrow> 0 < fst (load_stellar_bulkhead_max_concurrent P)"
  "snd (load_stellar_bulkhead_max_queue P) = [] \<Longrightarrow> 0 < fst (load_stellar_bulkhead_max_queue P)"
  "snd (load_cache_circuit_breaker_failure_threshold P) = [] \<Longrightarrow> 0 < fst (load_cache_circuit_breaker_failure_threshold P)"
  "snd (load_cache_circuit_breaker_half_open_max_calls P) = [] \<Longrightarrow> 0 < fst (load_cache_circuit_breaker_half_open_max_calls P)"
  "snd (load_cache_bulkhead_max_concurrent P) = [] \<Longrightarrow> 0 < fst (load_cache_bulkhead_max_concurrent P)"
  "snd (load_cache_bulkhead_max_queue P) = [] \<Longrightarrow> 0 < fst (load_cache_bulkhead_max_queue P)"
  unfolding load_rate_limit_per_second_def
    load_per_issuer_rate_limit_per_second_def
    load_stellar_circuit_breaker_failure_threshold_def
    load_stellar_circuit_breaker_half_open_max_calls_def
    load_stellar_bulkhead_max_concurrent_def
    load_stellar_bulkhead_max_queue_def
    load_cache_circuit_breaker_failure_threshold_def
    load_cache_circuit_breaker_half_open_max_calls_def
    load_cache_bulkhead_max_concurrent_def
    load_cache_bulkhead_max_queue_def
  by (rule check_positive_ok, assumption)+

section \<open>Loaded configurations\<close>

lemma loaded_limits: "config_errors P = [] \<Longrightarrow> valid_limits (loaded_config P)"
  by (auto simp: config_errors_def valid_limits_def loaded_config_def rate_limit_burst_errors_def per_issuer_errors_def
      jitter_errors_def Let_def not_less not_le positive_bindings split: if_splits)

lemma loaded_stellar: "config_errors P = [] \<Longrightarrow> valid_stellar P (loaded_config P)"
  using load_secret_ok [of P] load_jitter_type_ok [of P]
  by (simp add: config_errors_def valid_stellar_def loaded_config_def horizon_url_errors_def stellar_delay_errors_def
      timeout_bindings positive_bindings not_less split: if_splits)

lemma loaded_webhooks: "config_errors P = [] \<Longrightarrow> valid_webhooks P (loaded_config P)"
  using load_webhook_urls_ok [of P]
  by (simp add: config_errors_def valid_webhooks_def loaded_config_def webhook_delay_errors_def timeout_bindings
      not_less split: if_splits)

lemma loaded_cache: "config_errors P = [] \<Longrightarrow> valid_cache P (loaded_config P)"
  using load_cache_backend_ok [of P]
  by (simp add: config_errors_def valid_cache_def loaded_config_def redis_url_errors_def timeout_bindings
      positive_bindings split: if_splits)

lemma loaded_service: "config_errors P = [] \<Longrightarrow> valid_service P (loaded_config P)"
  using load_port_ok [of P]
  by (simp add: config_errors_def valid_service_def loaded_config_def log_level_errors_def PORT_MIN_def Let_def
      word_le_nat_alt word_less_nat_alt split: if_splits)

text \<open>C39: a configuration that loads without error is fit for every component built from it: the
  port is positive and the log level known; both tiers of the rate limiter have a positive
  rate not above their burst, the issuer rate is not above the global one and the jitter is
  below the entry lifetime; all delays and timeouts are between one millisecond and five
  minutes with base not above maximum; thresholds and bulkheads are positive; the URLs parse
  with an allowed scheme, the secret key is a valid key; and the load is counted once.\<close>

theorem loaded_config_is_valid:
  assumes "from_env_with_metrics P m = (Ok c, m')"
  shows "valid_service P c \<and> valid_limits c \<and> valid_stellar P c \<and> valid_webhooks P c \<and> valid_cache P c \<and>
    m' = map_option increment_config_reload m"
proof -
  have "config_errors P = []" "c = loaded_config P" "m' = map_option increment_config_reload m"
    using assms by (auto simp: from_env_with_metrics_def split: if_splits)
  then show ?thesis
    using loaded_service loaded_limits loaded_stellar loaded_webhooks loaded_cache by blast
qed

theorem loaded_config_is_valid_witness:
  "\<exists>c. from_env demo_config_env = Ok c \<and> valid_limits c \<and> valid_webhooks demo_config_env c \<and>
     rate_limit_burst c = 1 \<and> webhook_urls c = [''https://a'', ''https://b'']"
proof -
  let ?c = "loaded_config demo_config_env"
  have load: "from_env_with_metrics demo_config_env None = (Ok ?c, None)"
    by (simp add: from_env_with_metrics_def demo_no_errors)
  have "rate_limit_burst ?c = 1" "webhook_urls ?c = [''https://a'', ''https://b'']"
    by (simp_all add: loaded_config_def demo_limits demo_webhook_urls)
  with loaded_config_is_valid [OF load] load show ?thesis
    by (intro exI [of _ ?c]) (simp add: from_env_def)
qed

section \<open>Secrets\<close>

text \<open>The debug output depends on the presence of the secrets only.\<close>

lemma debug_hides_secrets:
  "AppConfig_debug (c\<lparr>stellar_secret_key := map_option f (stellar_secret_key c),
     webhook_secret := map_option g (webhook_secret c)\<rparr>) = AppConfig_debug c"
  by (simp add: AppConfig_debug_def option.map_comp comp_def)

end
