(* ===== verification/Service.thy ===== *)
theory Service
  imports Webhook App_Config Rate_Limiter
begin

text \<open>
  The service binary (\<open>src/src/main.rs\<close>) and the constructors that build the components from
  the configuration: the bootstrap, the HTTP handlers with their routes, the task that watches
  the configuration channel, and the shutdown. The state is what the handlers share. All
  components count into one registry, so a component is lent the registry while it runs and
  its counts are taken back afterwards.

  Parameters are the watch channel of \<open>tokio\<close>, the Redis connection, the listener, the
  Prometheus encoder and the printing of times. A run is a sequence of events: a request with
  the environment and clocks it sees, a turn of the watching task, a signal. The lines logged
  to stderr are left out, except that of the watching task, which is its only output.
\<close>

section \<open>Components from the configuration\<close>

definition WebhookDispatcher_from_app_config ::
    "(u64 \<Rightarrow> 'c) \<Rightarrow> AppConfig \<Rightarrow> metrics option \<Rightarrow> ('c, 'r) WebhookDispatcher" where
  "WebhookDispatcher_from_app_config client config m =
     WebhookDispatcher_new client
       \<lparr>wc_urls = webhook_urls config, wc_secret = webhook_secret config,
        wc_max_retries = webhook_max_retries config, wc_base_delay_ms = webhook_retry_base_delay_ms config,
        wc_max_delay_ms = webhook_retry_max_delay_ms config,
        wc_request_timeout_ms = webhook_request_timeout_ms config,
        wc_jitter_enabled = webhook_jitter_enabled config\<rparr> m"

definition PerIssuerRateLimiter_from_config ::
    "'g governor_ops \<Rightarrow> 'm bucket_map \<Rightarrow> AppConfig \<Rightarrow> metrics option \<Rightarrow> ('g, 'm, 'c) PerIssuerRateLimiter" where
  "PerIssuerRateLimiter_from_config G D cfg m =
     PerIssuerRateLimiter_new G D
       \<lparr>global_per_second = rate_limit_per_second cfg, global_burst = rate_limit_burst cfg,
        cfg_per_issuer_per_second = per_issuer_rate_limit_per_second cfg,
        cfg_per_issuer_burst = per_issuer_rate_limit_burst cfg,
        issuer_ttl_seconds = issuer_rate_limit_ttl_seconds cfg,
        jitter_seconds = per_issuer_rate_limit_jitter_seconds cfg\<rparr> m"

section \<open>Parameters\<close>

text \<open>
  A watch channel with the one receiver of the watching task: \<open>watch_send\<close> answers whether the
  value was sent, \<open>watch_changed\<close> whether the receiver has a value it has not seen, and
  \<open>watch_take\<close> reads the value and marks it seen.
\<close>

record 'w watch_ops =
  watch_new :: "ConfigUpdate \<Rightarrow> 'w"
  watch_send :: "ConfigUpdate \<Rightarrow> 'w \<Rightarrow> bool \<times> 'w"
  watch_changed :: "'w \<Rightarrow> bool"
  watch_take :: "'w \<Rightarrow> ConfigUpdate \<times> 'w"

record ('c, 'r, 'n, 'w) service_env =
  sv_web :: "('c, 'r, 'n) web_env"
  sv_client :: "u64 \<Rightarrow> 'c"
  sv_watch :: "'w watch_ops"
  redis_connect :: "string \<Rightarrow> string + 'r"
  tcp_bind :: "u16 \<Rightarrow> string + unit"
  render :: "metrics \<Rightarrow> string"
  rfc3339 :: "int \<Rightarrow> string"

section \<open>State\<close>

record ('c, 'r, 'w) AppState =
  st_metrics :: metrics
  st_webhook :: "('c, 'r) WebhookDispatcher"
  st_cache :: "'r CacheBackend"
  config_watcher :: 'w
  config_version :: u32
  shutdown_flag :: bool

definition lend_webhook ::
    "(('c, 'r) WebhookDispatcher \<Rightarrow> 'a \<times> ('c, 'r) WebhookDispatcher) \<Rightarrow> ('c, 'r, 'w) AppState \<Rightarrow>
     'a \<times> ('c, 'r, 'w) AppState" where
  "lend_webhook f s =
     (case f ((st_webhook s)\<lparr>wd_metrics := Some (st_metrics s)\<rparr>) of
        (a, d) \<Rightarrow>
          (a, s\<lparr>st_webhook := d,
                st_metrics := (case wd_metrics d of Some m \<Rightarrow> m | None \<Rightarrow> st_metrics s)\<rparr>))"

definition lend_memory ::
    "(InMemoryCache \<Rightarrow> 'a \<times> InMemoryCache) \<Rightarrow> InMemoryCache \<Rightarrow> ('c, 'r, 'w) AppState \<Rightarrow>
     'a \<times> ('c, 'r, 'w) AppState" where
  "lend_memory f c s =
     (case f (c\<lparr>imc_metrics := Some (st_metrics s)\<rparr>) of
        (a, c') \<Rightarrow>
          (a, s\<lparr>st_cache := InMemory c',
                st_metrics := (case imc_metrics c' of Some m \<Rightarrow> m | None \<Rightarrow> st_metrics s)\<rparr>))"

section \<open>Handlers\<close>

datatype body = Json json | Text string

record response =
  an_status :: u16
  an_body :: body

definition json_ok :: "(string \<times> json) list \<Rightarrow> response" where
  "json_ok kvs = \<lparr>an_status = 200, an_body = Json (JObject kvs)\<rparr>"

definition status_message :: "string \<Rightarrow> string \<Rightarrow> response" where
  "status_message st message =
     json_ok [(''status'', JString st), (''message'', JString message)]"

definition health_handler :: "('c, 'r, 'w) AppState \<Rightarrow> response" where
  "health_handler s =
     (if shutdown_flag s then
        \<lparr>an_status = 503, an_body = Json (JObject [(''status'', JString ''shutting_down'')])\<rparr>
      else json_ok [(''status'', JString ''ok'')])"

definition metrics_handler :: "('c, 'r, 'n, 'w) service_env \<Rightarrow> ('c, 'r, 'w) AppState \<Rightarrow> response" where
  "metrics_handler E s = \<lparr>an_status = 200, an_body = Text (render E (st_metrics s))\<rparr>"

definition config_status_handler :: "('c, 'r, 'w) AppState \<Rightarrow> response" where
  "config_status_handler s =
     json_ok [(''config_version'', JNumber (uint (config_version s))),
              (''schema_version'', JNumber (uint app_config_version))]"

definition config_reload_handler ::
    "('c, 'r, 'n, 'w) service_env \<Rightarrow> 'u config_env \<Rightarrow> ('c, 'r, 'w) AppState \<Rightarrow> response \<times> ('c, 'r, 'w) AppState" where
  "config_reload_handler E P s =
     (case from_env_with_metrics P (Some (st_metrics s)) of
        (loaded, m) \<Rightarrow>
          let s = s\<lparr>st_metrics := (case m of Some m \<Rightarrow> m | None \<Rightarrow> st_metrics s)\<rparr> in
          case loaded of
            Err e \<Rightarrow> (status_message ''error'' (config_error_string e), s)
          | Ok new_config \<Rightarrow>
              (case ConfigUpdate_new new_config of
                 Err e \<Rightarrow> (status_message ''error'' (config_error_string e), s)
               | Ok update \<Rightarrow>
                   (case watch_send (sv_watch E) update (config_watcher s) of
                      (True, w) \<Rightarrow>
                        (status_message ''ok'' ''config reload triggered successfully'', s\<lparr>config_watcher := w\<rparr>)
                    | (False, w) \<Rightarrow>
                        (status_message ''error'' ''no subscribers for config update'', s\<lparr>config_watcher := w\<rparr>))))"

definition dlq_status_handler ::
    "('c, 'r, 'n, 'w) service_env \<Rightarrow> clocks \<Rightarrow> ('c, 'r, 'w) AppState \<Rightarrow> response \<times> ('c, 'r, 'w) AppState" where
  "dlq_status_handler E k s =
     (case lend_webhook (dlq_depth (sv_web E) k) s of
        (depth, s) \<Rightarrow> (json_ok [(''dlq_depth'', JNumber (int depth))], s))"

text \<open>The derived serialization of payloads and dead letters; an absent \<open>metadata\<close> is skipped.\<close>

definition payload_value :: "(int \<Rightarrow> string) \<Rightarrow> WebhookPayload \<Rightarrow> json" where
  "payload_value time p =
     JObject ([(''event_id'', JString (wp_event_id p)), (''event_type'', JString (wp_event_type p)),
               (''idempotency_key'', JString (wp_idempotency_key p)), (''sequence'', JNumber (uint (wp_sequence p))),
               (''timestamp'', JString (time (wp_timestamp p))), (''aggregate_id'', JString (wp_aggregate_id p)),
               (''actor'', JString (wp_actor p)), (''data'', wp_data p)] @
              (case wp_metadata p of None \<Rightarrow> [] | Some j \<Rightarrow> [(''metadata'', j)]))"

definition entry_value :: "(int \<Rightarrow> string) \<Rightarrow> DeadLetterEntry \<Rightarrow> json" where
  "entry_value time e =
     JObject [(''url'', JString (dl_url e)), (''payload'', payload_value time (dl_payload e)),
              (''attempts'', JNumber (uint (dl_attempts e))), (''last_error'', JString (dl_last_error e)),
              (''failed_at'', JString (time (dl_failed_at e)))]"

definition dlq_drain_handler ::
    "('c, 'r, 'n, 'w) service_env \<Rightarrow> clocks \<Rightarrow> ('c, 'r, 'w) AppState \<Rightarrow> response \<times> ('c, 'r, 'w) AppState" where
  "dlq_drain_handler E k s =
     (case lend_webhook (drain_dlq (sv_web E) k) s of
        (entries, s) \<Rightarrow>
          (json_ok [(''drained'', JNumber (int (length entries))),
                    (''entries'', JArray (map (entry_value (rfc3339 E)) entries))], s))"

definition webhook_health_handler ::
    "('c, 'r, 'n, 'w) service_env \<Rightarrow> clocks \<Rightarrow> ('c, 'r, 'w) AppState \<Rightarrow> response \<times> ('c, 'r, 'w) AppState" where
  "webhook_health_handler E k s =
     (case lend_webhook (dlq_depth (sv_web E) k) s of
        (depth, s) \<Rightarrow>
          let urls = url_count (st_webhook s);
              is_healthy = (depth = 0 \<and> urls > 0)
          in (json_ok
                [(''status'', JString (if is_healthy then ''healthy'' else if urls = 0 then ''disabled'' else ''degraded'')),
                 (''url_count'', JNumber (int urls)), (''dlq_depth'', JNumber (int depth))], s))"

definition cache_stats_handler :: "('c, 'r, 'w) AppState \<Rightarrow> response \<times> ('c, 'r, 'w) AppState" where
  "cache_stats_handler s =
     (case st_cache s of
        InMemory c \<Rightarrow>
          (case lend_memory cache_stats c s of
             (snap, s) \<Rightarrow>
               (json_ok
                  [(''backend'', JString ''inmemory''), (''hits'', JNumber (int (sn_hits snap))),
                   (''misses'', JNumber (int (sn_misses snap))), (''evictions'', JNumber (int (sn_evictions snap))),
                   (''expired'', JNumber (int (sn_expired snap))), (''hit_rate'', JFloat (sn_hit_rate snap)),
                   (''current_size'', JNumber (int (sn_current_size snap))),
                   (''max_size'', JNumber (int (sn_max_size snap)))], s))
      | Redis _ \<Rightarrow>
          (json_ok [(''backend'', JString ''redis''),
                    (''message'', JString ''Redis cache statistics not yet implemented'')], s))"

section \<open>Routes\<close>

datatype http_method = GET | POST

datatype endpoint =
    Health
  | MetricsText
  | WebhookHealth
  | DlqStatus
  | DlqDrain
  | CacheStatistics
  | ConfigStatus
  | ConfigReload

definition build_router :: "(string \<times> http_method \<times> endpoint) list" where
  "build_router =
     [(''/health'', GET, Health),
      (''/metrics'', GET, MetricsText),
      (''/webhooks/health'', GET, WebhookHealth),
      (''/webhooks/dlq'', GET, DlqStatus),
      (''/webhooks/dlq/drain'', POST, DlqDrain),
      (''/cache/stats'', GET, CacheStatistics),
      (''/config/status'', GET, ConfigStatus),
      (''/config/reload'', POST, ConfigReload)]"

fun handle ::
    "('c, 'r, 'n, 'w) service_env \<Rightarrow> 'u config_env \<Rightarrow> clocks \<Rightarrow> endpoint \<Rightarrow> ('c, 'r, 'w) AppState \<Rightarrow>
     response \<times> ('c, 'r, 'w) AppState" where
  "handle E P k Health s = (health_handler s, s)"
| "handle E P k MetricsText s = (metrics_handler E s, s)"
| "handle E P k WebhookHealth s = webhook_health_handler E k s"
| "handle E P k DlqStatus s = dlq_status_handler E k s"
| "handle E P k DlqDrain s = dlq_drain_handler E k s"
| "handle E P k CacheStatistics s = cache_stats_handler s"
| "handle E P k ConfigStatus s = (config_status_handler s, s)"
| "handle E P k ConfigReload s = config_reload_handler E P s"

section \<open>Tasks\<close>

definition shutdown_signal :: "('c, 'r, 'w) AppState \<Rightarrow> ('c, 'r, 'w) AppState" where
  "shutdown_signal s = s\<lparr>shutdown_flag := True\<rparr>"

text \<open>One turn of the watching task: it waits while there is nothing new.\<close>

definition watch_turn ::
    "('c, 'r, 'n, 'w) service_env \<Rightarrow> ('c, 'r, 'w) AppState \<Rightarrow> u32 option \<times> ('c, 'r, 'w) AppState" where
  "watch_turn E s =
     (if watch_changed (sv_watch E) (config_watcher s) then
        (case watch_take (sv_watch E) (config_watcher s) of
           (update, w) \<Rightarrow>
             (Some (cu_version update),
              s\<lparr>config_watcher := w, st_metrics := increment_config_reload (st_metrics s)\<rparr>))
      else (None, s))"

section \<open>Bootstrap and run\<close>

definition cache_breaker_config :: "AppConfig \<Rightarrow> CacheCircuitBreakerConfig" where
  "cache_breaker_config config =
     \<lparr>ccfg_failure_threshold = cache_circuit_breaker_failure_threshold config,
      ccfg_open_duration_ms = cache_circuit_breaker_open_duration_ms config,
      ccfg_half_open_max_calls = cache_circuit_breaker_half_open_max_calls config,
      ccfg_backoff_base_ms = cache_circuit_breaker_backoff_base_ms config,
      ccfg_backoff_max_ms = cache_circuit_breaker_backoff_max_ms config\<rparr>"

definition memory_cache :: "AppConfig \<Rightarrow> metrics \<Rightarrow> 'r CacheBackend" where
  "memory_cache config m = InMemory (imc_with_metrics m (with_max_size (unat (cache_max_size config))))"

definition init_cache :: "('c, 'r, 'n, 'w) service_env \<Rightarrow> AppConfig \<Rightarrow> metrics \<Rightarrow> 'r CacheBackend" where
  "init_cache E config m =
     (if cache_backend config = ''redis'' then
        (case redis_connect E (redis_url config) of
           Inr conn \<Rightarrow>
             Redis (redis_with_metrics m
               (RedisCache_with_config conn (cache_breaker_config config)
                  \<lparr>bcfg_max_concurrent = cache_bulkhead_max_concurrent config,
                   bcfg_max_queue = cache_bulkhead_max_queue config\<rparr>))
         | Inl _ \<Rightarrow> memory_cache config m)
      else memory_cache config m)"

definition bootstrap ::
    "('c, 'r, 'n, 'w) service_env \<Rightarrow> 'u config_env \<Rightarrow> (string, AppConfig \<times> ('c, 'r, 'w) AppState) result" where
  "bootstrap E P =
     (case from_env_with_metrics P (Some []) of
        (Err e, _) \<Rightarrow> Err (config_error_string e)
      | (Ok config, m) \<Rightarrow>
          (case config_channel config of
             Err e \<Rightarrow> Err (''failed to create config channel: '' @ config_error_string e)
           | Ok update \<Rightarrow>
               let metrics = (case m of Some m \<Rightarrow> m | None \<Rightarrow> [])
               in Ok (config,
                   \<lparr>st_metrics = metrics,
                    st_webhook = WebhookDispatcher_from_app_config (sv_client E) config (Some metrics),
                    st_cache = init_cache E config metrics,
                    config_watcher = watch_new (sv_watch E) update,
                    config_version = app_config_version,
                    shutdown_flag = False\<rparr>)))"

datatype 'u service_event =
    HttpRequest endpoint "'u config_env" clocks
  | WatcherTurn
  | Signal

datatype service_output = Answer endpoint response | HotReload u32 | Quiet

fun service_step ::
    "('c, 'r, 'n, 'w) service_env \<Rightarrow> 'u service_event \<Rightarrow> ('c, 'r, 'w) AppState \<Rightarrow>
     service_output \<times> ('c, 'r, 'w) AppState" where
  "service_step E (HttpRequest e P k) s = (case handle E P k e s of (r, s) \<Rightarrow> (Answer e r, s))"
| "service_step E WatcherTurn s =
     (case watch_turn E s of (Some v, s) \<Rightarrow> (HotReload v, s) | (None, s) \<Rightarrow> (Quiet, s))"
| "service_step E Signal s = (Quiet, shutdown_signal s)"

fun serve ::
    "('c, 'r, 'n, 'w) service_env \<Rightarrow> 'u service_event list \<Rightarrow> ('c, 'r, 'w) AppState \<Rightarrow>
     service_output list \<times> ('c, 'r, 'w) AppState" where
  "serve E [] s = ([], s)"
| "serve E (ev # evs) s =
     (case service_step E ev s of (out, s) \<Rightarrow> (case serve E evs s of (outs, s) \<Rightarrow> (out # outs, s)))"

text \<open>
  The run of a process that is served the given events and then shut down; the drained dead
  letters are discarded. Serving itself does not fail, as the \<open>axum\<close> documentation says.
\<close>

definition run ::
    "('c, 'r, 'n, 'w) service_env \<Rightarrow> 'u config_env \<Rightarrow> 'u service_event list \<Rightarrow> clocks \<Rightarrow>
     (string, service_output list \<times> ('c, 'r, 'w) AppState) result" where
  "run E P evs k =
     (case bootstrap E P of
        Err e \<Rightarrow> Err e
      | Ok (config, s) \<Rightarrow>
          (case tcp_bind E (port config) of
             Inl e \<Rightarrow> Err e
           | Inr _ \<Rightarrow>
               (case serve E evs s of
                  (outs, s) \<Rightarrow> Ok (outs, snd (lend_webhook (drain_dlq (sv_web E) k) s)))))"

definition exit_code :: "(string, 'a) result \<Rightarrow> int" where
  "exit_code r = (case r of Ok _ \<Rightarrow> 0 | Err _ \<Rightarrow> 1)"

end
