(* ===== verification/Service_Correct.thy ===== *)
theory Service_Correct
  imports Service Config_Claims Webhook_Claims
begin

text \<open>
  What the service keeps over any sequence of requests, watcher turns and signals: the
  components stay as the bootstrap configured them, reloads are counted, the health flag
  follows the signal.
\<close>

section \<open>The watch channel\<close>

text \<open>
  What the documentation of the channel promises while its receiver exists: a new channel has
  nothing unseen, sending succeeds and makes its value the unseen one, taking marks it seen.
\<close>

locale watch_channel =
  fixes W :: "'w watch_ops"
    and alive :: "'w \<Rightarrow> bool"
  assumes new_alive: "alive (watch_new W u)"
    and new_seen: "\<not> watch_changed W (watch_new W u)"
    and send_alive: "alive w \<Longrightarrow> alive (snd (watch_send W u w))"
    and send_succeeds: "alive w \<Longrightarrow> fst (watch_send W u w)"
    and send_unseen: "alive w \<Longrightarrow> watch_changed W (snd (watch_send W u w))"
    and send_value: "alive w \<Longrightarrow> fst (watch_take W (snd (watch_send W u w))) = u"
    and take_alive: "alive w \<Longrightarrow> alive (snd (watch_take W w))"
    and take_seen: "alive w \<Longrightarrow> \<not> watch_changed W (snd (watch_take W w))"

definition slot_watch :: "(ConfigUpdate \<times> bool) watch_ops" where
  "slot_watch =
     \<lparr>watch_new = (\<lambda>u. (u, False)), watch_send = (\<lambda>u _. (True, u, True)), watch_changed = snd,
      watch_take = (\<lambda>(u, _). (u, u, False))\<rparr>"

interpretation slot: watch_channel slot_watch "\<lambda>_. True"
  by unfold_locales (auto simp: slot_watch_def split: prod.split)

section \<open>Components as configured\<close>

text \<open>A component without the registry it is lent.\<close>

fun cache_alone :: "'r CacheBackend \<Rightarrow> 'r CacheBackend" where
  "cache_alone (InMemory c) = InMemory (c\<lparr>imc_metrics := None\<rparr>)"
| "cache_alone (Redis c) = Redis (c\<lparr>rc_metrics := None\<rparr>)"

definition as_configured :: "('c, 'r, 'n, 'w) service_env \<Rightarrow> AppConfig \<Rightarrow> ('c, 'r, 'w) AppState \<Rightarrow> bool" where
  "as_configured E c s \<longleftrightarrow>
     (st_webhook s)\<lparr>wd_metrics := None\<rparr> = WebhookDispatcher_from_app_config (sv_client E) c None \<and>
     cache_alone (st_cache s) = cache_alone (init_cache E c []) \<and> config_version s = CONFIG_VERSION"

lemma webhook_of_config:
  "d\<lparr>wd_metrics := None\<rparr> = WebhookDispatcher_from_app_config client c None \<Longrightarrow>
     d = WebhookDispatcher_from_app_config client c (wd_metrics d)"
  by (cases d) (auto simp: WebhookDispatcher_from_app_config_def WebhookDispatcher_new_def)

lemma from_config_simps [simp]:
  "wd_dlq (WebhookDispatcher_from_app_config client c m) = []"
  "wd_cache (WebhookDispatcher_from_app_config client c m) = None"
  "wd_urls (WebhookDispatcher_from_app_config client c m) = webhook_urls c"
  "wd_metrics (WebhookDispatcher_from_app_config client c m) = m"
  "(WebhookDispatcher_from_app_config client c m)\<lparr>wd_metrics := m'\<rparr> = WebhookDispatcher_from_app_config client c m'"
  "(WebhookDispatcher_from_app_config client c m)\<lparr>wd_dlq := []\<rparr> = WebhookDispatcher_from_app_config client c m"
  by (simp_all add: WebhookDispatcher_from_app_config_def WebhookDispatcher_new_def)

lemma lent_dlq:
  assumes "as_configured E c s"
  shows "lend_webhook (dlq_depth W k) s =
      (0, s\<lparr>st_webhook := WebhookDispatcher_from_app_config (sv_client E) c (Some (st_metrics s))\<rparr>)"
    and "lend_webhook (drain_dlq W k) s =
      ([], s\<lparr>st_metrics := set_webhook_dlq_depth 0 (st_metrics s),
             st_webhook := WebhookDispatcher_from_app_config (sv_client E) c
               (Some (set_webhook_dlq_depth 0 (st_metrics s)))\<rparr>)"
proof -
  have d: "st_webhook s = WebhookDispatcher_from_app_config (sv_client E) c (wd_metrics (st_webhook s))"
    using assms by (intro webhook_of_config) (simp add: as_configured_def)
  have lent: "(st_webhook s)\<lparr>wd_metrics := Some (st_metrics s)\<rparr> =
      WebhookDispatcher_from_app_config (sv_client E) c (Some (st_metrics s))"
    by (subst d) simp
  show "lend_webhook (dlq_depth W k) s =
      (0, s\<lparr>st_webhook := WebhookDispatcher_from_app_config (sv_client E) c (Some (st_metrics s))\<rparr>)"
    and "lend_webhook (drain_dlq W k) s =
      ([], s\<lparr>st_metrics := set_webhook_dlq_depth 0 (st_metrics s),
             st_webhook := WebhookDispatcher_from_app_config (sv_client E) c
               (Some (set_webhook_dlq_depth 0 (st_metrics s)))\<rparr>)"
    by (simp_all add: lend_webhook_def lent dlq_depth_def drain_dlq_def on_webhook_metrics_def)
qed

section \<open>One step\<close>

abbreviation reload_count :: "metrics \<Rightarrow> nat" where
  "reload_count m \<equiv> counter_value m ConfigReloadTotal []"

lemma reload_count_simps [simp]:
  "reload_count [] = 0"
  "reload_count (increment_config_reload m) = reload_count m + 1"
  "reload_count (increment_config_validation_failure m) = reload_count m"
  "reload_count (set_webhook_dlq_depth i m) = reload_count m"
  "reload_count (increment_cache_evictions_by n m) = reload_count m"
  "reload_count (set_cache_hit_rate q m) = reload_count m"
  "reload_count (set_cache_size n m) = reload_count m"
  by (simp_all add: counter_value_def increment_config_reload_def increment_config_validation_failure_def
      set_webhook_dlq_depth_def increment_cache_evictions_by_def set_cache_hit_rate_def set_cache_size_def)

definition reload_accepted :: response where
  "reload_accepted = status_message ''ok'' ''config reload triggered successfully''"

definition accepts :: "service_output \<Rightarrow> bool" where
  "accepts out \<longleftrightarrow> out = Answer ConfigReload reload_accepted"

fun hot_reload :: "service_output \<Rightarrow> bool" where
  "hot_reload (HotReload _) \<longleftrightarrow> True"
| "hot_reload _ \<longleftrightarrow> False"

lemma accepts_simps [simp]:
  "\<not> accepts (HotReload v)" "\<not> accepts Quiet" "e \<noteq> ConfigReload \<Longrightarrow> \<not> accepts (Answer e r)"
  "accepts (Answer ConfigReload (status_message ''ok'' m)) \<longleftrightarrow> m = ''config reload triggered successfully''"
  "\<not> accepts (Answer ConfigReload (status_message ''error'' m))"
  by (auto simp: accepts_def reload_accepted_def status_message_def json_ok_def)

lemma dlq_handlers_frame:
  assumes "as_configured E c s"
  shows "as_configured E c (snd (lend_webhook (dlq_depth W k) s))"
    and "as_configured E c (snd (lend_webhook (drain_dlq W k) s))"
  using assms by (simp_all add: lent_dlq [OF assms] as_configured_def)

lemma cache_stats_frame:
  assumes "cache_stats_handler s = (r, s')"
  shows "st_webhook s' = st_webhook s \<and> cache_alone (st_cache s') = cache_alone (st_cache s) \<and>
    config_version s' = config_version s \<and> config_watcher s' = config_watcher s \<and>
    reload_count (st_metrics s') = reload_count (st_metrics s) \<and> shutdown_flag s' = shutdown_flag s"
proof (cases "st_cache s")
  case (InMemory m)
  with assms show ?thesis
    by (auto simp: cache_stats_handler_def lend_memory_def cache_stats_def Let_def)
qed (use assms in \<open>simp add: cache_stats_handler_def\<close>)

text \<open>Every handler but the reload changes counters and the lent registries only.\<close>

lemma handler_frame:
  assumes "as_configured E c s" "e \<noteq> ConfigReload" "handle E P k e s = (r, s')"
  shows "as_configured E c s' \<and> config_watcher s' = config_watcher s \<and>
    reload_count (st_metrics s') = reload_count (st_metrics s) \<and> shutdown_flag s' = shutdown_flag s"
proof (cases e)
  case WebhookHealth
  with assms dlq_handlers_frame(1) [OF assms(1), of "sv_web E" k] show ?thesis
    by (auto simp: webhook_health_handler_def lent_dlq [OF assms(1)] Let_def)
next
  case DlqStatus
  with assms dlq_handlers_frame(1) [OF assms(1), of "sv_web E" k] show ?thesis
    by (auto simp: dlq_status_handler_def lent_dlq [OF assms(1)])
next
  case DlqDrain
  with assms dlq_handlers_frame(2) [OF assms(1), of "sv_web E" k] show ?thesis
    by (auto simp: dlq_drain_handler_def lent_dlq [OF assms(1)])
next
  case CacheStatistics
  with assms(3) have "cache_stats_handler s = (r, s')" by simp
  from cache_stats_frame [OF this] assms(1) show ?thesis by (simp add: as_configured_def)
qed (use assms in simp_all)

context watch_channel
begin

text \<open>The updates still unseen by the watching task, and the counting of one step.\<close>

definition pending :: "('c, 'r, 'w) AppState \<Rightarrow> nat" where
  "pending s = of_bool (watch_changed W (config_watcher s))"

definition step_ok ::
    "('c, 'r, 'n, 'w) service_env \<Rightarrow> AppConfig \<Rightarrow> ('c, 'r, 'w) AppState \<Rightarrow> service_output \<Rightarrow> ('c, 'r, 'w) AppState \<Rightarrow> bool" where
  "step_ok E c s out s' \<longleftrightarrow>
     as_configured E c s' \<and> alive (config_watcher s') \<and>
     reload_count (st_metrics s') = reload_count (st_metrics s) + of_bool (accepts out) + of_bool (hot_reload out) \<and>
     of_bool (hot_reload out) + pending s' \<le> of_bool (accepts out) + pending s"

lemma step_ok_uncounted:
  assumes "as_configured E c s'" "alive (config_watcher s)" "config_watcher s' = config_watcher s"
    and "reload_count (st_metrics s') = reload_count (st_metrics s)" "e \<noteq> ConfigReload"
  shows "step_ok E c s (Answer e r) s'"
  using assms by (simp add: step_ok_def pending_def)

lemma handler_ok:
  assumes "as_configured E c s" "alive (config_watcher s)" "e \<noteq> ConfigReload" "handle E P k e s = (r, s')"
  shows "step_ok E c s (Answer e r) s' \<and> shutdown_flag s' = shutdown_flag s"
  using handler_frame [OF assms(1,3,4)] assms by (simp add: step_ok_uncounted)

lemma reload_ok:
  assumes "sv_watch E = W" "as_configured E c s" "alive (config_watcher s)"
    and "config_reload_handler E P s = (r, s')"
  shows "step_ok E c s (Answer ConfigReload r) s' \<and> shutdown_flag s' = shutdown_flag s"
proof -
  let ?u = "\<lparr>cu_config = loaded_config P, cu_version = ConfigVersion_current\<rparr>"
  obtain w where w: "watch_send W ?u (config_watcher s) = (True, w)" "alive w" "watch_changed W w"
    using send_succeeds [OF assms(3), of ?u] send_alive [OF assms(3), of ?u] send_unseen [OF assms(3), of ?u]
    by (cases "watch_send W ?u (config_watcher s)") simp
  show ?thesis
    using assms w
    by (auto simp: config_reload_handler_def from_env_with_metrics_def ConfigUpdate_new_def step_ok_def
        pending_def as_configured_def split: if_splits)
qed

lemma watch_turn_ok:
  assumes "sv_watch E = W" "as_configured E c s" "alive (config_watcher s)"
    and "service_step E WatcherTurn s = (out, s')"
  shows "step_ok E c s out s' \<and> shutdown_flag s' = shutdown_flag s"
  using assms take_alive [OF assms(3)] take_seen [OF assms(3)]
  by (auto simp: watch_turn_def step_ok_def pending_def as_configured_def split: if_splits prod.splits)

lemma service_step_ok:
  assumes "sv_watch E = W" "as_configured E c s" "alive (config_watcher s)" "service_step E ev s = (out, s')"
  shows "step_ok E c s out s' \<and> (shutdown_flag s' \<longleftrightarrow> shutdown_flag s \<or> ev = Signal)"
proof (cases ev)
  case (HttpRequest e P k)
  with assms obtain r where "handle E P k e s = (r, s')" "out = Answer e r"
    by (auto split: prod.splits)
  then show ?thesis
    using assms HttpRequest handler_ok [of E c s e P k r s'] reload_ok [of E c s P r s'] by (cases "e = ConfigReload") auto
next
  case WatcherTurn
  with assms show ?thesis using watch_turn_ok by blast
qed (use assms in \<open>auto simp: step_ok_def shutdown_signal_def pending_def as_configured_def\<close>)

section \<open>Runs\<close>

lemma serve_ok:
  assumes "sv_watch E = W" "as_configured E c s" "alive (config_watcher s)" "serve E evs s = (outs, s')"
  shows "as_configured E c s' \<and>
    reload_count (st_metrics s') =
      reload_count (st_metrics s) + length (filter accepts outs) + length (filter hot_reload outs) \<and>
    length (filter hot_reload outs) + pending s' \<le> length (filter accepts outs) + pending s \<and>
    (shutdown_flag s' \<longleftrightarrow> shutdown_flag s \<or> Signal \<in> set evs)"
  using assms(2-)
proof (induction evs arbitrary: s outs)
  case (Cons ev evs)
  obtain out s1 outs' where step: "service_step E ev s = (out, s1)" "serve E evs s1 = (outs', s')" "outs = out # outs'"
    using Cons.prems(3) by (auto split: prod.splits)
  note now = service_step_ok [OF assms(1) Cons.prems(1,2) step(1)]
  with Cons.IH [OF _ _ step(2)] show ?case
    by (auto simp: step_ok_def step(3))
qed simp

end

lemma bootstrap_configured:
  assumes "bootstrap E P = Ok (c, s)"
  shows "as_configured E c s" "c = loaded_config P" "config_errors P = []" "reload_count (st_metrics s) = 1"
    "\<not> shutdown_flag s" "config_watcher s = watch_new (sv_watch E) \<lparr>cu_config = c, cu_version = ConfigVersion_current\<rparr>"
proof -
  have "cache_alone (init_cache E c m) = cache_alone (init_cache E c [])" for m
    by (simp add: init_cache_def memory_cache_def redis_with_metrics_def imc_with_metrics_def split: sum.split)
  then show "as_configured E c s" "c = loaded_config P" "config_errors P = []" "reload_count (st_metrics s) = 1"
    "\<not> shutdown_flag s" "config_watcher s = watch_new (sv_watch E) \<lparr>cu_config = c, cu_version = ConfigVersion_current\<rparr>"
    using assms
    by (auto simp: bootstrap_def from_env_with_metrics_def config_channel_def ConfigUpdate_new_def as_configured_def
        app_config_version_def Let_def split: if_splits)
qed

text \<open>The service starts exactly on a configuration without errors.\<close>

lemma bootstrap_iff: "is_ok (bootstrap E P) \<longleftrightarrow> config_errors P = []"
  by (simp add: bootstrap_def from_env_with_metrics_def config_channel_def ConfigUpdate_new_def Let_def)

text \<open>A valid configuration gives the rate limiter its limits unchanged.\<close>

lemma max_one_word: "0 < (x :: 'a::len word) \<Longrightarrow> max x 1 = x"
  by (intro max_absorb1) (simp add: word_le_nat_alt word_less_nat_alt)

lemma limiter_from_valid_config:
  "valid_limits c \<Longrightarrow>
     global (PerIssuerRateLimiter_from_config G D c m) = gov_direct G (rate_limit_per_second c) (rate_limit_burst c)"
  by (auto simp: PerIssuerRateLimiter_from_config_def PerIssuerRateLimiter_new_def valid_limits_def max_one_word)

section \<open>What a valid configuration gives\<close>

text \<open>A retry of the configured dispatcher waits at most five minutes and a quarter of them.\<close>

lemma configured_backoff:
  fixes d :: "('c, 'r) WebhookDispatcher"
  assumes "valid_webhooks P c" "d = WebhookDispatcher_from_app_config client c m"
  shows "unat (backoff_delay nanos d i) \<le> 375000"
proof -
  define capped where "capped = min (sat_mul (webhook_retry_base_delay_ms c) (push_bit (unat (min i 20)) 1))
    (webhook_retry_max_delay_ms c)"
  have capped: "unat capped \<le> 300000"
    using assms(1) by (auto simp: capped_def valid_webhooks_def timeout_ok_def word_le_nat_alt min_def)
  have "unat (jitter_ms nanos (capped div 4)) \<le> 75000"
  proof (cases "capped div 4 = 0")
    case False
    then have "unat (ucast nanos mod (capped div 4)) < unat (capped div 4)"
      by (simp add: unat_mod_distrib unat_gt_0)
    with capped False show ?thesis by (simp add: jitter_ms_def unat_div_distrib)
  qed (simp add: jitter_ms_def)
  moreover have "backoff_delay nanos d i =
      (if webhook_jitter_enabled c then sat_add capped (jitter_ms nanos (capped div 4)) else capped)"
    unfolding assms(2) backoff_delay_def WebhookDispatcher_from_app_config_def WebhookDispatcher_new_def capped_def Let_def
    by (simp only: WebhookDispatcher.simps WebhookDispatcherConfig.simps)
  ultimately show ?thesis
    using capped by (simp add: unat_sat_add)
qed

text \<open>The breaker of the cache gets a threshold it can reach and a backoff that does not overflow.\<close>

lemma configured_cache_breaker:
  assumes "valid_cache P c"
  shows "0 < unat (ccfg_failure_threshold (cache_breaker_config c))"
    "0 < unat (ccfg_half_open_max_calls (cache_breaker_config c))"
    "unat (ccfg_backoff_base_ms (cache_breaker_config c)) * 64 < 2 ^ 64"
  using assms
  by (simp_all add: cache_breaker_config_def valid_cache_def timeout_ok_def word_le_nat_alt word_less_nat_alt)

section \<open>A service for the witness\<close>

definition demo_service_env :: "(u64, unit, unit, ConfigUpdate \<times> bool) service_env" where
  "demo_service_env =
     \<lparr>sv_web = demo_env, sv_client = (\<lambda>ms. ms), sv_watch = slot_watch, redis_connect = (\<lambda>_. Inl ''refused''),
      tcp_bind = (\<lambda>_. Inr ()), render = (\<lambda>_. []), rfc3339 = (\<lambda>_. [])\<rparr>"

end
