(* ===== verification/Hash_Timing.thy ===== *)
theory Hash_Timing
  imports Hash_Correct
begin

text \<open>
  What the running time of the validators (\<open>src/src/hash_validator.rs\<close>) can depend on. The
  validators of \<open>Hash_Validator\<close> are written again with the trace of the bytes they look at and
  of the branches they take, in the order of the source: \<open>Iterator::all\<close> and
  \<open>Iterator::position\<close> stop at the first byte that decides them, the mask loop visits every
  byte without a branch. Forgetting the trace gives the validators back.
\<close>

section \<open>Traces\<close>

datatype leak = Visit nat | Branch bool

text \<open>The bytes looked at, in order.\<close>

definition visits :: "leak list \<Rightarrow> nat list" where
  "visits tr = concat (map (\<lambda>e. case e of Visit i \<Rightarrow> [i] | Branch _ \<Rightarrow> []) tr)"

lemma visits_simps [simp]:
  "visits [] = []" "visits (Visit i # tr) = i # visits tr" "visits (Branch b # tr) = visits tr"
  "visits (tr @ tr') = visits tr @ visits tr'"
  by (simp_all add: visits_def)

fun valid_mask_traced :: "nat \<Rightarrow> u8 \<Rightarrow> string \<Rightarrow> u8 \<times> leak list" where
  "valid_mask_traced i all_valid [] = (all_valid, [])"
| "valid_mask_traced i all_valid (b # bs) =
     (case valid_mask_traced (i + 1) (all_valid AND ((if hex_byte b then 1 else 0) AND 1)) bs of
        (acc, tr) \<Rightarrow> (acc, Visit i # tr))"

text \<open>
  \<open>all\<close> of the hexadecimal test from a position on, and the scan of \<open>position\<close> for the first byte
  that fails it: a branch records whether the scan goes on.
\<close>

fun all_hex_traced :: "nat \<Rightarrow> string \<Rightarrow> bool \<times> leak list" where
  "all_hex_traced i [] = (True, [])"
| "all_hex_traced i (b # bs) =
     (if hex_byte b then (case all_hex_traced (i + 1) bs of (r, tr) \<Rightarrow> (r, Visit i # Branch True # tr))
      else (False, [Visit i, Branch False]))"

definition is_canonical_shape_traced :: "string \<Rightarrow> bool \<times> leak list" where
  "is_canonical_shape_traced hash =
     (if length hash \<noteq> hex_length SHA256 then (False, [Branch True])
      else case all_hex_traced 0 hash of (r, tr) \<Rightarrow> (r, Branch False # tr))"

definition validate_constant_time_traced ::
    "subtle_ops \<Rightarrow> string \<Rightarrow> nat \<Rightarrow> (ValidationError, unit) result \<times> leak list" where
  "validate_constant_time_traced S hash expected_len =
     (case valid_mask_traced 0 255 hash of
        (acc, loop) \<Rightarrow>
          let is_empty = ct_eq_usize S 0 (length hash);
              wrong_len = (\<not> ct_eq_usize S expected_len (length hash));
              bad_chars = (\<not> choice_from S acc)
          in if is_empty then (Err EmptyHash, loop @ [Branch True])
             else if wrong_len then
               (Err (WrongLength expected_len (length hash)), loop @ [Branch False, Branch True])
             else if bad_chars then
               (Err (InvalidCharacter (first_bad hash) (of_char (hash ! first_bad hash))),
                loop @ [Branch False, Branch False, Branch True] @ snd (all_hex_traced 0 hash))
             else (Ok (), loop @ [Branch False, Branch False, Branch False]))"

definition validate_for_contract_traced :: "subtle_ops \<Rightarrow> string \<Rightarrow> (ValidationError, string) result \<times> leak list" where
  "validate_for_contract_traced S hash =
     (if hash = [] then (Err EmptyHash, [Branch True])
      else case is_canonical_shape_traced hash of
        (False, shape) \<Rightarrow>
          if length hash = hex_length SHA512 then
            (Err UnsupportedAlgorithm, [Branch False] @ shape @ [Branch True, Branch True])
          else if length hash = hex_length SHA256 then
            (Err NotCanonical, [Branch False] @ shape @ [Branch True, Branch False, Branch True])
          else
            (Err (WrongLength (hex_length SHA256) (length hash)),
             [Branch False] @ shape @ [Branch True, Branch False, Branch False])
      | (True, shape) \<Rightarrow>
          (case validate_constant_time_traced S hash 64 of
             (Err e, tr) \<Rightarrow> (Err e, [Branch False] @ shape @ [Branch False] @ tr)
           | (Ok _, tr) \<Rightarrow> (Ok hash, [Branch False] @ shape @ [Branch False] @ tr)))"

section \<open>Results\<close>

lemma valid_mask_traced_eq: "valid_mask_traced i m bs = (valid_mask m bs, map Visit [i..<i + length bs])"
  by (induction bs arbitrary: i m) (simp_all add: upt_conv_Cons del: upt_Suc)

lemma all_hex_traced_fst: "fst (all_hex_traced i bs) = list_all hex_byte bs"
  by (induction bs arbitrary: i) (simp_all add: case_prod_beta)

lemma all_hex_traced_good:
  "list_all hex_byte bs \<Longrightarrow> snd (all_hex_traced i bs) = concat (map (\<lambda>j. [Visit j, Branch True]) [i..<i + length bs])"
  by (induction bs arbitrary: i) (simp_all add: case_prod_beta upt_conv_Cons del: upt_Suc)

lemma all_hex_traced_bad:
  "\<not> list_all hex_byte bs \<Longrightarrow> visits (snd (all_hex_traced i bs)) = [i..<i + Suc (length (takeWhile hex_byte bs))]"
  by (induction bs arbitrary: i) (auto simp: case_prod_beta upt_conv_Cons simp del: upt_Suc)

lemma constant_time_traced_fst: "fst (validate_constant_time_traced S hash n) = validate_with_length_constant_time S hash n"
  by (simp add: validate_constant_time_traced_def validate_with_length_constant_time_def valid_mask_traced_eq Let_def)

lemma shape_traced_fst: "fst (is_canonical_shape_traced hash) = is_canonical_shape hash"
  using all_hex_traced_fst [of 0 hash]
  by (simp add: is_canonical_shape_traced_def is_canonical_shape_def is_canonical_shape_with_len_def case_prod_beta)

lemma contract_traced_fst: "fst (validate_for_contract_traced S hash) = validate_for_contract S hash"
  using shape_traced_fst [of hash] constant_time_traced_fst [of S hash 64]
  by (auto simp: validate_for_contract_traced_def validate_for_contract_def validate_sha256_constant_time_def
      split: prod.splits bool.splits result.splits)

lemma first_bad_takeWhile:
  assumes "\<not> list_all hex_byte s"
  shows "first_bad s = length (takeWhile hex_byte s)"
proof -
  have "length (takeWhile hex_byte s) < length s" using assms by (induction s) auto
  then show ?thesis by (simp add: first_bad_def)
qed

text \<open>The trace of the constant-time validator: the part before the verdict depends on lengths only.\<close>

definition length_trace :: "nat \<Rightarrow> nat \<Rightarrow> leak list" where
  "length_trace n expected =
     map Visit [0..<n] @ (if n = 0 then [Branch True] else [Branch False, Branch (n \<noteq> expected)])"

context subtle_crate
begin

lemma constant_time_trace:
  assumes "0 < n"
  shows "snd (validate_constant_time_traced S hash n) =
    length_trace (length hash) n @
      (if length hash \<noteq> n then []
       else if list_all hex_byte hash then [Branch False]
       else Branch True # snd (all_hex_traced 0 hash))"
  using assms
  by (auto simp: validate_constant_time_traced_def valid_mask_traced_eq length_trace_def ct_eq_usize valid_mask_eq
      choice_zero choice_one Let_def)

end

section \<open>The property\<close>

text \<open>C18: the constant-time validator is constant-time up to its verdict: on inputs of the same length
  it visits every byte once and takes the same branches, and on accepted inputs the whole
  trace is the same. The policy for contract submission is not: before that validator it
  looks for canonical shape with a scan that stops at the first invalid byte, so for a text
  of 64 bytes that is refused as not canonical it looks at exactly the bytes up to the first
  invalid one, and texts with different valid prefixes have different traces. The traced
  functions compute what the validators compute.\<close>

theorem contract_policy_leaks_prefix:
  assumes "subtle_crate S" and "0 < n"
  shows "fst (validate_constant_time_traced S a n) = validate_with_length_constant_time S a n \<and>
    fst (validate_for_contract_traced S a) = validate_for_contract S a \<and>
    (\<exists>verdict. snd (validate_constant_time_traced S a n) = length_trace (length a) n @ verdict \<and>
      (is_ok (validate_with_length_constant_time S a n) \<longrightarrow> verdict = [Branch False])) \<and>
    visits (length_trace (length a) n) = [0..<length a] \<and>
    (validate_for_contract S a = Err NotCanonical \<longrightarrow>
      visits (snd (validate_for_contract_traced S a)) = [0..<Suc (first_bad a)]) \<and>
    (validate_for_contract S a = Err NotCanonical \<and> validate_for_contract S b = Err NotCanonical \<and>
      first_bad a \<noteq> first_bad b \<longrightarrow>
      snd (validate_for_contract_traced S a) \<noteq> snd (validate_for_contract_traced S b))"
proof -
  have scanned: "visits (snd (validate_for_contract_traced S s)) = [0..<Suc (first_bad s)]"
    if "validate_for_contract S s = Err NotCanonical" for s
  proof -
    have s: "length s = 64" "\<not> list_all hex_byte s" "s \<noteq> []"
      using that by (auto simp: subtle_crate.contract_eq [OF assms(1)] canonical_hex_def split: if_splits)
    then have "snd (validate_for_contract_traced S s) =
        [Branch False, Branch False] @ snd (all_hex_traced 0 s) @ [Branch True, Branch False, Branch True]"
      using all_hex_traced_fst [of 0 s]
      by (simp add: validate_for_contract_traced_def is_canonical_shape_traced_def case_prod_beta)
    then show ?thesis using all_hex_traced_bad [OF s(2), of 0] by (simp add: first_bad_takeWhile [OF s(2)])
  qed
  have "is_ok (validate_with_length_constant_time S a n) \<longleftrightarrow> length a = n \<and> list_all hex_byte a"
    using assms(2) by (auto simp: subtle_crate.ct_validate_eq [OF assms(1)])
  then have "\<exists>verdict. snd (validate_constant_time_traced S a n) = length_trace (length a) n @ verdict \<and>
      (is_ok (validate_with_length_constant_time S a n) \<longrightarrow> verdict = [Branch False])"
    using subtle_crate.constant_time_trace [OF assms, of a] by auto
  moreover have "visits (length_trace (length a) n) = [0..<length a]"
    by (simp add: length_trace_def visits_def comp_def)
  moreover have "snd (validate_for_contract_traced S a) \<noteq> snd (validate_for_contract_traced S b)"
    if "validate_for_contract S a = Err NotCanonical" "validate_for_contract S b = Err NotCanonical"
      "first_bad a \<noteq> first_bad b"
    using scanned [OF that(1)] scanned [OF that(2)] that(3) by (metis length_upt diff_zero Suc_inject)
  ultimately show ?thesis
    using scanned by (simp add: constant_time_traced_fst contract_traced_fst)
qed

text \<open>An uppercase letter at the start and at the end of a hash.\<close>

theorem contract_policy_leaks_prefix_witness:
  "snd (validate_for_contract_traced subtle_ref (CHR ''A'' # replicate 63 (CHR ''a''))) \<noteq>
   snd (validate_for_contract_traced subtle_ref (replicate 63 (CHR ''a'') @ [CHR ''A'']))"
proof -
  let ?a = "CHR ''A'' # replicate 63 (CHR ''a'')" and ?b = "replicate 63 (CHR ''a'') @ [CHR ''A'']"
  have hex: "hex_byte (CHR ''a'')" "\<not> hex_byte (CHR ''A'')" by (simp_all add: hex_byte_def hex_point_def)
  then have "\<not> list_all hex_byte ?a" "\<not> list_all hex_byte ?b" "takeWhile hex_byte ?b = replicate 63 (CHR ''a'')"
    by (simp_all add: takeWhile_append)
  then have "first_bad ?a = 0" "first_bad ?b = 63"
    using hex by (simp_all add: first_bad_takeWhile)
  moreover have "validate_for_contract subtle_ref ?a = Err NotCanonical" "validate_for_contract subtle_ref ?b = Err NotCanonical"
    using hex by (simp_all add: subtle_crate.contract_eq [OF subtle.subtle_crate_axioms] canonical_hex_def)
  ultimately show ?thesis
    using contract_policy_leaks_prefix [OF subtle.subtle_crate_axioms, of 64 ?a ?b] by simp
qed

end
