(* ===== verification/Cache_Locks.thy ===== *)
theory Cache_Locks
  imports Prelude
begin

text \<open>
  The locks of the in-memory cache (\<open>src/src/cache.rs\<close>, \<open>InMemoryCache\<close>). The other theories take
  a call as one atomic step; here a call is the sequence of locks it waits for, which it holds
  until it returns, and any number of calls run at the same time. A lock is granted when it
  is compatible with its holders; the order in which waiting calls are served is left open.
\<close>

section \<open>Calls and their locks\<close>

datatype cache_lock = StoreLock | QueueLock | StatsLock

datatype lock_mode = ReadMode | WriteMode

type_synonym lock_request = "cache_lock \<times> lock_mode"

definition warm_locks :: "lock_request list" where
  "warm_locks = [(StoreLock, WriteMode), (QueueLock, WriteMode), (StatsLock, WriteMode)]"

definition stats_locks :: "lock_request list" where
  "stats_locks = [(StatsLock, ReadMode), (StoreLock, ReadMode)]"

definition get_batch_locks :: "lock_request list" where
  "get_batch_locks = [(StoreLock, WriteMode), (QueueLock, WriteMode), (StatsLock, WriteMode)]"

definition set_batch_locks :: "lock_request list" where
  "set_batch_locks = [(StoreLock, WriteMode), (QueueLock, WriteMode), (StatsLock, WriteMode)]"

definition get_locks :: "lock_request list" where
  "get_locks = [(StoreLock, WriteMode), (QueueLock, WriteMode), (StatsLock, WriteMode)]"

text \<open>A write locks the statistics only when the cache has a maximum size.\<close>

definition set_locks :: "nat \<Rightarrow> lock_request list" where
  "set_locks max_size =
     [(StoreLock, WriteMode), (QueueLock, WriteMode)] @ (if max_size > 0 then [(StatsLock, WriteMode)] else [])"

definition delete_locks :: "lock_request list" where
  "delete_locks = [(StoreLock, WriteMode), (QueueLock, WriteMode)]"

datatype locking_call = WarmCall | StatsCall | GetBatchCall | SetBatchCall | GetCall | SetCall | DeleteCall

fun locks_of :: "nat \<Rightarrow> locking_call \<Rightarrow> lock_request list" where
  "locks_of m WarmCall = warm_locks"
| "locks_of m StatsCall = stats_locks"
| "locks_of m GetBatchCall = get_batch_locks"
| "locks_of m SetBatchCall = set_batch_locks"
| "locks_of m GetCall = get_locks"
| "locks_of m SetCall = set_locks m"
| "locks_of m DeleteCall = delete_locks"

lemmas lock_list_defs =
  warm_locks_def stats_locks_def get_batch_locks_def set_batch_locks_def get_locks_def set_locks_def delete_locks_def

text \<open>Every call but the statistics takes the store first; the queue is only ever taken after it.\<close>

lemma locks_of_writer:
  "c \<noteq> StatsCall \<Longrightarrow> \<exists>rest. locks_of m c = (StoreLock, WriteMode) # (QueueLock, WriteMode) # rest \<and>
     (rest = [] \<or> rest = [(StatsLock, WriteMode)])"
  by (cases c) (auto simp: lock_list_defs)

section \<open>Running calls\<close>

text \<open>A call has taken a number of its locks, or has returned (\<open>None\<close>).\<close>

type_synonym running = "locking_call \<times> nat option"

fun held :: "nat \<Rightarrow> running \<Rightarrow> lock_request list" where
  "held m (c, Some n) = take n (locks_of m c)"
| "held m (c, None) = []"

definition conflicts :: "lock_mode \<Rightarrow> lock_mode \<Rightarrow> bool" where
  "conflicts a b \<longleftrightarrow> a = WriteMode \<or> b = WriteMode"

definition lock_available :: "nat \<Rightarrow> running list \<Rightarrow> nat \<Rightarrow> lock_request \<Rightarrow> bool" where
  "lock_available m rs i = (\<lambda>(l, a).
     \<forall>j < length rs. j \<noteq> i \<longrightarrow> (\<forall>b. (l, b) \<in> set (held m (rs ! j)) \<longrightarrow> \<not> conflicts a b))"

inductive lock_step :: "nat \<Rightarrow> running list \<Rightarrow> running list \<Rightarrow> bool" for m where
  acquire:
    "i < length rs \<Longrightarrow> rs ! i = (c, Some n) \<Longrightarrow> n < length (locks_of m c) \<Longrightarrow>
     lock_available m rs i (locks_of m c ! n) \<Longrightarrow> lock_step m rs (rs[i := (c, Some (Suc n))])"
| release:
    "i < length rs \<Longrightarrow> rs ! i = (c, Some (length (locks_of m c))) \<Longrightarrow> lock_step m rs (rs[i := (c, None)])"

inductive_cases lock_stepE: "lock_step m rs rs'"

abbreviation lock_steps :: "nat \<Rightarrow> running list \<Rightarrow> running list \<Rightarrow> bool" where
  "lock_steps m \<equiv> (lock_step m)\<^sup>*\<^sup>*"

definition start_calls :: "locking_call list \<Rightarrow> running list" where
  "start_calls cs = map (\<lambda>c. (c, Some 0)) cs"

definition all_returned :: "running list \<Rightarrow> bool" where
  "all_returned rs \<longleftrightarrow> list_all (\<lambda>r. snd r = None) rs"

text \<open>A deadlock: some call has not returned and no call can move.\<close>

definition deadlocked :: "nat \<Rightarrow> running list \<Rightarrow> bool" where
  "deadlocked m rs \<longleftrightarrow> \<not> all_returned rs \<and> (\<forall>rs'. \<not> lock_step m rs rs')"

section \<open>Invariant and termination\<close>

definition lock_inv :: "nat \<Rightarrow> running list \<Rightarrow> bool" where
  "lock_inv m rs \<longleftrightarrow>
     (\<forall>i < length rs. \<forall>n. snd (rs ! i) = Some n \<longrightarrow> n \<le> length (locks_of m (fst (rs ! i)))) \<and>
     (\<forall>i < length rs. \<forall>j < length rs. i \<noteq> j \<longrightarrow>
        (\<forall>l a b. (l, a) \<in> set (held m (rs ! i)) \<longrightarrow> (l, b) \<in> set (held m (rs ! j)) \<longrightarrow> \<not> conflicts a b))"

lemma conflicts_sym: "conflicts a b \<longleftrightarrow> conflicts b a"
  by (auto simp: conflicts_def)

lemma held_Suc: "n < length (locks_of m c) \<Longrightarrow> set (held m (c, Some (Suc n))) = insert (locks_of m c ! n) (set (held m (c, Some n)))"
  by (simp add: take_Suc_conv_app_nth)

lemma start_calls_fst: "map fst (start_calls cs) = cs"
  by (simp add: start_calls_def comp_def)

lemma lock_inv_start: "lock_inv m (start_calls cs)"
  by (auto simp: lock_inv_def start_calls_def)

lemma lock_inv_step:
  assumes "lock_step m rs rs'" and "lock_inv m rs"
  shows "lock_inv m rs'"
  using assms(1)
proof (cases rule: lock_step.cases)
  case (acquire i c n)
  note old = assms(2) [unfolded lock_inv_def]
  have new: "set (held m (rs' ! i)) = insert (locks_of m c ! n) (set (held m (rs ! i)))"
    using acquire by (simp add: held_Suc del: held.simps)
  have apart: "\<not> conflicts a b \<and> \<not> conflicts b a"
    if "j < length rs" "j \<noteq> i" "(l, a) \<in> set (held m (rs' ! i))" "(l, b) \<in> set (held m (rs ! j))" for j l a b
    using that new old acquire conflicts_sym [of a b] by (auto simp: lock_available_def)
  show ?thesis
    using old acquire apart by (auto simp: lock_inv_def nth_list_update simp del: held.simps)
next
  case (release i c)
  with assms(2) show ?thesis by (auto simp: lock_inv_def nth_list_update)
qed

lemma same_calls: "lock_step m rs rs' \<Longrightarrow> map fst rs' = map fst rs"
  by (auto elim!: lock_stepE simp: list_eq_iff_nth_eq nth_list_update)

lemma lock_steps_inv:
  assumes "lock_steps m (start_calls cs) rs"
  shows "lock_inv m rs \<and> map fst rs = cs"
  using assms
  by (induction rule: rtranclp_induct) (auto simp: lock_inv_start lock_inv_step same_calls start_calls_fst)

text \<open>Every step brings a call nearer to its return, so every run ends.\<close>

fun steps_left :: "nat \<Rightarrow> running \<Rightarrow> nat" where
  "steps_left m (c, Some n) = Suc (length (locks_of m c)) - n"
| "steps_left m (c, None) = 0"

lemma steps_left_decrease:
  assumes "lock_step m rs rs'"
  shows "sum_list (map (steps_left m) rs') < sum_list (map (steps_left m) rs)"
proof -
  have upd: "sum_list (map f (xs[i := y])) < sum_list (map f xs)" if "i < length xs" "f y < f (xs ! i)"
    for f :: "running \<Rightarrow> nat" and xs i y
    using that
  proof (induction xs arbitrary: i)
    case (Cons x xs)
    then show ?case by (cases i) auto
  qed simp
  from assms show ?thesis by (cases rule: lock_stepE) (auto intro!: upd)
qed

lemma lock_steps_end: "\<exists>rs'. lock_steps m rs rs' \<and> (\<forall>rs''. \<not> lock_step m rs' rs'')"
proof (induction "sum_list (map (steps_left m) rs)" arbitrary: rs rule: less_induct)
  case less
  show ?case
  proof (cases "\<exists>rs1. lock_step m rs rs1")
    case True
    then obtain rs1 where "lock_step m rs rs1" by blast
    with less [OF steps_left_decrease] show ?thesis by (meson converse_rtranclp_into_rtranclp)
  qed blast
qed

section \<open>Progress\<close>

lemma conflicts_simps [simp]: "\<not> conflicts ReadMode ReadMode" "conflicts WriteMode b" "conflicts a WriteMode"
  by (auto simp: conflicts_def)

lemma lock_inv_apart:
  "lock_inv m rs \<Longrightarrow> i < length rs \<Longrightarrow> j < length rs \<Longrightarrow> i \<noteq> j \<Longrightarrow>
   (l, a) \<in> set (held m (rs ! i)) \<Longrightarrow> (l, b) \<in> set (held m (rs ! j)) \<Longrightarrow> \<not> conflicts a b"
  by (simp add: lock_inv_def)

text \<open>A call that holds anything but the statistics for reading holds the store.\<close>

lemma holds_store:
  assumes "(l, a) \<in> set (held m r)" and "fst r \<noteq> StatsCall"
  shows "(StoreLock, WriteMode) \<in> set (held m r)"
proof -
  obtain c n where r: "r = (c, Some n)" using assms(1) by (cases r; cases "snd r") auto
  moreover have "n \<noteq> 0" using assms(1) r by (cases n) auto
  ultimately show ?thesis using assms(2) locks_of_writer [of c m] by (cases n) auto
qed

lemma stats_holds: "(l, a) \<in> set (held m (StatsCall, x)) \<Longrightarrow> a = ReadMode \<and> l \<noteq> QueueLock"
  by (cases x) (auto simp: stats_locks_def dest!: in_set_takeD)

text \<open>
  While a writer holds the store, it can move unless it waits for the statistics that a
  statistics call reads.
\<close>

lemma writer_moves:
  assumes inv: "lock_inv m rs" and i: "i < length rs" "fst (rs ! i) \<noteq> StatsCall"
    and holds: "(StoreLock, WriteMode) \<in> set (held m (rs ! i))"
    and free: "StatsCall \<notin> set (map fst rs) \<or> (StatsLock, WriteMode) \<notin> set (locks_of m (fst (rs ! i)))"
  shows "\<exists>rs'. lock_step m rs rs'"
proof -
  obtain c n where r: "rs ! i = (c, Some n)" using holds by (cases "rs ! i"; cases "snd (rs ! i)") auto
  have n: "n \<le> length (locks_of m c)" using inv i(1) r by (auto simp: lock_inv_def)
  show ?thesis
  proof (cases "n = length (locks_of m c)")
    case True
    with r i(1) show ?thesis by (auto intro: release)
  next
    case False
    have "lock_available m rs i (locks_of m c ! n)"
      unfolding lock_available_def
    proof (clarify)
      fix l a j b
      assume next_lock: "locks_of m c ! n = (l, a)" and j: "j < length rs" "j \<noteq> i" "(l, b) \<in> set (held m (rs ! j))"
        and "conflicts a b"
      have "(StoreLock, WriteMode) \<notin> set (held m (rs ! j))"
        using lock_inv_apart [OF inv i(1) j(1) j(2) [symmetric] holds] by auto
      then have stats: "fst (rs ! j) = StatsCall" using holds_store [OF j(3)] by blast
      then have b: "b = ReadMode" "l \<noteq> QueueLock" using stats_holds j(3) by (metis prod.collapse)+
      have "l \<noteq> StoreLock"
        using lock_inv_apart [OF inv i(1) j(1) j(2) [symmetric] holds] j(3) by auto
      then have "l = StatsLock" using b(2) by (cases l) auto
      moreover have "(l, a) \<in> set (locks_of m c)" using next_lock False n by (metis nth_mem le_neq_implies_less)
      moreover have "a = WriteMode" using \<open>conflicts a b\<close> b(1) by (cases a) auto
      moreover have "StatsCall \<in> set (map fst rs)" using stats j(1) by (metis length_map nth_map nth_mem)
      ultimately show False using free r by auto
    qed
    moreover have "n < length (locks_of m c)" using n False by simp
    ultimately show ?thesis using r i(1) by (blast intro: acquire)
  qed
qed

text \<open>The calls that lock the statistics for writing.\<close>

definition counts_stats :: "nat \<Rightarrow> locking_call \<Rightarrow> bool" where
  "counts_stats m c \<longleftrightarrow> (StatsLock, WriteMode) \<in> set (locks_of m c)"

lemma counts_stats_iff: "counts_stats m c \<longleftrightarrow> c \<notin> {StatsCall, DeleteCall} \<and> (c = SetCall \<longrightarrow> 0 < m)"
  by (cases c) (auto simp: counts_stats_def lock_list_defs)

lemma no_deadlock:
  assumes inv: "lock_inv m rs" and safe: "StatsCall \<in> set (map fst rs) \<longrightarrow> \<not> list_ex (counts_stats m) (map fst rs)"
    and "\<not> all_returned rs"
  shows "\<exists>rs'. lock_step m rs rs'"
proof (cases "\<exists>i < length rs. fst (rs ! i) \<noteq> StatsCall \<and> (StoreLock, WriteMode) \<in> set (held m (rs ! i))")
  case True
  then obtain i where i: "i < length rs" "fst (rs ! i) \<noteq> StatsCall" "(StoreLock, WriteMode) \<in> set (held m (rs ! i))"
    by blast
  have "StatsCall \<notin> set (map fst rs) \<or> (StatsLock, WriteMode) \<notin> set (locks_of m (fst (rs ! i)))"
    using safe i(1) by (auto simp: list_ex_iff counts_stats_def)
  from writer_moves [OF inv i this] show ?thesis .
next
  case False
  then have readers: "a = ReadMode \<and> fst (rs ! j) = StatsCall"
    if "j < length rs" "(l, a) \<in> set (held m (rs ! j))" for j l a
    using that holds_store [OF that(2)] stats_holds by (metis prod.collapse)
  obtain i c n where i: "i < length rs" "rs ! i = (c, Some n)"
    using assms(3) by (auto simp: all_returned_def list_all_length) (metis prod.collapse)
  have n: "n \<le> length (locks_of m c)" using inv i by (auto simp: lock_inv_def)
  consider "n = length (locks_of m c)" | "n < length (locks_of m c)" "\<exists>j < length rs. (StoreLock, ReadMode) \<in> set (held m (rs ! j))"
    | "n < length (locks_of m c)" "\<forall>j < length rs. (StoreLock, ReadMode) \<notin> set (held m (rs ! j))"
    using n by (metis le_neq_implies_less)
  then show ?thesis
  proof cases
    case 1
    with i show ?thesis by (auto intro: release)
  next
    case 2
    then obtain j where j: "j < length rs" "(StoreLock, ReadMode) \<in> set (held m (rs ! j))" by blast
    then obtain k where k: "rs ! j = (StatsCall, Some k)"
      using readers [OF j] by (cases "rs ! j"; cases "snd (rs ! j)") auto
    then have "k = length (locks_of m StatsCall)"
      using j inv by (cases k; cases "k - 1") (auto simp: lock_inv_def stats_locks_def)
    with j(1) k show ?thesis by (metis release)
  next
    case 3
    have "lock_available m rs i (locks_of m c ! n)"
      unfolding lock_available_def
    proof clarify
      fix l a j b
      assume next_lock: "locks_of m c ! n = (l, a)" and j: "j < length rs" "j \<noteq> i" "(l, b) \<in> set (held m (rs ! j))"
        and "conflicts a b"
      have b: "b = ReadMode" "fst (rs ! j) = StatsCall" using readers j by blast+
      then have "l = StatsLock" using 3(2) j stats_holds by (cases l) (auto, metis prod.collapse)
      moreover have "a = WriteMode" using \<open>conflicts a b\<close> b(1) by (cases a) auto
      moreover have "(l, a) \<in> set (locks_of m c)" using next_lock 3(1) by (metis nth_mem)
      ultimately have "counts_stats m c" by (simp add: counts_stats_def)
      moreover have "StatsCall \<in> set (map fst rs)" using b(2) j(1) by (metis length_map nth_map nth_mem)
      ultimately show False using safe i by (auto simp: list_ex_iff) (metis fst_conv nth_mem)
    qed
    with i 3(1) show ?thesis by (blast intro: acquire)
  qed
qed

section \<open>Deadlock\<close>

text \<open>The statistics wait for the store with the statistics locked; a writer waits the other way round.\<close>

definition crossed :: "nat \<Rightarrow> nat \<Rightarrow> nat \<Rightarrow> running list \<Rightarrow> bool" where
  "crossed m i j rs \<longleftrightarrow>
     i < length rs \<and> j < length rs \<and> rs ! i = (StatsCall, Some 1) \<and>
     (\<exists>c. rs ! j = (c, Some 2) \<and> counts_stats m c)"

lemma counting_locks: "counts_stats m c \<Longrightarrow> locks_of m c = [(StoreLock, WriteMode), (QueueLock, WriteMode), (StatsLock, WriteMode)]"
  by (cases c) (auto simp: counts_stats_def lock_list_defs split: if_splits)

lemma not_available:
  "j < length rs \<Longrightarrow> j \<noteq> i \<Longrightarrow> (l, b) \<in> set (held m (rs ! j)) \<Longrightarrow> conflicts a b \<Longrightarrow> \<not> lock_available m rs i (l, a)"
  by (auto simp: lock_available_def)

lemma crossed_step:
  assumes "lock_step m rs rs'" and "crossed m i j rs"
  shows "crossed m i j rs'"
proof -
  obtain c where c: "rs ! j = (c, Some 2)" "counts_stats m c" using assms(2) unfolding crossed_def by blast
  have i: "i < length rs" "rs ! i = (StatsCall, Some 1)" and j: "j < length rs"
    using assms(2) by (simp_all add: crossed_def)
  have "c \<noteq> StatsCall" using c(2) by (simp add: counts_stats_iff)
  then have ij: "i \<noteq> j" using i(2) c(1) by auto
  have "(StoreLock, WriteMode) \<in> set (held m (rs ! j))"
    unfolding c(1) by (simp add: counting_locks [OF c(2)] numeral_2_eq_2)
  then have blocked1: "\<not> lock_available m rs i (StoreLock, ReadMode)"
    by (rule not_available [OF j ij [symmetric]]) simp
  have "(StatsLock, ReadMode) \<in> set (held m (rs ! i))"
    unfolding i(2) by (simp add: stats_locks_def)
  then have blocked2: "\<not> lock_available m rs j (StatsLock, WriteMode)"
    by (rule not_available [OF i(1) ij]) simp
  from assms(1) have "rs' ! i = rs ! i \<and> rs' ! j = rs ! j \<and> length rs' = length rs"
  proof (cases rule: lock_step.cases)
    case (acquire k d n)
    have "k \<noteq> i"
    proof
      assume "k = i"
      then have "d = StatsCall" "n = 1" using acquire(3) i(2) by simp_all
      with acquire(5) blocked1 show False by (simp add: \<open>k = i\<close> stats_locks_def)
    qed
    moreover have "k \<noteq> j"
    proof
      assume "k = j"
      then have "d = c" "n = 2" using acquire(3) c(1) by simp_all
      with acquire(5) blocked2 show False by (simp add: \<open>k = j\<close> counting_locks [OF c(2)])
    qed
    ultimately show ?thesis by (simp add: acquire(1))
  next
    case (release k d)
    have "k \<noteq> i"
    proof
      assume "k = i"
      then have "d = StatsCall" "length (locks_of m d) = 1" using release(3) i(2) by simp_all
      then show False by (simp add: stats_locks_def)
    qed
    moreover have "k \<noteq> j"
    proof
      assume "k = j"
      then have "d = c" "length (locks_of m d) = 2" using release(3) c(1) by simp_all
      then show False by (simp add: counting_locks [OF c(2)])
    qed
    ultimately show ?thesis by (simp add: release(1))
  qed
  with assms(2) show ?thesis by (simp add: crossed_def)
qed

lemma crossed_steps: "lock_steps m rs rs' \<Longrightarrow> crossed m i j rs \<Longrightarrow> crossed m i j rs'"
  by (induction rule: rtranclp_induct) (auto intro: crossed_step)

text \<open>A call whose locks nobody else holds takes the next of them.\<close>

lemma take_lock:
  assumes "i < length rs" "rs ! i = (c, Some n)" "n < length (locks_of m c)"
    and "\<forall>k < length rs. k \<noteq> i \<longrightarrow> fst (locks_of m c ! n) \<notin> fst ` set (held m (rs ! k))"
  shows "lock_step m rs (rs[i := (c, Some (Suc n))])"
  using assms by (intro acquire) (force simp: lock_available_def split: prod.split)+

lemma crossing:
  assumes "i < length cs" "j < length cs" "cs ! i = StatsCall" "counts_stats m (cs ! j)"
  shows "\<exists>rs. lock_steps m (start_calls cs) rs \<and> crossed m i j rs"
proof -
  let ?c = "cs ! j" and ?s0 = "start_calls cs"
  have ij: "i \<noteq> j" using assms by (auto simp: counts_stats_iff)
  note locks = counting_locks [OF assms(4)]
  let ?s1 = "?s0[i := (StatsCall, Some 1)]" and ?s2 = "?s0[i := (StatsCall, Some 1), j := (?c, Some 1)]"
  let ?s3 = "?s0[i := (StatsCall, Some 1), j := (?c, Some 2)]"
  have "lock_step m ?s0 ?s1"
    using take_lock [of i ?s0 StatsCall 0 m] assms by (simp add: start_calls_def stats_locks_def)
  moreover have "lock_step m ?s1 ?s2"
    using take_lock [of j ?s1 ?c 0 m] assms ij locks
    by (simp add: start_calls_def nth_list_update stats_locks_def)
  moreover have "lock_step m ?s2 ?s3"
    using take_lock [of j ?s2 ?c 1 m] assms ij locks
    by (simp add: start_calls_def nth_list_update stats_locks_def numeral_2_eq_2)
  ultimately have "lock_steps m ?s0 ?s3" by (meson r_into_rtranclp rtranclp_trans)
  moreover have "crossed m i j ?s3" using assms ij by (simp add: crossed_def start_calls_def)
  ultimately show ?thesis by blast
qed

lemma crossed_not_returned: "crossed m i j rs \<Longrightarrow> \<not> all_returned rs"
  by (auto simp: crossed_def all_returned_def list_all_length)

section \<open>The property\<close>

text \<open>C28: a set of concurrent calls can deadlock exactly if it has a statistics call and a call that
  counts in the statistics: a read, a batch, a warm-up, or a write to a cache with a maximum
  size. No run goes on for ever, so without that combination every run, however the calls
  interleave, ends with all calls returned.\<close>

theorem cache_deadlocks_iff:
  "((\<exists>rs. lock_steps m (start_calls cs) rs \<and> deadlocked m rs) \<longleftrightarrow>
     StatsCall \<in> set cs \<and> list_ex (counts_stats m) cs) \<and>
   wfP (\<lambda>rs' rs. lock_step m rs rs') \<and>
   (counts_stats m c \<longleftrightarrow> c \<in> {WarmCall, GetBatchCall, SetBatchCall, GetCall} \<or> c = SetCall \<and> 0 < m)"
proof (intro conjI)
  show "(\<exists>rs. lock_steps m (start_calls cs) rs \<and> deadlocked m rs) \<longleftrightarrow>
     StatsCall \<in> set cs \<and> list_ex (counts_stats m) cs" (is "?D \<longleftrightarrow> ?C")
  proof
    assume ?D
    then obtain rs where "lock_steps m (start_calls cs) rs" "deadlocked m rs" by blast
    then show ?C using lock_steps_inv no_deadlock unfolding deadlocked_def by metis
  next
    assume ?C
    then obtain i j where "i < length cs" "j < length cs" "cs ! i = StatsCall" "counts_stats m (cs ! j)"
      by (auto simp: in_set_conv_nth list_ex_length)
    then obtain rs where rs: "lock_steps m (start_calls cs) rs" "crossed m i j rs" using crossing by blast
    obtain rs' where "lock_steps m rs rs'" "\<forall>rs''. \<not> lock_step m rs' rs''" using lock_steps_end by blast
    with rs show ?D
      by (meson crossed_not_returned crossed_steps deadlocked_def rtranclp_trans)
  qed
  show "wfP (\<lambda>rs' rs. lock_step m rs rs')"
    by (rule wfp_if_convertible_to_nat [of _ "\<lambda>rs. sum_list (map (steps_left m) rs)"]) (rule steps_left_decrease)
  show "counts_stats m c \<longleftrightarrow> c \<in> {WarmCall, GetBatchCall, SetBatchCall, GetCall} \<or> c = SetCall \<and> 0 < m"
    by (cases c) (simp_all add: counts_stats_iff)
qed

end
