(* ===== verification/Contract_Native.thy ===== *)
theory Contract_Native
  imports Contract Metrics
begin

text \<open>
  The rate limit of the contract in the native build (\<open>src/src/lib.rs\<close>, \<open>check_rate_limit\<close>), where
  it also counts into the registry \<open>RATE_LIMIT_METRICS\<close> of the process. The registry is not part
  of the ledger: the host does not undo what a refused call counted. On the ledger the two
  builds do the same.
\<close>

section \<open>The native build\<close>

type_synonym ('s, 'a) counted_action = "'s \<times> metrics \<Rightarrow> 'a outcome \<times> 's \<times> metrics"

text \<open>\<open>OnceLock::get_or_init\<close>: the first caller makes an empty registry.\<close>

definition rate_limit_metrics :: "metrics option \<Rightarrow> metrics" where
  "rate_limit_metrics cell = (case cell of None \<Rightarrow> [] | Some m \<Rightarrow> m)"

definition check_scope_native ::
    "'s host \<Rightarrow> RateLimitConfig \<Rightarrow> u64 \<Rightarrow> RateLimitScope \<Rightarrow> ('s, unit) counted_action" where
  "check_scope_native h config now scope = (\<lambda>(s, m).
     let (capacity, per_second) = scope_limits config scope in
     case get_as h as_bucket (RateLimitState scope) s of
       (Fail e, s) \<Rightarrow> (Fail e, s, m)
     | (Trap, s) \<Rightarrow> (Trap, s, m)
     | (Done stored, s) \<Rightarrow>
         let state = (case stored of None \<Rightarrow> \<lparr>tokens = capacity, last_refill = now\<rparr> | Some b \<Rightarrow> b);
             available = bucket_tokens state capacity per_second now;
             reset_detected = (tokens state = 0 \<and> available > 0)
         in if available = 0 then
              let m = increment_rate_limit_global_rejection ''contract'' (increment_rate_limit_violation m)
              in (Fail RateLimitExceeded,
                  storage_set h (RateLimitRetryAfter scope) (VU64 (retry_after per_second)) s, m)
            else
              let m = (if reset_detected then increment_rate_limit_reset m else m);
                  m = increment_rate_limit_hit ''contract'' (record_token_consumed m);
                  s = storage_set h (RateLimitState scope)
                        (VBucket \<lparr>tokens = sat_sub available 1, last_refill = now\<rparr>) s
              in (Done (), storage_remove h (RateLimitRetryAfter scope) s, m))"

fun check_scopes_native ::
    "'s host \<Rightarrow> RateLimitConfig \<Rightarrow> u64 \<Rightarrow> RateLimitScope list \<Rightarrow> ('s, unit) counted_action" where
  "check_scopes_native h config now [] (s, m) = (Done (), s, m)"
| "check_scopes_native h config now (scope # scopes) (s, m) =
     (case check_scope_native h config now scope (s, m) of
        (Done _, sm) \<Rightarrow> check_scopes_native h config now scopes sm
      | (Fail e, sm) \<Rightarrow> (Fail e, sm)
      | (Trap, sm) \<Rightarrow> (Trap, sm))"

definition check_rate_limit_native :: "'s host \<Rightarrow> address \<Rightarrow> address \<Rightarrow> ('s, unit) counted_action" where
  "check_rate_limit_native h caller issuer = (\<lambda>(s, m).
     case get_as h as_config RateLimitConfigKey s of
       (Fail e, s) \<Rightarrow> (Fail e, s, m)
     | (Trap, s) \<Rightarrow> (Trap, s, m)
     | (Done stored, s) \<Rightarrow>
         check_scopes_native h (case stored of None \<Rightarrow> RateLimitConfig_default | Some c \<Rightarrow> c)
           (ledger_timestamp h s) [Address caller, Issuer issuer] (s, m))"

section \<open>The two builds agree\<close>

definition forget_metrics :: "'a outcome \<times> 's \<times> metrics \<Rightarrow> 'a outcome \<times> 's" where
  "forget_metrics r = (fst r, fst (snd r))"

lemma forget_simps [simp]: "forget_metrics (out, s, m) = (out, s)"
  by (simp add: forget_metrics_def)

lemma scope_native_eq: "forget_metrics (check_scope_native h config t scope (s, m)) = check_scope h config t scope s"
  by (simp add: check_scope_native_def check_scope_def action_defs Let_def
      split: prod.split option.split)

lemma scopes_native_eq: "forget_metrics (check_scopes_native h config t scopes (s, m)) = check_scopes h config t scopes s"
proof (induction scopes arbitrary: s m)
  case (Cons scope scopes)
  obtain out s1 m1 where one: "check_scope_native h config t scope (s, m) = (out, s1, m1)" by (metis prod_cases3)
  then have "check_scope h config t scope s = (out, s1)"
    using scope_native_eq [of h config t scope s m] by simp
  with one show ?case by (cases out) (simp_all add: Cons.IH and_then_def)
qed (simp add: return_ok_def)

lemma native_same_ledger:
  "forget_metrics (check_rate_limit_native h caller issuer (s, m)) = check_rate_limit h caller issuer s"
  by (simp add: check_rate_limit_native_def check_rate_limit_def and_then_def ledger_now_def get_as_def scopes_native_eq
      split: option.split del: check_scopes_native.simps check_scopes.simps)

section \<open>What is counted\<close>

text \<open>
  A scope counts a consumed token and a hit when it admits, a violation and a rejection when it
  refuses; a refused call keeps the token it counted for its first scope.
\<close>

lemma scope_native_counts:
  assumes "check_scope_native h config t scope (s, m) = (out, s', m')"
  shows "counter_value m' RateLimitTokensConsumed [] = counter_value m RateLimitTokensConsumed [] + of_bool (out = Done ())"
    "counter_value m' RateLimitViolations [] = counter_value m RateLimitViolations [] + of_bool (out = Fail RateLimitExceeded)"
  using assms
  by (auto simp: check_scope_native_def get_as_def Let_def counter_value_def increment_rate_limit_violation_def
      increment_rate_limit_global_rejection_def increment_rate_limit_reset_def increment_rate_limit_hit_def
      record_token_consumed_def split: prod.splits option.splits if_splits)

end
