(* ===== verification/Spec2Isabelle.thy ===== *)
theory Spec2Isabelle
  imports Contract_Claims Hash_Claims Metrics_Claims Event_Claims Rate_Claims Cache_Claims Webhook_Tasks Webhook_Letters Redis_Tasks
    Stellar_Claims Config_Claims Service_Correct Hash_Timing Cache_Locks Contract_Native
begin

text \<open>
  A verification library for ProofStell, a document registry on Stellar: a Soroban contract
  that stores document hashes on the ledger, and the Rust library and HTTP service around it.

  \<^bold>\<open>The program.\<close> The contract (\<open>src/src/lib.rs\<close>) keeps one record per hash; issuers register and
  revoke, singly or in batches, behind a token bucket per scope; an administrator changes the
  limits, upgrades and migrates. Off the ledger, \<open>hash_validator.rs\<close> decides what a canonical hash
  is, \<open>stellar.rs\<close> looks a hash up in the transactions Horizon reports, \<open>event.rs\<close> orders and
  stores audit events, \<open>webhook.rs\<close> delivers them to subscribers, \<open>rate_limit.rs\<close> limits callers,
  \<open>cache.rs\<close> keeps answers in memory or in Redis, \<open>metrics.rs\<close> counts, \<open>config.rs\<close> reads and checks
  the environment, and \<open>main.rs\<close> builds the service from it. The webhook dispatcher and the
  Horizon client call the cache; the rate limiter, the cache, the dispatcher and the client
  count into the metrics; everything is configured from \<open>AppConfig\<close>.

  \<^bold>\<open>The theories.\<close> A component has a theory with its data and operations, in the order of the
  source, one with the lemmas on them where they are many, and one, \<open>..._Claims\<close>, with its main
  properties and the concrete runs that show their hypotheses can hold.

  \<^item> \<open>Prelude\<close>, \<open>Rust_Text\<close>: machine integers with Rust's saturating operations, \<open>Result\<close>, UTF-8
    strings with \<open>trim\<close>, \<open>to_lowercase\<close> and \<open>Display\<close> of integers.
  \<^item> \<open>Soroban_Host\<close>, \<open>Contract_Types\<close>, \<open>Contract\<close>: the host as a record of operations with its
    documented laws in the locale \<open>soroban_host\<close>, the types of the contract and every entry point.
    \<open>Contract_Correct\<close> refines the document calls to operations on a map from hashes to records;
    \<open>Contract_Safety\<close> makes the contract a step relation with an invariant on reachable ledgers,
    where every invocation runs this code, also after an upgrade;
    \<open>Contract_Limits\<close> bounds what the token buckets admit; \<open>Contract_Governance\<close> treats the
    administrator gate, traps and queries; \<open>Contract_Native\<close> is the rate limit of the native build,
    which counts into the metrics and leaves the same ledger.
  \<^item> \<open>Dash_Map\<close>, \<open>Hash_Validator\<close>, \<open>Hash_Correct\<close>: validators, \<open>CanonicalHash\<close>, the decoder and the
    duplicate registry, whose scan and insertion interleave. \<open>Hash_Timing\<close> runs the validators
    with a trace of the characters they examine.
  \<^item> \<open>Metrics\<close>, \<open>Audit_Error\<close>, \<open>Event_Log\<close>: instruments, their construction and registration with a
    Prometheus client (locale \<open>prometheus_client\<close>), recording methods; error messages; event
    builders, ingestor and store.
  \<^item> \<open>Token_Bucket\<close>, \<open>Token_Bucket_Correct\<close>, \<open>Rate_Limiter\<close>: the packed bucket with its
    compare-and-swap loop run alone and as a step relation over any interleaving, the two tiers,
    the Stellar limiter.
  \<^item> \<open>In_Memory_Cache\<close>, \<open>In_Memory_Correct\<close>, \<open>Cache_Recency\<close>, \<open>Cache_Breaker\<close>, \<open>Cache_Backend\<close>: the
    bounded store, the map it refines (locale \<open>kv_cache\<close>) and the list in order of last use it
    refines; breaker, bulkhead and health check, Redis with its fallback. \<open>Cache_Locks\<close> runs any number of concurrent calls, each
    as the locks it takes and releases, as a step relation; \<open>Redis_Tasks\<close> interleaves Redis
    commands between their guards.
  \<^item> \<open>Webhook\<close>: payloads, signatures, retries, deduplication and both dead-letter queues.
    \<open>Webhook_Tasks\<close> interleaves any number of background dispatches, step by step;
    \<open>Webhook_Letters\<close> refines the letters kept in the cache to a box with one slot per URL.
  \<^item> \<open>Stellar_Breaker\<close>, \<open>Stellar_Breaker_Correct\<close>, \<open>Stellar_Atomic\<close>, \<open>Stellar_Client\<close>: the breaker
    function by function, with the three-state machine it implements, and atomic operation by
    atomic operation, where a half-open permit is held between two steps; and the client's
    verification loop.
  \<^item> \<open>App_Config\<close>: every setting with its check, the configuration, the reload channel, \<open>Debug\<close>.
  \<^item> \<open>Service\<close>, \<open>Service_Correct\<close>: bootstrap, handlers, routes, watching task, shutdown.

  \<^bold>\<open>What is shown.\<close> C1 to C4 refine registration and revocation, single and batched, to the abstract
  registry; C5 to C8 are safety properties of every reachable ledger (immutability, provenance
  of records and revocations, events that replay the registry, a permanent administrator); C9 to
  C12 are governance, the limits on admissions with the refill, the retry hint and the absence
  of traps. C13 to C18 are the hash validators, the registry with its race, and what the time of
  a validation reveals; C19 construction and use of the metrics, with no panic of the client;
  C20 and C21 the events. C22 to C25 are the token bucket
  (linearizability, the bound on grants and the effect of a stale clock), the two tiers and the
  retry advice. C26 to C31 are the caches: bounds, refinement to a least-recently-used list
  over any run, the calls that can deadlock, breaker, bulkhead and fallback. C32 to C35 are delivery of webhooks, deduplication
  of calls one after the other and in background tasks, and persisted dead letters; C36 to C38
  the Horizon breaker as a machine when its functions run one after the other, the race when
  they interleave, and the verification loop, C39 the
  configuration, and C40, below, the service built from it. Several of them state a behaviour of
  the code that differs from its intention or its documentation: C10, C11, C17, C18, C20, C21,
  C23, C24, C28, C29, C30, C31, C33, C34, C35, C36, C37, C38 and C40.

  \<^bold>\<open>Parameters.\<close> Code outside the repository is an argument: records of operations for the Soroban
  host, \<open>subtle\<close>, \<open>hex\<close>, \<open>base64\<close>, \<open>dashmap\<close>, \<open>governor\<close>, Prometheus, Redis, HTTP, JSON codecs, HMAC, the URL and
  key parsers, Unicode tables, the watch channel, and clocks. What a proof needs of them is a
  locale of documented laws, interpreted on an instance that satisfies it (a map-backed ledger,
  an association list, a cell-rate limiter, a one-slot channel).

  \<^bold>\<open>Choices.\<close> Integers keep their width and wrap as in the release build, except the cache
  statistics, which are \<open>nat\<close>; \<open>f64\<close> values are rationals, durations and instants nanoseconds in
  \<open>nat\<close>. An operation reads a clock once unless time passes inside it, where the clock is read
  from the state of the world that a request or a sleep changes. Loops that wait take the list of
  readings they will see, or fuel: \<open>until_ready\<close> and \<open>acquire\<close>. The retry loops of webhooks and
  verification recurse on the attempts left, which the source bounds too, so they are total. An
  asynchronous operation under a lock is one step; where the source holds no lock (token bucket,
  Horizon breaker, duplicate registry) its atomic operations are steps of a relation, where it
  holds several locks (the in-memory cache) their acquisition is one too, and background
  dispatches and Redis commands run under any schedule of their steps.

  \<^bold>\<open>Not modelled.\<close> The code an \<open>upgrade\<close> installs: the statements on reachable ledgers (C5 to C8,
  C11, C12) speak of runs of this code. Tests; what the libraries do (routing, sockets, signals, TLS, the encoding of
  metrics, opening a Redis connection); the lines logged to stderr; derived and trivial trait
  instances (\<open>Default\<close>, \<open>AsRef\<close>, \<open>Clone\<close>); the WASM stub of \<open>main\<close>.
\<close>

section \<open>The service as a whole\<close>

text \<open>C40: a service that starts has a valid configuration, and after any sequence of requests,
  watcher turns and signals its webhook dispatcher and its cache are still the ones the
  configuration of the bootstrap gives: a reload is never applied to them. No retry of the
  dispatcher waits more than 375 seconds and the breaker of the cache can trip without its
  backoff overflowing. The reload counter is one for the start plus one for each accepted
  reload plus one for each turn of the watching task, which takes at most one turn per
  accepted reload. Health answers 503 exactly after a signal. Nothing dispatches events, so
  the dead-letter queue drains empty, and the dispatcher has no cache to deduplicate with.\<close>

theorem service_runs_as_configured:
  assumes "watch_channel (sv_watch E) alive" and "bootstrap E P = Ok (c, s0)" and "serve E evs s0 = (outs, s)"
  shows "valid_service P c \<and> valid_webhooks P c \<and> valid_cache P c \<and> as_configured E c s \<and>
    unat (backoff_delay nanos (st_webhook s) i) \<le> 375000 \<and>
    0 < unat (ccfg_failure_threshold (cache_breaker_config c)) \<and>
    unat (ccfg_backoff_base_ms (cache_breaker_config c)) * 64 < 2 ^ 64 \<and>
    reload_count (st_metrics s) = 1 + length (filter accepts outs) + length (filter hot_reload outs) \<and>
    length (filter hot_reload outs) \<le> length (filter accepts outs) \<and>
    (an_status (health_handler s) = 503 \<longleftrightarrow> Signal \<in> set evs) \<and>
    fst (dlq_drain_handler E k s) = json_ok [(''drained'', JNumber 0), (''entries'', JArray [])] \<and>
    wd_cache (st_webhook s) = None"
proof -
  note boot = bootstrap_configured [OF assms(2)]
  have alive: "alive (config_watcher s0)" "\<not> watch_changed (sv_watch E) (config_watcher s0)"
    using watch_channel.new_alive [OF assms(1)] watch_channel.new_seen [OF assms(1)] boot(6) by auto
  note served = watch_channel.serve_ok [OF assms(1) HOL.refl boot(1) alive(1) assms(3)]
  have conf: "as_configured E c s" using served by blast
  have d: "st_webhook s = WebhookDispatcher_from_app_config (sv_client E) c (wd_metrics (st_webhook s))"
    using conf by (intro webhook_of_config) (simp add: as_configured_def)
  have valid: "valid_service P c" "valid_webhooks P c" "valid_cache P c"
    using boot(2,3) loaded_service loaded_webhooks loaded_cache by auto
  have "length (filter hot_reload outs) \<le> length (filter accepts outs)"
    using served alive(2) by (simp add: watch_channel.pending_def [OF assms(1)])
  moreover have "wd_cache (st_webhook s) = None"
    by (subst d) simp
  moreover have "an_status (health_handler s) = 503 \<longleftrightarrow> Signal \<in> set evs"
    using served boot(5) by (simp add: health_handler_def json_ok_def)
  moreover have "fst (dlq_drain_handler E k s) = json_ok [(''drained'', JNumber 0), (''entries'', JArray [])]"
    by (simp add: dlq_drain_handler_def lent_dlq [OF conf])
  ultimately show ?thesis
    using valid conf served boot(4) configured_backoff [OF valid(2) d] configured_cache_breaker [OF valid(3)] by simp
qed

text \<open>A start, an accepted reload, the turn of the watcher and a signal.\<close>

theorem service_runs_as_configured_witness:
  "let k = \<lparr>instant = 0, system = 0, unix_secs = 0\<rparr> in
   \<exists>c s0 s. bootstrap demo_service_env demo_config_env = Ok (c, s0) \<and>
     snd (serve demo_service_env [HttpRequest ConfigReload demo_config_env k, WatcherTurn, Signal] s0) = s \<and>
     reload_count (st_metrics s) = 3 \<and> an_status (health_handler s) = 503"
proof -
  define k :: clocks where "k = \<lparr>instant = 0, system = 0, unix_secs = 0\<rparr>"
  let ?E = demo_service_env and ?P = demo_config_env
  let ?evs = "[HttpRequest ConfigReload ?P k, WatcherTurn, Signal]"
  obtain c s0 where boot: "bootstrap ?E ?P = Ok (c, s0)"
    using bootstrap_iff [of ?E ?P] demo_no_errors by (cases "bootstrap ?E ?P") auto
  have W: "watch_channel (sv_watch ?E) (\<lambda>_. True)"
    using slot.watch_channel_axioms by (simp add: demo_service_env_def)
  have outs: "fst (serve ?E ?evs s0) = [Answer ConfigReload reload_accepted, HotReload ConfigVersion_current, Quiet]"
    by (simp add: config_reload_handler_def from_env_with_metrics_def demo_no_errors ConfigUpdate_new_def
        demo_service_env_def slot_watch_def watch_turn_def reload_accepted_def)
  have "serve ?E ?evs s0 = ([Answer ConfigReload reload_accepted, HotReload ConfigVersion_current, Quiet],
      snd (serve ?E ?evs s0))"
    by (metis outs prod.collapse)
  from service_runs_as_configured [OF W boot this, of 0 0 k] boot show ?thesis
    unfolding Let_def k_def [symmetric]
    by (intro exI [of _ c] exI [of _ s0] exI) (auto simp: accepts_def)
qed

end
